(* ===== verification/Prelude.thy ===== *)
theory Prelude
  imports "HOL-Library.Word"
begin

unbundle bit_operations_syntax

text \<open>
  Shared ground of the development: the machine integers of src/source/types.h as words,
  the bit macros of src/source/bits.h, the C shift operators on unsigned 32-bit values, and
  the word lemmas the component theories use.

  C leaves a shift by 32 or more undefined.  \<open>c_shl\<close> and \<open>c_shr\<close> give 0
  there; the theories that use them with a computed amount either prove the amount is below
  32 or say which value the expression has on both readings.
\<close>

type_synonym u8 = "8 word"
type_synonym u16 = "16 word"
type_synonym u32 = "32 word"
type_synonym u64 = "64 word"

named_theorems cpu_simps \<open>reading processor state after an update\<close>
named_theorems mem_simps \<open>reading memory after an update\<close>
named_theorems flag_simps \<open>the condition flags in terms of integers\<close>

section \<open>C shifts\<close>

definition c_shl :: "u32 \<Rightarrow> u32 \<Rightarrow> u32" where
  "c_shl x n = push_bit (unat n) x"

definition c_shr :: "u32 \<Rightarrow> u32 \<Rightarrow> u32" where
  "c_shr x n = drop_bit (unat n) x"

text \<open>\<open>(u32)(((s32)x) >> n)\<close>\<close>

definition c_sar :: "u32 \<Rightarrow> u32 \<Rightarrow> u32" where
  "c_sar x n = signed_drop_bit (unat n) x"

section \<open>bits.h\<close>

definition BIT_N :: "u32 \<Rightarrow> u32 \<Rightarrow> u32" where
  "BIT_N i n = c_shr i n AND 1"

definition BIT0 :: "u32 \<Rightarrow> u32" where
  "BIT0 i = i AND 1"

definition BIT31 :: "u32 \<Rightarrow> u32" where
  "BIT31 i = drop_bit 31 i"

definition REG_POS :: "u32 \<Rightarrow> nat \<Rightarrow> u32" where
  "REG_POS i n = drop_bit n i AND 0xF"

definition REG_NUM :: "u32 \<Rightarrow> nat \<Rightarrow> u32" where
  "REG_NUM i n = drop_bit n i AND 0x7"

definition CONDITION :: "u32 \<Rightarrow> u32" where
  "CONDITION i = drop_bit 28 i"

text \<open>The value a 1-bit bit-field of a C struct takes when an unsigned int is assigned to it.\<close>

definition u1 :: "u32 \<Rightarrow> bool" where
  "u1 x = bit x 0"

lemma u1_of_bool [simp]: "u1 (of_bool b) = b"
  by (simp add: u1_def)

lemma u1_BIT31: "u1 (BIT31 x) = bit x 31"
  by (simp add: u1_def BIT31_def bit_simps)

lemma u1_BIT0: "u1 (BIT0 x) = bit x 0"
  by (simp add: u1_def BIT0_def bit_simps)

lemma u1_BIT_N: "u1 (BIT_N x n) = bit x (unat n)"
  by (simp add: u1_def BIT_N_def c_shr_def bit_simps)

lemma BIT31_of_bool: "BIT31 x = of_bool (bit x 31)"
proof (rule bit_word_eqI)
  fix n
  show "bit (BIT31 x) n = bit (of_bool (bit x 31) :: u32) n"
    using bit_imp_le_length [of x "31 + n"] by (auto simp add: BIT31_def bit_simps)
qed

lemma BIT0_of_bool: "BIT0 x = of_bool (bit x 0)"
  unfolding BIT0_def
  by (rule bit_word_eqI) (auto simp add: bit_simps)

lemma BIT_N_of_bool: "BIT_N x n = of_bool (bit x (unat n))"
  unfolding BIT_N_def c_shr_def
  by (rule bit_word_eqI) (auto simp add: bit_simps)

lemma bit31_sint: "bit x 31 \<longleftrightarrow> sint x < 0" for x :: u32
  by (simp add: bit_last_iff [symmetric, of x, simplified])

section \<open>Word lemmas\<close>

lemma u32_bound: "unat (a :: u32) < 2^32"
  using unsigned_less [of a] by simp

lemma and_3_eq_0: "x AND 3 = 0 \<longleftrightarrow> \<not> bit x 0 \<and> \<not> bit x 1" for x :: u32
proof -
  have eq: "x AND 3 = take_bit 2 x"
    by (simp add: take_bit_eq_mask mask_eq_exp_minus_1)
  have "take_bit 2 x = 0 \<longleftrightarrow> (\<forall>n. \<not> bit (take_bit 2 x) n)"
    by (metis bit_0_eq bit_word_eqI bot_apply bot_bool_def)
  also have "\<dots> \<longleftrightarrow> (\<forall>n<2. \<not> bit x n)"
    by (auto simp add: bit_simps)
  also have "\<dots> \<longleftrightarrow> \<not> bit x 0 \<and> \<not> bit x 1"
    by (auto simp add: numeral_2_eq_2 less_Suc_eq)
  finally show ?thesis by (simp add: eq)
qed

lemma aligned4_clear: "x AND 3 = 0 \<Longrightarrow> x AND NOT 3 = x" for x :: u32
proof -
  assume "x AND 3 = 0"
  then have b: "x AND (NOT 3) OR x AND 3 = x AND NOT 3" by simp
  have "x AND (NOT 3) OR x AND 3 = x"
    by (rule bit_word_eqI) (auto simp add: bit_simps)
  with b show ?thesis by simp
qed

lemma aligned4_clear' [simp]: "x AND 3 = 0 \<Longrightarrow> x AND - 4 = x" for x :: u32
  using aligned4_clear [of x] by simp

lemma REG_POS_le: "REG_POS i n \<le> 15"
  unfolding REG_POS_def by (rule word_and_le1)

lemma REG_NUM_le: "REG_NUM i n \<le> 7"
  unfolding REG_NUM_def by (rule word_and_le1)

end
