(* ===== verification/Mem.thy ===== *)
theory Mem
  imports Prelude
begin

text \<open>
  src/source/mem.h: byte arrays and the little-endian accessors \<open>T1Read*\<close> and
  \<open>T1Write*\<close>.  The header defines \<open>WORDS_BIGENDIAN\<close> for itself, so the
  byte-wise branches are the compiled ones.  A C array \<open>u8 mem[n]\<close> is a function from
  the u32 offset; the offsets that stay below the array's size are the business of the bounds
  lemmas of the theories that use the accessors.
\<close>

type_synonym bytes = "u32 \<Rightarrow> u8"

definition T1ReadByte :: "bytes \<Rightarrow> u32 \<Rightarrow> u8" where
  "T1ReadByte mem addr = mem addr"

definition T1ReadWord_guaranteedAligned :: "bytes \<Rightarrow> u32 \<Rightarrow> u16" where
  "T1ReadWord_guaranteedAligned mem addr =
     push_bit 8 (ucast (mem (addr + 1))) OR ucast (mem addr)"

definition T1ReadWord :: "bytes \<Rightarrow> u32 \<Rightarrow> u16" where
  "T1ReadWord mem addr = push_bit 8 (ucast (mem (addr + 1))) OR ucast (mem addr)"

definition T1ReadLong_guaranteedAligned :: "bytes \<Rightarrow> u32 \<Rightarrow> u32" where
  "T1ReadLong_guaranteedAligned mem addr =
     push_bit 24 (ucast (mem (addr + 3))) OR push_bit 16 (ucast (mem (addr + 2))) OR
     push_bit 8 (ucast (mem (addr + 1))) OR ucast (mem addr)"

definition T1ReadLong :: "bytes \<Rightarrow> u32 \<Rightarrow> u32" where
  "T1ReadLong mem addr =
     (let addr = addr AND NOT 3 in
      push_bit 24 (ucast (mem (addr + 3))) OR push_bit 16 (ucast (mem (addr + 2))) OR
      push_bit 8 (ucast (mem (addr + 1))) OR ucast (mem addr))"

definition T1ReadQuad :: "bytes \<Rightarrow> u32 \<Rightarrow> u64" where
  "T1ReadQuad mem addr =
     push_bit 56 (ucast (mem (addr + 7))) OR push_bit 48 (ucast (mem (addr + 6))) OR
     push_bit 40 (ucast (mem (addr + 5))) OR push_bit 32 (ucast (mem (addr + 4))) OR
     push_bit 24 (ucast (mem (addr + 3))) OR push_bit 16 (ucast (mem (addr + 2))) OR
     push_bit 8 (ucast (mem (addr + 1))) OR ucast (mem addr)"

definition T1WriteByte :: "bytes \<Rightarrow> u32 \<Rightarrow> u8 \<Rightarrow> bytes" where
  "T1WriteByte mem addr val = mem(addr := val)"

definition T1WriteWord :: "bytes \<Rightarrow> u32 \<Rightarrow> u16 \<Rightarrow> bytes" where
  "T1WriteWord mem addr val =
     mem(addr + 1 := ucast (drop_bit 8 val), addr := ucast (val AND 0xFF))"

definition T1WriteLong :: "bytes \<Rightarrow> u32 \<Rightarrow> u32 \<Rightarrow> bytes" where
  "T1WriteLong mem addr val =
     mem(addr + 3 := ucast (drop_bit 24 val),
         addr + 2 := ucast (drop_bit 16 val AND 0xFF),
         addr + 1 := ucast (drop_bit 8 val AND 0xFF),
         addr := ucast (val AND 0xFF))"

definition T1WriteQuad :: "bytes \<Rightarrow> u32 \<Rightarrow> u64 \<Rightarrow> bytes" where
  "T1WriteQuad mem addr val =
     mem(addr + 7 := ucast (drop_bit 56 val),
         addr + 6 := ucast (drop_bit 48 val AND 0xFF),
         addr + 5 := ucast (drop_bit 40 val AND 0xFF),
         addr + 4 := ucast (drop_bit 32 val AND 0xFF),
         addr + 3 := ucast (drop_bit 24 val AND 0xFF),
         addr + 2 := ucast (drop_bit 16 val AND 0xFF),
         addr + 1 := ucast (drop_bit 8 val AND 0xFF),
         addr := ucast (val AND 0xFF))"

section \<open>Read after write\<close>

lemma bit_ucast_u8_u32: "bit (ucast (b :: u8) :: u32) n \<longleftrightarrow> bit b n"
  using bit_imp_le_length [of b n] by (auto simp add: bit_ucast_iff)

lemma byte_join32:
  "push_bit 24 (ucast (ucast (drop_bit 24 v) :: u8)) OR
   push_bit 16 (ucast (ucast (drop_bit 16 v AND 0xFF) :: u8)) OR
   push_bit 8 (ucast (ucast (drop_bit 8 v AND 0xFF) :: u8)) OR
   ucast (ucast (v AND 0xFF) :: u8) = (v :: u32)"
proof (rule bit_word_eqI)
  fix n assume "n < LENGTH(32)"
  then have n: "n < 32" by simp
  have ff: "(0xFF :: u32) = mask 8"
    by (simp add: mask_eq_exp_minus_1)
  consider "n < 8" | "8 \<le> n" "n < 16" | "16 \<le> n" "n < 24" | "24 \<le> n" by linarith
  then show "bit (push_bit 24 (ucast (ucast (drop_bit 24 v) :: u8)) OR
     push_bit 16 (ucast (ucast (drop_bit 16 v AND 0xFF) :: u8)) OR
     push_bit 8 (ucast (ucast (drop_bit 8 v AND 0xFF) :: u8)) OR
     ucast (ucast (v AND 0xFF) :: u8) :: u32) n = bit v n"
    unfolding ff by cases (use n in \<open>auto simp add: bit_simps\<close>)
qed

lemma byte_join16:
  "push_bit 8 (ucast (ucast (drop_bit 8 v) :: u8)) OR ucast (ucast (v AND 0xFF) :: u8) = (v :: u16)"
proof (rule bit_word_eqI)
  fix n assume "n < LENGTH(16)"
  then have n: "n < 16" by simp
  have ff: "(0xFF :: u16) = mask 8"
    by (simp add: mask_eq_exp_minus_1)
  consider "n < 8" | "8 \<le> n" by linarith
  then show "bit (push_bit 8 (ucast (ucast (drop_bit 8 v) :: u8)) OR
     ucast (ucast (v AND 0xFF) :: u8) :: u16) n = bit v n"
    unfolding ff by cases (use n in \<open>auto simp add: bit_simps\<close>)
qed

lemma T1ReadByte_WriteByte [mem_simps]:
  "T1ReadByte (T1WriteByte m a v) b = (if a = b then v else T1ReadByte m b)"
  by (auto simp add: T1ReadByte_def T1WriteByte_def)

lemma T1ReadWord_WriteWord_same [mem_simps]:
  "T1ReadWord (T1WriteWord m a v) a = v"
  by (simp add: T1ReadWord_def T1WriteWord_def byte_join16)

lemma T1ReadWord_aligned_WriteWord_same [mem_simps]:
  "T1ReadWord_guaranteedAligned (T1WriteWord m a v) a = v"
  by (simp add: T1ReadWord_guaranteedAligned_def T1WriteWord_def byte_join16)

lemma T1ReadLong_aligned_WriteLong_same [mem_simps]:
  "T1ReadLong_guaranteedAligned (T1WriteLong m a v) a = v"
  by (simp add: T1ReadLong_guaranteedAligned_def T1WriteLong_def byte_join32)

lemma T1ReadLong_aligned:
  "a AND 3 = 0 \<Longrightarrow> T1ReadLong m a = T1ReadLong_guaranteedAligned m a"
  by (simp add: T1ReadLong_def T1ReadLong_guaranteedAligned_def aligned4_clear)

end
