(* ===== verification/Arm_State.thy ===== *)
theory Arm_State
  imports Mem
begin

text \<open>
  src/source/armcpu.h: the status register, the processor modes, the processor record
  \<open>armcpu_t\<close>, the condition table, and the inline functions that compute the
  condition flags.  The union \<open>Status_Reg\<close> is the record of its bit-fields;
  \<open>psr_val\<close> and \<open>psr_of_val\<close> are its other view, the u32 \<open>val\<close>.
  A register file \<open>u32 R[16]\<close> is a function of the u32 register number; every number the
  instruction decoders produce is at most 15 (\<open>REG_POS_le\<close>, \<open>REG_NUM_le\<close>).
  Fields of \<open>armcpu_t\<close> that hold host function pointers (the memory and control
  interfaces, the post-execution hook, \<open>swi_tab\<close>) are not part of the record.
\<close>

section \<open>Modes and the status register\<close>

definition USR :: "5 word" where "USR = 0x10"
definition FIQ :: "5 word" where "FIQ = 0x11"
definition IRQ :: "5 word" where "IRQ = 0x12"
definition SVC :: "5 word" where "SVC = 0x13"
definition ABT :: "5 word" where "ABT = 0x17"
definition UND :: "5 word" where "UND = 0x1B"
definition SYS :: "5 word" where "SYS = 0x1F"

lemmas mode_defs = USR_def FIQ_def IRQ_def SVC_def ABT_def UND_def SYS_def

record status_reg =
  psr_mode :: "5 word"
  psr_T :: bool
  psr_F :: bool
  psr_I :: bool
  psr_RAZ :: "19 word"
  psr_Q :: bool
  psr_V :: bool
  psr_C :: bool
  psr_Z :: bool
  psr_N :: bool

definition psr_val :: "status_reg \<Rightarrow> u32" where
  "psr_val p = ucast (psr_mode p) OR push_bit 5 (of_bool (psr_T p)) OR
     push_bit 6 (of_bool (psr_F p)) OR push_bit 7 (of_bool (psr_I p)) OR
     push_bit 8 (ucast (psr_RAZ p)) OR push_bit 27 (of_bool (psr_Q p)) OR
     push_bit 28 (of_bool (psr_V p)) OR push_bit 29 (of_bool (psr_C p)) OR
     push_bit 30 (of_bool (psr_Z p)) OR push_bit 31 (of_bool (psr_N p))"

definition psr_of_val :: "u32 \<Rightarrow> status_reg" where
  "psr_of_val v = \<lparr>psr_mode = ucast v, psr_T = bit v 5, psr_F = bit v 6, psr_I = bit v 7,
     psr_RAZ = ucast (drop_bit 8 v), psr_Q = bit v 27, psr_V = bit v 28, psr_C = bit v 29,
     psr_Z = bit v 30, psr_N = bit v 31\<rparr>"

lemma bit_push_of_bool: "bit (push_bit k (of_bool b) :: u32) n \<longleftrightarrow> n = k \<and> b \<and> k < 32"
  by (cases b) (auto simp add: bit_simps)

lemma bit_ucast_mode: "bit (ucast (m :: 5 word) :: u32) n \<longleftrightarrow> n < 5 \<and> bit m n"
  using bit_imp_le_length [of m n] by (auto simp add: bit_ucast_iff)

lemma bit_push_RAZ:
  "bit (push_bit 8 (ucast (m :: 19 word)) :: u32) n \<longleftrightarrow> 8 \<le> n \<and> n < 27 \<and> bit m (n - 8)"
  using bit_imp_le_length [of m "n - 8"] by (auto simp add: bit_push_bit_iff bit_ucast_iff)

lemma bit_psr_val:
  "bit (psr_val p) n \<longleftrightarrow>
     n < 5 \<and> bit (psr_mode p) n \<or> n = 5 \<and> psr_T p \<or> n = 6 \<and> psr_F p \<or> n = 7 \<and> psr_I p \<or>
     8 \<le> n \<and> n < 27 \<and> bit (psr_RAZ p) (n - 8) \<or> n = 27 \<and> psr_Q p \<or> n = 28 \<and> psr_V p \<or>
     n = 29 \<and> psr_C p \<or> n = 30 \<and> psr_Z p \<or> n = 31 \<and> psr_N p"
  unfolding psr_val_def bit_or_iff bit_push_of_bool bit_ucast_mode bit_push_RAZ
  by simp

lemma psr_of_val_val [simp]: "psr_of_val (psr_val p) = p"
proof -
  have "ucast (psr_val p) = psr_mode p"
    by (rule bit_word_eqI) (auto simp add: bit_ucast_iff bit_psr_val)
  moreover have "ucast (drop_bit 8 (psr_val p)) = psr_RAZ p"
    by (rule bit_word_eqI) (auto simp add: bit_ucast_iff bit_drop_bit_eq bit_psr_val)
  ultimately show ?thesis
    by (simp add: psr_of_val_def bit_psr_val)
qed

lemma psr_val_of_val [simp]: "psr_val (psr_of_val v) = v"
proof (rule bit_word_eqI)
  fix n assume "n < LENGTH(32)"
  then have "n < 32" by simp
  then consider "n < 5" | "n \<in> {5, 6, 7}" | "8 \<le> n" "n < 27" | "n \<in> {27, 28, 29, 30, 31}"
    by fastforce
  then show "bit (psr_val (psr_of_val v)) n = bit v n"
    by cases (auto simp add: bit_psr_val psr_of_val_def bit_ucast_iff bit_drop_bit_eq)
qed

section \<open>The processor\<close>

record armcpu =
  proc_ID :: u32
  instruction :: u32
  instruct_adr :: u32
  next_instruction :: u32
  R :: "u32 \<Rightarrow> u32"
  CPSR :: status_reg
  SPSR :: status_reg
  R13_usr :: u32
  R14_usr :: u32
  R13_svc :: u32
  R14_svc :: u32
  R13_abt :: u32
  R14_abt :: u32
  R13_und :: u32
  R14_und :: u32
  R13_irq :: u32
  R14_irq :: u32
  R8_fiq :: u32
  R9_fiq :: u32
  R10_fiq :: u32
  R11_fiq :: u32
  R12_fiq :: u32
  R13_fiq :: u32
  R14_fiq :: u32
  SPSR_svc :: status_reg
  SPSR_abt :: status_reg
  SPSR_und :: status_reg
  SPSR_irq :: status_reg
  SPSR_fiq :: status_reg
  intVector :: u32
  LDTBit :: u8
  waitIRQ :: bool
  halt_IE_and_IF :: bool
  intrWaitARM_state :: u8
  stalled :: bool

text \<open>Assignments to a register and to one bit-field of CPSR.\<close>

definition setR :: "u32 \<Rightarrow> u32 \<Rightarrow> armcpu \<Rightarrow> armcpu" where
  "setR r v c = c\<lparr>R := (R c)(r := v)\<rparr>"

definition setN :: "bool \<Rightarrow> armcpu \<Rightarrow> armcpu" where
  "setN b c = c\<lparr>CPSR := (CPSR c)\<lparr>psr_N := b\<rparr>\<rparr>"

definition setZ :: "bool \<Rightarrow> armcpu \<Rightarrow> armcpu" where
  "setZ b c = c\<lparr>CPSR := (CPSR c)\<lparr>psr_Z := b\<rparr>\<rparr>"

definition setC :: "bool \<Rightarrow> armcpu \<Rightarrow> armcpu" where
  "setC b c = c\<lparr>CPSR := (CPSR c)\<lparr>psr_C := b\<rparr>\<rparr>"

definition setV :: "bool \<Rightarrow> armcpu \<Rightarrow> armcpu" where
  "setV b c = c\<lparr>CPSR := (CPSR c)\<lparr>psr_V := b\<rparr>\<rparr>"

definition setQ :: "bool \<Rightarrow> armcpu \<Rightarrow> armcpu" where
  "setQ b c = c\<lparr>CPSR := (CPSR c)\<lparr>psr_Q := b\<rparr>\<rparr>"

definition setT :: "bool \<Rightarrow> armcpu \<Rightarrow> armcpu" where
  "setT b c = c\<lparr>CPSR := (CPSR c)\<lparr>psr_T := b\<rparr>\<rparr>"

lemmas set_defs [cpu_simps] =
  setR_def setN_def setZ_def setC_def setV_def setQ_def setT_def

section \<open>The condition table\<close>

definition arm_cond_table :: "u8 list" where
  "arm_cond_table = [
   0x00, 0xFF, 0x00, 0xFF, 0x00, 0xFF, 0x00, 0xFF, 0x00, 0xFF, 0xFF, 0x00, 0xFF, 0x00, 0xFF, 0x20,
   0x00, 0xFF, 0x00, 0xFF, 0x00, 0xFF, 0xFF, 0x00, 0x00, 0xFF, 0x00, 0xFF, 0x00, 0xFF, 0xFF, 0x20,
   0x00, 0xFF, 0xFF, 0x00, 0x00, 0xFF, 0x00, 0xFF, 0xFF, 0x00, 0xFF, 0x00, 0xFF, 0x00, 0xFF, 0x20,
   0x00, 0xFF, 0xFF, 0x00, 0x00, 0xFF, 0xFF, 0x00, 0xFF, 0x00, 0x00, 0xFF, 0x00, 0xFF, 0xFF, 0x20,
   0xFF, 0x00, 0x00, 0xFF, 0x00, 0xFF, 0x00, 0xFF, 0x00, 0xFF, 0xFF, 0x00, 0x00, 0xFF, 0xFF, 0x20,
   0xFF, 0x00, 0x00, 0xFF, 0x00, 0xFF, 0xFF, 0x00, 0x00, 0xFF, 0x00, 0xFF, 0x00, 0xFF, 0xFF, 0x20,
   0xFF, 0x00, 0xFF, 0x00, 0x00, 0xFF, 0x00, 0xFF, 0x00, 0xFF, 0xFF, 0x00, 0x00, 0xFF, 0xFF, 0x20,
   0xFF, 0x00, 0xFF, 0x00, 0x00, 0xFF, 0xFF, 0x00, 0x00, 0xFF, 0x00, 0xFF, 0x00, 0xFF, 0xFF, 0x20,
   0x00, 0xFF, 0x00, 0xFF, 0xFF, 0x00, 0x00, 0xFF, 0x00, 0xFF, 0x00, 0xFF, 0x00, 0xFF, 0xFF, 0x20,
   0x00, 0xFF, 0x00, 0xFF, 0xFF, 0x00, 0xFF, 0x00, 0x00, 0xFF, 0xFF, 0x00, 0xFF, 0x00, 0xFF, 0x20,
   0x00, 0xFF, 0xFF, 0x00, 0xFF, 0x00, 0x00, 0xFF, 0xFF, 0x00, 0x00, 0xFF, 0x00, 0xFF, 0xFF, 0x20,
   0x00, 0xFF, 0xFF, 0x00, 0xFF, 0x00, 0xFF, 0x00, 0xFF, 0x00, 0xFF, 0x00, 0xFF, 0x00, 0xFF, 0x20,
   0xFF, 0x00, 0x00, 0xFF, 0xFF, 0x00, 0x00, 0xFF, 0x00, 0xFF, 0x00, 0xFF, 0x00, 0xFF, 0xFF, 0x20,
   0xFF, 0x00, 0x00, 0xFF, 0xFF, 0x00, 0xFF, 0x00, 0x00, 0xFF, 0xFF, 0x00, 0x00, 0xFF, 0xFF, 0x20,
   0xFF, 0x00, 0xFF, 0x00, 0xFF, 0x00, 0x00, 0xFF, 0x00, 0xFF, 0x00, 0xFF, 0x00, 0xFF, 0xFF, 0x20,
   0xFF, 0x00, 0xFF, 0x00, 0xFF, 0x00, 0xFF, 0x00, 0x00, 0xFF, 0xFF, 0x00, 0x00, 0xFF, 0xFF, 0x20]"

definition TEST_COND :: "u32 \<Rightarrow> nat \<Rightarrow> status_reg \<Rightarrow> bool" where
  "TEST_COND cond inst psr \<longleftrightarrow>
     arm_cond_table ! unat ((drop_bit 24 (psr_val psr) AND 0xF0) OR cond) AND push_bit inst 1 \<noteq> 0"

section \<open>ROR and the flag functions\<close>

text \<open>
  For \<open>j = 0\<close> the C expression shifts left by 32; with \<open>push_bit 32 i = 0\<close> and with
  the shift amount taken modulo 32 (what the targets do) the value is the same, \<open>i\<close>.
\<close>

definition ROR :: "u32 \<Rightarrow> u32 \<Rightarrow> u32" where
  "ROR i j = c_shr i j OR c_shl i (32 - j)"

definition CarryFrom :: "u32 \<Rightarrow> u32 \<Rightarrow> bool" where
  "CarryFrom left right = (let res = 0xFFFFFFFF - left in right > res)"

definition BorrowFrom :: "u32 \<Rightarrow> u32 \<Rightarrow> bool" where
  "BorrowFrom left right = (right > left)"

definition OverflowFromADD :: "u32 \<Rightarrow> u32 \<Rightarrow> u32 \<Rightarrow> bool" where
  "OverflowFromADD alu_out left right \<longleftrightarrow>
     ((sint left \<ge> 0 \<and> sint right \<ge> 0) \<or> (sint left < 0 \<and> sint right < 0)) \<and>
     ((sint left < 0 \<and> sint alu_out \<ge> 0) \<or> (sint left \<ge> 0 \<and> sint alu_out < 0))"

definition OverflowFromSUB :: "u32 \<Rightarrow> u32 \<Rightarrow> u32 \<Rightarrow> bool" where
  "OverflowFromSUB alu_out left right \<longleftrightarrow>
     ((sint left < 0 \<and> sint right \<ge> 0) \<or> (sint left \<ge> 0 \<and> sint right < 0)) \<and>
     ((sint left < 0 \<and> sint alu_out \<ge> 0) \<or> (sint left \<ge> 0 \<and> sint alu_out < 0))"

definition SIGNED_OVERFLOW :: "u32 \<Rightarrow> u32 \<Rightarrow> u32 \<Rightarrow> u32" where
  "SIGNED_OVERFLOW a b c = BIT31 ((a AND b AND NOT c) OR (NOT a AND NOT b AND c))"

definition SIGNED_UNDERFLOW :: "u32 \<Rightarrow> u32 \<Rightarrow> u32 \<Rightarrow> u32" where
  "SIGNED_UNDERFLOW a b c = BIT31 ((a AND NOT b AND NOT c) OR (NOT a AND b AND c))"

end
