(* ===== verification/Arm_Flags.thy ===== *)
theory Arm_Flags
  imports Arm_State
begin

text \<open>
  What the flag functions and the condition table of src/source/armcpu.h mean: carry and
  overflow in terms of the integers the words stand for, and the condition codes of the ARM
  architecture as the predicate \<open>cond_passed\<close>.
\<close>

section \<open>Wrap-around of signed words\<close>

definition s32_range :: "int \<Rightarrow> bool" where
  "s32_range x \<longleftrightarrow> -(2^31) \<le> x \<and> x < 2^31"

lemma sint_range: "-(2^31) \<le> sint a \<and> sint a < 2^31" for a :: u32
  using sint_ge [of a] sint_lt [of a] by simp

lemma wrap32:
  fixes x :: int
  assumes "-(2^32) \<le> x" "x < 2^32"
  shows "signed_take_bit 31 x =
    (if x < -(2^31) then x + 2^32 else if x < 2^31 then x else x - 2^32)"
proof -
  have e: "signed_take_bit 31 x = (x + 2^31) mod 2^32 - 2^31"
    by (simp add: signed_take_bit_eq_take_bit_shift take_bit_eq_mod)
  consider "x < -(2^31)" | "-(2^31) \<le> x" "x < 2^31" | "2^31 \<le> x" by linarith
  then show ?thesis
  proof cases
    case 1
    then have "(x + 2^31) mod 2^32 = x + 2^31 + 2^32"
      using assms by (subst mod_add_self2 [symmetric], subst mod_pos_pos_trivial) auto
    with 1 show ?thesis by (simp add: e)
  next
    case 2
    then have "(x + 2^31) mod 2^32 = x + 2^31"
      by (intro mod_pos_pos_trivial) auto
    with 2 show ?thesis by (simp add: e)
  next
    case 3
    then have "(x + 2^31) mod 2^32 = (x + 2^31 - 2^32) mod 2^32"
      by (rule_tac minus_mod_self2 [symmetric])
    also have "\<dots> = x + 2^31 - 2^32"
      using 3 assms by (intro mod_pos_pos_trivial) auto
    finally show ?thesis using 3 by (simp add: e)
  qed
qed

lemma sint_add32: "sint (a + b) = signed_take_bit 31 (sint a + sint b)" for a b :: u32
  by (simp add: sint_word_ariths)

lemma sint_sub32: "sint (a - b) = signed_take_bit 31 (sint a - sint b)" for a b :: u32
  by (simp add: sint_word_ariths)

section \<open>Carry and overflow\<close>

lemma CarryFrom_iff [flag_simps]: "CarryFrom a b \<longleftrightarrow> 2^32 \<le> unat a + unat b"
proof -
  have "unat (0xFFFFFFFF - a) = 0xFFFFFFFF - unat a"
    using u32_bound [of a] by (subst unat_sub) (auto simp add: word_le_nat_alt)
  then show ?thesis
    using u32_bound [of a] u32_bound [of b] by (auto simp add: CarryFrom_def word_less_nat_alt)
qed

lemma BorrowFrom_iff [flag_simps]: "BorrowFrom a b \<longleftrightarrow> a < b"
  by (simp add: BorrowFrom_def)

lemma OverflowFromADD_iff [flag_simps]:
  "OverflowFromADD (a + b) a b \<longleftrightarrow> \<not> s32_range (sint a + sint b)"
  using sint_range [of a] sint_range [of b]
  by (auto simp add: OverflowFromADD_def sint_add32 wrap32 s32_range_def)

lemma OverflowFromSUB_iff [flag_simps]:
  "OverflowFromSUB (a - b) a b \<longleftrightarrow> \<not> s32_range (sint a - sint b)"
  using sint_range [of a] sint_range [of b]
  by (auto simp add: OverflowFromSUB_def sint_sub32 wrap32 s32_range_def)

lemma SIGNED_OVERFLOW_eq: "SIGNED_OVERFLOW a b c \<noteq> 0 \<longleftrightarrow> OverflowFromADD c a b"
  by (cases "bit a 31"; cases "bit b 31"; cases "bit c 31")
    (simp_all add: SIGNED_OVERFLOW_def OverflowFromADD_def BIT31_of_bool bit_simps
      linorder_not_less [symmetric] bit31_sint [symmetric])

lemma SIGNED_UNDERFLOW_eq: "SIGNED_UNDERFLOW a b c \<noteq> 0 \<longleftrightarrow> OverflowFromSUB c a b"
  by (cases "bit a 31"; cases "bit b 31"; cases "bit c 31")
    (simp_all add: SIGNED_UNDERFLOW_def OverflowFromSUB_def BIT31_of_bool bit_simps
      linorder_not_less [symmetric] bit31_sint [symmetric])

lemma SIGNED_OVERFLOW_iff [flag_simps]:
  "SIGNED_OVERFLOW a b (a + b) \<noteq> 0 \<longleftrightarrow> \<not> s32_range (sint a + sint b)"
  by (simp add: SIGNED_OVERFLOW_eq OverflowFromADD_iff)

lemma SIGNED_UNDERFLOW_iff [flag_simps]:
  "SIGNED_UNDERFLOW a b (a - b) \<noteq> 0 \<longleftrightarrow> \<not> s32_range (sint a - sint b)"
  by (simp add: SIGNED_UNDERFLOW_eq OverflowFromSUB_iff)

section \<open>Condition codes\<close>

text \<open>The meaning of the condition field, from the ARM architecture; code 15 never passes.\<close>

definition cond_code :: "nat \<Rightarrow> bool \<Rightarrow> bool \<Rightarrow> bool \<Rightarrow> bool \<Rightarrow> bool" where
  "cond_code k n z c v =
     (if k = 0 then z else if k = 1 then \<not> z else if k = 2 then c else if k = 3 then \<not> c
      else if k = 4 then n else if k = 5 then \<not> n else if k = 6 then v else if k = 7 then \<not> v
      else if k = 8 then c \<and> \<not> z else if k = 9 then \<not> c \<or> z
      else if k = 10 then n = v else if k = 11 then n \<noteq> v
      else if k = 12 then \<not> z \<and> n = v else if k = 13 then z \<or> n \<noteq> v
      else k = 14)"

definition cond_passed :: "u32 \<Rightarrow> status_reg \<Rightarrow> bool" where
  "cond_passed cond p = cond_code (unat cond) (psr_N p) (psr_Z p) (psr_C p) (psr_V p)"

lemma cond_nibble:
  "drop_bit 24 (psr_val p) AND 0xF0 =
     push_bit 7 (of_bool (psr_N p)) OR push_bit 6 (of_bool (psr_Z p)) OR
     push_bit 5 (of_bool (psr_C p)) OR push_bit 4 (of_bool (psr_V p))"
proof (rule bit_word_eqI)
  have f0: "(0xF0 :: u32) = push_bit 4 (mask 4)"
    by (simp add: mask_eq_exp_minus_1 push_bit_eq_mult)
  fix n
  have l: "bit (drop_bit 24 (psr_val p) AND 0xF0) n \<longleftrightarrow>
      bit (psr_val p) (24 + n) \<and> 4 \<le> n \<and> n < 8"
    unfolding f0 bit_and_iff bit_drop_bit_eq comp_def bit_push_bit_iff bit_mask_iff by auto
  consider "n = 4" | "n = 5" | "n = 6" | "n = 7" | "n < 4 \<or> 8 \<le> n" by linarith
  then show "bit (drop_bit 24 (psr_val p) AND 0xF0) n =
    bit (push_bit 7 (of_bool (psr_N p)) OR push_bit 6 (of_bool (psr_Z p)) OR
      push_bit 5 (of_bool (psr_C p)) OR push_bit 4 (of_bool (psr_V p)) :: u32) n"
    unfolding l bit_or_iff bit_push_of_bool by cases (auto simp add: bit_psr_val)
qed

lemma arm_cond_table_eq:
  "arm_cond_table = map (\<lambda>k. if k mod 16 = 15 then 0x20
     else if cond_code (k mod 16) (128 \<le> k) (64 \<le> k mod 128) (32 \<le> k mod 64) (16 \<le> k mod 32)
     then 0xFF else 0) [0..<256]"
  by code_simp

lemma less16_cases:
  assumes "(n :: nat) < 16"
  obtains "n = 0" | "n = 1" | "n = 2" | "n = 3" | "n = 4" | "n = 5" | "n = 6" | "n = 7"
    | "n = 8" | "n = 9" | "n = 10" | "n = 11" | "n = 12" | "n = 13" | "n = 14" | "n = 15"
proof -
  have "n \<in> set [0..<16]" using assms by simp
  moreover have "[0..<16] = [0, 1, 2, 3, 4, 5, 6, 7, 8, 9, 10, 11, 12, 13, 14, 15 :: nat]"
    by (simp add: upt_rec)
  ultimately have "n \<in> {0, 1, 2, 3, 4, 5, 6, 7, 8, 9, 10, 11, 12, 13, 14, 15}"
    by (simp only: list.set)
  then show thesis using that by blast
qed

lemma cond_index:
  assumes "cond < 16"
  shows "unat ((drop_bit 24 (psr_val p) AND 0xF0) OR cond) =
    128 * of_bool (psr_N p) + 64 * of_bool (psr_Z p) + 32 * of_bool (psr_C p) +
    16 * of_bool (psr_V p) + unat cond"
proof -
  have u: "unat cond < 16"
    using assms by (simp add: word_less_nat_alt)
  have c: "cond = of_nat (unat cond)" by simp
  show ?thesis unfolding cond_nibble
    by (rule less16_cases [OF u]; subst c; hypsubst?;
        cases "psr_N p"; cases "psr_Z p"; cases "psr_C p"; cases "psr_V p"; simp)
qed

lemma and_bit_u8: "w AND push_bit n 1 \<noteq> 0 \<longleftrightarrow> bit w n" for w :: u8
  by (simp add: push_bit_eq_mult and_exp_eq_0_iff_not_bit)

lemma bit_FF: "bit (0xFF :: u8) n \<longleftrightarrow> n < 8"
proof -
  have "(0xFF :: u8) = mask 8" by (simp add: mask_eq_exp_minus_1)
  moreover have "bit (mask 8 :: u8) n \<longleftrightarrow> n < 8" by (auto simp only: bit_mask_iff) simp
  ultimately show ?thesis by (simp only:)
qed

lemma TEST_COND_code:
  assumes "cond < 16"
  shows "TEST_COND cond inst p \<longleftrightarrow>
    (if cond = 15 then inst = 5
     else cond_code (unat cond) (psr_N p) (psr_Z p) (psr_C p) (psr_V p) \<and> inst < 8)"
proof -
  let ?k = "128 * of_bool (psr_N p) + 64 * of_bool (psr_Z p) + 32 * of_bool (psr_C p) +
    16 * of_bool (psr_V p) + unat cond"
  have c: "unat cond < 16"
    using assms by (simp add: word_less_nat_alt)
  have k: "?k < 256 \<and> ?k mod 16 = unat cond \<and> (128 \<le> ?k \<longleftrightarrow> psr_N p) \<and>
    (64 \<le> ?k mod 128 \<longleftrightarrow> psr_Z p) \<and> (32 \<le> ?k mod 64 \<longleftrightarrow> psr_C p) \<and> (16 \<le> ?k mod 32 \<longleftrightarrow> psr_V p)"
    by (rule less16_cases [OF c]; cases "psr_N p"; cases "psr_Z p"; cases "psr_C p";
        cases "psr_V p"; simp)
  have c15: "unat cond = 15 \<longleftrightarrow> cond = 15"
    by (simp add: word_unat_eq_iff)
  have b20: "bit (0x20 :: u8) inst \<longleftrightarrow> inst = 5"
  proof -
    have "(0x20 :: u8) = 2 ^ 5" by simp
    then show ?thesis by (simp only: bit_exp_iff) auto
  qed
  have "arm_cond_table ! ?k = (if cond = 15 then 0x20
     else if cond_code (unat cond) (psr_N p) (psr_Z p) (psr_C p) (psr_V p) then 0xFF else 0)"
    unfolding arm_cond_table_eq using k by (simp add: c15)
  then show ?thesis
    unfolding TEST_COND_def cond_index [OF assms] and_bit_u8
    by (cases "cond = 15";
        cases "cond_code (unat cond) (psr_N p) (psr_Z p) (psr_C p) (psr_V p)")
      (simp_all only: if_True if_False b20 bit_FF bit_0_eq bot_apply bot_bool_def simp_thms)
qed
end
