(* ===== verification/Nds.thy ===== *)
theory Nds
  imports Arm_Flags
begin

text \<open>
  The state the components share: the global objects of src/source/FIFO.h, src/source/MMU.h,
  src/source/cp15.h and src/source/NDSSystem.cpp as records, collected in the record
  \<open>nds\<close> with the two processors.  Peripherals whose state no modelled component reads
  or writes are the type parameter \<open>'io\<close>, the field \<open>periph\<close>.

  \<open>PROCNUM\<close> is 0 for the ARM9 and anything else for the ARM7, as in the macro
  \<open>ARMPROC\<close>.  \<open>bus\<close> collects the access functions of src/source/MMU.cpp
  that decode the I/O register space (\<open>_MMU_ARM9_read08\<close> and its eleven siblings);
  they are parameters of the model.  Reading a register may change the machine, so every one of
  them returns the new state.
\<close>

section \<open>The FIFOs of FIFO.h\<close>

record IPC_FIFO =
  ipc_buf :: "u8 \<Rightarrow> u32"
  ipc_head :: u8
  ipc_tail :: u8
  ipc_size :: u8

record GFX_FIFO =
  gx_cmd :: "u32 \<Rightarrow> u8"
  gx_param :: "u32 \<Rightarrow> u32"
  gx_head :: u32
  gx_tail :: u32
  gx_size :: u32
  gx_matrix_stack_op_size :: u32

record GFX_PIPE =
  pipe_cmd :: "u8 \<Rightarrow> u8"
  pipe_param :: "u8 \<Rightarrow> u32"
  pipe_head :: u8
  pipe_tail :: u8
  pipe_size :: u8

record DISP_FIFO =
  disp_buf :: "u32 \<Rightarrow> u32"
  disp_head :: u32
  disp_tail :: u32

section \<open>Memory, coprocessor and scheduler state\<close>

text \<open>The part of \<open>MMU_struct\<close> and of the MMU's globals the modelled code uses.\<close>

record mmu_struct =
  MAIN_MEM :: bytes
  ARM9_DTCM :: bytes
  ARM9_ITCM :: bytes
  ARM9_REG :: bytes
  ARM7_REG :: bytes
  ARM7_BIOS :: bytes
  DTCMRegion :: u32
  ITCMRegion :: u32
  ARM9_RW_MODE :: u8
  reg_IME :: "nat \<Rightarrow> u32"
  reg_IE :: "nat \<Rightarrow> u32"
  reg_IF_bits :: "nat \<Rightarrow> u32"
  reg_IF_pending :: "nat \<Rightarrow> u32"
  gfx3dCycles :: u64
  MAIN_MEM_MASK :: u32
  MAIN_MEM_MASK16 :: u32
  MAIN_MEM_MASK32 :: u32

text \<open>\<open>TGXSTAT\<close>: the flags the geometry FIFO maintains, and the register's own fields.\<close>

record gxstat =
  fifo_empty :: bool
  fifo_low :: bool
  gxs_tb :: u8
  gxs_tr :: u8
  gxs_se :: u8
  gxstat_sb :: u8
  gxfifo_irq :: u8

record armcp15_t =
  cp_IDCode :: u32
  cp_cacheType :: u32
  cp_TCMSize :: u32
  cp_ctrl :: u32
  cp_DCConfig :: u32
  cp_ICConfig :: u32
  cp_writeBuffCtrl :: u32
  cp_und :: u32
  cp_DaccessPerm :: u32
  cp_IaccessPerm :: u32
  cp_protectBaseSize :: "nat \<Rightarrow> u32"
  cp_cacheOp :: u32
  cp_DcacheLock :: u32
  cp_IcacheLock :: u32
  cp_ITCMRegion :: u32
  cp_DTCMRegion :: u32
  cp_processID :: u32
  cp_RAM_TAG :: u32
  cp_testState :: u32
  cp_cacheDbg :: u32
  regionWriteMask_USR :: "nat \<Rightarrow> u32"
  regionWriteMask_SYS :: "nat \<Rightarrow> u32"
  regionReadMask_USR :: "nat \<Rightarrow> u32"
  regionReadMask_SYS :: "nat \<Rightarrow> u32"
  regionExecuteMask_USR :: "nat \<Rightarrow> u32"
  regionExecuteMask_SYS :: "nat \<Rightarrow> u32"
  regionWriteSet_USR :: "nat \<Rightarrow> u32"
  regionWriteSet_SYS :: "nat \<Rightarrow> u32"
  regionReadSet_USR :: "nat \<Rightarrow> u32"
  regionReadSet_SYS :: "nat \<Rightarrow> u32"
  regionExecuteSet_USR :: "nat \<Rightarrow> u32"
  regionExecuteSet_SYS :: "nat \<Rightarrow> u32"

text \<open>\<open>DmaController\<close>; the enumerations keep the source's values.\<close>

datatype EDMAMode = EDMAMode_Immediate | EDMAMode_VBlank | EDMAMode_HBlank | EDMAMode_HStart
  | EDMAMode_MemDisplay | EDMAMode_Card | EDMAMode_GBASlot | EDMAMode_GXFifo | EDMAMode7_Wifi
  | EDMAMode7_GBASlot

datatype EDMABitWidth = EDMABitWidth_16 | EDMABitWidth_32

datatype EDMASourceUpdate = EDMASourceUpdate_Increment | EDMASourceUpdate_Decrement
  | EDMASourceUpdate_Fixed | EDMASourceUpdate_Invalid

datatype EDMADestinationUpdate = EDMADestinationUpdate_Increment | EDMADestinationUpdate_Decrement
  | EDMADestinationUpdate_Fixed | EDMADestinationUpdate_IncrementReload

record dma_controller =
  dmaCheck :: bool
  dma_running :: bool
  dma_paused :: bool
  dma_triggered :: bool
  dma_startmode :: EDMAMode
  dma_bitWidth :: EDMABitWidth
  dma_sar :: EDMASourceUpdate
  dma_dar :: EDMADestinationUpdate
  dma_enable :: u8
  dma_irq :: u8
  dma_repeatMode :: u8
  dma_startmode_bits :: u8
  dma_userEnable :: u8
  dma_wordcount :: u32
  dma_saddr :: u32
  dma_daddr :: u32
  dma_saddr_user :: u32
  dma_daddr_user :: u32
  dma_nextEvent :: u64

text \<open>The timers of \<open>MMU_struct\<close>, by processor and number.\<close>

record mmu_timers =
  timer :: "nat \<Rightarrow> nat \<Rightarrow> u16"
  timerReload :: "nat \<Rightarrow> nat \<Rightarrow> u16"
  timerMODE :: "nat \<Rightarrow> nat \<Rightarrow> u32"
  timerON :: "nat \<Rightarrow> nat \<Rightarrow> u32"

text \<open>The divider and the square root unit: the two controllers and their results.\<close>

record mmu_math =
  div_mode :: u8
  div_busy :: u8
  div_div0 :: u8
  divRunning :: bool
  divResult :: u64
  divMod :: u64
  divCycles :: u64
  sqrt_mode :: u8
  sqrt_busy :: u8
  sqrtRunning :: bool
  sqrtResult :: u32
  sqrtCycles :: u64
  cached_sqrt :: "u64 \<Rightarrow> u32"

text \<open>\<open>NDSSystem\<close>, the part the scheduler and the timers use.\<close>

record nds_system =
  timerCycle :: "nat \<Rightarrow> nat \<Rightarrow> u64"
  VCount :: u32
  sleeping :: bool
  freezeBus :: u32
  idleCycles :: "nat \<Rightarrow> u32"
  runCycleCollector :: "nat \<Rightarrow> nat \<Rightarrow> u32"
  idleFrameCounter :: u32
  cpuloopIterationCount :: u32

text \<open>
  \<open>Sequencer\<close>: the event items.  Its flag \<open>reschedule\<close> is a field of the machine
  below, since almost every operation sets it.
\<close>

record sequence_item =
  ti_timestamp :: u64
  ti_param :: u32
  ti_enabled :: bool

record sequencer_t =
  nds_vblankEnded :: bool
  seq_dispcnt :: sequence_item
  seq_wifi :: sequence_item
  seq_divider :: sequence_item
  seq_sqrtunit :: sequence_item
  seq_gxfifo :: sequence_item
  seq_dma :: "nat \<Rightarrow> nat \<Rightarrow> sequence_item"
  seq_timer :: "nat \<Rightarrow> nat \<Rightarrow> sequence_item"

section \<open>The machine\<close>

record 'io nds =
  NDS_ARM9 :: armcpu
  NDS_ARM7 :: armcpu
  mmu :: mmu_struct
  cp15 :: armcp15_t
  ipc_fifo :: "nat \<Rightarrow> IPC_FIFO"
  gxFIFO :: GFX_FIFO
  gxPIPE :: GFX_PIPE
  disp_fifo :: DISP_FIFO
  gx_stat :: gxstat
  dma :: "nat \<Rightarrow> nat \<Rightarrow> dma_controller"
  ensataEmulation :: bool
  ensataIpcSyncCounter :: u32
  reschedule :: bool
  execute :: bool
  nds_timer :: u64
  nds_arm9_timer :: u64
  nds_arm7_timer :: u64
  timers :: mmu_timers
  math :: mmu_math
  sysm :: nds_system
  sequencer :: sequencer_t
  card_transfer_count :: "nat \<Rightarrow> u32"
  LagFrameFlag :: bool
  lagframecounter :: u32
  lastLag :: u32
  TotalLagFrames :: u32
  isSwapBuffers :: bool
  mtx_position :: "nat \<Rightarrow> u32"
  periph :: 'io

definition ARMCPU_ARM9 :: nat where "ARMCPU_ARM9 = 0"
definition ARMCPU_ARM7 :: nat where "ARMCPU_ARM7 = 1"

definition ARMPROC :: "nat \<Rightarrow> 'io nds \<Rightarrow> armcpu" where
  "ARMPROC p s = (if p \<noteq> 0 then NDS_ARM7 s else NDS_ARM9 s)"

definition upd_cpu :: "nat \<Rightarrow> (armcpu \<Rightarrow> armcpu) \<Rightarrow> 'io nds \<Rightarrow> 'io nds" where
  "upd_cpu p f s = (if p \<noteq> 0 then s\<lparr>NDS_ARM7 := f (NDS_ARM7 s)\<rparr>
                    else s\<lparr>NDS_ARM9 := f (NDS_ARM9 s)\<rparr>)"

text \<open>An operation on the processor alone, run on processor \<open>p\<close>.\<close>

definition on_cpu :: "nat \<Rightarrow> (armcpu \<Rightarrow> u32 \<times> armcpu) \<Rightarrow> 'io nds \<Rightarrow> u32 \<times> 'io nds" where
  "on_cpu p f s = (let r = f (ARMPROC p s) in (fst r, upd_cpu p (\<lambda>_. snd r) s))"

text \<open>\<open>NDS_Reschedule\<close> sets the flag that makes the main loop leave its inner loop.\<close>

definition NDS_Reschedule :: "'io nds \<Rightarrow> 'io nds" where
  "NDS_Reschedule s = s\<lparr>reschedule := True\<rparr>"

definition NDS_RescheduleGXFIFO :: "u32 \<Rightarrow> 'io nds \<Rightarrow> 'io nds" where
  "NDS_RescheduleGXFIFO cost s =
     (let s = (if \<not> ti_enabled (seq_gxfifo (sequencer s))
               then s\<lparr>mmu := (mmu s)\<lparr>gfx3dCycles := nds_timer s\<rparr>,
                      sequencer := (sequencer s)\<lparr>seq_gxfifo :=
                        (seq_gxfifo (sequencer s))\<lparr>ti_enabled := True\<rparr>\<rparr>\<rparr>
               else s);
          s = s\<lparr>mmu := (mmu s)\<lparr>gfx3dCycles := gfx3dCycles (mmu s) + ucast cost\<rparr>\<rparr>
      in NDS_Reschedule s)"

text \<open>\<open>changeCPSR\<close> of \<open>armcpu_t\<close>, \<open>setIF\<close> and \<open>NDS_makeIrq\<close>.\<close>

definition changeCPSR :: "'io nds \<Rightarrow> 'io nds" where
  "changeCPSR s = NDS_Reschedule s"

definition setIF :: "nat \<Rightarrow> u32 \<Rightarrow> 'io nds \<Rightarrow> 'io nds" where
  "setIF p flag s =
     NDS_Reschedule (s\<lparr>mmu := (mmu s)\<lparr>reg_IF_bits :=
       (reg_IF_bits (mmu s))(p := reg_IF_bits (mmu s) p OR flag)\<rparr>\<rparr>)"

definition NDS_makeIrq :: "nat \<Rightarrow> nat \<Rightarrow> 'io nds \<Rightarrow> 'io nds" where
  "NDS_makeIrq p num s = setIF p (push_bit num 1) s"

text \<open>\<open>MMU.MMU_MEM[proc][0x40]\<close>: the register page of each processor.\<close>

definition REG_PAGE :: "nat \<Rightarrow> mmu_struct \<Rightarrow> bytes" where
  "REG_PAGE p m = (if p = 0 then ARM9_REG m else ARM7_REG m)"

definition upd_REG_PAGE :: "nat \<Rightarrow> (bytes \<Rightarrow> bytes) \<Rightarrow> mmu_struct \<Rightarrow> mmu_struct" where
  "upd_REG_PAGE p f m = (if p = 0 then m\<lparr>ARM9_REG := f (ARM9_REG m)\<rparr>
                         else m\<lparr>ARM7_REG := f (ARM7_REG m)\<rparr>)"

section \<open>The I/O side of the bus\<close>

record 'io bus =
  ARM9_read08 :: "u32 \<Rightarrow> 'io nds \<Rightarrow> u8 \<times> 'io nds"
  ARM9_read16 :: "u32 \<Rightarrow> 'io nds \<Rightarrow> u16 \<times> 'io nds"
  ARM9_read32 :: "u32 \<Rightarrow> 'io nds \<Rightarrow> u32 \<times> 'io nds"
  ARM7_read08 :: "u32 \<Rightarrow> 'io nds \<Rightarrow> u8 \<times> 'io nds"
  ARM7_read16 :: "u32 \<Rightarrow> 'io nds \<Rightarrow> u16 \<times> 'io nds"
  ARM7_read32 :: "u32 \<Rightarrow> 'io nds \<Rightarrow> u32 \<times> 'io nds"
  ARM9_write08 :: "u32 \<Rightarrow> u8 \<Rightarrow> 'io nds \<Rightarrow> 'io nds"
  ARM9_write16 :: "u32 \<Rightarrow> u16 \<Rightarrow> 'io nds \<Rightarrow> 'io nds"
  ARM9_write32 :: "u32 \<Rightarrow> u32 \<Rightarrow> 'io nds \<Rightarrow> 'io nds"
  ARM7_write08 :: "u32 \<Rightarrow> u8 \<Rightarrow> 'io nds \<Rightarrow> 'io nds"
  ARM7_write16 :: "u32 \<Rightarrow> u16 \<Rightarrow> 'io nds \<Rightarrow> 'io nds"
  ARM7_write32 :: "u32 \<Rightarrow> u32 \<Rightarrow> 'io nds \<Rightarrow> 'io nds"

section \<open>Reading the state after an update\<close>

lemma ARMPROC_upd_cpu [simp]: "ARMPROC p (upd_cpu p f s) = f (ARMPROC p s)"
  by (simp add: ARMPROC_def upd_cpu_def)

lemma ARMPROC_mmu_update [simp]: "ARMPROC p (mmu_update f s) = ARMPROC p s"
  by (simp add: ARMPROC_def)

lemma ARMPROC_reschedule_update [simp]: "ARMPROC p (reschedule_update f s) = ARMPROC p s"
  by (simp add: ARMPROC_def)

lemma upd_cpu_frame [simp]:
  "mmu (upd_cpu p f s) = mmu s" "cp15 (upd_cpu p f s) = cp15 s"
  "ipc_fifo (upd_cpu p f s) = ipc_fifo s" "gxFIFO (upd_cpu p f s) = gxFIFO s"
  "reschedule (upd_cpu p f s) = reschedule s" "periph (upd_cpu p f s) = periph s"
  by (simp_all add: upd_cpu_def)

lemma upd_cpu_upd_cpu [simp]: "upd_cpu p f (upd_cpu p g s) = upd_cpu p (f \<circ> g) s"
  by (simp add: upd_cpu_def)

lemma upd_cpu_mmu [simp]: "upd_cpu p f (mmu_update g s) = mmu_update g (upd_cpu p f s)"
  by (simp add: upd_cpu_def)

lemma ARMPROC_NDS_Reschedule [simp]: "ARMPROC p (NDS_Reschedule s) = ARMPROC p s"
  by (simp add: NDS_Reschedule_def)

lemma ARMPROC_changeCPSR [simp]: "ARMPROC p (changeCPSR s) = ARMPROC p s"
  by (simp add: changeCPSR_def)

lemma mmu_changeCPSR [simp]: "mmu (changeCPSR s) = mmu s"
  by (simp add: changeCPSR_def NDS_Reschedule_def)

lemma REG_PAGE_upd [simp]:
  "REG_PAGE p (upd_REG_PAGE p f m) = f (REG_PAGE p m)"
  "(p = 0) \<noteq> (q = 0) \<Longrightarrow> REG_PAGE p (upd_REG_PAGE q f m) = REG_PAGE p m"
  by (auto simp add: REG_PAGE_def upd_REG_PAGE_def)

end
