(* ===== verification/Mmu.thy ===== *)
theory Mmu
  imports Nds
begin

text \<open>
  The memory interface of src/source/MMU.h and the access timing of
  src/source/MMU_timing.h.  \<open>mmu_read08\<close> to \<open>mmu_write32\<close> are the inline
  functions \<open>_MMU_read08\<close> to \<open>_MMU_write32\<close>: they serve the TCMs and main
  memory themselves and hand everything else to the I/O functions of the bus.  The macros
  \<open>READ32\<close>, \<open>WRITE32\<close> and their siblings are those of a build without
  \<open>GDB_STUB\<close>; the hooks under \<open>HAVE_LUA\<close> and \<open>HAVE_JIT\<close> are
  compiled out.  The timing functions are those of a build without
  \<open>ENABLE_ADVANCED_TIMING\<close>, which is the configuration MMU_timing.h selects.
\<close>

section \<open>Access types\<close>

datatype mmu_access = MMU_AT_CODE | MMU_AT_DATA | MMU_AT_GPU | MMU_AT_DMA | MMU_AT_DEBUG

datatype mmu_direction = MMU_AD_READ | MMU_AD_WRITE

definition SetupMMU :: "bool \<Rightarrow> bool \<Rightarrow> mmu_struct \<Rightarrow> mmu_struct" where
  "SetupMMU debugConsole dsi m =
     (let m = (if debugConsole then m\<lparr>MAIN_MEM_MASK := 0x7FFFFF\<rparr> else m\<lparr>MAIN_MEM_MASK := 0x3FFFFF\<rparr>);
          m = (if dsi then m\<lparr>MAIN_MEM_MASK := 0xFFFFFF\<rparr> else m);
          m = m\<lparr>MAIN_MEM_MASK16 := MAIN_MEM_MASK m AND NOT 1\<rparr>
      in m\<lparr>MAIN_MEM_MASK32 := MAIN_MEM_MASK m AND NOT 3\<rparr>)"

definition in_dtcm :: "u32 \<Rightarrow> 'io nds \<Rightarrow> bool" where
  "in_dtcm addr s \<longleftrightarrow> addr AND NOT 0x3FFF = DTCMRegion (mmu s)"

definition in_main :: "u32 \<Rightarrow> bool" where
  "in_main addr \<longleftrightarrow> addr AND 0x0F000000 = 0x02000000"

section \<open>Reads\<close>

definition mmu_read08 :: "'io bus \<Rightarrow> nat \<Rightarrow> mmu_access \<Rightarrow> u32 \<Rightarrow> 'io nds \<Rightarrow> u8 \<times> 'io nds" where
  "mmu_read08 B p AT addr s =
     (if p = ARMCPU_ARM7 \<and> AT = MMU_AT_DEBUG \<and> addr < 0x00004000
      then (T1ReadByte (ARM7_BIOS (mmu s)) addr, s)
      else if p = ARMCPU_ARM9 \<and> AT = MMU_AT_DMA \<and> addr < 0x02000000 then (0, s)
      else if p = ARMCPU_ARM9 \<and> AT = MMU_AT_DMA \<and> in_dtcm addr s then (0, s)
      else if p = ARMCPU_ARM9 \<and> in_dtcm addr s
      then (T1ReadByte (ARM9_DTCM (mmu s)) (addr AND 0x3FFF), s)
      else if in_main addr then (T1ReadByte (MAIN_MEM (mmu s)) (addr AND MAIN_MEM_MASK (mmu s)), s)
      else if p = ARMCPU_ARM9 then ARM9_read08 B addr s else ARM7_read08 B addr s)"

definition mmu_read16 :: "'io bus \<Rightarrow> nat \<Rightarrow> mmu_access \<Rightarrow> u32 \<Rightarrow> 'io nds \<Rightarrow> u16 \<times> 'io nds" where
  "mmu_read16 B p AT addr s =
     (let dunno = (if p = ARMCPU_ARM9 then ARM9_read16 B addr s else ARM7_read16 B addr s) in
      if p = ARMCPU_ARM7 \<and> AT = MMU_AT_DEBUG \<and> addr < 0x00004000
      then (T1ReadWord_guaranteedAligned (ARM7_BIOS (mmu s)) addr, s)
      else if p = ARMCPU_ARM9 \<and> AT = MMU_AT_DMA \<and> addr < 0x02000000 then (0, s)
      else if p = ARMCPU_ARM9 \<and> AT = MMU_AT_DMA \<and> in_dtcm addr s then (0, s)
      else if p = ARMCPU_ARM9 \<and> AT = MMU_AT_CODE
      then (if in_main addr
            then (T1ReadWord_guaranteedAligned (MAIN_MEM (mmu s)) (addr AND MAIN_MEM_MASK16 (mmu s)), s)
            else if addr < 0x02000000
            then (T1ReadWord_guaranteedAligned (ARM9_ITCM (mmu s)) (addr AND 0x7FFE), s)
            else dunno)
      else if p = ARMCPU_ARM9 \<and> in_dtcm addr s
      then (T1ReadWord_guaranteedAligned (ARM9_DTCM (mmu s)) (addr AND 0x3FFE), s)
      else if in_main addr
      then (T1ReadWord_guaranteedAligned (MAIN_MEM (mmu s)) (addr AND MAIN_MEM_MASK16 (mmu s)), s)
      else dunno)"

definition mmu_read32 :: "'io bus \<Rightarrow> nat \<Rightarrow> mmu_access \<Rightarrow> u32 \<Rightarrow> 'io nds \<Rightarrow> u32 \<times> 'io nds" where
  "mmu_read32 B p AT addr s =
     (let dunno = (if p = ARMCPU_ARM9 then ARM9_read32 B addr s else ARM7_read32 B addr s) in
      if p = ARMCPU_ARM7 \<and> AT = MMU_AT_DEBUG \<and> addr < 0x00004000
      then (T1ReadLong_guaranteedAligned (ARM7_BIOS (mmu s)) addr, s)
      else if p = ARMCPU_ARM9 \<and> AT = MMU_AT_DMA \<and> addr < 0x02000000 then (0, s)
      else if p = ARMCPU_ARM9 \<and> AT = MMU_AT_DMA \<and> in_dtcm addr s then (0, s)
      else if p = ARMCPU_ARM9 \<and> AT = MMU_AT_CODE
      then (if in_main addr
            then (T1ReadLong_guaranteedAligned (MAIN_MEM (mmu s)) (addr AND MAIN_MEM_MASK32 (mmu s)), s)
            else if addr < 0x02000000
            then (T1ReadLong_guaranteedAligned (ARM9_ITCM (mmu s)) (addr AND 0x7FFC), s)
            else dunno)
      else if p = ARMCPU_ARM7 \<and> in_main addr
      then (T1ReadLong_guaranteedAligned (MAIN_MEM (mmu s)) (addr AND MAIN_MEM_MASK32 (mmu s)), s)
      else if p = ARMCPU_ARM9 \<and> in_dtcm addr s
      then (T1ReadLong_guaranteedAligned (ARM9_DTCM (mmu s)) (addr AND 0x3FFC), s)
      else if p = ARMCPU_ARM9 \<and> in_main addr
      then (T1ReadLong_guaranteedAligned (MAIN_MEM (mmu s)) (addr AND MAIN_MEM_MASK32 (mmu s)), s)
      else dunno)"

section \<open>Writes\<close>

definition set_MAIN_MEM :: "bytes \<Rightarrow> 'io nds \<Rightarrow> 'io nds" where
  "set_MAIN_MEM m s = s\<lparr>mmu := (mmu s)\<lparr>MAIN_MEM := m\<rparr>\<rparr>"

definition set_DTCM :: "bytes \<Rightarrow> 'io nds \<Rightarrow> 'io nds" where
  "set_DTCM m s = s\<lparr>mmu := (mmu s)\<lparr>ARM9_DTCM := m\<rparr>\<rparr>"

definition mmu_write08 :: "'io bus \<Rightarrow> nat \<Rightarrow> mmu_access \<Rightarrow> u32 \<Rightarrow> u8 \<Rightarrow> 'io nds \<Rightarrow> 'io nds" where
  "mmu_write08 B p AT addr val s =
     (if p = ARMCPU_ARM9 \<and> AT = MMU_AT_DMA \<and> addr < 0x02000000 then s
      else if p = ARMCPU_ARM9 \<and> AT = MMU_AT_DMA \<and> in_dtcm addr s then s
      else if p = ARMCPU_ARM9 \<and> in_dtcm addr s
      then set_DTCM (T1WriteByte (ARM9_DTCM (mmu s)) (addr AND 0x3FFF) val) s
      else if in_main addr
      then set_MAIN_MEM (T1WriteByte (MAIN_MEM (mmu s)) (addr AND MAIN_MEM_MASK (mmu s)) val) s
      else if p = ARMCPU_ARM9 then ARM9_write08 B addr val s else ARM7_write08 B addr val s)"

definition mmu_write16 :: "'io bus \<Rightarrow> nat \<Rightarrow> mmu_access \<Rightarrow> u32 \<Rightarrow> u16 \<Rightarrow> 'io nds \<Rightarrow> 'io nds" where
  "mmu_write16 B p AT addr val s =
     (if p = ARMCPU_ARM9 \<and> AT = MMU_AT_DMA \<and> addr < 0x02000000 then s
      else if p = ARMCPU_ARM9 \<and> AT = MMU_AT_DMA \<and> in_dtcm addr s then s
      else if p = ARMCPU_ARM9 \<and> in_dtcm addr s
      then set_DTCM (T1WriteWord (ARM9_DTCM (mmu s)) (addr AND 0x3FFE) val) s
      else if in_main addr
      then set_MAIN_MEM (T1WriteWord (MAIN_MEM (mmu s)) (addr AND MAIN_MEM_MASK16 (mmu s)) val) s
      else if p = ARMCPU_ARM9 then ARM9_write16 B addr val s else ARM7_write16 B addr val s)"

definition mmu_write32 :: "'io bus \<Rightarrow> nat \<Rightarrow> mmu_access \<Rightarrow> u32 \<Rightarrow> u32 \<Rightarrow> 'io nds \<Rightarrow> 'io nds" where
  "mmu_write32 B p AT addr val s =
     (if p = ARMCPU_ARM9 \<and> AT = MMU_AT_DMA \<and> addr < 0x02000000 then s
      else if p = ARMCPU_ARM9 \<and> AT = MMU_AT_DMA \<and> in_dtcm addr s then s
      else if p = ARMCPU_ARM9 \<and> in_dtcm addr s
      then set_DTCM (T1WriteLong (ARM9_DTCM (mmu s)) (addr AND 0x3FFC) val) s
      else if in_main addr
      then set_MAIN_MEM (T1WriteLong (MAIN_MEM (mmu s)) (addr AND MAIN_MEM_MASK32 (mmu s)) val) s
      else if p = ARMCPU_ARM9 then ARM9_write32 B addr val s else ARM7_write32 B addr val s)"

section \<open>The access macros of the instruction handlers\<close>

definition READ32 :: "'io bus \<Rightarrow> nat \<Rightarrow> u32 \<Rightarrow> 'io nds \<Rightarrow> u32 \<times> 'io nds" where
  "READ32 B p b s = mmu_read32 B p MMU_AT_DATA (b AND 0xFFFFFFFC) s"

definition WRITE32 :: "'io bus \<Rightarrow> nat \<Rightarrow> u32 \<Rightarrow> u32 \<Rightarrow> 'io nds \<Rightarrow> 'io nds" where
  "WRITE32 B p b c s = mmu_write32 B p MMU_AT_DATA (b AND 0xFFFFFFFC) c s"

definition READ16 :: "'io bus \<Rightarrow> nat \<Rightarrow> u32 \<Rightarrow> 'io nds \<Rightarrow> u16 \<times> 'io nds" where
  "READ16 B p b s = mmu_read16 B p MMU_AT_DATA (b AND 0xFFFFFFFE) s"

definition WRITE16 :: "'io bus \<Rightarrow> nat \<Rightarrow> u32 \<Rightarrow> u16 \<Rightarrow> 'io nds \<Rightarrow> 'io nds" where
  "WRITE16 B p b c s = mmu_write16 B p MMU_AT_DATA (b AND 0xFFFFFFFE) c s"

definition READ8 :: "'io bus \<Rightarrow> nat \<Rightarrow> u32 \<Rightarrow> 'io nds \<Rightarrow> u8 \<times> 'io nds" where
  "READ8 B p b s = mmu_read08 B p MMU_AT_DATA b s"

definition WRITE8 :: "'io bus \<Rightarrow> nat \<Rightarrow> u32 \<Rightarrow> u8 \<Rightarrow> 'io nds \<Rightarrow> 'io nds" where
  "WRITE8 B p b c s = mmu_write08 B p MMU_AT_DATA b c s"

section \<open>Access timing\<close>

definition USE_TIMING :: bool where "USE_TIMING = False"

definition MMU_accesstime :: "nat \<Rightarrow> mmu_access \<Rightarrow> nat \<Rightarrow> mmu_direction \<Rightarrow> u32 \<Rightarrow> bool \<Rightarrow> u32" where
  "MMU_accesstime p AT READSIZE DIRECTION addr sequential =
     (let MC = 1;
          M32 = (if p = ARMCPU_ARM9 then 2 else 1);
          M16 = M32 * (if READSIZE > 16 then 2 else 1);
          MSLW = M16 * 8;
          X = [MC, MC, M16, M32, M32, M16, M16, M32, MSLW, MSLW, MSLW, M32, M32, M32, M32, M32]
      in if p = ARMCPU_ARM9 \<and> AT = MMU_AT_CODE \<and> addr < 0x02000000 then MC
         else X ! (unat (drop_bit 24 addr) mod 16))"

definition Fetch :: "nat \<Rightarrow> mmu_access \<Rightarrow> nat \<Rightarrow> mmu_direction \<Rightarrow> u32 \<Rightarrow> u32" where
  "Fetch p AT READSIZE DIRECTION address =
     (if AT = MMU_AT_CODE then 1 else MMU_accesstime p AT READSIZE DIRECTION address True)"

definition MMU_memAccessCycles :: "nat \<Rightarrow> nat \<Rightarrow> mmu_direction \<Rightarrow> u32 \<Rightarrow> u32" where
  "MMU_memAccessCycles p READSIZE DIRECTION addr =
     Fetch p MMU_AT_DATA READSIZE DIRECTION (addr AND NOT (of_nat (READSIZE div 8) - 1))"

definition MMU_codeFetchCycles :: "nat \<Rightarrow> nat \<Rightarrow> u32 \<Rightarrow> u32" where
  "MMU_codeFetchCycles p READSIZE addr =
     Fetch p MMU_AT_CODE READSIZE MMU_AD_READ (addr AND NOT (of_nat (READSIZE div 8) - 1))"

definition MMU_aluMemCycles :: "nat \<Rightarrow> u32 \<Rightarrow> u32 \<Rightarrow> u32" where
  "MMU_aluMemCycles p aluCycles memCycles =
     (if p = ARMCPU_ARM9 then max aluCycles memCycles else aluCycles + memCycles)"

definition MMU_aluMemAccessCycles :: "nat \<Rightarrow> nat \<Rightarrow> mmu_direction \<Rightarrow> u32 \<Rightarrow> u32 \<Rightarrow> u32" where
  "MMU_aluMemAccessCycles p READSIZE DIRECTION aluCycles addr =
     MMU_aluMemCycles p aluCycles (MMU_memAccessCycles p READSIZE DIRECTION addr)"

definition MMU_fetchExecuteCycles :: "nat \<Rightarrow> u32 \<Rightarrow> u32 \<Rightarrow> u32" where
  "MMU_fetchExecuteCycles p executeCycles fetchCycles =
     (if USE_TIMING then max executeCycles fetchCycles else executeCycles)"

end
