(* ===== verification/Sample.thy ===== *)
theory Sample
  imports Nds
begin

text \<open>
  Concrete machines for the witnesses of the properties.  \<open>zero_cpu\<close>,
  \<open>zero_mmu\<close> and \<open>zero_nds\<close> are the structures after the \<open>memset\<close>
  of a reset; \<open>sample_cpu\<close> is a processor in the middle of a program.  \<open>null_bus\<close>
  is the bus of a machine whose I/O space reads as zero and ignores writes.
\<close>

definition zero_cpu :: armcpu where
  "zero_cpu = \<lparr>proc_ID = 0, instruction = 0, instruct_adr = 0, next_instruction = 0, R = (\<lambda>_. 0),
     CPSR = psr_of_val 0x1F, SPSR = psr_of_val 0x1F, R13_usr = 0, R14_usr = 0, R13_svc = 0, R14_svc = 0,
     R13_abt = 0, R14_abt = 0, R13_und = 0, R14_und = 0, R13_irq = 0, R14_irq = 0,
     R8_fiq = 0, R9_fiq = 0, R10_fiq = 0, R11_fiq = 0, R12_fiq = 0, R13_fiq = 0, R14_fiq = 0,
     SPSR_svc = psr_of_val 0, SPSR_abt = psr_of_val 0, SPSR_und = psr_of_val 0,
     SPSR_irq = psr_of_val 0, SPSR_fiq = psr_of_val 0, intVector = 0, LDTBit = 0,
     waitIRQ = False, halt_IE_and_IF = False, intrWaitARM_state = 0, stalled = False\<rparr>"

definition sample_cpu :: armcpu where
  "sample_cpu = zero_cpu\<lparr>instruct_adr := 0x02000100, next_instruction := 0x02000104,
     R := (\<lambda>r. if r = 15 then 0x02000108 else 0x02001000 + 0x100 * r),
     CPSR := psr_of_val 0x6000001F, R13_irq := 0x03007F00, R13_svc := 0x03007E00,
     R8_fiq := 0x888, intVector := 0xFFFF0000, LDTBit := 1\<rparr>"

definition zero_mmu :: mmu_struct where
  "zero_mmu = \<lparr>MAIN_MEM = (\<lambda>_. 0), ARM9_DTCM = (\<lambda>_. 0), ARM9_ITCM = (\<lambda>_. 0), ARM9_REG = (\<lambda>_. 0),
     ARM7_REG = (\<lambda>_. 0), ARM7_BIOS = (\<lambda>_. 0), DTCMRegion = 0x027C0000, ITCMRegion = 0,
     ARM9_RW_MODE = 0, reg_IME = (\<lambda>_. 0), reg_IE = (\<lambda>_. 0), reg_IF_bits = (\<lambda>_. 0),
     reg_IF_pending = (\<lambda>_. 0), gfx3dCycles = 0,
     MAIN_MEM_MASK = 0x3FFFFF, MAIN_MEM_MASK16 = 0x3FFFFE, MAIN_MEM_MASK32 = 0x3FFFFC\<rparr>"

definition zero_cp15 :: armcp15_t where
  "zero_cp15 = \<lparr>cp_IDCode = 0, cp_cacheType = 0, cp_TCMSize = 0, cp_ctrl = 0, cp_DCConfig = 0,
     cp_ICConfig = 0, cp_writeBuffCtrl = 0, cp_und = 0, cp_DaccessPerm = 0, cp_IaccessPerm = 0,
     cp_protectBaseSize = (\<lambda>_. 0), cp_cacheOp = 0, cp_DcacheLock = 0, cp_IcacheLock = 0, cp_ITCMRegion = 0,
     cp_DTCMRegion = 0, cp_processID = 0, cp_RAM_TAG = 0,
     cp_testState = 0, cp_cacheDbg = 0, regionWriteMask_USR = (\<lambda>_. 0), regionWriteMask_SYS = (\<lambda>_. 0),
     regionReadMask_USR = (\<lambda>_. 0), regionReadMask_SYS = (\<lambda>_. 0), regionExecuteMask_USR = (\<lambda>_. 0),
     regionExecuteMask_SYS = (\<lambda>_. 0), regionWriteSet_USR = (\<lambda>_. 0), regionWriteSet_SYS = (\<lambda>_. 0),
     regionReadSet_USR = (\<lambda>_. 0), regionReadSet_SYS = (\<lambda>_. 0), regionExecuteSet_USR = (\<lambda>_. 0),
     regionExecuteSet_SYS = (\<lambda>_. 0)\<rparr>"

definition zero_ipc :: IPC_FIFO where
  "zero_ipc = \<lparr>ipc_buf = (\<lambda>_. 0), ipc_head = 0, ipc_tail = 0, ipc_size = 0\<rparr>"

definition zero_gxfifo :: GFX_FIFO where
  "zero_gxfifo = \<lparr>gx_cmd = (\<lambda>_. 0), gx_param = (\<lambda>_. 0), gx_head = 0, gx_tail = 0, gx_size = 0,
     gx_matrix_stack_op_size = 0\<rparr>"

definition zero_dma :: dma_controller where
  "zero_dma = \<lparr>dmaCheck = False, dma_running = False, dma_paused = False, dma_triggered = False,
     dma_startmode = EDMAMode_Immediate, dma_bitWidth = EDMABitWidth_16,
     dma_sar = EDMASourceUpdate_Increment, dma_dar = EDMADestinationUpdate_Increment,
     dma_enable = 0, dma_irq = 0, dma_repeatMode = 0, dma_startmode_bits = 0, dma_userEnable = 0,
     dma_wordcount = 0, dma_saddr = 0, dma_daddr = 0, dma_saddr_user = 0, dma_daddr_user = 0, dma_nextEvent = 0\<rparr>"

definition zero_timers :: mmu_timers where
  "zero_timers = \<lparr>timer = (\<lambda>_ _. 0), timerReload = (\<lambda>_ _. 0), timerMODE = (\<lambda>_ _. 0), timerON = (\<lambda>_ _. 0)\<rparr>"

definition zero_math :: mmu_math where
  "zero_math = \<lparr>div_mode = 0, div_busy = 0, div_div0 = 0, divRunning = False, divResult = 0, divMod = 0,
     divCycles = 0, sqrt_mode = 0, sqrt_busy = 0, sqrtRunning = False, sqrtResult = 0, sqrtCycles = 0,
     cached_sqrt = (\<lambda>_. 0)\<rparr>"

definition zero_system :: nds_system where
  "zero_system = \<lparr>timerCycle = (\<lambda>_ _. 0), VCount = 0, sleeping = False, freezeBus = 0,
     idleCycles = (\<lambda>_. 0), runCycleCollector = (\<lambda>_ _. 0), idleFrameCounter = 0,
     cpuloopIterationCount = 0\<rparr>"

definition zero_item :: sequence_item where
  "zero_item = \<lparr>ti_timestamp = 0, ti_param = 0, ti_enabled = False\<rparr>"

definition zero_sequencer :: sequencer_t where
  "zero_sequencer = \<lparr>nds_vblankEnded = False, seq_dispcnt = zero_item, seq_wifi = zero_item,
     seq_divider = zero_item, seq_sqrtunit = zero_item, seq_gxfifo = zero_item,
     seq_dma = (\<lambda>_ _. zero_item), seq_timer = (\<lambda>_ _. zero_item)\<rparr>"

definition zero_nds :: "unit nds" where
  "zero_nds = \<lparr>NDS_ARM9 = zero_cpu, NDS_ARM7 = zero_cpu\<lparr>proc_ID := 1\<rparr>, mmu = zero_mmu, cp15 = zero_cp15,
     ipc_fifo = (\<lambda>_. zero_ipc), gxFIFO = zero_gxfifo,
     gxPIPE = \<lparr>pipe_cmd = (\<lambda>_. 0), pipe_param = (\<lambda>_. 0), pipe_head = 0, pipe_tail = 0, pipe_size = 0\<rparr>,
     disp_fifo = \<lparr>disp_buf = (\<lambda>_. 0), disp_head = 0, disp_tail = 0\<rparr>,
     gx_stat = \<lparr>fifo_empty = True, fifo_low = False, gxs_tb = 0, gxs_tr = 0, gxs_se = 0, gxstat_sb = 0,
       gxfifo_irq = 0\<rparr>,
     dma = (\<lambda>_ _. zero_dma), ensataEmulation = False, ensataIpcSyncCounter = 0,
     reschedule = False, execute = True, nds_timer = 0, nds_arm9_timer = 0, nds_arm7_timer = 0,
     timers = zero_timers, math = zero_math, sysm = zero_system, sequencer = zero_sequencer,
     card_transfer_count = (\<lambda>_. 0), LagFrameFlag = False, lagframecounter = 0,
     lastLag = 0, TotalLagFrames = 0, isSwapBuffers = False, mtx_position = (\<lambda>_. 0), periph = ()\<rparr>"

definition sample_nds :: "unit nds" where
  "sample_nds = zero_nds\<lparr>NDS_ARM9 := sample_cpu\<rparr>"

definition null_bus :: "unit bus" where
  "null_bus = \<lparr>ARM9_read08 = (\<lambda>_ s. (0, s)), ARM9_read16 = (\<lambda>_ s. (0, s)), ARM9_read32 = (\<lambda>_ s. (0, s)),
     ARM7_read08 = (\<lambda>_ s. (0, s)), ARM7_read16 = (\<lambda>_ s. (0, s)), ARM7_read32 = (\<lambda>_ s. (0, s)),
     ARM9_write08 = (\<lambda>_ _ s. s), ARM9_write16 = (\<lambda>_ _ s. s), ARM9_write32 = (\<lambda>_ _ s. s),
     ARM7_write08 = (\<lambda>_ _ s. s), ARM7_write16 = (\<lambda>_ _ s. s), ARM7_write32 = (\<lambda>_ _ s. s)\<rparr>"

lemma sample_mode [simp]: "psr_mode (CPSR sample_cpu) = SYS"
  by (simp add: sample_cpu_def psr_of_val_def SYS_def)

lemma ARMPROC_sample [simp]: "ARMPROC 0 sample_nds = sample_cpu"
  by (simp add: ARMPROC_def sample_nds_def)

lemma sample_regs [simp]:
  "instruct_adr sample_cpu = 0x02000100" "next_instruction sample_cpu = 0x02000104"
  "intVector sample_cpu = 0xFFFF0000" "R13_irq sample_cpu = 0x03007F00"
  "R sample_cpu = (\<lambda>r. if r = 15 then 0x02000108 else 0x02001000 + 0x100 * r)"
  by (simp_all add: sample_cpu_def)

end
