(* ===== verification/Arm_Cpu.thy ===== *)
theory Arm_Cpu
  imports Mmu Sample
begin

text \<open>
  src/source/armcpu.cpp: register banking (\<open>armcpu_switchMode\<close>), the prefetch stage,
  reset, exception and interrupt entry, undefined instructions and the debugger's register
  access.  The abstract view is \<open>arch_reg\<close>: the register file of the architecture,
  indexed by bank and register number, of which \<open>R\<close> and the banked fields together
  are one representation.
\<close>

section \<open>Register banking\<close>

text \<open>The five SWAPs of R8 to R12 with their FIQ copies.\<close>

definition swap_fiq :: "armcpu \<Rightarrow> armcpu" where
  "swap_fiq c = c\<lparr>R := (R c)(8 := R8_fiq c, 9 := R9_fiq c, 10 := R10_fiq c, 11 := R11_fiq c,
       12 := R12_fiq c),
     R8_fiq := R c 8, R9_fiq := R c 9, R10_fiq := R c 10, R11_fiq := R c 11, R12_fiq := R c 12\<rparr>"

text \<open>The first \<open>switch\<close>: the registers of the old mode go to their bank.\<close>

definition bank_out :: "5 word \<Rightarrow> armcpu \<Rightarrow> armcpu" where
  "bank_out oldmode c =
     (if oldmode = USR \<or> oldmode = SYS then c\<lparr>R13_usr := R c 13, R14_usr := R c 14\<rparr>
      else if oldmode = FIQ then
        (let c = swap_fiq c in c\<lparr>R13_fiq := R c 13, R14_fiq := R c 14, SPSR_fiq := SPSR c\<rparr>)
      else if oldmode = IRQ then c\<lparr>R13_irq := R c 13, R14_irq := R c 14, SPSR_irq := SPSR c\<rparr>
      else if oldmode = SVC then c\<lparr>R13_svc := R c 13, R14_svc := R c 14, SPSR_svc := SPSR c\<rparr>
      else if oldmode = ABT then c\<lparr>R13_abt := R c 13, R14_abt := R c 14, SPSR_abt := SPSR c\<rparr>
      else if oldmode = UND then c\<lparr>R13_und := R c 13, R14_und := R c 14, SPSR_und := SPSR c\<rparr>
      else c)"

text \<open>The second \<open>switch\<close>: the registers of the new mode come from their bank.\<close>

definition bank_in :: "u8 \<Rightarrow> armcpu \<Rightarrow> armcpu" where
  "bank_in mode c =
     (if mode = ucast USR \<or> mode = ucast SYS then c\<lparr>R := (R c)(13 := R13_usr c, 14 := R14_usr c)\<rparr>
      else if mode = ucast FIQ then
        (let c = swap_fiq c in
         c\<lparr>R := (R c)(13 := R13_fiq c, 14 := R14_fiq c), SPSR := SPSR_fiq c\<rparr>)
      else if mode = ucast IRQ then
        c\<lparr>R := (R c)(13 := R13_irq c, 14 := R14_irq c), SPSR := SPSR_irq c\<rparr>
      else if mode = ucast SVC then
        c\<lparr>R := (R c)(13 := R13_svc c, 14 := R14_svc c), SPSR := SPSR_svc c\<rparr>
      else if mode = ucast ABT then
        c\<lparr>R := (R c)(13 := R13_abt c, 14 := R14_abt c), SPSR := SPSR_abt c\<rparr>
      else if mode = ucast UND then
        c\<lparr>R := (R c)(13 := R13_und c, 14 := R14_und c), SPSR := SPSR_und c\<rparr>
      else c)"

definition switch_banks :: "u8 \<Rightarrow> armcpu \<Rightarrow> armcpu" where
  "switch_banks mode c =
     (let c = bank_in mode (bank_out (psr_mode (CPSR c)) c)
      in c\<lparr>CPSR := (CPSR c)\<lparr>psr_mode := ucast (mode AND 0x1F)\<rparr>\<rparr>)"

definition armcpu_switchMode :: "nat \<Rightarrow> u8 \<Rightarrow> 'io nds \<Rightarrow> u32 \<times> 'io nds" where
  "armcpu_switchMode p mode s =
     (let oldmode = ucast (psr_mode (CPSR (ARMPROC p s))) in
      (oldmode, changeCPSR (upd_cpu p (switch_banks mode) s)))"

definition armcpu_Wait4IRQ :: "nat \<Rightarrow> 'io nds \<Rightarrow> u32 \<times> 'io nds" where
  "armcpu_Wait4IRQ p s = (1, upd_cpu p (\<lambda>c. c\<lparr>waitIRQ := True, halt_IE_and_IF := True\<rparr>) s)"

section \<open>Prefetch\<close>

definition armcpu_prefetch :: "'io bus \<Rightarrow> nat \<Rightarrow> 'io nds \<Rightarrow> u32 \<times> 'io nds" where
  "armcpu_prefetch B p s =
     (let curInstruction = next_instruction (ARMPROC p s) in
      if \<not> psr_T (CPSR (ARMPROC p s)) then
        (let curInstruction = curInstruction AND 0xFFFFFFFC;
             s = upd_cpu p (\<lambda>c. c\<lparr>instruct_adr := curInstruction,
                   next_instruction := curInstruction + 4,
                   R := (R c)(15 := curInstruction + 8)\<rparr>) s;
             (v, s) = mmu_read32 B p MMU_AT_CODE curInstruction s;
             s = upd_cpu p (\<lambda>c. c\<lparr>instruction := v\<rparr>) s
         in (MMU_codeFetchCycles p 32 curInstruction, s))
      else
        (let curInstruction = curInstruction AND 0xFFFFFFFE;
             s = upd_cpu p (\<lambda>c. c\<lparr>instruct_adr := curInstruction,
                   next_instruction := curInstruction + 2,
                   R := (R c)(15 := curInstruction + 4)\<rparr>) s;
             (v, s) = mmu_read16 B p MMU_AT_CODE curInstruction s;
             s = upd_cpu p (\<lambda>c. c\<lparr>instruction := ucast v\<rparr>) s
         in if p = 0 then
              (if \<not> (curInstruction = instruct_adr (ARMPROC p s) + 2 \<and> curInstruction AND 2 \<noteq> 0)
               then (MMU_codeFetchCycles p 32 curInstruction, s)
               else (0, s))
            else (MMU_codeFetchCycles p 16 curInstruction, s)))"

definition armcpu_prefetch_of :: "'io bus \<Rightarrow> nat \<Rightarrow> 'io nds \<Rightarrow> u32 \<times> 'io nds" where
  "armcpu_prefetch_of B p s =
     (if proc_ID (ARMPROC p s) = 0 then armcpu_prefetch B 0 s else armcpu_prefetch B 1 s)"

section \<open>Reset\<close>

definition armcpu_init :: "'io bus \<Rightarrow> nat \<Rightarrow> u32 \<Rightarrow> 'io nds \<Rightarrow> 'io nds" where
  "armcpu_init B p adr s =
     (let s = upd_cpu p (\<lambda>c. c\<lparr>
            LDTBit := (if proc_ID c = 0 then 1 else 0),
            intVector := 0xFFFF0000 * (if proc_ID c = 0 then 1 else 0),
            waitIRQ := False, halt_IE_and_IF := False, intrWaitARM_state := 0,
            R := (\<lambda>r. if r < 16 then 0 else R c r),
            CPSR := psr_of_val (ucast SYS), SPSR := psr_of_val (ucast SYS),
            R13_usr := 0, R14_usr := 0, R13_svc := 0, R14_svc := 0, R13_abt := 0, R14_abt := 0,
            R13_und := 0, R14_und := 0, R13_irq := 0, R14_irq := 0,
            R8_fiq := 0, R9_fiq := 0, R10_fiq := 0, R11_fiq := 0, R12_fiq := 0, R13_fiq := 0,
            R14_fiq := 0,
            SPSR_svc := psr_of_val 0, SPSR_abt := psr_of_val 0, SPSR_und := psr_of_val 0,
            SPSR_irq := psr_of_val 0, SPSR_fiq := psr_of_val 0\<rparr>) s;
          s = upd_cpu p (\<lambda>c. c\<lparr>next_instruction := adr AND NOT 1\<rparr>) s;
          s = upd_cpu p (setT (u1 (BIT0 adr))) s
      in snd (armcpu_prefetch_of B p s))"

section \<open>Exceptions\<close>

definition emu_halt :: "'io nds \<Rightarrow> 'io nds" where
  "emu_halt s = s\<lparr>execute := False\<rparr>"

definition armcpu_exception :: "nat \<Rightarrow> u32 \<Rightarrow> 'io nds \<Rightarrow> 'io nds" where
  "armcpu_exception p number s =
     (let cpumode = (if number = 0x00 then SVC else if number = 0x04 then UND
                     else if number = 0x08 then SVC else if number = 0x0C then ABT
                     else if number = 0x10 then ABT else if number = 0x18 then IRQ
                     else if number = 0x1C then FIQ else USR);
          s = (if number = 0x14 then emu_halt s else s);
          tmp = CPSR (ARMPROC p s);
          s = snd (armcpu_switchMode p (ucast cpumode) s);
          s = upd_cpu p (\<lambda>c. setR 14 (next_instruction c) c) s;
          s = upd_cpu p (\<lambda>c. c\<lparr>SPSR := tmp\<rparr>) s;
          s = upd_cpu p (\<lambda>c. c\<lparr>CPSR := (CPSR c)\<lparr>psr_T := False, psr_I := True\<rparr>\<rparr>) s;
          s = changeCPSR s;
          s = upd_cpu p (\<lambda>c. setR 15 (intVector c + number) c) s
      in upd_cpu p (\<lambda>c. c\<lparr>next_instruction := R c 15\<rparr>) s)"

text \<open>The state \<open>armcpu_irqException\<close> builds before it refills the prefetch.\<close>

definition irq_entry :: "nat \<Rightarrow> 'io nds \<Rightarrow> 'io nds" where
  "irq_entry p s =
     (let tmp = CPSR (ARMPROC p s);
          s = snd (armcpu_switchMode p (ucast IRQ) s);
          s = upd_cpu p (\<lambda>c. setR 14 (instruct_adr c + 4) c) s;
          s = upd_cpu p (\<lambda>c. c\<lparr>SPSR := tmp\<rparr>) s;
          s = upd_cpu p (\<lambda>c. c\<lparr>CPSR := (CPSR c)\<lparr>psr_T := False, psr_I := True\<rparr>\<rparr>) s
      in upd_cpu p (\<lambda>c. c\<lparr>next_instruction := intVector c + 0x18, waitIRQ := False\<rparr>) s)"

definition armcpu_irqException :: "'io bus \<Rightarrow> nat \<Rightarrow> 'io nds \<Rightarrow> bool \<times> 'io nds" where
  "armcpu_irqException B p s = (True, snd (armcpu_prefetch_of B p (irq_entry p s)))"

definition TRAPUNDEF :: "nat \<Rightarrow> 'io nds \<Rightarrow> u32 \<times> 'io nds" where
  "TRAPUNDEF p s =
     (if (intVector (ARMPROC p s) \<noteq> 0) \<noteq> (proc_ID (ARMPROC p s) = of_nat ARMCPU_ARM9)
      then (4, armcpu_exception ARMCPU_ARM9 0x04 s)
      else (4, s))"

section \<open>The control interface\<close>

definition stall_cpu :: "armcpu \<Rightarrow> armcpu" where
  "stall_cpu c = c\<lparr>stalled := True\<rparr>"

definition unstall_cpu :: "armcpu \<Rightarrow> armcpu" where
  "unstall_cpu c = c\<lparr>stalled := False\<rparr>"

definition read_cpu_reg :: "armcpu \<Rightarrow> u32 \<Rightarrow> u32" where
  "read_cpu_reg c reg_num =
     (if reg_num \<le> 14 then R c reg_num else if reg_num = 15 then instruct_adr c
      else if reg_num = 16 then psr_val (CPSR c) else 0)"

definition set_cpu_reg :: "u32 \<Rightarrow> u32 \<Rightarrow> armcpu \<Rightarrow> armcpu" where
  "set_cpu_reg reg_num val c =
     (if reg_num \<le> 14 then c\<lparr>R := (R c)(reg_num := val)\<rparr>
      else if reg_num = 15 then c\<lparr>next_instruction := val\<rparr> else c)"

section \<open>The banked register file\<close>

datatype bank = Busr | Bfiq | Birq | Bsvc | Babt | Bund

definition bank_of :: "5 word \<Rightarrow> bank option" where
  "bank_of m = (if m = USR \<or> m = SYS then Some Busr else if m = FIQ then Some Bfiq
     else if m = IRQ then Some Birq else if m = SVC then Some Bsvc
     else if m = ABT then Some Babt else if m = UND then Some Bund else None)"

definition valid_mode :: "5 word \<Rightarrow> bool" where
  "valid_mode m \<longleftrightarrow> bank_of m \<noteq> None"

definition cur_bank :: "armcpu \<Rightarrow> bank" where
  "cur_bank c = the (bank_of (psr_mode (CPSR c)))"

text \<open>The stored copy of R13 and R14 of a bank, and of R8 to R12 in the FIQ fields.\<close>

fun stored13 :: "armcpu \<Rightarrow> bank \<Rightarrow> u32" where
  "stored13 c Busr = R13_usr c" | "stored13 c Bfiq = R13_fiq c" | "stored13 c Birq = R13_irq c"
| "stored13 c Bsvc = R13_svc c" | "stored13 c Babt = R13_abt c" | "stored13 c Bund = R13_und c"

fun stored14 :: "armcpu \<Rightarrow> bank \<Rightarrow> u32" where
  "stored14 c Busr = R14_usr c" | "stored14 c Bfiq = R14_fiq c" | "stored14 c Birq = R14_irq c"
| "stored14 c Bsvc = R14_svc c" | "stored14 c Babt = R14_abt c" | "stored14 c Bund = R14_und c"

fun stored_spsr :: "armcpu \<Rightarrow> bank \<Rightarrow> status_reg" where
  "stored_spsr c Busr = SPSR c" | "stored_spsr c Bfiq = SPSR_fiq c" | "stored_spsr c Birq = SPSR_irq c"
| "stored_spsr c Bsvc = SPSR_svc c" | "stored_spsr c Babt = SPSR_abt c" | "stored_spsr c Bund = SPSR_und c"

definition stored_fiq :: "armcpu \<Rightarrow> u32 \<Rightarrow> u32" where
  "stored_fiq c r = (if r = 8 then R8_fiq c else if r = 9 then R9_fiq c
     else if r = 10 then R10_fiq c else if r = 11 then R11_fiq c else R12_fiq c)"

definition arch_reg :: "armcpu \<Rightarrow> bank \<Rightarrow> u32 \<Rightarrow> u32" where
  "arch_reg c b r =
     (if 8 \<le> r \<and> r \<le> 12 then (if (b = Bfiq) = (cur_bank c = Bfiq) then R c r else stored_fiq c r)
      else if r = 13 then (if b = cur_bank c then R c 13 else stored13 c b)
      else if r = 14 then (if b = cur_bank c then R c 14 else stored14 c b)
      else R c r)"

definition arch_spsr :: "armcpu \<Rightarrow> bank \<Rightarrow> status_reg" where
  "arch_spsr c b = (if b = cur_bank c then SPSR c else stored_spsr c b)"

lemma valid_mode_cases:
  assumes "valid_mode m"
  obtains "m = USR" | "m = SYS" | "m = FIQ" | "m = IRQ" | "m = SVC" | "m = ABT" | "m = UND"
  using assms unfolding valid_mode_def bank_of_def by (auto split: if_splits)

lemma bank_of_simps [simp]:
  "bank_of USR = Some Busr" "bank_of SYS = Some Busr" "bank_of FIQ = Some Bfiq"
  "bank_of IRQ = Some Birq" "bank_of SVC = Some Bsvc" "bank_of ABT = Some Babt"
  "bank_of UND = Some Bund"
  by (simp_all add: bank_of_def mode_defs)

lemma mode_bank_cases:
  assumes "bank_of m = Some b"
  shows "b = Busr \<and> (m = USR \<or> m = SYS) \<or> b = Bfiq \<and> m = FIQ \<or> b = Birq \<and> m = IRQ \<or>
    b = Bsvc \<and> m = SVC \<or> b = Babt \<and> m = ABT \<or> b = Bund \<and> m = UND"
  using assms unfolding bank_of_def by (auto split: if_splits)

lemma mode_neq:
  "USR \<noteq> SYS" "USR \<noteq> FIQ" "USR \<noteq> IRQ" "USR \<noteq> SVC" "USR \<noteq> ABT" "USR \<noteq> UND"
  "SYS \<noteq> USR" "SYS \<noteq> FIQ" "SYS \<noteq> IRQ" "SYS \<noteq> SVC" "SYS \<noteq> ABT" "SYS \<noteq> UND"
  "FIQ \<noteq> USR" "FIQ \<noteq> SYS" "FIQ \<noteq> IRQ" "FIQ \<noteq> SVC" "FIQ \<noteq> ABT" "FIQ \<noteq> UND"
  "IRQ \<noteq> USR" "IRQ \<noteq> SYS" "IRQ \<noteq> FIQ" "IRQ \<noteq> SVC" "IRQ \<noteq> ABT" "IRQ \<noteq> UND"
  "SVC \<noteq> USR" "SVC \<noteq> SYS" "SVC \<noteq> FIQ" "SVC \<noteq> IRQ" "SVC \<noteq> ABT" "SVC \<noteq> UND"
  "ABT \<noteq> USR" "ABT \<noteq> SYS" "ABT \<noteq> FIQ" "ABT \<noteq> IRQ" "ABT \<noteq> SVC" "ABT \<noteq> UND"
  "UND \<noteq> USR" "UND \<noteq> SYS" "UND \<noteq> FIQ" "UND \<noteq> IRQ" "UND \<noteq> SVC" "UND \<noteq> ABT"
  by (simp_all add: mode_defs)

lemma ucast_mode_eq: "(ucast m :: u8) = ucast m' \<longleftrightarrow> m = m'" for m m' :: "5 word"
proof -
  have "ucast (ucast k :: u8) = k" for k :: "5 word"
    by (rule bit_word_eqI) (auto simp add: bit_ucast_iff)
  then show ?thesis by metis
qed

lemma bank_out_of:
  assumes "bank_of m = Some b"
  shows "bank_out m c = (case b of
      Busr \<Rightarrow> c\<lparr>R13_usr := R c 13, R14_usr := R c 14\<rparr>
    | Bfiq \<Rightarrow> (let c = swap_fiq c in c\<lparr>R13_fiq := R c 13, R14_fiq := R c 14, SPSR_fiq := SPSR c\<rparr>)
    | Birq \<Rightarrow> c\<lparr>R13_irq := R c 13, R14_irq := R c 14, SPSR_irq := SPSR c\<rparr>
    | Bsvc \<Rightarrow> c\<lparr>R13_svc := R c 13, R14_svc := R c 14, SPSR_svc := SPSR c\<rparr>
    | Babt \<Rightarrow> c\<lparr>R13_abt := R c 13, R14_abt := R c 14, SPSR_abt := SPSR c\<rparr>
    | Bund \<Rightarrow> c\<lparr>R13_und := R c 13, R14_und := R c 14, SPSR_und := SPSR c\<rparr>)"
  using mode_bank_cases [OF assms]
  by (elim disjE conjE) (simp_all add: bank_out_def mode_neq)

lemma bank_in_of:
  assumes "bank_of m = Some b"
  shows "bank_in (ucast m) c = (case b of
      Busr \<Rightarrow> c\<lparr>R := (R c)(13 := R13_usr c, 14 := R14_usr c)\<rparr>
    | Bfiq \<Rightarrow> (let c = swap_fiq c in
         c\<lparr>R := (R c)(13 := R13_fiq c, 14 := R14_fiq c), SPSR := SPSR_fiq c\<rparr>)
    | Birq \<Rightarrow> c\<lparr>R := (R c)(13 := R13_irq c, 14 := R14_irq c), SPSR := SPSR_irq c\<rparr>
    | Bsvc \<Rightarrow> c\<lparr>R := (R c)(13 := R13_svc c, 14 := R14_svc c), SPSR := SPSR_svc c\<rparr>
    | Babt \<Rightarrow> c\<lparr>R := (R c)(13 := R13_abt c, 14 := R14_abt c), SPSR := SPSR_abt c\<rparr>
    | Bund \<Rightarrow> c\<lparr>R := (R c)(13 := R13_und c, 14 := R14_und c), SPSR := SPSR_und c\<rparr>)"
  using mode_bank_cases [OF assms]
  by (elim disjE conjE) (simp_all add: bank_in_def ucast_mode_eq mode_neq)

lemma ucast_mode_and: "ucast ((ucast m :: u8) AND 0x1F) = m" for m :: "5 word"
proof (rule bit_word_eqI)
  fix n assume n: "n < LENGTH(5)"
  have "(0x1F :: u8) = mask 5" by (simp add: mask_eq_exp_minus_1)
  then show "bit (ucast ((ucast m :: u8) AND 0x1F) :: 5 word) n = bit m n"
    using n by (simp only: bit_ucast_iff bit_and_iff bit_mask_iff) auto
qed

lemma switch_banks_CPSR:
  "CPSR (switch_banks (ucast m) c) = (CPSR c)\<lparr>psr_mode := m\<rparr>"
proof -
  have "CPSR (bank_out k c) = CPSR c" for k
    by (simp add: bank_out_def swap_fiq_def Let_def)
  moreover have "CPSR (bank_in k d) = CPSR d" for k d
    by (simp add: bank_in_def swap_fiq_def Let_def)
  ultimately show ?thesis by (simp add: switch_banks_def Let_def ucast_mode_and)
qed

lemma cur_bank_switch [simp]:
  "bank_of m = Some b \<Longrightarrow> cur_bank (switch_banks (ucast m) c) = b"
  by (simp add: cur_bank_def switch_banks_CPSR)

lemma reg8_12: "8 \<le> r \<and> r \<le> 12 \<longleftrightarrow> r = 8 \<or> r = 9 \<or> r = 10 \<or> r = 11 \<or> r = 12" for r :: u32
  by (simp add: word_le_nat_alt word_unat_eq_iff) presburger

text \<open>Between the two halves of a switch every banked register is in its stored copy.\<close>

definition store_reg :: "armcpu \<Rightarrow> bank \<Rightarrow> u32 \<Rightarrow> u32" where
  "store_reg c b r =
     (if 8 \<le> r \<and> r \<le> 12 then (if b = Bfiq then stored_fiq c r else R c r)
      else if r = 13 then stored13 c b
      else if r = 14 then stored14 c b
      else R c r)"

lemma bank_out_store:
  assumes "bank_of m = Some (cur_bank c)"
  shows "store_reg (bank_out m c) b r = arch_reg c b r"
  unfolding store_reg_def arch_reg_def bank_out_of [OF assms] reg8_12
  by (cases "cur_bank c"; cases b) (simp_all add: swap_fiq_def stored_fiq_def Let_def)

lemma bank_in_store:
  assumes "bank_of m = Some (cur_bank (d\<lparr>CPSR := p\<rparr>))"
  shows "arch_reg ((bank_in (ucast m) d)\<lparr>CPSR := p\<rparr>) b r = store_reg d b r"
proof -
  have "cur_bank ((bank_in (ucast m) d)\<lparr>CPSR := p\<rparr>) = cur_bank (d\<lparr>CPSR := p\<rparr>)"
    by (simp add: cur_bank_def)
  then show ?thesis
    unfolding store_reg_def arch_reg_def bank_in_of [OF assms] reg8_12
    by (cases "cur_bank (d\<lparr>CPSR := p\<rparr>)"; cases b)
      (simp_all add: swap_fiq_def stored_fiq_def Let_def)
qed

lemma bank_out_spsr:
  assumes "bank_of m = Some (cur_bank c)" "b \<noteq> Busr"
  shows "stored_spsr (bank_out m c) b = arch_spsr c b"
  unfolding arch_spsr_def bank_out_of [OF assms(1)]
  using assms(2) by (cases "cur_bank c"; cases b) (simp_all add: swap_fiq_def Let_def)

lemma bank_in_spsr:
  assumes "bank_of m = Some (cur_bank (d\<lparr>CPSR := p\<rparr>))" "b \<noteq> Busr"
  shows "arch_spsr ((bank_in (ucast m) d)\<lparr>CPSR := p\<rparr>) b = stored_spsr d b"
proof -
  have "cur_bank ((bank_in (ucast m) d)\<lparr>CPSR := p\<rparr>) = cur_bank (d\<lparr>CPSR := p\<rparr>)"
    by (simp add: cur_bank_def)
  then show ?thesis
    unfolding arch_spsr_def bank_in_of [OF assms(1)]
    using assms(2) by (cases "cur_bank (d\<lparr>CPSR := p\<rparr>)"; cases b)
      (simp_all add: swap_fiq_def Let_def)
qed

lemma switch_banks_halves:
  assumes "valid_mode (psr_mode (CPSR c))" "valid_mode m"
  defines "d \<equiv> bank_out (psr_mode (CPSR c)) c"
  defines "p \<equiv> (CPSR c)\<lparr>psr_mode := m\<rparr>"
  shows "bank_of (psr_mode (CPSR c)) = Some (cur_bank c)"
    and "bank_of m = Some (cur_bank (d\<lparr>CPSR := p\<rparr>))"
    and "switch_banks (ucast m) c = (bank_in (ucast m) d)\<lparr>CPSR := p\<rparr>"
proof -
  show "bank_of (psr_mode (CPSR c)) = Some (cur_bank c)"
    using assms(1) by (auto simp add: valid_mode_def cur_bank_def)
  show "bank_of m = Some (cur_bank (d\<lparr>CPSR := p\<rparr>))"
    using assms(2) by (auto simp add: valid_mode_def cur_bank_def p_def)
  show "switch_banks (ucast m) c = (bank_in (ucast m) d)\<lparr>CPSR := p\<rparr>"
    using switch_banks_CPSR [of m c]
    by (simp add: switch_banks_def Let_def d_def p_def)
qed

lemma arch_reg_switch:
  assumes "valid_mode (psr_mode (CPSR c))" "valid_mode m"
  shows "arch_reg (switch_banks (ucast m) c) b r = arch_reg c b r"
  using switch_banks_halves [OF assms] by (simp add: bank_in_store bank_out_store)

lemma arch_spsr_switch:
  assumes "valid_mode (psr_mode (CPSR c))" "valid_mode m" "b \<noteq> Busr"
  shows "arch_spsr (switch_banks (ucast m) c) b = arch_spsr c b"
  using switch_banks_halves [OF assms(1,2)] assms(3)
  by (simp add: bank_in_spsr bank_out_spsr)

lemma R_arch: "R c r = arch_reg c (cur_bank c) r"
  by (simp add: arch_reg_def)

lemma SPSR_arch: "SPSR c = arch_spsr c (cur_bank c)"
  by (simp add: arch_spsr_def)

lemma switch_back_R:
  assumes "valid_mode (psr_mode (CPSR c))" "valid_mode m"
  shows "R (switch_banks (ucast (psr_mode (CPSR c))) (switch_banks (ucast m) c)) = R c"
proof
  fix r
  let ?c1 = "switch_banks (ucast m) c" and ?m0 = "psr_mode (CPSR c)"
  have v1: "valid_mode (psr_mode (CPSR ?c1))" using assms by (simp add: switch_banks_CPSR)
  obtain b0 where b0: "bank_of ?m0 = Some b0" using assms(1) by (auto simp add: valid_mode_def)
  have "R (switch_banks (ucast ?m0) ?c1) r = arch_reg (switch_banks (ucast ?m0) ?c1) b0 r"
    using R_arch cur_bank_switch [OF b0] by metis
  also have "\<dots> = arch_reg c b0 r"
    using arch_reg_switch [OF v1 assms(1)] arch_reg_switch [OF assms] by simp
  also have "\<dots> = R c r" using b0 by (simp add: R_arch [of c] cur_bank_def)
  finally show "R (switch_banks (ucast ?m0) ?c1) r = R c r" .
qed

lemma cpu_of_switch:
  "ARMPROC p (snd (armcpu_switchMode p mode s)) = switch_banks mode (ARMPROC p s)"
  by (simp add: armcpu_switchMode_def Let_def)

lemmas if_frame = if_distrib [of instruct_adr] if_distrib [of next_instruction] if_distrib [of intVector]

lemma bank_out_frame:
  "instruct_adr (bank_out m c) = instruct_adr c"
  "next_instruction (bank_out m c) = next_instruction c"
  "intVector (bank_out m c) = intVector c"
  unfolding bank_out_def Let_def by (simp_all add: if_frame swap_fiq_def cong: if_weak_cong)

lemma bank_in_frame:
  "instruct_adr (bank_in k c) = instruct_adr c"
  "next_instruction (bank_in k c) = next_instruction c"
  "intVector (bank_in k c) = intVector c"
  unfolding bank_in_def Let_def by (simp_all add: if_frame swap_fiq_def cong: if_weak_cong)

lemma switch_banks_frame [simp]:
  "instruct_adr (switch_banks k c) = instruct_adr c"
  "next_instruction (switch_banks k c) = next_instruction c"
  "intVector (switch_banks k c) = intVector c"
  by (simp_all add: switch_banks_def Let_def bank_out_frame bank_in_frame)

lemma valid_modes [simp]:
  "valid_mode USR" "valid_mode SYS" "valid_mode FIQ" "valid_mode IRQ" "valid_mode SVC"
  "valid_mode ABT" "valid_mode UND"
  by (simp_all add: valid_mode_def)

text \<open>C1: Between any two of the seven processor modes, armcpu_switchMode returns the old mode,
  sets only the mode field of CPSR, and loses nothing: every register of every bank (user,
  FIQ, IRQ, supervisor, abort, undefined) and every saved program status register has the
  value it had, the visible registers are those of the new mode's bank, and a reschedule is
  requested.\<close>

theorem switchMode_preserves_registers:
  fixes s :: "'io nds"
  assumes "valid_mode (psr_mode (CPSR (ARMPROC p s)))" "valid_mode m"
  shows "let c = ARMPROC p s; r = armcpu_switchMode p (ucast m) s; c' = ARMPROC p (snd r) in
     fst r = ucast (psr_mode (CPSR c)) \<and> CPSR c' = (CPSR c)\<lparr>psr_mode := m\<rparr> \<and>
     (\<forall>b n. arch_reg c' b n = arch_reg c b n) \<and>
     arch_spsr c' Bfiq = arch_spsr c Bfiq \<and> arch_spsr c' Birq = arch_spsr c Birq \<and>
     arch_spsr c' Bsvc = arch_spsr c Bsvc \<and> arch_spsr c' Babt = arch_spsr c Babt \<and>
     arch_spsr c' Bund = arch_spsr c Bund \<and>
     (\<forall>n. R c' n = arch_reg c (the (bank_of m)) n) \<and> reschedule (snd r)"
proof -
  have "cur_bank (switch_banks (ucast m) (ARMPROC p s)) = the (bank_of m)"
    using assms(2) by (auto simp add: valid_mode_def)
  then show ?thesis
    using assms
    by (simp add: Let_def cpu_of_switch switch_banks_CPSR arch_reg_switch arch_spsr_switch
        R_arch [of "switch_banks (ucast m) (ARMPROC p s)"])
      (simp add: armcpu_switchMode_def changeCPSR_def NDS_Reschedule_def)
qed

theorem switchMode_preserves_registers_witness:
  "valid_mode (psr_mode (CPSR (ARMPROC 0 sample_nds))) \<and> valid_mode IRQ \<and>
   R (ARMPROC 0 (snd (armcpu_switchMode 0 (ucast IRQ) sample_nds))) 13 = 0x03007F00 \<and>
   R (ARMPROC 0 (snd (armcpu_switchMode 0 (ucast IRQ) sample_nds))) 5 = 0x02001500"
proof -
  have "valid_mode (psr_mode (CPSR (ARMPROC 0 sample_nds)))" by simp
  from switchMode_preserves_registers [OF this, of IRQ] show ?thesis
    by (simp add: Let_def arch_reg_def cur_bank_def)
qed

section \<open>Interrupt and exception entry\<close>

lemma arch_reg_setR14:
  "arch_reg (setR 14 v c) b r =
     (if r = 14 \<and> b = cur_bank c then v else arch_reg c b r)"
proof -
  have "stored13 (c\<lparr>R := f\<rparr>) b = stored13 c b" "stored14 (c\<lparr>R := f\<rparr>) b = stored14 c b" for f
    by (cases b; simp)+
  then show ?thesis
    by (auto simp add: arch_reg_def setR_def cur_bank_def stored_fiq_def)
qed

lemma setR_simps [simp]:
  "R (setR r v c) = (R c)(r := v)" "CPSR (setR r v c) = CPSR c" "SPSR (setR r v c) = SPSR c"
  "next_instruction (setR r v c) = next_instruction c" "intVector (setR r v c) = intVector c"
  "instruct_adr (setR r v c) = instruct_adr c" "cur_bank (setR r v c) = cur_bank c"
  by (simp_all add: setR_def cur_bank_def)

lemma stored_congs:
  "stored13 (c\<lparr>SPSR := p\<rparr>) b = stored13 c b" "stored14 (c\<lparr>SPSR := p\<rparr>) b = stored14 c b"
  "stored13 (c\<lparr>next_instruction := a\<rparr>) b = stored13 c b" "stored14 (c\<lparr>next_instruction := a\<rparr>) b = stored14 c b"
  "stored13 (c\<lparr>waitIRQ := w\<rparr>) b = stored13 c b" "stored14 (c\<lparr>waitIRQ := w\<rparr>) b = stored14 c b"
  "stored13 (c\<lparr>CPSR := p\<rparr>) b = stored13 c b" "stored14 (c\<lparr>CPSR := p\<rparr>) b = stored14 c b"
  "stored13 (c\<lparr>R := f\<rparr>) b = stored13 c b" "stored14 (c\<lparr>R := f\<rparr>) b = stored14 c b"
  by (cases b; simp)+

lemma arch_reg_congs [simp]:
  "arch_reg (c\<lparr>SPSR := p\<rparr>) b r = arch_reg c b r"
  "arch_reg (c\<lparr>next_instruction := a\<rparr>) b r = arch_reg c b r"
  "arch_reg (c\<lparr>waitIRQ := w\<rparr>) b r = arch_reg c b r"
  unfolding arch_reg_def cur_bank_def stored_fiq_def stored_congs by simp_all

lemma arch_reg_CPSR [simp]:
  "psr_mode p = psr_mode (CPSR c) \<Longrightarrow> arch_reg (c\<lparr>CPSR := p\<rparr>) b r = arch_reg c b r"
  unfolding arch_reg_def cur_bank_def stored_fiq_def stored_congs by simp

lemma irq_entry_cpu:
  fixes s :: "'io nds"
  assumes "valid_mode (psr_mode (CPSR (ARMPROC p s)))"
  shows "let c = ARMPROC p s; c' = ARMPROC p (irq_entry p s) in
     CPSR c' = (CPSR c)\<lparr>psr_mode := IRQ, psr_T := False, psr_I := True\<rparr> \<and>
     SPSR c' = CPSR c \<and> R c' 14 = instruct_adr c + 4 \<and>
     next_instruction c' = intVector c + 0x18 \<and> \<not> waitIRQ c' \<and>
     (\<forall>b n. arch_reg c' b n =
        (if b = Birq \<and> n = 14 then instruct_adr c + 4 else arch_reg c b n))"
proof -
  let ?c = "ARMPROC p s"
  have b: "cur_bank (switch_banks (ucast IRQ) ?c) = Birq"
    by simp
  show ?thesis
    using arch_reg_switch [OF assms, of IRQ] b
    by (simp add: irq_entry_def Let_def cpu_of_switch switch_banks_CPSR arch_reg_setR14)
qed

text \<open>C8: Interrupt entry, from any valid mode: CPSR becomes IRQ mode with T clear and I set, SPSR
  holds the old CPSR, R14 the address of the current instruction plus 4, the next instruction
  is the vector base plus 0x18, the processor is no longer waiting for an interrupt, and R14
  of the IRQ bank is the only register of any bank that changed.\<close>

theorem irq_entry_state:
  fixes s :: "'io nds"
  assumes "valid_mode (psr_mode (CPSR (ARMPROC p s)))"
  shows "let c = ARMPROC p s; c' = ARMPROC p (irq_entry p s) in
     CPSR c' = (CPSR c)\<lparr>psr_mode := IRQ, psr_T := False, psr_I := True\<rparr> \<and>
     SPSR c' = CPSR c \<and> R c' 14 = instruct_adr c + 4 \<and>
     next_instruction c' = intVector c + 0x18 \<and> \<not> waitIRQ c' \<and>
     (\<forall>b n. arch_reg c' b n =
        (if b = Birq \<and> n = 14 then instruct_adr c + 4 else arch_reg c b n))"
using assms by (rule irq_entry_cpu)

theorem irq_entry_state_witness:
  "valid_mode (psr_mode (CPSR (ARMPROC 0 sample_nds))) \<and>
   R (ARMPROC 0 (irq_entry 0 sample_nds)) 14 = 0x02000104 \<and>
   next_instruction (ARMPROC 0 (irq_entry 0 sample_nds)) = 0xFFFF0018"
proof -
  have "valid_mode (psr_mode (CPSR (ARMPROC 0 sample_nds)))" by simp
  from irq_entry_state [OF this] show ?thesis
    by (simp add: Let_def)
qed

text \<open>The exception vectors of the architecture and the mode each is taken in.\<close>

definition vector_mode :: "u32 \<Rightarrow> 5 word option" where
  "vector_mode number = map_of [(0x00, SVC), (0x04, UND), (0x08, SVC), (0x0C, ABT), (0x10, ABT),
     (0x18, IRQ), (0x1C, FIQ)] number"

lemma vector_mode_cases:
  assumes "vector_mode number = Some m"
  obtains "number = 0x00" "m = SVC" | "number = 0x04" "m = UND" | "number = 0x08" "m = SVC"
    | "number = 0x0C" "m = ABT" | "number = 0x10" "m = ABT" | "number = 0x18" "m = IRQ"
    | "number = 0x1C" "m = FIQ"
  using assms by (auto simp add: vector_mode_def split: if_splits)

lemma arch_reg_setR15 [simp]:
  "n \<noteq> 15 \<Longrightarrow> arch_reg (setR 15 v c) b n = arch_reg c b n"
  unfolding arch_reg_def cur_bank_def stored_fiq_def setR_def stored_congs by simp

lemma exception_cpu:
  assumes "vector_mode number = Some m"
  shows "ARMPROC p (armcpu_exception p number s) =
    (let c = ARMPROC p s;
         c1 = switch_banks (ucast m) c;
         c2 = setR 14 (next_instruction c) c1;
         c3 = c2\<lparr>SPSR := CPSR c, CPSR := (CPSR c2)\<lparr>psr_T := False, psr_I := True\<rparr>\<rparr>;
         c4 = setR 15 (intVector c + number) c3
     in c4\<lparr>next_instruction := intVector c + number\<rparr>)"
  using assms
  by (rule vector_mode_cases)
    (simp_all add: armcpu_exception_def Let_def cpu_of_switch setR_def)

text \<open>C9: Exception entry through vector number n: the mode is the vector's, T is clear and I set,
  SPSR holds the old CPSR, R14 of the new bank the return address, the next instruction is the
  vector base plus n, and no other register of any bank changed.\<close>

theorem exception_entry_state:
  fixes s :: "'io nds"
  assumes "valid_mode (psr_mode (CPSR (ARMPROC p s)))" "vector_mode number = Some m"
  shows "let c = ARMPROC p s; c' = ARMPROC p (armcpu_exception p number s) in
     CPSR c' = (CPSR c)\<lparr>psr_mode := m, psr_T := False, psr_I := True\<rparr> \<and>
     SPSR c' = CPSR c \<and> R c' 14 = next_instruction c \<and>
     next_instruction c' = intVector c + number \<and>
     (\<forall>b n. n \<noteq> 15 \<longrightarrow> arch_reg c' b n =
        (if Some b = bank_of m \<and> n = 14 then next_instruction c else arch_reg c b n))"
proof -
  have v: "valid_mode m"
    using assms(2) by (rule vector_mode_cases) simp_all
  then obtain k where k: "bank_of m = Some k"
    by (auto simp add: valid_mode_def)
  show ?thesis
    unfolding exception_cpu [OF assms(2)]
    using arch_reg_switch [OF assms(1) v] k
    by (simp add: Let_def switch_banks_CPSR arch_reg_setR14)
qed
theorem exception_entry_state_witness:
  "valid_mode (psr_mode (CPSR (ARMPROC 0 sample_nds))) \<and> vector_mode 0x08 = Some SVC \<and>
   R (ARMPROC 0 (armcpu_exception 0 0x08 sample_nds)) 14 = 0x02000104 \<and>
   next_instruction (ARMPROC 0 (armcpu_exception 0 0x08 sample_nds)) = 0xFFFF0008"
proof -
  have v: "valid_mode (psr_mode (CPSR (ARMPROC 0 sample_nds)))" by simp
  have m: "vector_mode 0x08 = Some SVC" by (simp add: vector_mode_def)
  from exception_entry_state [OF v m] m show ?thesis
    by (simp add: Let_def)
qed

end
