(* ===== verification/Mem_Laws.thy ===== *)
theory Mem_Laws
  imports Arm_Cpu
begin

text \<open>
  The contract of the word accesses and its proof for the code's model.  The locale
  \<open>word_store\<close> says what a client of \<open>READ32\<close> and \<open>WRITE32\<close> relies on
  (a read returns the last value written to the same cell) and proves what follows for a
  sequence of stores; \<open>ram\<close> interprets it on the functions of src/source/MMU.h for
  the addresses they serve themselves, main memory with its mirrors and the ARM9's data TCM.
  The last section bounds the cells of the main-memory array that the six inline accessors
  can read and write.
\<close>

section \<open>The store contract\<close>

locale word_store =
  fixes ok :: "'a \<Rightarrow> 's \<Rightarrow> bool"
    and cell :: "'a \<Rightarrow> 's \<Rightarrow> 'c"
    and rd :: "'a \<Rightarrow> 's \<Rightarrow> 'v"
    and wr :: "'a \<Rightarrow> 'v \<Rightarrow> 's \<Rightarrow> 's"
  assumes rd_same: "ok a s \<Longrightarrow> ok b s \<Longrightarrow> cell b s = cell a s \<Longrightarrow> rd b (wr a v s) = v"
    and rd_other: "ok a s \<Longrightarrow> ok b s \<Longrightarrow> cell b s \<noteq> cell a s \<Longrightarrow> rd b (wr a v s) = rd b s"
    and ok_wr: "ok a s \<Longrightarrow> ok b (wr a v s) = ok b s"
    and cell_wr: "ok a s \<Longrightarrow> cell b (wr a v s) = cell b s"
begin

fun wr_all :: "'a list \<Rightarrow> 'v list \<Rightarrow> 's \<Rightarrow> 's" where
  "wr_all (a # as) (v # vs) s = wr_all as vs (wr a v s)"
| "wr_all _ _ s = s"

definition oks :: "'a list \<Rightarrow> 's \<Rightarrow> bool" where
  "oks as s \<longleftrightarrow> (\<forall>a\<in>set as. ok a s)"

definition cells :: "'a list \<Rightarrow> 's \<Rightarrow> 'c list" where
  "cells as s = map (\<lambda>a. cell a s) as"

lemma rd_wr:
  "ok a s \<Longrightarrow> ok b s \<Longrightarrow> rd b (wr a v s) = (if cell b s = cell a s then v else rd b s)"
  by (simp add: rd_same rd_other)

lemma oks_Cons [simp]: "oks (a # as) s \<longleftrightarrow> ok a s \<and> oks as s"
  by (simp add: oks_def)

lemma oks_wr [simp]: "ok a s \<Longrightarrow> oks as (wr a v s) = oks as s"
  by (simp add: oks_def ok_wr)

lemma cells_wr [simp]: "ok a s \<Longrightarrow> cells as (wr a v s) = cells as s"
  by (simp add: cells_def cell_wr)

lemma wr_all_frame:
  "oks as s \<Longrightarrow> ok b (wr_all as vs s) = ok b s \<and> cell b (wr_all as vs s) = cell b s"
  by (induction as vs s rule: wr_all.induct) (simp_all add: ok_wr cell_wr)

lemma rd_wr_all_other:
  "oks as s \<Longrightarrow> ok b s \<Longrightarrow> cell b s \<notin> set (cells as s) \<Longrightarrow> rd b (wr_all as vs s) = rd b s"
proof (induction as vs s rule: wr_all.induct)
  case (1 a as v vs s)
  then show ?case by (simp add: cells_def ok_wr cell_wr rd_other)
qed simp_all

lemma rd_wr_all:
  assumes "oks as s" "distinct (cells as s)" "length vs = length as" "i < length as"
  shows "rd (as ! i) (wr_all as vs s) = vs ! i"
  using assms
proof (induction as vs s arbitrary: i rule: wr_all.induct)
  case (1 a as v vs s)
  show ?case
  proof (cases i)
    case 0
    from 1(2-) have "cell a s \<notin> set (cells as (wr a v s))" by (simp add: cells_def cell_wr)
    with 1(2-) 0 show ?thesis
      using rd_wr_all_other [of as "wr a v s" a vs] by (simp add: ok_wr cell_wr rd_same)
  next
    case (Suc j)
    with 1 show ?thesis by (simp add: cells_def cell_wr)
  qed
qed simp_all

end

section \<open>Disjoint words of a byte array\<close>

lemma bit_low2:
  "bit (2 :: u32) n \<longleftrightarrow> n = 1" "bit (3 :: u32) n \<longleftrightarrow> n = 0 \<or> n = 1"
proof -
  have "bit (2 ^ 1 :: u32) n \<longleftrightarrow> n = 1" by (simp only: bit_exp_iff) auto
  then show "bit (2 :: u32) n \<longleftrightarrow> n = 1" by simp
  have "(3 :: u32) = mask 2" by (simp add: mask_eq_exp_minus_1)
  then show "bit (3 :: u32) n \<longleftrightarrow> n = 0 \<or> n = 1" by (simp only: bit_mask_iff) auto
qed

lemma bit_not3: "bit (- 4 :: u32) n \<longleftrightarrow> n < 32 \<and> n \<noteq> 0 \<and> n \<noteq> 1"
proof -
  have e: "(- 4 :: u32) = NOT 3" by simp
  show ?thesis unfolding e bit_not_iff by (simp only: bit_low2) auto
qed

lemma bit_below4: "i < 4 \<Longrightarrow> bit i n \<Longrightarrow> n = 0 \<or> n = 1" for i :: u32
proof -
  assume "i < 4" "bit i n"
  moreover from this have "i = 0 \<or> i = 1 \<or> i = 2 \<or> i = 3"
    by (simp add: word_less_nat_alt word_unat_eq_iff) presburger
  ultimately show ?thesis by (auto simp only: bit_low2 bit_1_iff bit_0_eq bot_apply bot_bool_def)
qed

lemma add_below4:
  assumes "x AND 3 = 0" "i < 4"
  shows "x + i = (x :: u32) OR i" and "(x + i) AND NOT 3 = x"
proof -
  have b: "\<not> bit x 0" "\<not> bit x 1" using assms(1) by (simp_all add: and_3_eq_0)
  have "x AND i = 0"
    by (rule bit_word_eqI) (use b bit_below4 [OF assms(2)] in \<open>auto simp add: bit_and_iff\<close>)
  then show e: "x + i = x OR i" by (simp add: disjunctive_add_eq_or)
  show "(x + i) AND NOT 3 = x"
  proof (rule bit_word_eqI)
    fix n assume "n < LENGTH(32)"
    then show "bit ((x + i) AND NOT 3) n = bit x n"
      using b bit_below4 [OF assms(2), of n]
      unfolding e bit_and_iff bit_or_iff bit_not_iff bit_low2
      by (cases "n = 0"; cases "n = 1") auto
  qed
qed

lemma word_bytes_disjoint:
  assumes "x AND 3 = 0" "y AND 3 = 0" "i < 4" "j < 4" "x \<noteq> y"
  shows "x + i \<noteq> y + (j :: u32)"
  using add_below4(2) [OF assms(1,3)] add_below4(2) [OF assms(2,4)] assms(5) by auto

lemma T1ReadLong_WriteLong_other [mem_simps]:
  assumes "x AND 3 = 0" "y AND 3 = 0" "x \<noteq> y"
  shows "T1ReadLong_guaranteedAligned (T1WriteLong m y v) x = T1ReadLong_guaranteedAligned m x"
proof -
  have d: "x + i \<noteq> y + j" if "i < 4" "j < 4" for i j
    using word_bytes_disjoint [OF assms(1,2) that assms(3)] .
  have "x \<noteq> y" "x \<noteq> y + 1" "x \<noteq> y + 2" "x \<noteq> y + 3" "x + 1 \<noteq> y" "x + 2 \<noteq> y" "x + 3 \<noteq> y"
    "x + 1 \<noteq> y + 2" "x + 1 \<noteq> y + 3" "x + 2 \<noteq> y + 1" "x + 2 \<noteq> y + 3" "x + 3 \<noteq> y + 1"
    "x + 3 \<noteq> y + 2"
    using assms(3) d [of 0 1] d [of 0 2] d [of 0 3] d [of 1 0] d [of 2 0] d [of 3 0] d [of 1 2] d [of 1 3]
      d [of 2 1] d [of 2 3] d [of 3 1] d [of 3 2] by simp_all
  then show ?thesis
    by (simp add: T1ReadLong_guaranteedAligned_def T1WriteLong_def)
qed

section \<open>RAM seen by a processor\<close>

text \<open>
  The masks \<open>SetupMMU\<close> can leave, and the addresses whose words the inline functions
  serve themselves: the ARM9's data TCM, which wins, and main memory.
\<close>

definition masks_ok :: "mmu_struct \<Rightarrow> bool" where
  "masks_ok m \<longleftrightarrow> (\<exists>debugConsole dsi. SetupMMU debugConsole dsi m = m)"

definition ram_addr :: "nat \<Rightarrow> u32 \<Rightarrow> 'io nds \<Rightarrow> bool" where
  "ram_addr p a s \<longleftrightarrow> (p = ARMCPU_ARM9 \<and> in_dtcm a s \<or> in_main a) \<and> p < 2 \<and> masks_ok (mmu s)"

datatype ram_cell = Dtcm u32 | Main u32

definition ram_cell :: "nat \<Rightarrow> u32 \<Rightarrow> 'io nds \<Rightarrow> ram_cell" where
  "ram_cell p a s =
     (if p = ARMCPU_ARM9 \<and> in_dtcm a s then Dtcm (a AND 0x3FFC)
      else Main (a AND MAIN_MEM_MASK32 (mmu s)))"

definition load32 :: "'io bus \<Rightarrow> nat \<Rightarrow> u32 \<Rightarrow> 'io nds \<Rightarrow> u32" where
  "load32 B p a s = fst (READ32 B p a s)"

lemma masks_ok_cases:
  assumes "masks_ok m"
  obtains "MAIN_MEM_MASK m = 0x3FFFFF" "MAIN_MEM_MASK16 m = 0x3FFFFE" "MAIN_MEM_MASK32 m = 0x3FFFFC"
    | "MAIN_MEM_MASK m = 0x7FFFFF" "MAIN_MEM_MASK16 m = 0x7FFFFE" "MAIN_MEM_MASK32 m = 0x7FFFFC"
    | "MAIN_MEM_MASK m = 0xFFFFFF" "MAIN_MEM_MASK16 m = 0xFFFFFE" "MAIN_MEM_MASK32 m = 0xFFFFFC"
proof -
  obtain d e where eq: "SetupMMU d e m = m"
    using assms by (auto simp add: masks_ok_def)
  have "MAIN_MEM_MASK m = MAIN_MEM_MASK (SetupMMU d e m)"
    "MAIN_MEM_MASK16 m = MAIN_MEM_MASK16 (SetupMMU d e m)"
    "MAIN_MEM_MASK32 m = MAIN_MEM_MASK32 (SetupMMU d e m)"
    by (simp_all add: eq)
  then show thesis
    using that by (cases d; cases e) (simp_all add: SetupMMU_def Let_def)
qed

lemma masks_ok_iff:
  "masks_ok m \<longleftrightarrow>
     (MAIN_MEM_MASK m, MAIN_MEM_MASK16 m, MAIN_MEM_MASK32 m) \<in>
     {(0x3FFFFF, 0x3FFFFE, 0x3FFFFC), (0x7FFFFF, 0x7FFFFE, 0x7FFFFC), (0xFFFFFF, 0xFFFFFE, 0xFFFFFC)}"
    (is "_ \<longleftrightarrow> ?R")
proof
  assume "masks_ok m" then show ?R by (rule masks_ok_cases) simp_all
next
  assume ?R
  then have "SetupMMU False False m = m \<or> SetupMMU True False m = m \<or> SetupMMU False True m = m"
    by (cases m) (auto simp add: SetupMMU_def Let_def)
  then show "masks_ok m" unfolding masks_ok_def by blast
qed

lemma word_align_mask [simp]:
  "in_dtcm (a AND 0xFFFFFFFC) s = in_dtcm a s"
  "in_main (a AND 0xFFFFFFFC) = in_main a"
  "(a AND 0xFFFFFFFC) AND 0x3FFC = a AND 0x3FFC"
proof -
  have m: "(- 16384 :: u32) = 0xFFFFC000" by (rule word_uint_eqI) simp
  show "in_dtcm (a AND 0xFFFFFFFC) s = in_dtcm a s" by (simp add: in_dtcm_def m and.assoc)
qed (simp_all add: in_main_def and.assoc)

lemma mask32_align [simp]:
  assumes "masks_ok m"
  shows "(a AND 0xFFFFFFFC) AND MAIN_MEM_MASK32 m = a AND MAIN_MEM_MASK32 m"
    and "(a AND MAIN_MEM_MASK32 m) AND 3 = 0"
  by (rule masks_ok_cases [OF assms]; simp add: and.assoc)+

lemma READ32_ram:
  assumes "ram_addr p a s"
  shows "READ32 B p a s = ((case ram_cell p a s of
      Dtcm x \<Rightarrow> T1ReadLong_guaranteedAligned (ARM9_DTCM (mmu s)) x
    | Main x \<Rightarrow> T1ReadLong_guaranteedAligned (MAIN_MEM (mmu s)) x), s)"
  using assms
  by (auto simp add: READ32_def mmu_read32_def ram_addr_def ram_cell_def ARMCPU_ARM9_def
      ARMCPU_ARM7_def Let_def)

lemma WRITE32_ram:
  assumes "ram_addr p a s"
  shows "WRITE32 B p a v s = (case ram_cell p a s of
      Dtcm x \<Rightarrow> set_DTCM (T1WriteLong (ARM9_DTCM (mmu s)) x v) s
    | Main x \<Rightarrow> set_MAIN_MEM (T1WriteLong (MAIN_MEM (mmu s)) x v) s)"
  using assms
  by (auto simp add: WRITE32_def mmu_write32_def ram_addr_def ram_cell_def ARMCPU_ARM9_def
      ARMCPU_ARM7_def Let_def)

lemma set_mem_frame [simp]:
  "masks_ok (mmu (set_DTCM m s)) = masks_ok (mmu s)" "masks_ok (mmu (set_MAIN_MEM m s)) = masks_ok (mmu s)"
  "ram_addr p a (set_DTCM m s) = ram_addr p a s" "ram_addr p a (set_MAIN_MEM m s) = ram_addr p a s"
  "ram_cell p a (set_DTCM m s) = ram_cell p a s" "ram_cell p a (set_MAIN_MEM m s) = ram_cell p a s"
proof -
  show "masks_ok (mmu (set_DTCM m s)) = masks_ok (mmu s)" "masks_ok (mmu (set_MAIN_MEM m s)) = masks_ok (mmu s)"
    by (simp_all add: set_DTCM_def set_MAIN_MEM_def masks_ok_iff)
  then show "ram_addr p a (set_DTCM m s) = ram_addr p a s" "ram_addr p a (set_MAIN_MEM m s) = ram_addr p a s"
    by (simp_all add: ram_addr_def in_dtcm_def) (simp_all add: set_DTCM_def set_MAIN_MEM_def)
  show "ram_cell p a (set_DTCM m s) = ram_cell p a s" "ram_cell p a (set_MAIN_MEM m s) = ram_cell p a s"
    by (simp_all add: ram_cell_def in_dtcm_def set_DTCM_def set_MAIN_MEM_def)
qed

lemma ram_cell_aligned:
  assumes "ram_addr p a s"
  shows "ram_cell p a s = Dtcm x \<Longrightarrow> x AND 3 = 0" "ram_cell p a s = Main x \<Longrightarrow> x AND 3 = 0"
proof -
  assume "ram_cell p a s = Dtcm x"
  then show "x AND 3 = 0" by (auto simp add: ram_cell_def and.assoc split: if_splits)
next
  assume "ram_cell p a s = Main x"
  then show "x AND 3 = 0"
    using assms mask32_align(2) [of "mmu s" a]
    by (auto simp add: ram_cell_def ram_addr_def split: if_splits)
qed

lemma set_mem_read [simp]:
  "ARM9_DTCM (mmu (set_DTCM m s)) = m" "MAIN_MEM (mmu (set_DTCM m s)) = MAIN_MEM (mmu s)"
  "MAIN_MEM (mmu (set_MAIN_MEM m s)) = m" "ARM9_DTCM (mmu (set_MAIN_MEM m s)) = ARM9_DTCM (mmu s)"
  by (simp_all add: set_DTCM_def set_MAIN_MEM_def)

interpretation ram: word_store "ram_addr p" "ram_cell p" "load32 B p" "WRITE32 B p"
  for B :: "'io bus" and p :: nat
proof
  fix a b :: u32 and s :: "'io nds" and v
  assume a: "ram_addr p a s"
  show fr: "ram_addr p b (WRITE32 B p a v s) = ram_addr p b s"
    "ram_cell p b (WRITE32 B p a v s) = ram_cell p b s"
    by (simp_all add: WRITE32_ram [OF a] split: ram_cell.split)
  assume b: "ram_addr p b s"
  then have b': "ram_addr p b (WRITE32 B p a v s)" by (simp add: fr)
  show "load32 B p b (WRITE32 B p a v s) = v" if "ram_cell p b s = ram_cell p a s"
    unfolding load32_def READ32_ram [OF b'] fr that
    by (cases "ram_cell p a s") (simp_all add: WRITE32_ram [OF a] mem_simps)
  show "load32 B p b (WRITE32 B p a v s) = load32 B p b s" if "ram_cell p b s \<noteq> ram_cell p a s"
    unfolding load32_def READ32_ram [OF b'] READ32_ram [OF b] fr
    using that ram_cell_aligned [OF a] ram_cell_aligned [OF b]
    by (cases "ram_cell p a s"; cases "ram_cell p b s")
      (simp_all add: WRITE32_ram [OF a] mem_simps)
qed

lemma READ32_load32: "ram_addr p a s \<Longrightarrow> READ32 B p a s = (load32 B p a s, s)"
  by (simp add: load32_def READ32_ram)

lemma ram_addr_upd_cpu [simp]: "ram_addr p a (upd_cpu q f s) = ram_addr p a s"
  by (simp add: ram_addr_def in_dtcm_def)

lemma ram_cell_upd_cpu [simp]: "ram_cell p a (upd_cpu q f s) = ram_cell p a s"
  by (simp add: ram_cell_def in_dtcm_def)

lemma load32_upd_cpu: "ram_addr p a s \<Longrightarrow> load32 B p a (upd_cpu q f s) = load32 B p a s"
  by (simp add: load32_def READ32_ram split: ram_cell.split)

lemma ARMPROC_WRITE32_ram [simp]:
  "ram_addr p a s \<Longrightarrow> ARMPROC q (WRITE32 B p a v s) = ARMPROC q s"
  by (simp add: WRITE32_ram set_DTCM_def set_MAIN_MEM_def split: ram_cell.split)

lemma WRITE32_upd_cpu:
  "ram_addr p a s \<Longrightarrow> WRITE32 B p a v (upd_cpu q f s) = upd_cpu q f (WRITE32 B p a v s)"
  by (simp add: WRITE32_ram set_DTCM_def set_MAIN_MEM_def split: ram_cell.split)

text \<open>C31: Aligned word accesses of either processor to main memory and the data TCM behave as a
  store of cells: after WRITE32 at one RAM address a READ32 of another returns the written
  word when the two addresses denote the same cell (mirrors included) and the old word
  otherwise, and the read changes nothing.\<close>

theorem ram_read_after_write:
  fixes s :: "'io nds"
  assumes "ram_addr p a s" "ram_addr p b s"
  shows "READ32 B p b (WRITE32 B p a v s) =
    (if ram_cell p b s = ram_cell p a s then v else fst (READ32 B p b s), WRITE32 B p a v s)"
  using ram.rd_wr [OF assms, of B v] ram.ok_wr [OF assms(1), of b B v] assms
  by (simp add: READ32_load32)

theorem ram_read_after_write_witness:
  "ram_addr 0 0x02000010 sample_nds \<and> ram_addr 0 0x02400010 sample_nds \<and>
   fst (READ32 null_bus 0 0x02400010 (WRITE32 null_bus 0 0x02000010 0x12345678 sample_nds)) = 0x12345678"
proof -
  have m: "mmu sample_nds = zero_mmu" by (simp add: sample_nds_def zero_nds_def)
  have a: "ram_addr 0 0x02000010 sample_nds" "ram_addr 0 0x02400010 sample_nds"
    by (simp_all add: ram_addr_def m masks_ok_iff in_main_def) (simp_all add: zero_mmu_def)
  moreover have "ram_cell 0 0x02400010 sample_nds = ram_cell 0 0x02000010 sample_nds"
    by (simp add: ram_cell_def m in_dtcm_def) (simp add: zero_mmu_def)
  ultimately show ?thesis
    using ram_read_after_write [OF a, where B = null_bus and v = "0x12345678"] by simp
qed

section \<open>Accesses stay inside the array of main memory\<close>

lemma unat_offset_below:
  "unat (a :: u32) + unat k < 2 ^ 32 \<Longrightarrow> unat (a + k) = unat a + unat k"
  by (subst unat_word_ariths) simp

lemma masked_below: "unat ((a :: u32) AND k) \<le> unat k"
  using word_and_le1 [of a k] by (simp add: word_le_nat_alt)

text \<open>An accessor whose last byte lies below \<open>n\<close> sees and changes only cells below \<open>n\<close>.\<close>

definition same_below :: "nat \<Rightarrow> bytes \<Rightarrow> bytes \<Rightarrow> bool" where
  "same_below n m m' \<longleftrightarrow> (\<forall>x. unat x < n \<longrightarrow> m' x = m x)"

lemma bytes_read_below:
  assumes "same_below n m m'" "n \<le> 2 ^ 32"
  shows "unat a < n \<Longrightarrow> T1ReadByte m' a = T1ReadByte m a"
    and "unat a + 1 < n \<Longrightarrow> T1ReadWord_guaranteedAligned m' a = T1ReadWord_guaranteedAligned m a"
    and "unat a + 3 < n \<Longrightarrow> T1ReadLong_guaranteedAligned m' a = T1ReadLong_guaranteedAligned m a"
  using assms
  by (simp_all add: same_below_def T1ReadByte_def T1ReadWord_guaranteedAligned_def
      T1ReadLong_guaranteedAligned_def unat_offset_below)

lemma bytes_write_below:
  assumes "n \<le> unat x" "n \<le> 2 ^ 32"
  shows "unat a < n \<Longrightarrow> T1WriteByte m a b x = m x"
    and "unat a + 1 < n \<Longrightarrow> T1WriteWord m a h x = m x"
    and "unat a + 3 < n \<Longrightarrow> T1WriteLong m a w x = m x"
proof -
  have ne: "x \<noteq> a + k" if "unat a + unat k < n" for k
    using that assms unat_offset_below [of a k] by auto
  show "unat a < n \<Longrightarrow> T1WriteByte m a b x = m x"
    using ne [of 0] by (simp add: T1WriteByte_def)
  show "unat a + 1 < n \<Longrightarrow> T1WriteWord m a h x = m x"
    using ne [of 0] ne [of 1] by (simp add: T1WriteWord_def)
  show "unat a + 3 < n \<Longrightarrow> T1WriteLong m a w x = m x"
    using ne [of 0] ne [of 1] ne [of 2] ne [of 3] by (simp add: T1WriteLong_def)
qed

text \<open>The masks of a retail console keep an access of every width below 4 MB.\<close>

lemma retail_masks:
  assumes "mmu s = SetupMMU False False m"
  shows "unat (a AND MAIN_MEM_MASK (mmu s)) < 4 * 1024 * 1024"
    and "unat (a AND MAIN_MEM_MASK16 (mmu s)) + 1 < 4 * 1024 * 1024"
    and "unat (a AND MAIN_MEM_MASK32 (mmu s)) + 3 < 4 * 1024 * 1024"
  using masked_below [of a "0x3FFFFF"] masked_below [of a "0x3FFFFE"] masked_below [of a "0x3FFFFC"]
  by (simp_all add: assms SetupMMU_def Let_def)

lemma in_main_not_low: "in_main a \<Longrightarrow> \<not> a < 0x02000000"
proof
  assume a: "in_main a" "a < 0x02000000"
  have "a AND 0x0F000000 \<le> a" by (rule word_and_le2)
  with a show False by (simp add: in_main_def)
qed

lemma mmu_set_MAIN_MEM: "mmu (set_MAIN_MEM mem s) = (mmu s)\<lparr>MAIN_MEM := mem\<rparr>"
  by (simp add: set_MAIN_MEM_def)

lemma main_reads_below:
  assumes "mmu s = SetupMMU False False m" "in_main a" "p < 2"
    and "same_below (4 * 1024 * 1024) (MAIN_MEM (mmu s)) mem"
  shows "mmu_read08 B p AT a (set_MAIN_MEM mem s) = (fst (mmu_read08 B p AT a s), set_MAIN_MEM mem s)"
    and "mmu_read16 B p AT a (set_MAIN_MEM mem s) = (fst (mmu_read16 B p AT a s), set_MAIN_MEM mem s)"
    and "mmu_read32 B p AT a (set_MAIN_MEM mem s) = (fst (mmu_read32 B p AT a s), set_MAIN_MEM mem s)"
proof -
  note low = in_main_not_low [OF assms(2)]
  then have low': "\<not> a < 0x4000" by (simp add: word_less_nat_alt)
  note eq = bytes_read_below [OF assms(4)] retail_masks [OF assms(1), of a]
  note frame = mmu_set_MAIN_MEM in_dtcm_def assms(2) low low' Let_def
  from assms(3) have p: "p = ARMCPU_ARM9 \<or> p = ARMCPU_ARM7"
    by (auto simp add: ARMCPU_ARM9_def ARMCPU_ARM7_def)
  show "mmu_read08 B p AT a (set_MAIN_MEM mem s) = (fst (mmu_read08 B p AT a s), set_MAIN_MEM mem s)"
    using eq by (simp add: mmu_read08_def frame)
  show "mmu_read16 B p AT a (set_MAIN_MEM mem s) = (fst (mmu_read16 B p AT a s), set_MAIN_MEM mem s)"
    using eq by (simp add: mmu_read16_def frame)
  show "mmu_read32 B p AT a (set_MAIN_MEM mem s) = (fst (mmu_read32 B p AT a s), set_MAIN_MEM mem s)"
    using eq p by (auto simp add: mmu_read32_def frame)
qed

lemma main_writes_below:
  assumes "mmu s = SetupMMU False False m" "in_main a" "4 * 1024 * 1024 \<le> unat x"
  shows "MAIN_MEM (mmu (mmu_write08 B p AT a b s)) x = MAIN_MEM (mmu s) x"
    and "MAIN_MEM (mmu (mmu_write16 B p AT a h s)) x = MAIN_MEM (mmu s) x"
    and "MAIN_MEM (mmu (mmu_write32 B p AT a w s)) x = MAIN_MEM (mmu s) x"
  using bytes_write_below [OF assms(3)] retail_masks [OF assms(1), of a] in_main_not_low [OF assms(2)] assms(2)
  by (simp_all add: mmu_write08_def mmu_write16_def mmu_write32_def set_DTCM_def set_MAIN_MEM_def)

text \<open>C40: With the memory masks \<open>SetupMMU\<close> sets for a retail console, no byte, halfword or
  word access of either processor at any main-memory address (aligned or not, mirrors included,
  for every kind of access) reaches beyond the 4 MB array: the three read functions return the
  same value and change nothing when the cells from 0x400000 on are replaced by arbitrary ones,
  and the three write functions change none of those cells.\<close>

theorem main_memory_in_bounds:
  fixes s :: "'io nds"
  assumes "mmu s = SetupMMU False False m" "in_main a" "p < 2"
  shows "(\<forall>mem. (\<forall>x. unat x < 4 * 1024 * 1024 \<longrightarrow> mem x = MAIN_MEM (mmu s) x) \<longrightarrow>
      (let t = set_MAIN_MEM mem s in
        mmu_read08 B p AT a t = (fst (mmu_read08 B p AT a s), t) \<and>
        mmu_read16 B p AT a t = (fst (mmu_read16 B p AT a s), t) \<and>
        mmu_read32 B p AT a t = (fst (mmu_read32 B p AT a s), t))) \<and>
    (\<forall>x. 4 * 1024 * 1024 \<le> unat x \<longrightarrow>
      MAIN_MEM (mmu (mmu_write08 B p AT a b s)) x = MAIN_MEM (mmu s) x \<and>
      MAIN_MEM (mmu (mmu_write16 B p AT a h s)) x = MAIN_MEM (mmu s) x \<and>
      MAIN_MEM (mmu (mmu_write32 B p AT a w s)) x = MAIN_MEM (mmu s) x)"
  using main_reads_below [OF assms] main_writes_below [OF assms(1,2)]
  by (simp add: same_below_def Let_def)

theorem main_memory_in_bounds_witness:
  "let s = sample_nds\<lparr>mmu := SetupMMU False False zero_mmu\<rparr> in
   MAIN_MEM (mmu (mmu_write32 null_bus 1 MMU_AT_DATA 0x02400000 0xCAFE s)) 0x400000 = 0 \<and>
   fst (mmu_read32 null_bus 1 MMU_AT_DATA 0x02400000 (set_MAIN_MEM ((MAIN_MEM (mmu s))(0x400000 := 1)) s)) = 0"
proof -
  let ?s = "sample_nds\<lparr>mmu := SetupMMU False False zero_mmu\<rparr>"
  let ?mem = "(MAIN_MEM (mmu ?s))(0x400000 := 1)"
  have z: "MAIN_MEM (mmu ?s) = (\<lambda>_. 0)" "in_main 0x02400000"
    by (simp_all add: SetupMMU_def Let_def in_main_def zero_mmu_def)
  note th = main_memory_in_bounds [of ?s zero_mmu "0x02400000" 1 null_bus MMU_AT_DATA 0 0 "0xCAFE"]
  have r: "fst (mmu_read32 null_bus 1 MMU_AT_DATA 0x02400000 ?s) = 0"
    using z by (simp add: mmu_read32_def ARMCPU_ARM9_def ARMCPU_ARM7_def T1ReadLong_guaranteedAligned_def Let_def)
  have m: "unat x < 4 * 1024 * 1024 \<longrightarrow> ?mem x = MAIN_MEM (mmu ?s) x" for x by auto
  show ?thesis using th z r m by (auto simp add: Let_def)
qed

text \<open>The masks of a debug console let a store reach the cell after the last one of the array.\<close>

theorem main_memory_debug_console_out_of_bounds:
  "let s = sample_nds\<lparr>mmu := SetupMMU True False zero_mmu\<rparr> in
   in_main 0x02400000 \<and> MAIN_MEM (mmu s) 0x400000 = 0 \<and>
   MAIN_MEM (mmu (mmu_write32 null_bus 1 MMU_AT_DATA 0x02400000 1 s)) 0x400000 = 1"
  by (simp add: in_main_def mmu_write32_def ARMCPU_ARM9_def SetupMMU_def set_MAIN_MEM_def T1WriteLong_def Let_def zero_mmu_def)

end
