(* ===== verification/Alu_Spec.thy ===== *)
theory Alu_Spec
  imports Arm_Flags
begin

text \<open>
  The specifications the data-processing instructions of both instruction sets are checked
  against: the barrel shifter and addition and subtraction with carry, on integers.  \<open>shift_spec k x n c\<close> is the result
  and the carry-out of shifting \<open>x\<close> by any number \<open>n\<close> of places with carry-in
  \<open>c\<close>: the unsigned value times or divided by \<open>2^n\<close>, the signed value divided by
  \<open>2^n\<close>, or a rotation; the carry-out is the last bit shifted out.  The lemmas say when
  the C shift expressions compute it.
\<close>

datatype shift_kind = SLSL | SLSR | SASR | SROR

fun shift_spec :: "shift_kind \<Rightarrow> u32 \<Rightarrow> nat \<Rightarrow> bool \<Rightarrow> u32 \<times> bool" where
  "shift_spec k x 0 cin = (x, cin)"
| "shift_spec SLSL x n cin = (of_int (uint x * 2 ^ n), bit (uint x * 2 ^ n) 32)"
| "shift_spec SLSR x n cin = (of_int (uint x div 2 ^ n), bit (uint x) (n - 1))"
| "shift_spec SASR x n cin = (of_int (sint x div 2 ^ n), bit (sint x) (n - 1))"
| "shift_spec SROR x n cin = (word_rotr n x, bit (word_rotr n x) 31)"

lemma shift_spec_pos:
  assumes "0 < n"
  shows "shift_spec SLSL x n cin = (of_int (uint x * 2 ^ n), bit (uint x * 2 ^ n) 32)"
    "shift_spec SLSR x n cin = (of_int (uint x div 2 ^ n), bit (uint x) (n - 1))"
    "shift_spec SASR x n cin = (of_int (sint x div 2 ^ n), bit (sint x) (n - 1))"
    "shift_spec SROR x n cin = (word_rotr n x, bit (word_rotr n x) 31)"
  using assms by (cases n; simp)+

section \<open>The C expressions\<close>

lemma of_int_shl: "of_int (uint x * 2 ^ n) = push_bit n x" for x :: u32
  by (simp add: push_bit_eq_mult)

lemma of_int_shr: "of_int (uint x div 2 ^ n) = drop_bit n x" for x :: u32
proof -
  have "take_bit 32 (uint x) = uint x"
    by (rule take_bit_int_eq_self) (use uint_lt2p [of x] in simp_all)
  then have "uint (drop_bit n x) = uint x div 2 ^ n"
    by (simp add: unsigned_drop_bit_eq drop_bit_eq_div [symmetric])
  then show ?thesis by (metis word_of_int_uint)
qed

lemma of_int_sar: "of_int (sint x div 2 ^ n) = signed_drop_bit n x" for x :: u32
proof -
  have "sint (signed_drop_bit n x) = sint x div 2 ^ n"
    by (simp add: sint_signed_drop_bit_eq drop_bit_eq_div)
  then have "of_int (sint x div 2 ^ n) = (word_of_int (sint (signed_drop_bit n x)) :: u32)" by simp
  then show ?thesis by simp
qed

lemma bit_shl32: "bit (uint x * 2 ^ n) 32 \<longleftrightarrow> n \<le> 32 \<and> bit x (32 - n)" for x :: u32
  by (auto simp add: bit_simps push_bit_eq_mult [symmetric])

lemma bit_uint_u32: "bit (uint x) n = bit x n" for x :: u32
  by (simp add: bit_uint_iff) (use bit_imp_le_length in force)

lemma bit_sint_u32: "bit (sint x) n = bit x (min n 31)" for x :: u32
  using bit_imp_le_length [of x n] by (auto simp add: bit_sint_iff min_def)

lemma u32_lt32: "v < 32 \<longleftrightarrow> unat v < 32" for v :: u32
  by (simp add: word_less_nat_alt)

lemma unat_32_minus:
  fixes v :: u32
  assumes "v < 32"
  shows "unat (32 - v) = 32 - unat v"
  using assms by (subst unat_sub) (auto simp add: word_le_nat_alt word_less_nat_alt)

lemma unat_minus_1:
  assumes "(v :: u32) \<noteq> 0"
  shows "unat (v - 1) = unat v - 1"
  using assms by (subst unat_sub) (auto simp add: word_le_nat_alt unat_gt_0 Suc_le_eq)

lemma ROR_rotr:
  assumes "v < 32"
  shows "ROR x v = word_rotr (unat v) x"
proof (rule bit_word_eqI)
  fix n assume "n < LENGTH(32)"
  then have n: "n < 32" by simp
  have v: "unat v < 32" using assms by (simp add: u32_lt32)
  have l: "bit (ROR x v) n \<longleftrightarrow> bit x (unat v + n) \<or> 32 - unat v \<le> n \<and> bit x (n - (32 - unat v))"
    using n unfolding ROR_def c_shl_def c_shr_def unat_32_minus [OF assms]
    by (simp add: bit_or_iff bit_drop_bit_eq bit_push_bit_iff)
  have r: "bit (word_rotr (unat v) x) n \<longleftrightarrow> bit x ((n + unat v) mod 32)"
    using n v by (simp add: bit_word_rotr_iff)
  show "bit (ROR x v) n = bit (word_rotr (unat v) x) n"
  proof (cases "n + unat v < 32")
    case True
    then show ?thesis unfolding l r by (auto simp add: add.commute)
  next
    case False
    then have "(n + unat v) mod 32 = n + unat v - 32"
      using n v by (simp add: mod_if)
    moreover have "\<not> bit x (unat v + n)"
      using False bit_imp_le_length [of x "unat v + n"] by auto
    ultimately show ?thesis unfolding l r using False v by (auto simp add: add.commute)
  qed
qed

lemma rotr_mod32: "word_rotr (n mod 32) x = word_rotr n x" for x :: u32
  by (rule bit_word_eqI) (simp add: bit_word_rotr_iff mod_simps)

lemma bit31_rotr:
  fixes x :: u32
  assumes "0 < n"
  shows "bit (word_rotr n x) 31 = bit x ((n - 1) mod 32)"
proof -
  have "(31 + n) mod 32 = (n - 1) mod 32"
  proof -
    have "31 + n = (n - 1) + 32" using assms by simp
    then show ?thesis by (metis mod_add_self2)
  qed
  then show ?thesis by (simp add: bit_word_rotr_iff add.commute)
qed

section \<open>The shift handlers' case distinctions\<close>

lemma push_bit_big: "32 \<le> n \<Longrightarrow> push_bit n x = 0" for x :: u32
  by (rule bit_word_eqI) (simp add: bit_push_bit_iff)

lemma drop_bit_big: "32 \<le> n \<Longrightarrow> drop_bit n x = 0" for x :: u32
  by (rule bit_word_eqI) (use bit_imp_le_length [of x] in \<open>force simp add: bit_drop_bit_eq\<close>)

lemma signed_drop_bit_big:
  "32 \<le> n \<Longrightarrow> signed_drop_bit n x = BIT31 x * 0xFFFFFFFF" for x :: u32
proof -
  assume n: "32 \<le> n"
  have "signed_drop_bit n x = (if bit x 31 then -1 else 0)"
    by (rule bit_word_eqI) (use n in \<open>auto simp add: bit_signed_drop_bit_iff\<close>)
  moreover have "(-1 :: u32) = 0xFFFFFFFF" by simp
  ultimately show ?thesis by (simp add: BIT31_of_bool)
qed

lemma not_bit32: "32 \<le> n \<Longrightarrow> \<not> bit x n" for x :: u32
  using bit_imp_le_length [of x n] by auto

lemma spec_LSL_code:
  "shift_spec SLSL x (unat v) cin =
    (if v = 0 then (x, cin) else if v < 32 then (c_shl x v, bit x (unat (32 - v)))
     else (0, v = 32 \<and> bit x 0))"
proof (cases "v = 0")
  case False
  then have p: "0 < unat v" by (simp add: unat_gt_0)
  have e: "unat v = 32 \<longleftrightarrow> v = 32" by (simp add: word_unat_eq_iff)
  show ?thesis
    using False e unfolding shift_spec_pos(1) [OF p] of_int_shl bit_shl32 c_shl_def
    by (cases "v < 32"; cases "v = 32")
      (simp_all add: unat_32_minus u32_lt32 push_bit_big not_less)
qed simp

lemma spec_LSR_code:
  "shift_spec SLSR x (unat v) cin =
    (if v = 0 then (x, cin) else if v < 32 then (c_shr x v, bit x (unat (v - 1)))
     else (0, v = 32 \<and> bit x 31))"
proof -
  have e: "unat v = 32 \<longleftrightarrow> v = 32" for v :: u32
    by (simp add: word_unat_eq_iff)
  have "\<not> v < 32 \<Longrightarrow> bit x (unat v - 1) \<longleftrightarrow> v = 32 \<and> bit x 31"
    using not_bit32 [of "unat v - 1" x] e [of v] by (cases "v = 32") (auto simp add: u32_lt32)
  then show ?thesis
    by (auto simp add: shift_spec_pos unat_gt_0 of_int_shr bit_uint_u32 c_shr_def unat_minus_1
        drop_bit_big u32_lt32 not_less)
qed

lemma spec_ASR_code:
  "shift_spec SASR x (unat v) cin =
    (if v = 0 then (x, cin) else if v < 32 then (c_sar x v, bit x (unat (v - 1)))
     else (BIT31 x * 0xFFFFFFFF, bit x 31))"
proof -
  have "32 \<le> unat v \<Longrightarrow> min (unat v - 1) 31 = 31" by simp
  moreover have "unat v < 32 \<Longrightarrow> min (unat v - 1) 31 = unat v - 1" by simp
  ultimately show ?thesis
    by (auto simp add: shift_spec_pos unat_gt_0 of_int_sar bit_sint_u32 c_sar_def unat_minus_1
        signed_drop_bit_big u32_lt32 not_less)
qed

lemma and_1F: "unat (v AND 0x1F) = unat v mod 32" for v :: u32
proof -
  have "(0x1F :: u32) = mask 5" by (simp add: mask_eq_exp_minus_1)
  then show ?thesis
    by (simp only: take_bit_eq_mask [symmetric] unsigned_take_bit_eq) (simp add: take_bit_eq_mod)
qed

lemma spec_ROR_code:
  "shift_spec SROR x (unat v) cin =
    (if v = 0 then (x, cin) else if v AND 0x1F = 0 then (x, bit x 31)
     else (ROR x (v AND 0x1F), bit x (unat ((v AND 0x1F) - 1))))"
proof -
  have l: "v AND 0x1F < 32" by (simp add: u32_lt32 and_1F)
  have z: "v AND 0x1F = 0 \<longleftrightarrow> unat v mod 32 = 0"
    by (simp add: word_unat_eq_iff and_1F)
  have r: "word_rotr (unat v) x = ROR x (v AND 0x1F)"
    using ROR_rotr [OF l, of x] by (simp add: and_1F rotr_mod32)
  have c: "(unat v - 1) mod 32 = unat v mod 32 - 1" if "unat v mod 32 \<noteq> 0"
    using that by (cases "unat v") (auto simp add: mod_Suc split: if_splits)
  have m: "unat v mod 32 = 0 \<Longrightarrow> v \<noteq> 0 \<Longrightarrow> (unat v - 1) mod 32 = 31"
    by (cases "unat v") (auto simp add: mod_Suc unat_eq_zero split: if_splits)
  have "word_rotr 0 x = x"
    by (rule bit_word_eqI) (simp add: bit_word_rotr_iff)
  then have x: "unat v mod 32 = 0 \<Longrightarrow> word_rotr (unat v) x = x"
    using rotr_mod32 [of "unat v" x] by simp
  show ?thesis
  proof (cases "v = 0")
    case False
    then have "0 < unat v" by (simp add: unat_gt_0)
    then show ?thesis
      using False z x c m unat_minus_1 [of "v AND 0x1F"]
      by (cases "v AND 0x1F = 0")
        (simp_all only: shift_spec_pos r [symmetric] bit31_rotr and_1F if_True if_False simp_thms)
  qed simp
qed

section \<open>Addition and subtraction\<close>

text \<open>
  Addition and subtraction with carry-in as the architecture defines them: the word result, and
  carry and overflow as range conditions on the unsigned and on the signed integers.
\<close>

definition add_spec :: "u32 \<Rightarrow> u32 \<Rightarrow> bool \<Rightarrow> u32 \<times> bool \<times> bool" where
  "add_spec a b cin =
     (of_int (uint a + uint b + of_bool cin),
      2 ^ 32 \<le> uint a + uint b + of_bool cin,
      \<not> s32_range (sint a + sint b + of_bool cin))"

definition sub_spec :: "u32 \<Rightarrow> u32 \<Rightarrow> bool \<Rightarrow> u32 \<times> bool \<times> bool" where
  "sub_spec a b cin =
     (of_int (uint a - uint b - of_bool (\<not> cin)),
      0 \<le> uint a - uint b - of_bool (\<not> cin),
      \<not> s32_range (sint a - sint b - of_bool (\<not> cin)))"

lemma uint_bounds: "0 \<le> uint a \<and> uint a < 2 ^ 32" for a :: u32
  using uint_lt2p [of a] by simp

lemma add_spec_result: "fst (add_spec a b cin) = a + b + of_bool cin"
  by (simp add: add_spec_def)

lemma sub_spec_result: "fst (sub_spec a b cin) = a - b - of_bool (\<not> cin)"
  by (simp add: sub_spec_def)

lemma uint_wrap:
  assumes "0 \<le> x" "x < 2 ^ 33"
  shows "uint (of_int x :: u32) = (if x < 2 ^ 32 then x else x - 2 ^ 32)"
proof -
  have u: "uint (of_int x :: u32) = x mod 2 ^ 32"
    by (simp add: uint_word_of_int)
  show ?thesis
  proof (cases "x < 2 ^ 32")
    case False
    have "x mod 2 ^ 32 = (x - 2 ^ 32) mod 2 ^ 32" by (rule minus_mod_self2 [symmetric])
    also have "\<dots> = x - 2 ^ 32" using assms False by (intro mod_pos_pos_trivial) auto
    finally show ?thesis using False u by simp
  qed (use assms u in simp)
qed

lemma sint_wrap:
  assumes "-(2^32) \<le> x" "x < 2^32"
  shows "sint (of_int x :: u32) =
    (if x < -(2^31) then x + 2^32 else if x < 2^31 then x else x - 2^32)"
proof -
  have "sint (of_int x :: u32) = signed_take_bit 31 x"
    by (simp add: sint_sbintrunc')
  then show ?thesis using wrap32 [OF assms] by simp
qed

lemma add_carry_code:
  fixes a b :: u32
  shows "a + b < b \<longleftrightarrow> 2 ^ 32 \<le> uint a + uint b"
    and "a + b + 1 \<le> b \<longleftrightarrow> 2 ^ 32 \<le> uint a + uint b + 1"
proof -
  have e: "a + b = of_int (uint a + uint b)" "a + b + 1 = of_int (uint a + uint b + 1)" by simp_all
  show "a + b < b \<longleftrightarrow> 2 ^ 32 \<le> uint a + uint b"
    unfolding word_less_def e(1) using uint_bounds [of a] uint_bounds [of b]
    by (subst uint_wrap) (auto simp del: of_int_add)
  have w: "uint (a + b + 1) = (if uint a + uint b + 1 < 2 ^ 32 then uint a + uint b + 1
      else uint a + uint b + 1 - 2 ^ 32)"
    unfolding e(2) by (rule uint_wrap) (use uint_bounds [of a] uint_bounds [of b] in simp_all)
  show "a + b + 1 \<le> b \<longleftrightarrow> 2 ^ 32 \<le> uint a + uint b + 1"
    unfolding word_le_def w using uint_bounds [of a]
    by (cases "uint a + uint b + 1 < 2 ^ 32") (simp_all only: if_True if_False, linarith+)
qed

lemma sub_carry_code:
  fixes a b :: u32
  shows "b < a \<longleftrightarrow> 0 \<le> uint a - uint b - 1" and "b \<le> a \<longleftrightarrow> 0 \<le> uint a - uint b"
  by (simp_all only: word_less_def word_le_def) linarith+

lemma add_overflow_code:
  fixes a b r :: u32 and cin :: bool
  defines "r \<equiv> a + b + of_bool cin"
  shows "bit ((a XOR b XOR -1) AND (a XOR r)) 31 \<longleftrightarrow> \<not> s32_range (sint a + sint b + of_bool cin)"
proof -
  have e: "r = of_int (sint a + sint b + of_bool cin)" by (simp add: r_def)
  have "bit ((a XOR b XOR -1) AND (a XOR r)) 31 \<longleftrightarrow>
    (sint a < 0 \<longleftrightarrow> sint b < 0) \<and> (sint a < 0 \<longleftrightarrow> \<not> sint r < 0)"
    unfolding bit31_sint [symmetric] by (auto simp only: bit_and_iff bit_xor_iff bit_minus_1_iff) simp_all
  then show ?thesis
    unfolding e using sint_range [of a] sint_range [of b]
    by (subst (asm) sint_wrap) (auto simp add: s32_range_def simp del: of_int_add)
qed

lemma sub_overflow_code:
  fixes a b r :: u32 and cin :: bool
  defines "r \<equiv> a - b - of_bool cin"
  shows "bit ((a XOR b) AND (a XOR r)) 31 \<longleftrightarrow> \<not> s32_range (sint a - sint b - of_bool cin)"
proof -
  have e: "r = of_int (sint a - sint b - of_bool cin)" by (simp add: r_def)
  have "bit ((a XOR b) AND (a XOR r)) 31 \<longleftrightarrow>
    (sint a < 0 \<longleftrightarrow> \<not> sint b < 0) \<and> (sint a < 0 \<longleftrightarrow> \<not> sint r < 0)"
    unfolding bit31_sint [symmetric] by (auto simp only: bit_and_iff bit_xor_iff)
  then show ?thesis
    unfolding e using sint_range [of a] sint_range [of b]
    by (subst (asm) sint_wrap) (auto simp add: s32_range_def simp del: of_int_diff)
qed

lemma add_spec_code:
  "add_spec a b False = (a + b, CarryFrom a b, OverflowFromADD (a + b) a b)"
proof -
  have "CarryFrom a b \<longleftrightarrow> 2 ^ 32 \<le> uint a + uint b"
    unfolding CarryFrom_iff uint_nat by (metis of_nat_add of_nat_le_iff of_nat_numeral of_nat_power)
  then show ?thesis by (simp add: add_spec_def OverflowFromADD_iff)
qed

lemma sub_spec_code:
  "sub_spec a b True = (a - b, \<not> BorrowFrom a b, OverflowFromSUB (a - b) a b)"
  unfolding sub_spec_def BorrowFrom_iff OverflowFromSUB_iff word_less_def by auto

lemma adc_spec_code:
  "add_spec a b cin =
     (a + b + of_bool cin, if cin then a + b + 1 \<le> b else a + b < b,
      bit ((a XOR b XOR -1) AND (a XOR (a + b + of_bool cin))) 31)"
  unfolding add_overflow_code add_carry_code by (simp add: add_spec_def)

lemma sbc_spec_code:
  "sub_spec a b cin =
     (a - b - of_bool (\<not> cin), if cin then b \<le> a else b < a,
      bit ((a XOR b) AND (a XOR (a - b - of_bool (\<not> cin)))) 31)"
  unfolding sub_overflow_code sub_carry_code by (cases cin) (simp_all add: sub_spec_def)

end
