(* ===== verification/Thumb_Alu.thy ===== *)
theory Thumb_Alu
  imports Mem_Laws Alu_Spec
begin

text \<open>
  The Thumb data-processing handlers of src/source/thumb_instructions.cpp (lines 36 to 643), one
  definition per function.  A handler takes the instruction word \<open>i\<close> and the processor and
  returns the cycle count and the new processor; the statements of the C++ body are the
  \<open>let\<close> steps in the source's order.  \<open>NZ d\<close> stands for the two assignments
  that set N and Z from the value of register \<open>d\<close>, \<open>NZ_val\<close> for the same
  two from a local variable.
\<close>

definition NZ_val :: "u32 \<Rightarrow> armcpu \<Rightarrow> armcpu" where
  "NZ_val v c = (let c = setN (u1 (BIT31 v)) c in setZ (v = 0) c)"

definition NZ :: "u32 \<Rightarrow> armcpu \<Rightarrow> armcpu" where
  "NZ d c = (let c = setN (u1 (BIT31 (R c d))) c in setZ (R c d = 0) c)"

section \<open>LSL, LSR and ASR\<close>

definition OP_LSL_0 :: "u32 \<Rightarrow> armcpu \<Rightarrow> u32 \<times> armcpu" where
  "OP_LSL_0 i c =
     (let c = setR (REG_NUM i 0) (R c (REG_NUM i 3)) c;
          c = NZ (REG_NUM i 0) c
      in (1, c))"

definition OP_LSL :: "u32 \<Rightarrow> armcpu \<Rightarrow> u32 \<times> armcpu" where
  "OP_LSL i c =
     (let v = drop_bit 6 i AND 0x1F;
          c = setC (u1 (BIT_N (R c (REG_NUM i 3)) (32 - v))) c;
          c = setR (REG_NUM i 0) (c_shl (R c (REG_NUM i 3)) v) c;
          c = NZ (REG_NUM i 0) c
      in (1, c))"

definition OP_LSL_REG :: "u32 \<Rightarrow> armcpu \<Rightarrow> u32 \<times> armcpu" where
  "OP_LSL_REG i c =
     (let v = R c (REG_NUM i 3) AND 0xFF in
      if v = 0 then (2, NZ (REG_NUM i 0) c)
      else if v < 32 then
        (let c = setC (u1 (BIT_N (R c (REG_NUM i 0)) (32 - v))) c;
             c = setR (REG_NUM i 0) (c_shl (R c (REG_NUM i 0)) v) c;
             c = NZ (REG_NUM i 0) c
         in (2, c))
      else
        (let c = (if v = 32 then setC (u1 (BIT0 (R c (REG_NUM i 0)))) c else setC False c);
             c = setR (REG_NUM i 0) 0 c;
             c = setN False c;
             c = setZ True c
         in (2, c)))"

definition OP_LSR_0 :: "u32 \<Rightarrow> armcpu \<Rightarrow> u32 \<times> armcpu" where
  "OP_LSR_0 i c =
     (let c = setC (u1 (BIT31 (R c (REG_NUM i 3)))) c;
          c = setR (REG_NUM i 0) 0 c;
          c = setN False c;
          c = setZ True c
      in (1, c))"

definition OP_LSR :: "u32 \<Rightarrow> armcpu \<Rightarrow> u32 \<times> armcpu" where
  "OP_LSR i c =
     (let v = drop_bit 6 i AND 0x1F;
          c = setC (u1 (BIT_N (R c (REG_NUM i 3)) (v - 1))) c;
          c = setR (REG_NUM i 0) (c_shr (R c (REG_NUM i 3)) v) c;
          c = NZ (REG_NUM i 0) c
      in (1, c))"

definition OP_LSR_REG :: "u32 \<Rightarrow> armcpu \<Rightarrow> u32 \<times> armcpu" where
  "OP_LSR_REG i c =
     (let v = R c (REG_NUM i 3) AND 0xFF in
      if v = 0 then (2, NZ (REG_NUM i 0) c)
      else if v < 32 then
        (let c = setC (u1 (BIT_N (R c (REG_NUM i 0)) (v - 1))) c;
             c = setR (REG_NUM i 0) (c_shr (R c (REG_NUM i 0)) v) c;
             c = NZ (REG_NUM i 0) c
         in (2, c))
      else
        (let c = (if v = 32 then setC (u1 (BIT31 (R c (REG_NUM i 0)))) c else setC False c);
             c = setR (REG_NUM i 0) 0 c;
             c = setN False c;
             c = setZ True c
         in (2, c)))"

definition OP_ASR_0 :: "u32 \<Rightarrow> armcpu \<Rightarrow> u32 \<times> armcpu" where
  "OP_ASR_0 i c =
     (let c = setC (u1 (BIT31 (R c (REG_NUM i 3)))) c;
          c = setR (REG_NUM i 0) (BIT31 (R c (REG_NUM i 3)) * 0xFFFFFFFF) c;
          c = NZ (REG_NUM i 0) c
      in (1, c))"

definition OP_ASR :: "u32 \<Rightarrow> armcpu \<Rightarrow> u32 \<times> armcpu" where
  "OP_ASR i c =
     (let v = drop_bit 6 i AND 0x1F;
          c = setC (u1 (BIT_N (R c (REG_NUM i 3)) (v - 1))) c;
          c = setR (REG_NUM i 0) (c_sar (R c (REG_NUM i 3)) v) c;
          c = NZ (REG_NUM i 0) c
      in (1, c))"

definition OP_ASR_REG :: "u32 \<Rightarrow> armcpu \<Rightarrow> u32 \<times> armcpu" where
  "OP_ASR_REG i c =
     (let v = R c (REG_NUM i 3) AND 0xFF in
      if v = 0 then (2, NZ (REG_NUM i 0) c)
      else if v < 32 then
        (let c = setC (u1 (BIT_N (R c (REG_NUM i 0)) (v - 1))) c;
             c = setR (REG_NUM i 0) (c_sar (R c (REG_NUM i 0)) v) c;
             c = NZ (REG_NUM i 0) c
         in (2, c))
      else
        (let c = setC (u1 (BIT31 (R c (REG_NUM i 0)))) c;
             c = setR (REG_NUM i 0) (BIT31 (R c (REG_NUM i 0)) * 0xFFFFFFFF) c;
             c = NZ (REG_NUM i 0) c
         in (2, c)))"

section \<open>ADD\<close>

definition OP_ADD_IMM3 :: "u32 \<Rightarrow> armcpu \<Rightarrow> u32 \<times> armcpu" where
  "OP_ADD_IMM3 i c =
     (let imm3 = drop_bit 6 i AND 0x07;
         Rn = R c (REG_NUM i 3)
     in if imm3 = 0 then
          (let c = setR (REG_NUM i 0) Rn c;
               c = NZ (REG_NUM i 0) c;
               c = setC False c;
               c = setV False c
           in (1, c))
        else
          (let c = setR (REG_NUM i 0) (Rn + imm3) c;
               c = NZ (REG_NUM i 0) c;
               c = setC (CarryFrom Rn imm3) c;
               c = setV (OverflowFromADD (R c (REG_NUM i 0)) Rn imm3) c
           in (1, c)))"

definition OP_ADD_IMM8 :: "u32 \<Rightarrow> armcpu \<Rightarrow> u32 \<times> armcpu" where
  "OP_ADD_IMM8 i c =
     (let imm8 = i AND 0xFF;
          Rd = R c (REG_NUM i 8);
          c = setR (REG_NUM i 8) (Rd + imm8) c;
          c = NZ (REG_NUM i 8) c;
          c = setC (CarryFrom Rd imm8) c;
          c = setV (OverflowFromADD (R c (REG_NUM i 8)) Rd imm8) c
      in (1, c))"

definition OP_ADD_REG :: "u32 \<Rightarrow> armcpu \<Rightarrow> u32 \<times> armcpu" where
  "OP_ADD_REG i c =
     (let Rn = R c (REG_NUM i 3);
          Rm = R c (REG_NUM i 6);
          c = setR (REG_NUM i 0) (Rn + Rm) c;
          c = NZ (REG_NUM i 0) c;
          c = setC (CarryFrom Rn Rm) c;
          c = setV (OverflowFromADD (R c (REG_NUM i 0)) Rn Rm) c
      in (1, c))"

definition OP_ADD_SPE :: "u32 \<Rightarrow> armcpu \<Rightarrow> u32 \<times> armcpu" where
  "OP_ADD_SPE i c =
     (let Rd = REG_NUM i 0 OR (drop_bit 4 i AND 8);
         c = setR Rd (R c Rd + R c (REG_POS i 3)) c
     in if Rd = 15 then (3, c\<lparr>next_instruction := R c 15\<rparr>) else (1, c))"

definition OP_ADD_2PC :: "u32 \<Rightarrow> armcpu \<Rightarrow> u32 \<times> armcpu" where
  "OP_ADD_2PC i c =
     (let c = setR (REG_NUM i 8) ((R c 15 AND 0xFFFFFFFC) + push_bit 2 (i AND 0xFF)) c
      in (1, c))"

definition OP_ADD_2SP :: "u32 \<Rightarrow> armcpu \<Rightarrow> u32 \<times> armcpu" where
  "OP_ADD_2SP i c =
     (let c = setR (REG_NUM i 8) (R c 13 + push_bit 2 (i AND 0xFF)) c
      in (1, c))"

section \<open>SUB\<close>

definition OP_SUB_IMM3 :: "u32 \<Rightarrow> armcpu \<Rightarrow> u32 \<times> armcpu" where
  "OP_SUB_IMM3 i c =
     (let imm3 = drop_bit 6 i AND 0x07;
          Rn = R c (REG_NUM i 3);
          tmp = Rn - imm3;
          c = setR (REG_NUM i 0) tmp c;
          c = NZ_val tmp c;
          c = setC (\<not> BorrowFrom Rn imm3) c;
          c = setV (OverflowFromSUB tmp Rn imm3) c
      in (1, c))"

definition OP_SUB_IMM8 :: "u32 \<Rightarrow> armcpu \<Rightarrow> u32 \<times> armcpu" where
  "OP_SUB_IMM8 i c =
     (let imm8 = i AND 0xFF;
          Rd = R c (REG_NUM i 8);
          tmp = Rd - imm8;
          c = setR (REG_NUM i 8) tmp c;
          c = NZ_val tmp c;
          c = setC (\<not> BorrowFrom Rd imm8) c;
          c = setV (OverflowFromSUB tmp Rd imm8) c
      in (1, c))"

definition OP_SUB_REG :: "u32 \<Rightarrow> armcpu \<Rightarrow> u32 \<times> armcpu" where
  "OP_SUB_REG i c =
     (let Rn = R c (REG_NUM i 3);
          Rm = R c (REG_NUM i 6);
          tmp = Rn - Rm;
          c = setR (REG_NUM i 0) tmp c;
          c = NZ_val tmp c;
          c = setC (\<not> BorrowFrom Rn Rm) c;
          c = setV (OverflowFromSUB tmp Rn Rm) c
      in (1, c))"

section \<open>MOV\<close>

definition OP_MOV_IMM8 :: "u32 \<Rightarrow> armcpu \<Rightarrow> u32 \<times> armcpu" where
  "OP_MOV_IMM8 i c =
     (let c = setR (REG_NUM i 8) (i AND 0xFF) c;
          c = NZ (REG_NUM i 8) c
      in (1, c))"

definition OP_MOV_SPE :: "u32 \<Rightarrow> armcpu \<Rightarrow> u32 \<times> armcpu" where
  "OP_MOV_SPE i c =
     (let Rd = REG_NUM i 0 OR (drop_bit 4 i AND 8);
         c = setR Rd (R c (REG_POS i 3)) c
     in if Rd = 15 then (3, c\<lparr>next_instruction := R c 15\<rparr>) else (1, c))"

section \<open>CMP\<close>

definition OP_CMP_IMM8 :: "u32 \<Rightarrow> armcpu \<Rightarrow> u32 \<times> armcpu" where
  "OP_CMP_IMM8 i c =
     (let tmp = R c (REG_NUM i 8) - (i AND 0xFF);
          c = NZ_val tmp c;
          c = setC (\<not> BorrowFrom (R c (REG_NUM i 8)) ((i AND 0xFF))) c;
          c = setV (OverflowFromSUB tmp (R c (REG_NUM i 8)) ((i AND 0xFF))) c
      in (1, c))"

definition OP_CMP :: "u32 \<Rightarrow> armcpu \<Rightarrow> u32 \<times> armcpu" where
  "OP_CMP i c =
     (let tmp = R c (REG_NUM i 0) - R c (REG_NUM i 3);
          c = NZ_val tmp c;
          c = setC (\<not> BorrowFrom (R c (REG_NUM i 0)) (R c (REG_NUM i 3))) c;
          c = setV (OverflowFromSUB tmp (R c (REG_NUM i 0)) (R c (REG_NUM i 3))) c
      in (1, c))"

definition OP_CMP_SPE :: "u32 \<Rightarrow> armcpu \<Rightarrow> u32 \<times> armcpu" where
  "OP_CMP_SPE i c =
     (let Rn = (i AND 7) OR (drop_bit 4 i AND 8);
          tmp = R c Rn - R c (REG_POS i 3);
          c = NZ_val tmp c;
          c = setC (\<not> BorrowFrom (R c Rn) (R c (REG_POS i 3))) c;
          c = setV (OverflowFromSUB tmp (R c Rn) (R c (REG_POS i 3))) c
      in (1, c))"

section \<open>Logic, carry arithmetic and the other two-register operations\<close>

definition OP_AND :: "u32 \<Rightarrow> armcpu \<Rightarrow> u32 \<times> armcpu" where
  "OP_AND i c =
     (let c = setR (REG_NUM i 0) (R c (REG_NUM i 0) AND R c (REG_NUM i 3)) c;
          c = NZ (REG_NUM i 0) c
      in (1, c))"

definition OP_EOR :: "u32 \<Rightarrow> armcpu \<Rightarrow> u32 \<times> armcpu" where
  "OP_EOR i c =
     (let c = setR (REG_NUM i 0) (R c (REG_NUM i 0) XOR R c (REG_NUM i 3)) c;
          c = NZ (REG_NUM i 0) c
      in (1, c))"

definition OP_ADC_REG :: "u32 \<Rightarrow> armcpu \<Rightarrow> u32 \<times> armcpu" where
  "OP_ADC_REG i c =
     (let Rd = R c (REG_NUM i 0);
          Rm = R c (REG_NUM i 3);
          c = (if \<not> psr_C (CPSR c) then
                (let c = setR (REG_NUM i 0) (Rd + Rm) c in setC (R c (REG_NUM i 0) < Rm) c)
              else
                (let c = setR (REG_NUM i 0) (Rd + Rm + 1) c in setC (R c (REG_NUM i 0) \<le> Rm) c));
          c = NZ (REG_NUM i 0) c;
          c = setV (u1 (BIT31 ((Rd XOR Rm XOR -1) AND (Rd XOR R c (REG_NUM i 0))))) c
      in (1, c))"

definition OP_SBC_REG :: "u32 \<Rightarrow> armcpu \<Rightarrow> u32 \<times> armcpu" where
  "OP_SBC_REG i c =
     (let Rd = R c (REG_NUM i 0);
          Rm = R c (REG_NUM i 3);
          c = (if \<not> psr_C (CPSR c) then
                (let c = setR (REG_NUM i 0) (Rd - Rm - 1) c in setC (Rd > Rm) c)
              else
                (let c = setR (REG_NUM i 0) (Rd - Rm) c in setC (Rd \<ge> Rm) c));
          c = NZ (REG_NUM i 0) c;
          c = setV (u1 (BIT31 ((Rd XOR Rm) AND (Rd XOR R c (REG_NUM i 0))))) c
      in (1, c))"

definition OP_ROR_REG :: "u32 \<Rightarrow> armcpu \<Rightarrow> u32 \<times> armcpu" where
  "OP_ROR_REG i c =
     (let v = R c (REG_NUM i 3) AND 0xFF in
      if v = 0 then (2, NZ (REG_NUM i 0) c)
      else
        (let v = v AND 0x1F in
         if v = 0 then
           (let c = setC (u1 (BIT31 (R c (REG_NUM i 0)))) c in (2, NZ (REG_NUM i 0) c))
         else
           (let c = setC (u1 (BIT_N (R c (REG_NUM i 0)) (v - 1))) c;
                c = setR (REG_NUM i 0) (ROR (R c (REG_NUM i 0)) v) c;
                c = NZ (REG_NUM i 0) c
            in (2, c))))"

definition OP_TST :: "u32 \<Rightarrow> armcpu \<Rightarrow> u32 \<times> armcpu" where
  "OP_TST i c =
     (let tmp = R c (REG_NUM i 0) AND R c (REG_NUM i 3);
          c = NZ_val tmp c
      in (1, c))"

definition OP_NEG :: "u32 \<Rightarrow> armcpu \<Rightarrow> u32 \<times> armcpu" where
  "OP_NEG i c =
     (let Rm = R c (REG_NUM i 3);
          c = setR (REG_NUM i 0) (0 - Rm) c;
          c = NZ (REG_NUM i 0) c;
          c = setC (\<not> BorrowFrom 0 Rm) c;
          c = setV (OverflowFromSUB (R c (REG_NUM i 0)) 0 Rm) c
      in (1, c))"

definition OP_CMN :: "u32 \<Rightarrow> armcpu \<Rightarrow> u32 \<times> armcpu" where
  "OP_CMN i c =
     (let tmp = R c (REG_NUM i 0) + R c (REG_NUM i 3);
          c = NZ_val tmp c;
          c = setC (CarryFrom (R c (REG_NUM i 0)) (R c (REG_NUM i 3))) c;
          c = setV (OverflowFromADD tmp (R c (REG_NUM i 0)) (R c (REG_NUM i 3))) c
      in (1, c))"

definition OP_ORR :: "u32 \<Rightarrow> armcpu \<Rightarrow> u32 \<times> armcpu" where
  "OP_ORR i c =
     (let c = setR (REG_NUM i 0) (R c (REG_NUM i 0) OR R c (REG_NUM i 3)) c;
          c = NZ (REG_NUM i 0) c
      in (1, c))"

definition OP_BIC :: "u32 \<Rightarrow> armcpu \<Rightarrow> u32 \<times> armcpu" where
  "OP_BIC i c =
     (let c = setR (REG_NUM i 0) (R c (REG_NUM i 0) AND NOT (R c (REG_NUM i 3))) c;
          c = NZ (REG_NUM i 0) c
      in (1, c))"

definition OP_MVN :: "u32 \<Rightarrow> armcpu \<Rightarrow> u32 \<times> armcpu" where
  "OP_MVN i c =
     (let c = setR (REG_NUM i 0) (NOT (R c (REG_NUM i 3))) c;
          c = NZ (REG_NUM i 0) c
      in (1, c))"

section \<open>MUL\<close>

definition MUL_Mxx_END_THUMB :: "u32 \<Rightarrow> u32 \<Rightarrow> u32" where
  "MUL_Mxx_END_THUMB c v =
     (let v = drop_bit 8 v in
      if v = 0 \<or> v = 0xFFFFFF then c + 1
      else (let v = drop_bit 8 v in
        if v = 0 \<or> v = 0xFFFF then c + 2
        else (let v = drop_bit 8 v in
          if v = 0 \<or> v = 0xFF then c + 3 else c + 4)))"

definition OP_MUL_REG :: "nat \<Rightarrow> u32 \<Rightarrow> armcpu \<Rightarrow> u32 \<times> armcpu" where
  "OP_MUL_REG p i c =
     (let v = R c (REG_NUM i 3);
          c = setR (REG_NUM i 0) (R c (REG_NUM i 0) * v) c;
          c = NZ (REG_NUM i 0) c
      in if p = 1 then (4, c) else (MUL_Mxx_END_THUMB 1 v, c))"
section \<open>What the handlers compute\<close>

text \<open>The state after writing one register and the four condition flags.\<close>

definition with_result :: "u32 \<Rightarrow> u32 \<Rightarrow> bool \<Rightarrow> bool \<Rightarrow> armcpu \<Rightarrow> armcpu" where
  "with_result d v cf vf c = c\<lparr>R := (R c)(d := v),
     CPSR := (CPSR c)\<lparr>psr_N := sint v < 0, psr_Z := v = 0, psr_C := cf, psr_V := vf\<rparr>\<rparr>"

lemma NZ_simp [cpu_simps]:
  "NZ d c = c\<lparr>CPSR := (CPSR c)\<lparr>psr_N := sint (R c d) < 0, psr_Z := R c d = 0\<rparr>\<rparr>"
  by (simp add: NZ_def setN_def setZ_def u1_BIT31 bit31_sint)

lemma NZ_val_simp [cpu_simps]:
  "NZ_val v c = c\<lparr>CPSR := (CPSR c)\<lparr>psr_N := sint v < 0, psr_Z := v = 0\<rparr>\<rparr>"
  by (simp add: NZ_val_def setN_def setZ_def u1_BIT31 bit31_sint)

lemmas handler_simps = Let_def cpu_simps with_result_def u1_BIT31 u1_BIT0 u1_BIT_N

theorem thumb_register_shifts:
  "let d = REG_NUM i 0; n = unat (R c (REG_NUM i 3) AND 0xFF);
       done = (\<lambda>k. let r = shift_spec k (R c d) n (psr_C (CPSR c))
                   in (2, with_result d (fst r) (snd r) (psr_V (CPSR c)) c))
   in OP_LSL_REG i c = done SLSL \<and> OP_LSR_REG i c = done SLSR \<and>
      OP_ASR_REG i c = done SASR \<and> OP_ROR_REG i c = done SROR"
proof -
  define v where "v = R c (REG_NUM i 3) AND 0xFF"
  show ?thesis
    unfolding Let_def v_def [symmetric] spec_LSL_code spec_LSR_code spec_ASR_code spec_ROR_code
      OP_LSL_REG_def OP_LSR_REG_def OP_ASR_REG_def OP_ROR_REG_def
    by (auto simp add: handler_simps)
qed

end
