(* ===== verification/Thumb_Mem.thy ===== *)
theory Thumb_Mem
  imports Thumb_Alu
begin

text \<open>
  The Thumb handlers of src/source/thumb_instructions.cpp that use memory, change the mode or
  branch (lines 36 to 43 and 645 to 1180).  A handler that touches memory takes the bus, the
  processor number \<open>p\<close> (the template parameter \<open>PROCNUM\<close>), the instruction
  word and the machine.  The loops over the register list are \<open>push_regs\<close>,
  \<open>stm_regs\<close> and \<open>ldm_regs\<close>, over the list of the values of \<open>j\<close>.
  \<open>swi_tab\<close>, the table of BIOS functions a processor carries, is an argument of
  \<open>OP_SWI_THUMB\<close>.
\<close>

text \<open>The register of a handler that needs the processor only to read it.\<close>

definition reg :: "nat \<Rightarrow> 'io nds \<Rightarrow> u32 \<Rightarrow> u32" where
  "reg p s r = R (ARMPROC p s) r"

definition OP_UND_THUMB :: "nat \<Rightarrow> u32 \<Rightarrow> 'io nds \<Rightarrow> u32 \<times> 'io nds" where
  "OP_UND_THUMB p i s = (let s = snd (TRAPUNDEF p s) in (1, s))"

section \<open>Loads and stores\<close>

definition OP_STRB_IMM_OFF :: "'io bus \<Rightarrow> nat \<Rightarrow> u32 \<Rightarrow> 'io nds \<Rightarrow> u32 \<times> 'io nds" where
  "OP_STRB_IMM_OFF B p i s =
     (let adr = reg p s (REG_NUM i 3) + (drop_bit 6 i AND 0x1F);
          s = WRITE8 B p adr (ucast (reg p s (REG_NUM i 0))) s
      in (MMU_aluMemAccessCycles p 8 MMU_AD_WRITE 2 adr, s))"

definition OP_LDRB_IMM_OFF :: "'io bus \<Rightarrow> nat \<Rightarrow> u32 \<Rightarrow> 'io nds \<Rightarrow> u32 \<times> 'io nds" where
  "OP_LDRB_IMM_OFF B p i s =
     (let adr = reg p s (REG_NUM i 3) + (drop_bit 6 i AND 0x1F);
          (v, s) = READ8 B p adr s;
          s = upd_cpu p (setR (REG_NUM i 0) (ucast v)) s
      in (MMU_aluMemAccessCycles p 8 MMU_AD_READ 3 adr, s))"

definition OP_STRB_REG_OFF :: "'io bus \<Rightarrow> nat \<Rightarrow> u32 \<Rightarrow> 'io nds \<Rightarrow> u32 \<times> 'io nds" where
  "OP_STRB_REG_OFF B p i s =
     (let adr = reg p s (REG_NUM i 3) + reg p s (REG_NUM i 6);
          s = WRITE8 B p adr (ucast (reg p s (REG_NUM i 0))) s
      in (MMU_aluMemAccessCycles p 8 MMU_AD_WRITE 2 adr, s))"

definition OP_LDRB_REG_OFF :: "'io bus \<Rightarrow> nat \<Rightarrow> u32 \<Rightarrow> 'io nds \<Rightarrow> u32 \<times> 'io nds" where
  "OP_LDRB_REG_OFF B p i s =
     (let adr = reg p s (REG_NUM i 3) + reg p s (REG_NUM i 6);
          (v, s) = READ8 B p adr s;
          s = upd_cpu p (setR (REG_NUM i 0) (ucast v)) s
      in (MMU_aluMemAccessCycles p 8 MMU_AD_READ 3 adr, s))"

definition OP_LDRSB_REG_OFF :: "'io bus \<Rightarrow> nat \<Rightarrow> u32 \<Rightarrow> 'io nds \<Rightarrow> u32 \<times> 'io nds" where
  "OP_LDRSB_REG_OFF B p i s =
     (let adr = reg p s (REG_NUM i 3) + reg p s (REG_NUM i 6);
          (v, s) = READ8 B p adr s;
          s = upd_cpu p (setR (REG_NUM i 0) (scast v)) s
      in (MMU_aluMemAccessCycles p 8 MMU_AD_READ 3 adr, s))"

definition OP_STRH_IMM_OFF :: "'io bus \<Rightarrow> nat \<Rightarrow> u32 \<Rightarrow> 'io nds \<Rightarrow> u32 \<times> 'io nds" where
  "OP_STRH_IMM_OFF B p i s =
     (let adr = reg p s (REG_NUM i 3) + (drop_bit 5 i AND 0x3E);
          s = WRITE16 B p adr (ucast (reg p s (REG_NUM i 0))) s
      in (MMU_aluMemAccessCycles p 16 MMU_AD_WRITE 2 adr, s))"

definition OP_LDRH_IMM_OFF :: "'io bus \<Rightarrow> nat \<Rightarrow> u32 \<Rightarrow> 'io nds \<Rightarrow> u32 \<times> 'io nds" where
  "OP_LDRH_IMM_OFF B p i s =
     (let adr = reg p s (REG_NUM i 3) + (drop_bit 5 i AND 0x3E);
          (v, s) = READ16 B p adr s;
          s = upd_cpu p (setR (REG_NUM i 0) (ucast v)) s
      in (MMU_aluMemAccessCycles p 16 MMU_AD_READ 3 adr, s))"

definition OP_STRH_REG_OFF :: "'io bus \<Rightarrow> nat \<Rightarrow> u32 \<Rightarrow> 'io nds \<Rightarrow> u32 \<times> 'io nds" where
  "OP_STRH_REG_OFF B p i s =
     (let adr = reg p s (REG_NUM i 3) + reg p s (REG_NUM i 6);
          s = WRITE16 B p adr (ucast (reg p s (REG_NUM i 0))) s
      in (MMU_aluMemAccessCycles p 16 MMU_AD_WRITE 2 adr, s))"

definition OP_LDRH_REG_OFF :: "'io bus \<Rightarrow> nat \<Rightarrow> u32 \<Rightarrow> 'io nds \<Rightarrow> u32 \<times> 'io nds" where
  "OP_LDRH_REG_OFF B p i s =
     (let adr = reg p s (REG_NUM i 3) + reg p s (REG_NUM i 6);
          (v, s) = READ16 B p adr s;
          s = upd_cpu p (setR (REG_NUM i 0) (ucast v)) s
      in (MMU_aluMemAccessCycles p 16 MMU_AD_READ 3 adr, s))"

definition OP_LDRSH_REG_OFF :: "'io bus \<Rightarrow> nat \<Rightarrow> u32 \<Rightarrow> 'io nds \<Rightarrow> u32 \<times> 'io nds" where
  "OP_LDRSH_REG_OFF B p i s =
     (let adr = reg p s (REG_NUM i 3) + reg p s (REG_NUM i 6);
          (v, s) = READ16 B p adr s;
          s = upd_cpu p (setR (REG_NUM i 0) (scast v)) s
      in (MMU_aluMemAccessCycles p 16 MMU_AD_READ 3 adr, s))"

definition OP_STR_IMM_OFF :: "'io bus \<Rightarrow> nat \<Rightarrow> u32 \<Rightarrow> 'io nds \<Rightarrow> u32 \<times> 'io nds" where
  "OP_STR_IMM_OFF B p i s =
     (let adr = reg p s (REG_NUM i 3) + (drop_bit 4 i AND 0x7C);
          s = WRITE32 B p adr (reg p s (REG_NUM i 0)) s
      in (MMU_aluMemAccessCycles p 32 MMU_AD_WRITE 2 adr, s))"

definition OP_LDR_IMM_OFF :: "'io bus \<Rightarrow> nat \<Rightarrow> u32 \<Rightarrow> 'io nds \<Rightarrow> u32 \<times> 'io nds" where
  "OP_LDR_IMM_OFF B p i s =
     (let adr = reg p s (REG_NUM i 3) + (drop_bit 4 i AND 0x7C);
          (tempValue, s) = READ32 B p adr s;
          adr = (adr AND 3) * 8;
          tempValue = c_shr tempValue adr OR c_shl tempValue (32 - adr);
          s = upd_cpu p (setR (REG_NUM i 0) tempValue) s
      in (MMU_aluMemAccessCycles p 32 MMU_AD_READ 3 adr, s))"

definition OP_STR_REG_OFF :: "'io bus \<Rightarrow> nat \<Rightarrow> u32 \<Rightarrow> 'io nds \<Rightarrow> u32 \<times> 'io nds" where
  "OP_STR_REG_OFF B p i s =
     (let adr = reg p s (REG_NUM i 6) + reg p s (REG_NUM i 3);
          s = WRITE32 B p adr (reg p s (REG_NUM i 0)) s
      in (MMU_aluMemAccessCycles p 32 MMU_AD_WRITE 2 adr, s))"

definition OP_LDR_REG_OFF :: "'io bus \<Rightarrow> nat \<Rightarrow> u32 \<Rightarrow> 'io nds \<Rightarrow> u32 \<times> 'io nds" where
  "OP_LDR_REG_OFF B p i s =
     (let adr = reg p s (REG_NUM i 3) + reg p s (REG_NUM i 6);
          (tempValue, s) = READ32 B p adr s;
          adr = (adr AND 3) * 8;
          tempValue = c_shr tempValue adr OR c_shl tempValue (32 - adr);
          s = upd_cpu p (setR (REG_NUM i 0) tempValue) s
      in (MMU_aluMemAccessCycles p 32 MMU_AD_READ 3 adr, s))"

definition OP_STR_SPREL :: "'io bus \<Rightarrow> nat \<Rightarrow> u32 \<Rightarrow> 'io nds \<Rightarrow> u32 \<times> 'io nds" where
  "OP_STR_SPREL B p i s =
     (let adr = reg p s 13 + push_bit 2 (i AND 0xFF);
          s = WRITE32 B p adr (reg p s (REG_NUM i 8)) s
      in (MMU_aluMemAccessCycles p 32 MMU_AD_WRITE 2 adr, s))"

definition OP_LDR_SPREL :: "'io bus \<Rightarrow> nat \<Rightarrow> u32 \<Rightarrow> 'io nds \<Rightarrow> u32 \<times> 'io nds" where
  "OP_LDR_SPREL B p i s =
     (let adr = reg p s 13 + push_bit 2 (i AND 0xFF);
          (v, s) = READ32 B p adr s;
          s = upd_cpu p (setR (REG_NUM i 8) v) s
      in (MMU_aluMemAccessCycles p 32 MMU_AD_READ 3 adr, s))"

definition OP_LDR_PCREL :: "'io bus \<Rightarrow> nat \<Rightarrow> u32 \<Rightarrow> 'io nds \<Rightarrow> u32 \<times> 'io nds" where
  "OP_LDR_PCREL B p i s =
     (let adr = (reg p s 15 AND 0xFFFFFFFC) + push_bit 2 (i AND 0xFF);
          (v, s) = READ32 B p adr s;
          s = upd_cpu p (setR (REG_NUM i 8) v) s
      in (MMU_aluMemAccessCycles p 32 MMU_AD_READ 3 adr, s))"

section \<open>Stack pointer adjustment\<close>

definition OP_ADJUST_P_SP :: "u32 \<Rightarrow> armcpu \<Rightarrow> u32 \<times> armcpu" where
  "OP_ADJUST_P_SP i c = (1, setR 13 (R c 13 + push_bit 2 (i AND 0x7F)) c)"

definition OP_ADJUST_M_SP :: "u32 \<Rightarrow> armcpu \<Rightarrow> u32 \<times> armcpu" where
  "OP_ADJUST_M_SP i c = (1, setR 13 (R c 13 - push_bit 2 (i AND 0x7F)) c)"

section \<open>PUSH, POP, STMIA and LDMIA\<close>

text \<open>
  The loop bodies, for the values of \<open>j\<close> in the list: \<open>push_regs\<close> stores
  register \<open>7 - j\<close> and counts the address down, \<open>stm_regs\<close> stores register
  \<open>j\<close> and \<open>ldm_regs\<close> loads it, counting the address up.  They return the
  address and the cycle sum the loop leaves.
\<close>

fun push_regs :: "'io bus \<Rightarrow> nat \<Rightarrow> u32 \<Rightarrow> u32 list \<Rightarrow> u32 \<Rightarrow> u32 \<Rightarrow> 'io nds \<Rightarrow> u32 \<times> u32 \<times> 'io nds" where
  "push_regs B p i [] adr c s = (adr, c, s)"
| "push_regs B p i (j # js) adr c s =
     (if BIT_N i (7 - j) \<noteq> 0 then
        (let s = WRITE32 B p adr (reg p s (7 - j)) s;
             c = c + MMU_memAccessCycles p 32 MMU_AD_WRITE adr;
             adr = adr - 4
         in push_regs B p i js adr c s)
      else push_regs B p i js adr c s)"

fun stm_regs :: "'io bus \<Rightarrow> nat \<Rightarrow> u32 \<Rightarrow> u32 list \<Rightarrow> u32 \<Rightarrow> u32 \<Rightarrow> 'io nds \<Rightarrow> u32 \<times> u32 \<times> 'io nds" where
  "stm_regs B p i [] adr c s = (adr, c, s)"
| "stm_regs B p i (j # js) adr c s =
     (if BIT_N i j \<noteq> 0 then
        (let s = WRITE32 B p adr (reg p s j) s;
             c = c + MMU_memAccessCycles p 32 MMU_AD_WRITE adr;
             adr = adr + 4
         in stm_regs B p i js adr c s)
      else stm_regs B p i js adr c s)"

fun ldm_regs :: "'io bus \<Rightarrow> nat \<Rightarrow> u32 \<Rightarrow> u32 list \<Rightarrow> u32 \<Rightarrow> u32 \<Rightarrow> 'io nds \<Rightarrow> u32 \<times> u32 \<times> 'io nds" where
  "ldm_regs B p i [] adr c s = (adr, c, s)"
| "ldm_regs B p i (j # js) adr c s =
     (if BIT_N i j \<noteq> 0 then
        (let (v, s) = READ32 B p adr s;
             s = upd_cpu p (setR j v) s;
             c = c + MMU_memAccessCycles p 32 MMU_AD_READ adr;
             adr = adr + 4
         in ldm_regs B p i js adr c s)
      else ldm_regs B p i js adr c s)"

definition upto8 :: "u32 list" where
  "upto8 = [0, 1, 2, 3, 4, 5, 6, 7]"

definition OP_PUSH :: "'io bus \<Rightarrow> nat \<Rightarrow> u32 \<Rightarrow> 'io nds \<Rightarrow> u32 \<times> 'io nds" where
  "OP_PUSH B p i s =
     (let adr = reg p s 13 - 4;
          (adr, c, s) = push_regs B p i upto8 adr 0 s;
          s = upd_cpu p (setR 13 (adr + 4)) s
      in (MMU_aluMemCycles p 3 c, s))"

definition OP_PUSH_LR :: "'io bus \<Rightarrow> nat \<Rightarrow> u32 \<Rightarrow> 'io nds \<Rightarrow> u32 \<times> 'io nds" where
  "OP_PUSH_LR B p i s =
     (let adr = reg p s 13 - 4;
          s = WRITE32 B p adr (reg p s 14) s;
          c = 0 + MMU_memAccessCycles p 32 MMU_AD_WRITE adr;
          adr = adr - 4;
          (adr, c, s) = push_regs B p i upto8 adr c s;
          s = upd_cpu p (setR 13 (adr + 4)) s
      in (MMU_aluMemCycles p 4 c, s))"

definition OP_POP :: "'io bus \<Rightarrow> nat \<Rightarrow> u32 \<Rightarrow> 'io nds \<Rightarrow> u32 \<times> 'io nds" where
  "OP_POP B p i s =
     (let adr = reg p s 13;
          (adr, c, s) = ldm_regs B p i upto8 adr 0 s;
          s = upd_cpu p (setR 13 adr) s
      in (MMU_aluMemCycles p 2 c, s))"

definition OP_POP_PC :: "'io bus \<Rightarrow> nat \<Rightarrow> u32 \<Rightarrow> 'io nds \<Rightarrow> u32 \<times> 'io nds" where
  "OP_POP_PC B p i s =
     (let adr = reg p s 13;
          (adr, c, s) = ldm_regs B p i upto8 adr 0 s;
          (v, s) = READ32 B p adr s;
          c = c + MMU_memAccessCycles p 32 MMU_AD_READ adr;
          s = (if p = 0 then upd_cpu p (setT (u1 (BIT0 v))) s else s);
          s = upd_cpu p (setR 15 (v AND 0xFFFFFFFE)) s;
          s = upd_cpu p (\<lambda>c. c\<lparr>next_instruction := R c 15\<rparr>) s;
          s = upd_cpu p (setR 13 (adr + 4)) s
      in (MMU_aluMemCycles p 5 c, s))"

definition OP_STMIA_THUMB :: "'io bus \<Rightarrow> nat \<Rightarrow> u32 \<Rightarrow> 'io nds \<Rightarrow> u32 \<times> 'io nds" where
  "OP_STMIA_THUMB B p i s =
     (let adr = reg p s (REG_NUM i 8);
          (adr, c, s) = stm_regs B p i upto8 adr 0 s;
          s = upd_cpu p (setR (REG_NUM i 8) adr) s
      in (MMU_aluMemCycles p 2 c, s))"

definition OP_LDMIA_THUMB :: "'io bus \<Rightarrow> nat \<Rightarrow> u32 \<Rightarrow> 'io nds \<Rightarrow> u32 \<times> 'io nds" where
  "OP_LDMIA_THUMB B p i s =
     (let regIndex = REG_NUM i 8;
          adr = reg p s regIndex;
          (adr, c, s) = ldm_regs B p i upto8 adr 0 s;
          s = (if BIT_N i regIndex = 0 then upd_cpu p (setR regIndex adr) s else s)
      in (MMU_aluMemCycles p 3 c, s))"

section \<open>BKPT and SWI\<close>

definition OP_BKPT_THUMB :: "nat \<Rightarrow> u32 \<Rightarrow> 'io nds \<Rightarrow> u32 \<times> 'io nds" where
  "OP_BKPT_THUMB p i s =
     (let tmp = CPSR (ARMPROC p s);
          s = snd (armcpu_switchMode p (ucast ABT) s);
          s = upd_cpu p (\<lambda>c. setR 14 (instruct_adr c + 4) c) s;
          s = upd_cpu p (\<lambda>c. c\<lparr>SPSR := tmp\<rparr>) s;
          s = upd_cpu p (\<lambda>c. c\<lparr>CPSR := (CPSR c)\<lparr>psr_T := False, psr_I := True\<rparr>\<rparr>) s;
          s = changeCPSR s;
          s = upd_cpu p (\<lambda>c. setR 15 (intVector c + 0x0C) c) s;
          s = upd_cpu p (\<lambda>c. c\<lparr>next_instruction := R c 15\<rparr>) s
      in (1, s))"

type_synonym 'io swi_table = "u32 \<Rightarrow> 'io nds \<Rightarrow> u32 \<times> 'io nds"

definition OP_SWI_THUMB :: "(nat \<Rightarrow> 'io swi_table) \<Rightarrow> nat \<Rightarrow> u32 \<Rightarrow> 'io nds \<Rightarrow> u32 \<times> 'io nds" where
  "OP_SWI_THUMB swi_tab p i s =
     (let swinum = i AND 0xFF;
          swinum = swinum AND 0x1F;
          (r, s) = swi_tab p swinum s
      in (r + 3, s))"

section \<open>Branches\<close>

definition SIGNEEXT_IMM11 :: "u32 \<Rightarrow> u32" where
  "SIGNEEXT_IMM11 i = (i AND 0x7FF) OR (BIT_N i 10 * 0xFFFFF800)"

definition SIGNEXTEND_11 :: "u32 \<Rightarrow> u32" where
  "SIGNEXTEND_11 i = signed_drop_bit 21 (push_bit 21 i)"

definition OP_B_COND :: "u32 \<Rightarrow> armcpu \<Rightarrow> u32 \<times> armcpu" where
  "OP_B_COND i c =
     (if \<not> TEST_COND (drop_bit 8 i AND 0xF) 0 (CPSR c) then (1, c)
      else
        (let c = setR 15 (R c 15 + push_bit 1 (scast (ucast (i AND 0xFF) :: u8))) c;
             c = c\<lparr>next_instruction := R c 15\<rparr>
         in (3, c)))"

definition OP_B_UNCOND :: "u32 \<Rightarrow> armcpu \<Rightarrow> u32 \<times> armcpu" where
  "OP_B_UNCOND i c =
     (let c = setR 15 (R c 15 + push_bit 1 (SIGNEEXT_IMM11 i)) c;
          c = c\<lparr>next_instruction := R c 15\<rparr>
      in (1, c))"

definition OP_BLX :: "u32 \<Rightarrow> armcpu \<Rightarrow> u32 \<times> armcpu" where
  "OP_BLX i c =
     (let c = setR 15 ((R c 14 + push_bit 1 (i AND 0x7FF)) AND 0xFFFFFFFC) c;
          c = setR 14 (next_instruction c OR 1) c;
          c = c\<lparr>next_instruction := R c 15\<rparr>;
          c = setT False c
      in (3, c))"

definition OP_BL_10 :: "u32 \<Rightarrow> armcpu \<Rightarrow> u32 \<times> armcpu" where
  "OP_BL_10 i c = (1, setR 14 (R c 15 + push_bit 12 (SIGNEXTEND_11 i)) c)"

definition OP_BL_11 :: "u32 \<Rightarrow> armcpu \<Rightarrow> u32 \<times> armcpu" where
  "OP_BL_11 i c =
     (let c = setR 15 (R c 14 + push_bit 1 (i AND 0x7FF)) c;
          c = setR 14 (next_instruction c OR 1) c;
          c = c\<lparr>next_instruction := R c 15\<rparr>
      in (4, c))"

definition OP_BX_THUMB :: "u32 \<Rightarrow> armcpu \<Rightarrow> u32 \<times> armcpu" where
  "OP_BX_THUMB i c =
     (let Rm = R c (REG_POS i 3);
          c = setT (u1 (BIT0 Rm)) c;
          c = setR 15 (Rm AND (0xFFFFFFFC OR c_shl 1 (of_bool (psr_T (CPSR c))))) c;
          c = c\<lparr>next_instruction := R c 15\<rparr>
      in (3, c))"

definition OP_BLX_THUMB :: "u32 \<Rightarrow> armcpu \<Rightarrow> u32 \<times> armcpu" where
  "OP_BLX_THUMB i c =
     (let Rm = R c (REG_POS i 3);
          c = setT (u1 (BIT0 Rm)) c;
          c = setR 15 (Rm AND 0xFFFFFFFE) c;
          c = setR 14 (next_instruction c OR 1) c;
          c = c\<lparr>next_instruction := R c 15\<rparr>
      in (4, c))"

end
