(* ===== verification/Fifo.thy ===== *)
theory Fifo
  imports Mem_Laws
begin

text \<open>
  src/source/FIFO.cpp: the inter-processor FIFOs, the geometry FIFO and the display FIFO, with
  \<open>triggerDma\<close> of src/source/MMU.cpp.  All three queues are ring
  buffers with a head, a tail and (two of them) a size; the locale \<open>ring_queue\<close> states
  what their users rely on, a bounded first-in first-out queue, and is interpreted on each of
  the three.  The comments in \<open>IPC_FIFOsend\<close> and \<open>IPC_FIFOrecv\<close> that speak of
  setting the receive bits stand at statements that clear them; the definitions follow the
  statements.
\<close>

section \<open>Ring buffers\<close>

text \<open>The contents of a ring of \<open>cap\<close> cells, read from the head.\<close>

definition ring_list :: "(nat \<Rightarrow> 'v) \<Rightarrow> nat \<Rightarrow> nat \<Rightarrow> nat \<Rightarrow> 'v list" where
  "ring_list buf head len cap = map (\<lambda>k. buf ((head + k) mod cap)) [0..<len]"

lemma length_ring_list [simp]: "length (ring_list buf head len cap) = len"
  by (simp add: ring_list_def)

lemma ring_list_0 [simp]: "ring_list buf head 0 cap = []"
  by (simp add: ring_list_def)

lemma ring_list_enq:
  assumes "len < cap"
  shows "ring_list (buf((head + len) mod cap := v)) head (Suc len) cap =
    ring_list buf head len cap @ [v]"
proof -
  have "(head + k) mod cap \<noteq> (head + len) mod cap" if "k < len" for k
  proof
    assume e: "(head + k) mod cap = (head + len) mod cap"
    then have "cap dvd (head + len) - (head + k)"
      using that mod_eq_dvd_iff_nat [of "head + k" "head + len" cap] by simp
    then have "cap dvd len - k" by simp
    then show False using that assms by (auto dest: dvd_imp_le)
  qed
  then show ?thesis by (simp add: ring_list_def)
qed

lemma ring_list_deq:
  assumes "head < cap"
  shows "ring_list buf head (Suc len) cap = buf head # ring_list buf (Suc head mod cap) len cap"
proof -
  have "[0..<Suc len] = 0 # map Suc [0..<len]"
    by (simp add: upt_conv_Cons map_Suc_upt del: upt_Suc)
  then show ?thesis
    using assms by (simp add: ring_list_def comp_def mod_simps)
qed

section \<open>The queue contract\<close>

locale ring_queue =
  fixes cap :: nat
    and valid :: "'s \<Rightarrow> bool"
    and contents :: "'s \<Rightarrow> 'v list"
    and enq :: "'v \<Rightarrow> 's \<Rightarrow> 's"
    and deq :: "'s \<Rightarrow> 'v \<times> 's"
  assumes contents_le: "valid s \<Longrightarrow> length (contents s) \<le> cap"
    and enq_ok: "valid s \<Longrightarrow> length (contents s) < cap \<Longrightarrow>
      valid (enq v s) \<and> contents (enq v s) = contents s @ [v]"
    and deq_ok: "valid s \<Longrightarrow> contents s \<noteq> [] \<Longrightarrow>
      valid (snd (deq s)) \<and> contents s = fst (deq s) # contents (snd (deq s))"
begin

fun enq_all :: "'v list \<Rightarrow> 's \<Rightarrow> 's" where
  "enq_all [] s = s"
| "enq_all (v # vs) s = enq_all vs (enq v s)"

fun deq_n :: "nat \<Rightarrow> 's \<Rightarrow> 'v list \<times> 's" where
  "deq_n 0 s = ([], s)"
| "deq_n (Suc n) s = (let (v, s) = deq s; (vs, s) = deq_n n s in (v # vs, s))"

lemma enq_all_ok:
  "valid s \<Longrightarrow> length (contents s) + length vs \<le> cap \<Longrightarrow>
    valid (enq_all vs s) \<and> contents (enq_all vs s) = contents s @ vs"
proof (induction vs arbitrary: s)
  case (Cons v vs)
  then have "valid (enq v s)" "contents (enq v s) = contents s @ [v]"
    using enq_ok [of s v] by simp_all
  with Cons show ?case by simp
qed simp

lemma deq_n_ok:
  "valid s \<Longrightarrow> n \<le> length (contents s) \<Longrightarrow>
    valid (snd (deq_n n s)) \<and> fst (deq_n n s) = take n (contents s) \<and>
    contents (snd (deq_n n s)) = drop n (contents s)"
proof (induction n arbitrary: s)
  case (Suc n)
  obtain v s' where d: "deq s = (v, s')" by (cases "deq s")
  have "contents s \<noteq> []" using Suc.prems by auto
  then have "valid s'" "contents s = v # contents s'"
    using deq_ok [OF Suc.prems(1)] d by simp_all
  with Suc.IH [of s'] Suc.prems d show ?case
    by (cases "deq_n n s'") simp
qed simp

text \<open>What is sent into an empty queue comes out in order.\<close>

lemma fifo_order:
  assumes "valid s" "contents s = []" "length vs \<le> cap"
  shows "fst (deq_n (length vs) (enq_all vs s)) = vs"
  using enq_all_ok [OF assms(1), of vs] deq_n_ok [of "enq_all vs s" "length vs"] assms by simp

end

section \<open>Display FIFO\<close>

definition DISP_FIFOinit :: "DISP_FIFO \<Rightarrow> DISP_FIFO" where
  "DISP_FIFOinit f = \<lparr>disp_buf = (\<lambda>_. 0), disp_head = 0, disp_tail = 0\<rparr>"

definition DISP_FIFOsend :: "u32 \<Rightarrow> DISP_FIFO \<Rightarrow> DISP_FIFO" where
  "DISP_FIFOsend val f =
     (let f = f\<lparr>disp_buf := (disp_buf f)(disp_tail f := val)\<rparr>;
          f = f\<lparr>disp_tail := disp_tail f + 1\<rparr>
      in if disp_tail f > 0x5FFF then f\<lparr>disp_tail := 0\<rparr> else f)"

definition DISP_FIFOrecv :: "DISP_FIFO \<Rightarrow> u32 \<times> DISP_FIFO" where
  "DISP_FIFOrecv f =
     (let val = disp_buf f (disp_head f);
          f = f\<lparr>disp_head := disp_head f + 1\<rparr>;
          f = (if disp_head f > 0x5FFF then f\<lparr>disp_head := 0\<rparr> else f)
      in (val, f))"

section \<open>DMA triggers\<close>

definition NDS_RescheduleDMA :: "'io nds \<Rightarrow> 'io nds" where
  "NDS_RescheduleDMA s = NDS_Reschedule s"

definition upd_dma :: "nat \<Rightarrow> nat \<Rightarrow> (dma_controller \<Rightarrow> dma_controller) \<Rightarrow> 'io nds \<Rightarrow> 'io nds" where
  "upd_dma i j f s = s\<lparr>dma := (dma s)(i := (dma s i)(j := f (dma s i j)))\<rparr>"

definition dma_doSchedule :: "nat \<Rightarrow> nat \<Rightarrow> 'io nds \<Rightarrow> 'io nds" where
  "dma_doSchedule i j s =
     (let s = upd_dma i j (\<lambda>d. d\<lparr>dmaCheck := True, dma_nextEvent := nds_timer s\<rparr>) s
      in NDS_RescheduleDMA s)"

definition dma_tryTrigger :: "nat \<Rightarrow> nat \<Rightarrow> EDMAMode \<Rightarrow> 'io nds \<Rightarrow> 'io nds" where
  "dma_tryTrigger i j mode s =
     (if dma_startmode (dma s i j) \<noteq> mode then s
      else if dma_enable (dma s i j) = 0 then s
      else if dma_running (dma s i j) \<and> \<not> dma_paused (dma s i j) then s
      else dma_doSchedule i j (upd_dma i j (\<lambda>d. d\<lparr>dma_triggered := True\<rparr>) s))"

definition triggerDma :: "EDMAMode \<Rightarrow> 'io nds \<Rightarrow> 'io nds" where
  "triggerDma mode s =
     fold (\<lambda>(i, j) s. dma_tryTrigger i j mode s)
       [(0, 0), (0, 1), (0, 2), (0, 3), (1, 0), (1, 1), (1, 2), (1, 3)] s"

section \<open>Geometry FIFO\<close>

definition HACK_GXIFO_SIZE :: u32 where "HACK_GXIFO_SIZE = 200000"

definition GFX_PIPEclear :: "'io nds \<Rightarrow> 'io nds" where
  "GFX_PIPEclear s =
     s\<lparr>gxPIPE := (gxPIPE s)\<lparr>pipe_head := 0, pipe_tail := 0, pipe_size := 0\<rparr>,
       gxFIFO := (gxFIFO s)\<lparr>gx_matrix_stack_op_size := 0\<rparr>\<rparr>"

definition GFX_FIFOclear :: "'io nds \<Rightarrow> 'io nds" where
  "GFX_FIFOclear s =
     s\<lparr>gxFIFO := (gxFIFO s)\<lparr>gx_head := 0, gx_tail := 0, gx_size := 0, gx_matrix_stack_op_size := 0\<rparr>\<rparr>"

definition GXF_FIFO_handleEvents :: "'io nds \<Rightarrow> 'io nds" where
  "GXF_FIFO_handleEvents s =
     (let low = (gx_size (gxFIFO s) \<le> 127);
          lowchange = (fifo_low (gx_stat s) \<noteq> low);
          s = s\<lparr>gx_stat := (gx_stat s)\<lparr>fifo_low := low\<rparr>\<rparr>;
          s = (if low then triggerDma EDMAMode_GXFifo s else s);
          empty = (gx_size (gxFIFO s) = 0);
          emptychange = (fifo_empty (gx_stat s) \<noteq> empty);
          s = s\<lparr>gx_stat := (gx_stat s)\<lparr>fifo_empty := empty\<rparr>\<rparr>;
          s = s\<lparr>gx_stat := (gx_stat s)\<lparr>gxstat_sb := of_bool (gx_matrix_stack_op_size (gxFIFO s) \<noteq> 0)\<rparr>\<rparr>
      in if emptychange \<or> lowchange then NDS_Reschedule s else s)"

definition IsMatrixStackCommand :: "u8 \<Rightarrow> bool" where
  "IsMatrixStackCommand cmd \<longleftrightarrow> cmd = 0x11 \<or> cmd = 0x12"

text \<open>The part of \<open>GFX_FIFOsend\<close> that changes the FIFO itself.\<close>

definition gx_push :: "u8 \<Rightarrow> u32 \<Rightarrow> GFX_FIFO \<Rightarrow> GFX_FIFO" where
  "gx_push cmd param f =
     (let f = f\<lparr>gx_cmd := (gx_cmd f)(gx_tail f := cmd)\<rparr>;
          f = f\<lparr>gx_param := (gx_param f)(gx_tail f := param)\<rparr>;
          f = f\<lparr>gx_tail := gx_tail f + 1\<rparr>;
          f = f\<lparr>gx_size := gx_size f + 1\<rparr>;
          f = (if gx_tail f > HACK_GXIFO_SIZE - 1 then f\<lparr>gx_tail := 0\<rparr> else f)
      in if IsMatrixStackCommand cmd
         then f\<lparr>gx_matrix_stack_op_size := gx_matrix_stack_op_size f + 1\<rparr> else f)"

definition GFX_FIFOsend :: "u8 \<Rightarrow> u32 \<Rightarrow> 'io nds \<Rightarrow> 'io nds" where
  "GFX_FIFOsend cmd param s =
     (let s = s\<lparr>gxFIFO := gx_push cmd param (gxFIFO s)\<rparr>;
          s = GXF_FIFO_handleEvents s
      in NDS_RescheduleGXFIFO 1 s)"

text \<open>The part of \<open>GFX_PIPErecv\<close> that takes an entry out of a FIFO that is not empty.\<close>

definition gx_pop :: "GFX_FIFO \<Rightarrow> (u8 \<times> u32) \<times> GFX_FIFO" where
  "gx_pop f =
     (let cmd = gx_cmd f (gx_head f);
          param = gx_param f (gx_head f);
          f = (if IsMatrixStackCommand cmd
               then f\<lparr>gx_matrix_stack_op_size := gx_matrix_stack_op_size f - 1\<rparr> else f);
          f = f\<lparr>gx_head := gx_head f + 1\<rparr>;
          f = f\<lparr>gx_size := gx_size f - 1\<rparr>;
          f = (if gx_head f > HACK_GXIFO_SIZE - 1 then f\<lparr>gx_head := 0\<rparr> else f)
      in ((cmd, param), f))"

text \<open>\<open>None\<close> is the return value FALSE, which leaves the caller's variables alone.\<close>

definition GFX_PIPErecv :: "'io nds \<Rightarrow> (u8 \<times> u32) option \<times> 'io nds" where
  "GFX_PIPErecv s =
     (if gx_size (gxFIFO s) = 0 then (None, GXF_FIFO_handleEvents s)
      else
        (let (entry, f) = gx_pop (gxFIFO s);
             s = s\<lparr>gxFIFO := f\<rparr>;
             s = GXF_FIFO_handleEvents s
         in (Some entry, s)))"

definition GFX_FIFOcnt :: "u32 \<Rightarrow> 'io nds \<Rightarrow> 'io nds" where
  "GFX_FIFOcnt val s =
     (if val AND push_bit 29 1 \<noteq> 0 then GFX_FIFOclear (GFX_PIPEclear s)
      else s\<lparr>mmu := upd_REG_PAGE ARMCPU_ARM9 (\<lambda>m. T1WriteLong m 0x600 val) (mmu s)\<rparr>)"

section \<open>Inter-processor FIFO\<close>

definition IPCFIFOCNT_SENDEMPTY :: u16 where "IPCFIFOCNT_SENDEMPTY = 0x0001"
definition IPCFIFOCNT_SENDFULL :: u16 where "IPCFIFOCNT_SENDFULL = 0x0002"
definition IPCFIFOCNT_SENDIRQEN :: u16 where "IPCFIFOCNT_SENDIRQEN = 0x0004"
definition IPCFIFOCNT_SENDCLEAR :: u16 where "IPCFIFOCNT_SENDCLEAR = 0x0008"
definition IPCFIFOCNT_RECVEMPTY :: u16 where "IPCFIFOCNT_RECVEMPTY = 0x0100"
definition IPCFIFOCNT_RECVFULL :: u16 where "IPCFIFOCNT_RECVFULL = 0x0200"
definition IPCFIFOCNT_RECVIRQEN :: u16 where "IPCFIFOCNT_RECVIRQEN = 0x0400"
definition IPCFIFOCNT_FIFOERROR :: u16 where "IPCFIFOCNT_FIFOERROR = 0x4000"
definition IPCFIFOCNT_FIFOENABLE :: u16 where "IPCFIFOCNT_FIFOENABLE = 0x8000"
definition IPCFIFOCNT_WRITEABLE :: u16 where
  "IPCFIFOCNT_WRITEABLE = IPCFIFOCNT_SENDIRQEN OR IPCFIFOCNT_RECVIRQEN OR IPCFIFOCNT_FIFOENABLE"

definition IRQ_BIT_IPCFIFO_SENDEMPTY :: nat where "IRQ_BIT_IPCFIFO_SENDEMPTY = 17"
definition IRQ_BIT_IPCFIFO_RECVNONEMPTY :: nat where "IRQ_BIT_IPCFIFO_RECVNONEMPTY = 18"

text \<open>\<open>proc ^ 1\<close>, and the FIFO control register of a processor.\<close>

definition other :: "nat \<Rightarrow> nat" where
  "other p = (if p = 0 then 1 else 0)"

definition read_cnt :: "nat \<Rightarrow> 'io nds \<Rightarrow> u16" where
  "read_cnt p s = T1ReadWord (REG_PAGE p (mmu s)) 0x184"

definition write_cnt :: "nat \<Rightarrow> u16 \<Rightarrow> 'io nds \<Rightarrow> 'io nds" where
  "write_cnt p v s = s\<lparr>mmu := upd_REG_PAGE p (\<lambda>m. T1WriteWord m 0x184 v) (mmu s)\<rparr>"

definition upd_fifo :: "nat \<Rightarrow> (IPC_FIFO \<Rightarrow> IPC_FIFO) \<Rightarrow> 'io nds \<Rightarrow> 'io nds" where
  "upd_fifo p f s = s\<lparr>ipc_fifo := (ipc_fifo s)(p := f (ipc_fifo s p))\<rparr>"

definition IPC_FIFOinit :: "nat \<Rightarrow> 'io nds \<Rightarrow> 'io nds" where
  "IPC_FIFOinit p s =
     (let s = upd_fifo p (\<lambda>_. \<lparr>ipc_buf = (\<lambda>_. 0), ipc_head = 0, ipc_tail = 0, ipc_size = 0\<rparr>) s
      in write_cnt p 0x0101 s)"

text \<open>Lines 61 to 64 of \<open>IPC_FIFOsend\<close> and lines 101 to 104 of \<open>IPC_FIFOrecv\<close>.\<close>

definition ipc_push :: "u32 \<Rightarrow> IPC_FIFO \<Rightarrow> IPC_FIFO" where
  "ipc_push val f =
     (let f = f\<lparr>ipc_buf := (ipc_buf f)(ipc_tail f := val)\<rparr>;
          f = f\<lparr>ipc_tail := ipc_tail f + 1\<rparr>;
          f = f\<lparr>ipc_size := ipc_size f + 1\<rparr>
      in if ipc_tail f > 15 then f\<lparr>ipc_tail := 0\<rparr> else f)"

definition ipc_pop :: "IPC_FIFO \<Rightarrow> u32 \<times> IPC_FIFO" where
  "ipc_pop f =
     (let val = ipc_buf f (ipc_head f);
          f = f\<lparr>ipc_head := ipc_head f + 1\<rparr>;
          f = f\<lparr>ipc_size := ipc_size f - 1\<rparr>;
          f = (if ipc_head f > 15 then f\<lparr>ipc_head := 0\<rparr> else f)
      in (val, f))"

definition IPC_FIFOsend :: "nat \<Rightarrow> u32 \<Rightarrow> 'io nds \<Rightarrow> 'io nds" where
  "IPC_FIFOsend p val s =
     (let cnt_l = read_cnt p s in
      if cnt_l AND IPCFIFOCNT_FIFOENABLE = 0 then s
      else if ipc_size (ipc_fifo s p) > 15 then
        (let cnt_l = cnt_l OR IPCFIFOCNT_FIFOERROR in write_cnt p cnt_l s)
      else
        (let cnt_r = read_cnt (other p) s;
             cnt_l = cnt_l AND 0xBFFC;
             cnt_r = cnt_r AND 0xBCFF;
             s = upd_fifo p (ipc_push val) s;
             (cnt_l, cnt_r) =
               (if ipc_size (ipc_fifo s p) > 15
                then (cnt_l OR IPCFIFOCNT_SENDFULL, cnt_r OR IPCFIFOCNT_RECVFULL)
                else (cnt_l, cnt_r));
             s = write_cnt p cnt_l s;
             s = write_cnt (other p) cnt_r s;
             s = (if cnt_r AND IPCFIFOCNT_RECVIRQEN \<noteq> 0
                  then NDS_makeIrq (other p) IRQ_BIT_IPCFIFO_RECVNONEMPTY s else s)
         in NDS_Reschedule s))"

definition IPC_FIFOrecv :: "nat \<Rightarrow> 'io nds \<Rightarrow> u32 \<times> 'io nds" where
  "IPC_FIFOrecv p s =
     (let cnt_l = read_cnt p s in
      if cnt_l AND IPCFIFOCNT_FIFOENABLE = 0 then (0, s)
      else if ipc_size (ipc_fifo s (other p)) = 0 then
        (let cnt_l = cnt_l OR IPCFIFOCNT_FIFOERROR in (0, write_cnt p cnt_l s))
      else
        (let cnt_r = read_cnt (other p) s;
             cnt_l = cnt_l AND 0xBCFF;
             cnt_r = cnt_r AND 0xBFFC;
             (val, f) = ipc_pop (ipc_fifo s (other p));
             s = upd_fifo (other p) (\<lambda>_. f) s;
             (cnt_l, cnt_r, s) =
               (if ipc_size (ipc_fifo s (other p)) = 0
                then (let cnt_l = cnt_l OR IPCFIFOCNT_RECVEMPTY;
                          cnt_r = cnt_r OR IPCFIFOCNT_SENDEMPTY;
                          s = (if cnt_r AND IPCFIFOCNT_SENDIRQEN \<noteq> 0
                               then NDS_makeIrq (other p) IRQ_BIT_IPCFIFO_SENDEMPTY s else s)
                      in (cnt_l, cnt_r, s))
                else (cnt_l, cnt_r, s));
             s = write_cnt p cnt_l s;
             s = write_cnt (other p) cnt_r s;
             s = NDS_Reschedule s
         in (val, s)))"

definition IPC_FIFOcnt :: "nat \<Rightarrow> u16 \<Rightarrow> 'io nds \<Rightarrow> 'io nds" where
  "IPC_FIFOcnt p val s =
     (let cnt_l = read_cnt p s;
          cnt_r = read_cnt (other p) s;
          cnt_l = (if val AND IPCFIFOCNT_FIFOERROR \<noteq> 0 then cnt_l AND NOT IPCFIFOCNT_FIFOERROR else cnt_l);
          (cnt_l, cnt_r, s) =
            (if val AND IPCFIFOCNT_SENDCLEAR \<noteq> 0
             then (let s = upd_fifo p (\<lambda>f. f\<lparr>ipc_head := 0, ipc_tail := 0, ipc_size := 0\<rparr>) s;
                       cnt_l = cnt_l OR IPCFIFOCNT_SENDEMPTY;
                       cnt_r = cnt_r OR IPCFIFOCNT_RECVEMPTY;
                       cnt_l = cnt_l AND NOT IPCFIFOCNT_SENDFULL;
                       cnt_r = cnt_r AND NOT IPCFIFOCNT_RECVFULL
                   in (cnt_l, cnt_r, s))
             else (cnt_l, cnt_r, s));
          cnt_l = cnt_l AND NOT IPCFIFOCNT_WRITEABLE;
          cnt_l = cnt_l OR (val AND IPCFIFOCNT_WRITEABLE);
          s = (if cnt_l AND IPCFIFOCNT_SENDIRQEN \<noteq> 0 \<and> cnt_l AND IPCFIFOCNT_SENDEMPTY \<noteq> 0
               then NDS_makeIrq p IRQ_BIT_IPCFIFO_SENDEMPTY s else s);
          s = (if cnt_l AND IPCFIFOCNT_RECVIRQEN \<noteq> 0 \<and> cnt_l AND IPCFIFOCNT_RECVEMPTY = 0
               then NDS_makeIrq p IRQ_BIT_IPCFIFO_RECVNONEMPTY s else s);
          s = write_cnt p cnt_l s;
          s = write_cnt (other p) cnt_r s
      in NDS_Reschedule s)"

section \<open>The rings hold queues\<close>

lemma ring_step:
  fixes x :: "'a::len word"
  assumes "unat x < n" "n < 2 ^ LENGTH('a)"
  shows "unat (if of_nat (n - 1) < x + 1 then 0 else x + 1) = Suc (unat x) mod n"
proof -
  have x1: "unat (x + 1) = Suc (unat x)"
    using assms by (subst unat_word_ariths) simp
  have "unat (of_nat (n - 1) :: 'a word) = n - 1"
    using assms by (simp only: unat_of_nat) simp
  then have "(of_nat (n - 1) < x + 1) = (n - 1 < Suc (unat x))"
    using x1 by (simp only: word_less_nat_alt)
  also have "\<dots> = (n = Suc (unat x))"
    using assms(1) by auto
  finally show ?thesis using assms(1) x1 by (auto simp: mod_less)
qed

lemma ring_list_cong:
  assumes "0 < cap" "\<And>k. k < cap \<Longrightarrow> b k = b' k"
  shows "ring_list b head len cap = ring_list b' head len cap"
  using assms by (simp add: ring_list_def)

lemma ring_list_write:
  fixes t :: "'a::len word"
  assumes "0 < cap" "cap < 2 ^ LENGTH('a)"
  shows "ring_list (\<lambda>k. (buf(t := v)) (of_nat k)) head len cap =
    ring_list ((\<lambda>k. buf (of_nat k))(unat t := v)) head len cap"
proof (rule ring_list_cong)
  fix k assume "k < cap"
  then have "(of_nat k = t) = (k = unat t)"
    using assms by (auto simp: unat_of_nat take_bit_nat_eq_self)
  then show "(buf(t := v)) (of_nat k) = ((\<lambda>k. buf (of_nat k))(unat t := v)) k" by auto
qed (use assms in simp)

text \<open>IPC FIFO.\<close>

definition ipc_valid :: "IPC_FIFO \<Rightarrow> bool" where
  "ipc_valid f \<longleftrightarrow> unat (ipc_head f) < 16 \<and> unat (ipc_size f) \<le> 16 \<and>
     unat (ipc_tail f) = (unat (ipc_head f) + unat (ipc_size f)) mod 16"

definition ipc_contents :: "IPC_FIFO \<Rightarrow> u32 list" where
  "ipc_contents f = ring_list (\<lambda>k. ipc_buf f (of_nat k)) (unat (ipc_head f)) (unat (ipc_size f)) 16"

lemma length_ipc_contents [simp]: "length (ipc_contents f) = unat (ipc_size f)"
  by (simp add: ipc_contents_def)

lemma ipc_push_fields:
  "ipc_head (ipc_push v f) = ipc_head f" "ipc_size (ipc_push v f) = ipc_size f + 1"
  "ipc_buf (ipc_push v f) = (ipc_buf f)(ipc_tail f := v)"
  "ipc_tail (ipc_push v f) = (if 15 < ipc_tail f + 1 then 0 else ipc_tail f + 1)"
  by (simp_all add: ipc_push_def Let_def)

lemma ipc_pop_fields:
  "fst (ipc_pop f) = ipc_buf f (ipc_head f)" "ipc_tail (snd (ipc_pop f)) = ipc_tail f"
  "ipc_size (snd (ipc_pop f)) = ipc_size f - 1" "ipc_buf (snd (ipc_pop f)) = ipc_buf f"
  "ipc_head (snd (ipc_pop f)) = (if 15 < ipc_head f + 1 then 0 else ipc_head f + 1)"
  by (simp_all add: ipc_pop_def Let_def)

lemma ipc_push_ok:
  assumes "ipc_valid f" "unat (ipc_size f) < 16"
  shows "ipc_valid (ipc_push v f) \<and> ipc_contents (ipc_push v f) = ipc_contents f @ [v]"
proof -
  have s: "unat (ipc_size f + 1) = Suc (unat (ipc_size f))"
    using assms by (subst unat_word_ariths) simp
  have t: "unat (ipc_tail (ipc_push v f)) = Suc (unat (ipc_tail f)) mod 16"
    using ring_step [of "ipc_tail f" 16] assms(1) by (simp add: ipc_push_fields ipc_valid_def)
  have "ipc_contents (ipc_push v f) = ring_list ((\<lambda>k. ipc_buf f (of_nat k))(unat (ipc_tail f) := v))
      (unat (ipc_head f)) (Suc (unat (ipc_size f))) 16"
    by (simp only: ipc_contents_def ipc_push_fields s) (rule ring_list_write; simp)
  also have "\<dots> = ipc_contents f @ [v]"
    using assms ring_list_enq [of "unat (ipc_size f)" 16]
    by (simp add: ipc_contents_def ipc_valid_def)
  finally show ?thesis
    using assms s t by (simp add: ipc_valid_def ipc_push_fields(1,2) mod_Suc_eq)
qed

lemma ipc_pop_ok:
  assumes "ipc_valid f" "unat (ipc_size f) \<noteq> 0"
  shows "ipc_valid (snd (ipc_pop f)) \<and>
    ipc_contents f = fst (ipc_pop f) # ipc_contents (snd (ipc_pop f))"
proof -
  obtain n where n: "unat (ipc_size f) = Suc n" using assms(2) by (cases "unat (ipc_size f)") auto
  have s: "unat (ipc_size f - 1) = n"
    using n by (subst unat_sub) (auto simp: word_le_nat_alt)
  have h: "unat (ipc_head (snd (ipc_pop f))) = Suc (unat (ipc_head f)) mod 16"
    using ring_step [of "ipc_head f" 16] assms(1) by (simp add: ipc_pop_fields ipc_valid_def)
  have "ipc_contents f = ipc_buf f (ipc_head f) # ipc_contents (snd (ipc_pop f))"
    using assms ring_list_deq [of "unat (ipc_head f)" 16 "\<lambda>k. ipc_buf f (of_nat k)" n] h
    by (simp add: ipc_contents_def ipc_valid_def ipc_pop_fields(3,4) n s)
  then show ?thesis
    using assms n s h by (simp add: ipc_valid_def ipc_pop_fields(1,2,3) mod_add_left_eq)
qed

interpretation ipc: ring_queue 16 ipc_valid ipc_contents ipc_push ipc_pop
proof unfold_locales
  show "length (ipc_contents s) \<le> 16" if "ipc_valid s" for s
    using that by (simp add: ipc_valid_def)
qed (simp_all add: ipc_push_ok ipc_pop_ok flip: length_0_conv)


text \<open>Geometry FIFO: its entries are pairs of a command and a parameter, and the counter of
  matrix-stack commands is part of the invariant.\<close>

definition gx_contents :: "GFX_FIFO \<Rightarrow> (u8 \<times> u32) list" where
  "gx_contents f = ring_list (\<lambda>k. (gx_cmd f (of_nat k), gx_param f (of_nat k)))
     (unat (gx_head f)) (unat (gx_size f)) 200000"

definition stack_cmds :: "(u8 \<times> u32) list \<Rightarrow> nat" where
  "stack_cmds es = length (filter (\<lambda>e. IsMatrixStackCommand (fst e)) es)"

lemma stack_cmds_simps [simp]:
  "stack_cmds [] = 0"
  "stack_cmds (e # es) = (if IsMatrixStackCommand (fst e) then 1 else 0) + stack_cmds es"
  "stack_cmds (es @ es') = stack_cmds es + stack_cmds es'"
  by (simp_all add: stack_cmds_def)

definition gx_valid :: "GFX_FIFO \<Rightarrow> bool" where
  "gx_valid f \<longleftrightarrow> unat (gx_head f) < 200000 \<and> unat (gx_size f) \<le> 200000 \<and>
     unat (gx_tail f) = (unat (gx_head f) + unat (gx_size f)) mod 200000 \<and>
     gx_matrix_stack_op_size f = of_nat (stack_cmds (gx_contents f))"

lemma length_gx_contents [simp]: "length (gx_contents f) = unat (gx_size f)"
  by (simp add: gx_contents_def)

lemma gx_push_fields:
  "gx_head (gx_push c p f) = gx_head f" "gx_size (gx_push c p f) = gx_size f + 1"
  "gx_cmd (gx_push c p f) = (gx_cmd f)(gx_tail f := c)"
  "gx_param (gx_push c p f) = (gx_param f)(gx_tail f := p)"
  "gx_tail (gx_push c p f) = (if 199999 < gx_tail f + 1 then 0 else gx_tail f + 1)"
  "gx_matrix_stack_op_size (gx_push c p f) =
    gx_matrix_stack_op_size f + (if IsMatrixStackCommand c then 1 else 0)"
  by (simp_all add: gx_push_def Let_def HACK_GXIFO_SIZE_def)

lemma gx_pop_fields:
  "fst (gx_pop f) = (gx_cmd f (gx_head f), gx_param f (gx_head f))"
  "gx_tail (snd (gx_pop f)) = gx_tail f" "gx_size (snd (gx_pop f)) = gx_size f - 1"
  "gx_cmd (snd (gx_pop f)) = gx_cmd f" "gx_param (snd (gx_pop f)) = gx_param f"
  "gx_head (snd (gx_pop f)) = (if 199999 < gx_head f + 1 then 0 else gx_head f + 1)"
  "gx_matrix_stack_op_size (snd (gx_pop f)) =
    gx_matrix_stack_op_size f - (if IsMatrixStackCommand (gx_cmd f (gx_head f)) then 1 else 0)"
  by (simp_all add: gx_pop_def Let_def HACK_GXIFO_SIZE_def)

lemma gx_push_ok:
  assumes "gx_valid f" "unat (gx_size f) < 200000"
  shows "gx_valid (gx_push c p f) \<and> gx_contents (gx_push c p f) = gx_contents f @ [(c, p)]"
proof -
  let ?b = "\<lambda>x. (gx_cmd f x, gx_param f x)"
  have s: "unat (gx_size f + 1) = Suc (unat (gx_size f))"
    using assms by (subst unat_word_ariths) simp
  have t: "unat (gx_tail (gx_push c p f)) = Suc (unat (gx_tail f)) mod 200000"
    using ring_step [of "gx_tail f" 200000] assms(1) by (simp add: gx_push_fields gx_valid_def)
  have e: "(((gx_cmd f)(gx_tail f := c)) x, ((gx_param f)(gx_tail f := p)) x) =
    (?b(gx_tail f := (c, p))) x" for x by simp
  have "gx_contents (gx_push c p f) = ring_list (\<lambda>k. (?b(gx_tail f := (c, p))) (of_nat k))
      (unat (gx_head f)) (Suc (unat (gx_size f))) 200000"
    by (simp only: gx_contents_def gx_push_fields s e)
  also have "\<dots> = ring_list ((\<lambda>k. ?b (of_nat k))(unat (gx_tail f) := (c, p)))
      (unat (gx_head f)) (Suc (unat (gx_size f))) 200000"
    by (rule ring_list_write) simp_all
  also have "\<dots> = gx_contents f @ [(c, p)]"
    using assms ring_list_enq [of "unat (gx_size f)" 200000]
    by (simp add: gx_contents_def gx_valid_def)
  finally have c: "gx_contents (gx_push c p f) = gx_contents f @ [(c, p)]" .
  then show ?thesis
    using assms s t by (simp add: gx_valid_def gx_push_fields(1,2,6) mod_Suc_eq)
qed

lemma gx_pop_ok:
  assumes "gx_valid f" "unat (gx_size f) \<noteq> 0"
  shows "gx_valid (snd (gx_pop f)) \<and> gx_contents f = fst (gx_pop f) # gx_contents (snd (gx_pop f))"
proof -
  obtain n where n: "unat (gx_size f) = Suc n" using assms(2) by (cases "unat (gx_size f)") auto
  have s: "unat (gx_size f - 1) = n"
    using n by (subst unat_sub) (auto simp: word_le_nat_alt)
  have h: "unat (gx_head (snd (gx_pop f))) = Suc (unat (gx_head f)) mod 200000"
    using ring_step [of "gx_head f" 200000] assms(1) by (simp add: gx_pop_fields gx_valid_def)
  have c: "gx_contents f = fst (gx_pop f) # gx_contents (snd (gx_pop f))"
    using assms ring_list_deq [of "unat (gx_head f)" 200000 "\<lambda>k. (gx_cmd f (of_nat k), gx_param f (of_nat k))" n] h
    by (simp add: gx_contents_def gx_valid_def gx_pop_fields(1,3,4,5) n s)
  then show ?thesis
    using assms n s h by (simp add: gx_valid_def gx_pop_fields(1,2,3,7) mod_add_left_eq)
qed

interpretation gx: ring_queue 200000 gx_valid gx_contents "\<lambda>(c, p). gx_push c p" gx_pop
proof unfold_locales
  show "length (gx_contents f) \<le> 200000" if "gx_valid f" for f
    using that by (simp add: gx_valid_def)
qed (auto simp: gx_push_ok gx_pop_ok simp flip: length_0_conv)

text \<open>Display FIFO: no size, so a ring of \<open>0x6000\<close> cells holds at most \<open>0x5FFF\<close> words.\<close>

definition disp_len :: "DISP_FIFO \<Rightarrow> nat" where
  "disp_len f = (unat (disp_tail f) + 0x6000 - unat (disp_head f)) mod 0x6000"

definition disp_valid :: "DISP_FIFO \<Rightarrow> bool" where
  "disp_valid f \<longleftrightarrow> unat (disp_head f) < 0x6000 \<and> unat (disp_tail f) < 0x6000"

definition disp_contents :: "DISP_FIFO \<Rightarrow> u32 list" where
  "disp_contents f = ring_list (\<lambda>k. disp_buf f (of_nat k)) (unat (disp_head f)) (disp_len f) 0x6000"

lemma length_disp_contents [simp]: "length (disp_contents f) = disp_len f"
  by (simp add: disp_contents_def)

lemma disp_send_fields:
  "disp_head (DISP_FIFOsend v f) = disp_head f"
  "disp_buf (DISP_FIFOsend v f) = (disp_buf f)(disp_tail f := v)"
  "disp_tail (DISP_FIFOsend v f) = (if 0x5FFF < disp_tail f + 1 then 0 else disp_tail f + 1)"
  by (simp_all add: DISP_FIFOsend_def Let_def)

lemma disp_recv_fields:
  "fst (DISP_FIFOrecv f) = disp_buf f (disp_head f)"
  "disp_tail (snd (DISP_FIFOrecv f)) = disp_tail f" "disp_buf (snd (DISP_FIFOrecv f)) = disp_buf f"
  "disp_head (snd (DISP_FIFOrecv f)) = (if 0x5FFF < disp_head f + 1 then 0 else disp_head f + 1)"
  by (simp_all add: DISP_FIFOrecv_def Let_def)

lemma mod_len_step:
  fixes h t n :: nat
  assumes "h < n" "t < n"
  shows "(t + n - h) mod n < n - 1 \<Longrightarrow> (Suc t mod n + n - h) mod n = Suc ((t + n - h) mod n)"
    and "h \<noteq> t \<Longrightarrow> Suc ((t + n - Suc h mod n) mod n) = (t + n - h) mod n"
proof -
  have wrap: "(t + n - h) mod n = (if h \<le> t then t - h else t + n - h)"
    using assms by (auto simp: le_mod_geq)
  show "(t + n - h) mod n < n - 1 \<Longrightarrow> (Suc t mod n + n - h) mod n = Suc ((t + n - h) mod n)"
    unfolding wrap using assms by (cases "Suc t = n") (auto simp: le_mod_geq split: if_splits)
  show "h \<noteq> t \<Longrightarrow> Suc ((t + n - Suc h mod n) mod n) = (t + n - h) mod n"
    unfolding wrap using assms by (cases "Suc h = n") (auto simp: le_mod_geq split: if_splits)
qed

lemma disp_send_ok:
  assumes "disp_valid f" "disp_len f < 0x5FFF"
  shows "disp_valid (DISP_FIFOsend v f) \<and> disp_contents (DISP_FIFOsend v f) = disp_contents f @ [v]"
proof -
  have t: "unat (disp_tail (DISP_FIFOsend v f)) = Suc (unat (disp_tail f)) mod 0x6000"
    using ring_step [of "disp_tail f" "0x6000"] assms(1) by (simp add: disp_send_fields disp_valid_def)
  have l: "disp_len (DISP_FIFOsend v f) = Suc (disp_len f)"
    using mod_len_step(1) [of "unat (disp_head f)" "0x6000" "unat (disp_tail f)"] assms
    by (simp only: disp_len_def disp_valid_def t disp_send_fields(1))
  have tail: "(unat (disp_head f) + disp_len f) mod 0x6000 = unat (disp_tail f)"
    using assms(1) by (auto simp: disp_len_def disp_valid_def mod_simps)
  have "disp_contents (DISP_FIFOsend v f) =
      ring_list ((\<lambda>k. disp_buf f (of_nat k))(unat (disp_tail f) := v))
        (unat (disp_head f)) (Suc (disp_len f)) 0x6000"
    by (simp only: disp_contents_def disp_send_fields(1,2) l) (rule ring_list_write; simp)
  also have "\<dots> = disp_contents f @ [v]"
    using assms ring_list_enq [of "disp_len f" "0x6000" "\<lambda>k. disp_buf f (of_nat k)" "unat (disp_head f)"] tail
    by (simp add: disp_contents_def)
  finally show ?thesis
    using assms(1) t by (simp add: disp_valid_def disp_send_fields(1))
qed

lemma disp_recv_ok:
  assumes "disp_valid f" "disp_len f \<noteq> 0"
  shows "disp_valid (snd (DISP_FIFOrecv f)) \<and>
    disp_contents f = fst (DISP_FIFOrecv f) # disp_contents (snd (DISP_FIFOrecv f))"
proof -
  have h: "unat (disp_head (snd (DISP_FIFOrecv f))) = Suc (unat (disp_head f)) mod 0x6000"
    using ring_step [of "disp_head f" "0x6000"] assms(1) by (simp add: disp_recv_fields disp_valid_def)
  have "unat (disp_head f) \<noteq> unat (disp_tail f)"
    using assms(2) by (auto simp: disp_len_def)
  then have l: "disp_len f = Suc (disp_len (snd (DISP_FIFOrecv f)))"
    using mod_len_step(2) [of "unat (disp_head f)" "0x6000" "unat (disp_tail f)"] assms(1)
    by (simp only: disp_len_def disp_valid_def h disp_recv_fields(2)) simp
  show ?thesis
    using assms(1) h ring_list_deq [of "unat (disp_head f)" "0x6000" "\<lambda>k. disp_buf f (of_nat k)"]
    by (simp add: disp_contents_def disp_valid_def disp_recv_fields(1,2,3) l)
qed

interpretation disp: ring_queue "0x5FFF" disp_valid disp_contents DISP_FIFOsend DISP_FIFOrecv
proof unfold_locales
  show "length (disp_contents f) \<le> 0x5FFF" for f
    by (simp add: disp_len_def) 
qed (auto simp: disp_send_ok disp_recv_ok simp flip: length_0_conv)

end
