(* ===== verification/Ipc.thy ===== *)
theory Ipc
  imports Fifo
begin

text \<open>
  The pair of inter-processor FIFOs as the two processors see it, through the control registers
  at 0x04000184 and the data registers, and \<open>MMU_IPCSync\<close> of src/source/MMU.cpp.  The
  invariant relates the ring buffers to the empty and full bits of both control registers; every
  operation of FIFO.cpp keeps it, in whatever order the processors run (a byte store to a control
  register, which bypasses FIFO.cpp, does not), and on the states it describes sending and
  receiving are the operations of a bounded queue.
\<close>

section \<open>MMU_IPCSync\<close>

definition IPCSYNC_IRQ_SEND :: u32 where "IPCSYNC_IRQ_SEND = 0x2000"
definition IPCSYNC_IRQ_RECV :: u32 where "IPCSYNC_IRQ_RECV = 0x4000"
definition IRQ_BIT_IPCSYNC :: nat where "IRQ_BIT_IPCSYNC = 16"

definition read_sync :: "nat \<Rightarrow> 'io nds \<Rightarrow> u32" where
  "read_sync p s = T1ReadLong (REG_PAGE p (mmu s)) 0x180"

definition write_sync :: "nat \<Rightarrow> u32 \<Rightarrow> 'io nds \<Rightarrow> 'io nds" where
  "write_sync p v s = s\<lparr>mmu := upd_REG_PAGE p (\<lambda>m. T1WriteLong m 0x180 v) (mmu s)\<rparr>"

definition MMU_IPCSync :: "nat \<Rightarrow> u32 \<Rightarrow> 'io nds \<Rightarrow> 'io nds" where
  "MMU_IPCSync p val s =
     (let sync_l = read_sync p s AND 0xFFFF;
          sync_r = read_sync (other p) s AND 0xFFFF;
          sync_l = (sync_l AND 0x000F) OR (val AND 0x0F00);
          sync_r = (sync_r AND 0x6F00) OR (drop_bit 8 val AND 0x000F);
          sync_l = sync_l OR (val AND 0x6000);
          (sync_l, sync_r, s) =
            (if ensataEmulation s \<and> p = 1 \<and> ensataIpcSyncCounter s < 9
             then (let iteration = drop_bit 8 (val AND 0x0F00);
                       s = (if iteration = 8 - ensataIpcSyncCounter s
                            then s\<lparr>ensataIpcSyncCounter := ensataIpcSyncCounter s + 1\<rparr> else s);
                       sync_r = sync_r AND 0xF0FF;
                       sync_r = sync_r OR push_bit 8 iteration;
                       sync_l = sync_l AND 0xFFF0;
                       sync_l = sync_l OR iteration
                   in (sync_l, sync_r, s))
             else (sync_l, sync_r, s));
          s = write_sync p sync_l s;
          s = write_sync (other p) sync_r s;
          s = (if sync_l AND IPCSYNC_IRQ_SEND \<noteq> 0 \<and> sync_r AND IPCSYNC_IRQ_RECV \<noteq> 0
               then NDS_makeIrq (other p) IRQ_BIT_IPCSYNC s else s)
      in NDS_Reschedule s)"

section \<open>The registers after an operation\<close>

lemma other_simps [simp]: "other 0 = 1" "other (Suc 0) = 0" "other 1 = 0"
  by (simp_all add: other_def)

lemma read_cnt_frame [simp]:
  "read_cnt p (NDS_Reschedule s) = read_cnt p s"
  "read_cnt p (NDS_makeIrq q n s) = read_cnt p s"
  "read_cnt p (upd_fifo q f s) = read_cnt p s"
  by (simp_all add: read_cnt_def NDS_Reschedule_def NDS_makeIrq_def setIF_def upd_fifo_def REG_PAGE_def)

lemma read_cnt_write_cnt [simp]:
  "read_cnt p (write_cnt p v s) = v"
  "(p = 0) \<noteq> (q = 0) \<Longrightarrow> read_cnt p (write_cnt q v s) = read_cnt p s"
  by (simp_all add: read_cnt_def write_cnt_def T1ReadWord_WriteWord_same)

lemma ipc_fifo_frame [simp]:
  "ipc_fifo (NDS_Reschedule s) = ipc_fifo s" "ipc_fifo (NDS_makeIrq q n s) = ipc_fifo s"
  "ipc_fifo (write_cnt q v s) = ipc_fifo s"
  "ipc_fifo (upd_fifo q f s) = (ipc_fifo s)(q := f (ipc_fifo s q))"
  by (simp_all add: NDS_Reschedule_def NDS_makeIrq_def setIF_def upd_fifo_def write_cnt_def)

lemma ipc_masks:
  "(c AND IPCFIFOCNT_FIFOENABLE = 0) = (\<not> bit c 15)"
  "(c AND IPCFIFOCNT_FIFOERROR = 0) = (\<not> bit c 14)"
  "(c AND IPCFIFOCNT_SENDCLEAR = 0) = (\<not> bit c 3)"
  "(c AND IPCFIFOCNT_SENDIRQEN = 0) = (\<not> bit c 2)"
  "(c AND IPCFIFOCNT_RECVIRQEN = 0) = (\<not> bit c 10)"
  "(c AND IPCFIFOCNT_SENDEMPTY = 0) = (\<not> bit c 0)"
  "(c AND IPCFIFOCNT_RECVEMPTY = 0) = (\<not> bit c 8)"
  using and_exp_eq_0_iff_not_bit [of c 15] and_exp_eq_0_iff_not_bit [of c 14]
    and_exp_eq_0_iff_not_bit [of c 3] and_exp_eq_0_iff_not_bit [of c 2]
    and_exp_eq_0_iff_not_bit [of c 10] and_exp_eq_0_iff_not_bit [of c 0]
    and_exp_eq_0_iff_not_bit [of c 8]
  by (simp_all add: IPCFIFOCNT_FIFOENABLE_def IPCFIFOCNT_FIFOERROR_def IPCFIFOCNT_SENDCLEAR_def
      IPCFIFOCNT_SENDIRQEN_def IPCFIFOCNT_RECVIRQEN_def IPCFIFOCNT_SENDEMPTY_def
      IPCFIFOCNT_RECVEMPTY_def)

lemmas ipc_flag_defs = IPCFIFOCNT_SENDEMPTY_def IPCFIFOCNT_SENDFULL_def IPCFIFOCNT_RECVEMPTY_def
  IPCFIFOCNT_RECVFULL_def IPCFIFOCNT_FIFOERROR_def IPCFIFOCNT_WRITEABLE_def
  IPCFIFOCNT_SENDIRQEN_def IPCFIFOCNT_RECVIRQEN_def IPCFIFOCNT_FIFOENABLE_def

text \<open>The status bits of a link: what the sender's and the receiver's register say of the queue.\<close>

definition send_status :: "u16 \<Rightarrow> nat \<Rightarrow> bool" where
  "send_status c n \<longleftrightarrow> (bit c 0 \<longleftrightarrow> n = 0) \<and> (bit c 1 \<longleftrightarrow> n = 16)"

definition recv_status :: "u16 \<Rightarrow> nat \<Rightarrow> bool" where
  "recv_status c n \<longleftrightarrow> (bit c 8 \<longleftrightarrow> n = 0) \<and> (bit c 9 \<longleftrightarrow> n = 16)"

definition ipc_link :: "nat \<Rightarrow> 'io nds \<Rightarrow> bool" where
  "ipc_link p s \<longleftrightarrow> ipc_valid (ipc_fifo s p) \<and>
     send_status (read_cnt p s) (length (ipc_contents (ipc_fifo s p))) \<and>
     recv_status (read_cnt (other p) s) (length (ipc_contents (ipc_fifo s p)))"

definition ipc_inv :: "'io nds \<Rightarrow> bool" where
  "ipc_inv s \<longleftrightarrow> ipc_link 0 s \<and> ipc_link 1 s"

section \<open>Each operation in terms of the queues\<close>

lemma size_gt_15: "(15 < (n :: u8)) = (15 < unat n)"
  by (simp add: word_less_nat_alt)

lemma size_eq_0: "(n = (0 :: u8)) = (unat n = 0)"
  by (simp add: unat_eq_0)

lemma send_disabled: "\<not> bit (read_cnt p s) 15 \<Longrightarrow> IPC_FIFOsend p v s = s"
  by (simp add: IPC_FIFOsend_def ipc_masks Let_def)

lemma send_full:
  "bit (read_cnt p s) 15 \<Longrightarrow> 15 < unat (ipc_size (ipc_fifo s p)) \<Longrightarrow>
    IPC_FIFOsend p v s = write_cnt p (read_cnt p s OR IPCFIFOCNT_FIFOERROR) s"
  by (simp add: IPC_FIFOsend_def ipc_masks Let_def size_gt_15)

lemma send_ok_fifo:
  assumes "bit (read_cnt p s) 15" "unat (ipc_size (ipc_fifo s p)) < 16"
  shows "ipc_fifo (IPC_FIFOsend p v s) = (ipc_fifo s)(p := ipc_push v (ipc_fifo s p))"
  using assms by (simp add: IPC_FIFOsend_def ipc_masks Let_def size_gt_15 split: if_splits)

lemma send_ok_cnt:
  assumes "p < 2" "bit (read_cnt p s) 15" "unat (ipc_size (ipc_fifo s p)) < 16"
  shows "read_cnt p (IPC_FIFOsend p v s) = (read_cnt p s AND 0xBFFC) OR
      (if unat (ipc_size (ipc_fifo s p)) = 15 then IPCFIFOCNT_SENDFULL else 0)"
    and "read_cnt (other p) (IPC_FIFOsend p v s) = (read_cnt (other p) s AND 0xBCFF) OR
      (if unat (ipc_size (ipc_fifo s p)) = 15 then IPCFIFOCNT_RECVFULL else 0)"
proof -
  have "unat (ipc_size (ipc_fifo s p) + 1) = Suc (unat (ipc_size (ipc_fifo s p)))"
    using assms by (subst unat_word_ariths) simp
  moreover have "(p = 0) \<noteq> (other p = 0)" by (simp add: other_def)
  ultimately show
    "read_cnt p (IPC_FIFOsend p v s) = (read_cnt p s AND 0xBFFC) OR
      (if unat (ipc_size (ipc_fifo s p)) = 15 then IPCFIFOCNT_SENDFULL else 0)"
    "read_cnt (other p) (IPC_FIFOsend p v s) = (read_cnt (other p) s AND 0xBCFF) OR
      (if unat (ipc_size (ipc_fifo s p)) = 15 then IPCFIFOCNT_RECVFULL else 0)"
    using assms by (auto simp add: IPC_FIFOsend_def ipc_masks Let_def size_gt_15 ipc_push_fields)
qed

lemma recv_disabled: "\<not> bit (read_cnt p s) 15 \<Longrightarrow> IPC_FIFOrecv p s = (0, s)"
  by (simp add: IPC_FIFOrecv_def ipc_masks Let_def)

lemma recv_empty:
  "bit (read_cnt p s) 15 \<Longrightarrow> unat (ipc_size (ipc_fifo s (other p))) = 0 \<Longrightarrow>
    IPC_FIFOrecv p s = (0, write_cnt p (read_cnt p s OR IPCFIFOCNT_FIFOERROR) s)"
  by (simp add: IPC_FIFOrecv_def ipc_masks Let_def unat_eq_0)

lemma recv_ok_fifo:
  assumes "bit (read_cnt p s) 15" "unat (ipc_size (ipc_fifo s (other p))) \<noteq> 0"
  shows "fst (IPC_FIFOrecv p s) = fst (ipc_pop (ipc_fifo s (other p)))"
    and "ipc_fifo (snd (IPC_FIFOrecv p s)) =
      (ipc_fifo s)(other p := snd (ipc_pop (ipc_fifo s (other p))))"
  using assms by (simp_all add: IPC_FIFOrecv_def ipc_masks Let_def unat_eq_0 split_def)

lemma recv_ok_cnt:
  assumes "p < 2" "bit (read_cnt p s) 15" "unat (ipc_size (ipc_fifo s (other p))) \<noteq> 0"
  shows "read_cnt p (snd (IPC_FIFOrecv p s)) = (read_cnt p s AND 0xBCFF) OR
      (if unat (ipc_size (ipc_fifo s (other p))) = 1 then IPCFIFOCNT_RECVEMPTY else 0)"
    and "read_cnt (other p) (snd (IPC_FIFOrecv p s)) = (read_cnt (other p) s AND 0xBFFC) OR
      (if unat (ipc_size (ipc_fifo s (other p))) = 1 then IPCFIFOCNT_SENDEMPTY else 0)"
proof -
  have *: "(ipc_size (ipc_fifo s (other p)) - 1 = 0) = (unat (ipc_size (ipc_fifo s (other p))) = 1)"
    by (metis diff_eq_diff_eq diff_self unat_1 word_unat_eq_iff)
  have "(p = 0) \<noteq> (other p = 0)" by (simp add: other_def)
  then show "read_cnt p (snd (IPC_FIFOrecv p s)) = (read_cnt p s AND 0xBCFF) OR
      (if unat (ipc_size (ipc_fifo s (other p))) = 1 then IPCFIFOCNT_RECVEMPTY else 0)"
    "read_cnt (other p) (snd (IPC_FIFOrecv p s)) = (read_cnt (other p) s AND 0xBFFC) OR
      (if unat (ipc_size (ipc_fifo s (other p))) = 1 then IPCFIFOCNT_SENDEMPTY else 0)"
    using assms * by (simp_all add: IPC_FIFOrecv_def ipc_masks Let_def unat_eq_0 split_def ipc_pop_fields)
qed

text \<open>The control register a write of \<open>val\<close> leaves, and the peer's.\<close>

definition cnt_local :: "u16 \<Rightarrow> u16 \<Rightarrow> u16" where
  "cnt_local c val =
     (let c = (if bit val 14 then c AND NOT IPCFIFOCNT_FIFOERROR else c);
          c = (if bit val 3 then (c OR IPCFIFOCNT_SENDEMPTY) AND NOT IPCFIFOCNT_SENDFULL else c)
      in (c AND NOT IPCFIFOCNT_WRITEABLE) OR (val AND IPCFIFOCNT_WRITEABLE))"

definition cnt_remote :: "u16 \<Rightarrow> u16 \<Rightarrow> u16" where
  "cnt_remote c val =
     (if bit val 3 then (c OR IPCFIFOCNT_RECVEMPTY) AND NOT IPCFIFOCNT_RECVFULL else c)"

lemma cnt_fifo:
  "ipc_fifo (IPC_FIFOcnt p val s) =
    (if bit val 3 then (ipc_fifo s)(p := (ipc_fifo s p)\<lparr>ipc_head := 0, ipc_tail := 0, ipc_size := 0\<rparr>)
     else ipc_fifo s)"
  by (simp add: IPC_FIFOcnt_def ipc_masks Let_def)

lemma cnt_cnt:
  assumes "p < 2"
  shows "read_cnt p (IPC_FIFOcnt p val s) = cnt_local (read_cnt p s) val"
    and "read_cnt (other p) (IPC_FIFOcnt p val s) = cnt_remote (read_cnt (other p) s) val"
proof -
  have "(p = 0) \<noteq> (other p = 0)" by (simp add: other_def)
  then show "read_cnt p (IPC_FIFOcnt p val s) = cnt_local (read_cnt p s) val"
    "read_cnt (other p) (IPC_FIFOcnt p val s) = cnt_remote (read_cnt (other p) s) val"
    by (simp_all add: IPC_FIFOcnt_def ipc_masks Let_def cnt_local_def cnt_remote_def)
qed

lemma cnt_bits:
  "bit (cnt_local c val) 0 = (bit c 0 \<or> bit val 3)"
  "bit (cnt_local c val) (Suc 0) = (bit c 1 \<and> \<not> bit val 3)"
  "bit (cnt_local c val) 2 = bit val 2" "bit (cnt_local c val) 10 = bit val 10"
  "bit (cnt_local c val) 15 = bit val 15"
  "bit (cnt_local c val) 8 = bit c 8" "bit (cnt_local c val) 9 = bit c 9"
  "bit (cnt_local c val) 14 = (bit c 14 \<and> \<not> bit val 14)"
  "bit (cnt_remote c val) 8 = (bit c 8 \<or> bit val 3)"
  "bit (cnt_remote c val) 9 = (bit c 9 \<and> \<not> bit val 3)"
  "bit (cnt_remote c val) 0 = bit c 0" "bit (cnt_remote c val) (Suc 0) = bit c 1"
  by (simp_all add: cnt_local_def cnt_remote_def ipc_flag_defs Let_def bit_simps)

section \<open>The invariant of the two links\<close>

lemma other_other: "p < 2 \<Longrightarrow> other (other p) = p \<and> other p \<noteq> p \<and> other p < 2"
  by (auto simp: other_def)

lemma ipc_inv_iff:
  assumes "p < 2"
  shows "ipc_inv s \<longleftrightarrow> ipc_link p s \<and> ipc_link (other p) s"
  using assms by (auto simp: ipc_inv_def other_def less_2_cases_iff)

lemma send_status_or_error [simp]:
  "send_status (c OR IPCFIFOCNT_FIFOERROR) n = send_status c n"
  "recv_status (c OR IPCFIFOCNT_FIFOERROR) n = recv_status c n"
  by (simp_all add: send_status_def recv_status_def ipc_flag_defs bit_simps)

lemma ipc_link_error:
  assumes "p < 2" "ipc_inv s"
  shows "ipc_inv (write_cnt p (read_cnt p s OR IPCFIFOCNT_FIFOERROR) s)"
proof -
  have "(p = 0) \<noteq> (other p = 0)" by (simp add: other_def)
  then show ?thesis
    using assms by (simp add: ipc_inv_iff [OF assms(1)] ipc_link_def other_other)
qed

lemma send_inv:
  assumes "p < 2" "ipc_inv s"
  shows "ipc_inv (IPC_FIFOsend p v s)"
proof -
  let ?f = "ipc_fifo s p"
  have v: "ipc_valid ?f" using assms by (simp add: ipc_inv_iff [OF assms(1)] ipc_link_def)
  consider "\<not> bit (read_cnt p s) 15" | "bit (read_cnt p s) 15" "15 < unat (ipc_size ?f)"
    | "bit (read_cnt p s) 15" "unat (ipc_size ?f) < 16" by linarith
  then show ?thesis
  proof cases
    case 3
    have n: "unat (ipc_size (ipc_push v ?f)) = Suc (unat (ipc_size ?f))"
      using ipc_push_ok [OF v 3(2), of v] by (metis length_append_singleton length_ipc_contents)
    note o = other_other [OF assms(1)]
    note c = send_ok_cnt [OF assms(1) 3, of v] and f = send_ok_fifo [OF 3, of v]
    have "ipc_link p (IPC_FIFOsend p v s)"
      using ipc_push_ok [OF v 3(2), of v] 3(2)
      by (simp add: ipc_link_def c f n send_status_def recv_status_def ipc_flag_defs bit_simps)
    moreover have "ipc_link (other p) (IPC_FIFOsend p v s)"
      using assms o
      by (simp add: ipc_inv_iff [OF assms(1)] ipc_link_def c f send_status_def recv_status_def
          ipc_flag_defs bit_simps)
    ultimately show ?thesis by (simp add: ipc_inv_iff [OF assms(1)])
  qed (use assms in \<open>simp_all add: send_disabled send_full ipc_link_error\<close>)
qed

lemma recv_inv:
  assumes "p < 2" "ipc_inv s"
  shows "ipc_inv (snd (IPC_FIFOrecv p s))"
proof -
  let ?f = "ipc_fifo s (other p)"
  note o = other_other [OF assms(1)]
  have v: "ipc_valid ?f" using assms by (simp add: ipc_inv_iff [OF assms(1)] ipc_link_def)
  consider "\<not> bit (read_cnt p s) 15" | "bit (read_cnt p s) 15" "unat (ipc_size ?f) = 0"
    | "bit (read_cnt p s) 15" "unat (ipc_size ?f) \<noteq> 0" by linarith
  then show ?thesis
  proof cases
    case 3
    have n: "unat (ipc_size ?f) = Suc (unat (ipc_size (snd (ipc_pop ?f))))"
      using ipc_pop_ok [OF v 3(2)] by (metis length_Cons length_ipc_contents)
    have le: "unat (ipc_size ?f) \<le> 16" using v by (simp add: ipc_valid_def)
    note c = recv_ok_cnt [OF assms(1) 3] and f = recv_ok_fifo [OF 3]
    have "ipc_link (other p) (snd (IPC_FIFOrecv p s))"
      using ipc_pop_ok [OF v 3(2)] le n
      by (simp add: ipc_link_def c f o send_status_def recv_status_def ipc_flag_defs bit_simps)
    moreover have "ipc_link p (snd (IPC_FIFOrecv p s))"
      using assms o
      by (simp add: ipc_inv_iff [OF assms(1)] ipc_link_def c f send_status_def recv_status_def
          ipc_flag_defs bit_simps)
    ultimately show ?thesis by (simp add: ipc_inv_iff [OF assms(1)])
  qed (use assms in \<open>simp_all add: recv_disabled recv_empty ipc_link_error\<close>)
qed

lemma cnt_inv:
  assumes "p < 2" "ipc_inv s"
  shows "ipc_inv (IPC_FIFOcnt p val s)"
proof -
  note o = other_other [OF assms(1)]
  have l: "ipc_link p s" "ipc_link (other p) s"
    using assms by (simp_all add: ipc_inv_iff [OF assms(1)])
  have p: "ipc_link p (IPC_FIFOcnt p val s)"
    using l(1) by (simp add: ipc_link_def cnt_cnt [OF assms(1)] cnt_fifo send_status_def
        recv_status_def cnt_bits ipc_valid_def)
  have "ipc_link (other p) (IPC_FIFOcnt p val s)"
    using l(2) o by (simp add: ipc_link_def cnt_cnt [OF assms(1)] cnt_fifo send_status_def
        recv_status_def cnt_bits)
  with p show ?thesis by (simp add: ipc_inv_iff [OF assms(1)])
qed

lemma init_inv: "ipc_inv (IPC_FIFOinit 1 (IPC_FIFOinit 0 s))"
  by (simp add: ipc_inv_def ipc_link_def IPC_FIFOinit_def ipc_valid_def send_status_def
      recv_status_def del: One_nat_def) simp

text \<open>The histories of the pair of FIFOs: a reset, then any interleaving of the three operations
  by the two processors.  They are what the register decoders of MMU.cpp run for a 32-bit write
  of the send register, a 32-bit read of the receive register and a 16- or 32-bit write of the
  control register; narrower accesses do not reach FIFO.cpp.\<close>

inductive ipc_reach :: "'io nds \<Rightarrow> bool" where
  reset: "ipc_reach (IPC_FIFOinit 1 (IPC_FIFOinit 0 s))"
| send: "ipc_reach s \<Longrightarrow> p < 2 \<Longrightarrow> ipc_reach (IPC_FIFOsend p v s)"
| recv: "ipc_reach s \<Longrightarrow> p < 2 \<Longrightarrow> ipc_reach (snd (IPC_FIFOrecv p s))"
| cnt: "ipc_reach s \<Longrightarrow> p < 2 \<Longrightarrow> ipc_reach (IPC_FIFOcnt p val s)"

lemma ipc_reach_inv: "ipc_reach s \<Longrightarrow> ipc_inv s"
  by (induction rule: ipc_reach.induct) (blast intro: init_inv send_inv recv_inv cnt_inv)+


text \<open>A byte written to a register without a case of its own in \<open>_MMU_ARM9_write08\<close>
  or \<open>_MMU_ARM7_write08\<close> is stored in the register page as it is.  For the control
  register this bypasses \<open>IPC_FIFOcnt\<close>: the byte replaces the status bits, so byte
  stores there cannot belong to the histories above.\<close>

definition io_store08 :: "nat \<Rightarrow> u32 \<Rightarrow> u8 \<Rightarrow> 'io nds \<Rightarrow> 'io nds" where
  "io_store08 p adr val s =
     s\<lparr>mmu := upd_REG_PAGE p (\<lambda>m. T1WriteByte m (adr AND 0x00FFFFFF) val) (mmu s)\<rparr>"

lemma io_store08_cnt:
  "read_cnt p (io_store08 p 0x04000184 v s) = (read_cnt p s AND 0xFF00) OR ucast v"
  "ipc_fifo (io_store08 p 0x04000184 v s) = ipc_fifo s"
proof -
  have ff: "(0xFF00 :: u16) = push_bit 8 (mask 8)" by (simp add: mask_eq_exp_minus_1)
  have "push_bit 8 (ucast (h :: u8)) OR ucast v =
      ((push_bit 8 (ucast h) OR ucast l) AND 0xFF00) OR (ucast v :: u16)" for h l :: u8
    unfolding ff by (rule bit_word_eqI) (auto simp: bit_simps dest: bit_imp_le_length)
  then show "read_cnt p (io_store08 p 0x04000184 v s) = (read_cnt p s AND 0xFF00) OR ucast v"
    by (simp add: read_cnt_def io_store08_def T1ReadWord_def T1WriteByte_def)
  show "ipc_fifo (io_store08 p 0x04000184 v s) = ipc_fifo s" by (simp add: io_store08_def)
qed

lemma byte_store_breaks_status:
  assumes "ipc_contents (ipc_fifo s p) = []" "\<not> bit v 0"
  shows "\<not> send_status (read_cnt p (io_store08 p 0x04000184 v s))
    (length (ipc_contents (ipc_fifo (io_store08 p 0x04000184 v s) p)))"
  unfolding io_store08_cnt assms(1) using assms(2) by (simp add: send_status_def bit_simps)

section \<open>Sending and receiving over the two registers\<close>

lemma ipc_reach_link: "ipc_reach s \<Longrightarrow> p < 2 \<Longrightarrow> ipc_link p s"
  using ipc_reach_inv ipc_inv_iff by blast

lemma read_cnt_write_cnt_other [simp]:
  "read_cnt (other p) (write_cnt p v s) = read_cnt (other p) s"
  "read_cnt p (write_cnt (other p) v s) = read_cnt p s"
  by (simp_all add: other_def)

lemma send_contents:
  assumes "ipc_reach s" "p < 2" "bit (read_cnt p s) 15" "length (ipc_contents (ipc_fifo s p)) < 16"
  shows "ipc_contents (ipc_fifo (IPC_FIFOsend p v s) p) = ipc_contents (ipc_fifo s p) @ [v]"
    and "ipc_fifo (IPC_FIFOsend p v s) (other p) = ipc_fifo s (other p)"
    and "bit (read_cnt p (IPC_FIFOsend p v s)) 15"
    and "bit (read_cnt (other p) (IPC_FIFOsend p v s)) 15 = bit (read_cnt (other p) s) 15"
    and "\<not> bit (read_cnt p (IPC_FIFOsend p v s)) 14"
proof -
  have len: "unat (ipc_size (ipc_fifo s p)) < 16" using assms(4) by simp
  have "ipc_valid (ipc_fifo s p)" using ipc_reach_link [OF assms(1,2)] by (simp add: ipc_link_def)
  then show "ipc_contents (ipc_fifo (IPC_FIFOsend p v s) p) = ipc_contents (ipc_fifo s p) @ [v]"
    using ipc_push_ok len by (simp add: send_ok_fifo [OF assms(3) len])
  show "ipc_fifo (IPC_FIFOsend p v s) (other p) = ipc_fifo s (other p)"
    using other_other [OF assms(2)] by (simp add: send_ok_fifo [OF assms(3) len])
  show "bit (read_cnt p (IPC_FIFOsend p v s)) 15" "\<not> bit (read_cnt p (IPC_FIFOsend p v s)) 14"
    "bit (read_cnt (other p) (IPC_FIFOsend p v s)) 15 = bit (read_cnt (other p) s) 15"
    using assms(3) by (simp_all add: send_ok_cnt [OF assms(2,3) len] ipc_flag_defs bit_simps)
qed

lemma recv_contents:
  assumes "ipc_reach s" "p < 2" "bit (read_cnt p s) 15" "ipc_contents (ipc_fifo s (other p)) \<noteq> []"
  shows "ipc_contents (ipc_fifo s (other p)) =
      fst (IPC_FIFOrecv p s) # ipc_contents (ipc_fifo (snd (IPC_FIFOrecv p s)) (other p))"
    and "ipc_fifo (snd (IPC_FIFOrecv p s)) p = ipc_fifo s p"
    and "bit (read_cnt p (snd (IPC_FIFOrecv p s))) 15"
    and "\<not> bit (read_cnt p (snd (IPC_FIFOrecv p s))) 14"
proof -
  note o = other_other [OF assms(2)]
  have len: "unat (ipc_size (ipc_fifo s (other p))) \<noteq> 0"
    using assms(4) by (simp flip: length_0_conv)
  have "ipc_valid (ipc_fifo s (other p))"
    using ipc_reach_link [OF assms(1), of "other p"] o by (simp add: ipc_link_def)
  then show "ipc_contents (ipc_fifo s (other p)) =
      fst (IPC_FIFOrecv p s) # ipc_contents (ipc_fifo (snd (IPC_FIFOrecv p s)) (other p))"
    using ipc_pop_ok len by (simp add: recv_ok_fifo [OF assms(3) len])
  show "ipc_fifo (snd (IPC_FIFOrecv p s)) p = ipc_fifo s p"
    using o by (simp add: recv_ok_fifo [OF assms(3) len])
  show "bit (read_cnt p (snd (IPC_FIFOrecv p s))) 15"
    "\<not> bit (read_cnt p (snd (IPC_FIFOrecv p s))) 14"
    using assms(3) by (simp_all add: recv_ok_cnt [OF assms(2,3) len] ipc_flag_defs bit_simps)
qed

text \<open>A program that writes a list of words, and one that reads a number of words.\<close>

fun ipc_write_all :: "nat \<Rightarrow> u32 list \<Rightarrow> 'io nds \<Rightarrow> 'io nds" where
  "ipc_write_all p [] s = s"
| "ipc_write_all p (v # vs) s = ipc_write_all p vs (IPC_FIFOsend p v s)"

fun ipc_read_n :: "nat \<Rightarrow> nat \<Rightarrow> 'io nds \<Rightarrow> u32 list \<times> 'io nds" where
  "ipc_read_n p 0 s = ([], s)"
| "ipc_read_n p (Suc n) s =
     (let (v, s) = IPC_FIFOrecv p s; (vs, s) = ipc_read_n p n s in (v # vs, s))"

lemma ipc_write_all_ok:
  "ipc_reach s \<Longrightarrow> p < 2 \<Longrightarrow> bit (read_cnt p s) 15 \<Longrightarrow>
    length (ipc_contents (ipc_fifo s p)) + length vs \<le> 16 \<Longrightarrow>
    ipc_reach (ipc_write_all p vs s) \<and>
    ipc_contents (ipc_fifo (ipc_write_all p vs s) p) = ipc_contents (ipc_fifo s p) @ vs \<and>
    bit (read_cnt (other p) (ipc_write_all p vs s)) 15 = bit (read_cnt (other p) s) 15"
proof (induction vs arbitrary: s)
  case (Cons v vs)
  then have "length (ipc_contents (ipc_fifo s p)) < 16" by simp
  note step = send_contents [OF Cons.prems(1,2,3) this, of v]
  have "ipc_reach (IPC_FIFOsend p v s)" using Cons.prems by (blast intro: ipc_reach.send)
  from Cons.IH [OF this Cons.prems(2) step(3)] show ?case
    using Cons.prems(4) by (simp only: ipc_write_all.simps step) simp
qed simp

lemma ipc_read_n_ok:
  "ipc_reach s \<Longrightarrow> p < 2 \<Longrightarrow> bit (read_cnt p s) 15 \<Longrightarrow>
    n \<le> length (ipc_contents (ipc_fifo s (other p))) \<Longrightarrow>
    fst (ipc_read_n p n s) = take n (ipc_contents (ipc_fifo s (other p)))"
proof (induction n arbitrary: s)
  case (Suc n)
  obtain v s' where d: "IPC_FIFOrecv p s = (v, s')" by (cases "IPC_FIFOrecv p s")
  have ne: "ipc_contents (ipc_fifo s (other p)) \<noteq> []"
    using Suc.prems(4) by (auto simp del: length_ipc_contents)
  note step = recv_contents [OF Suc.prems(1,2,3) ne, unfolded d fst_conv snd_conv]
  have "ipc_reach s'" using ipc_reach.recv [OF Suc.prems(1,2)] by (simp add: d)
  from Suc.IH [OF this Suc.prems(2) step(3)]
  have "fst (ipc_read_n p n s') = take n (ipc_contents (ipc_fifo s' (other p)))"
    using Suc.prems(4) by (simp add: step(1) del: length_ipc_contents)
  then show ?case by (simp add: d step(1) split_def)
qed simp

section \<open>Properties\<close>

text \<open>C7: In every state the two processors can reach from a reset by any interleaving of
  IPC_FIFOsend, IPC_FIFOrecv and IPC_FIFOcnt, the operations behind 32-bit accesses of the FIFO
  data registers and 16- and 32-bit writes of the control register, each of the two queues holds
  at most 16 words, and the empty and full bits of the sender's and of the receiver's control
  register say exactly whether it holds none, or 16.  Byte stores to the control register, which
  bypass IPC_FIFOcnt and overwrite the bits, are excluded.\<close>

theorem ipc_status_bits:
  assumes "ipc_reach s" "p < 2"
  shows "length (ipc_contents (ipc_fifo s p)) \<le> 16 \<and>
    send_status (read_cnt p s) (length (ipc_contents (ipc_fifo s p))) \<and>
    recv_status (read_cnt (other p) s) (length (ipc_contents (ipc_fifo s p)))"
  using ipc_reach_link [OF assms] ipc.contents_le [of "ipc_fifo s p"] by (simp add: ipc_link_def)

text \<open>The reset pair with both FIFOs enabled.\<close>

definition ipc_on :: "unit nds" where
  "ipc_on = IPC_FIFOcnt 1 0x8400 (IPC_FIFOcnt 0 0x8400 (IPC_FIFOinit 1 (IPC_FIFOinit 0 zero_nds)))"

lemma ipc_on_reach: "ipc_reach ipc_on"
  unfolding ipc_on_def by (intro ipc_reach.intros) simp_all

lemma ipc_on_enabled: "bit (read_cnt 0 ipc_on) 15" "bit (read_cnt 1 ipc_on) 15"
  using cnt_cnt [of 0 "0x8400" "IPC_FIFOinit 1 (IPC_FIFOinit 0 zero_nds)"]
    cnt_cnt [of 1 "0x8400" "IPC_FIFOcnt 0 0x8400 (IPC_FIFOinit 1 (IPC_FIFOinit 0 zero_nds))"]
  by (simp_all add: ipc_on_def cnt_bits cnt_remote_def)

lemma ipc_on_empty: "ipc_contents (ipc_fifo ipc_on p) = []" if "p < 2"
  using that
  by (auto simp: less_2_cases_iff ipc_on_def cnt_fifo IPC_FIFOinit_def simp flip: length_0_conv)

theorem ipc_status_bits_witness:
  "send_status (read_cnt 0 ipc_on) (length (ipc_contents (ipc_fifo ipc_on 0)))"
  using ipc_status_bits [OF ipc_on_reach, of 0] by simp

text \<open>C2: A write to the IPC send register refines the abstract 16-word queue in every state
  reachable by the three FIFO operations: with the FIFO disabled nothing changes; on a full queue the queues are untouched and
  the error bit is set; otherwise the word is appended at the end, the opposite queue is
  untouched and the error bit is clear.\<close>

theorem ipc_send_refines_queue:
  assumes "ipc_reach s" "p < 2"
  shows "if \<not> bit (read_cnt p s) 15 then IPC_FIFOsend p v s = s
     else if length (ipc_contents (ipc_fifo s p)) = 16 then
       ipc_fifo (IPC_FIFOsend p v s) = ipc_fifo s \<and> bit (read_cnt p (IPC_FIFOsend p v s)) 14
     else ipc_contents (ipc_fifo (IPC_FIFOsend p v s) p) = ipc_contents (ipc_fifo s p) @ [v] \<and>
       ipc_fifo (IPC_FIFOsend p v s) (other p) = ipc_fifo s (other p) \<and>
       \<not> bit (read_cnt p (IPC_FIFOsend p v s)) 14"
proof -
  have "length (ipc_contents (ipc_fifo s p)) \<le> 16"
    using ipc_reach_link [OF assms] ipc.contents_le by (simp add: ipc_link_def)
  then consider "\<not> bit (read_cnt p s) 15" | "length (ipc_contents (ipc_fifo s p)) = 16"
    | "bit (read_cnt p s) 15" "length (ipc_contents (ipc_fifo s p)) < 16" by linarith
  then show ?thesis
  proof cases
    case 3
    then show ?thesis using send_contents [OF assms 3] by simp
  qed (simp_all add: send_disabled send_full ipc_flag_defs bit_simps)
qed

theorem ipc_send_refines_queue_witness:
  "ipc_contents (ipc_fifo (IPC_FIFOsend 0 0xCAFE ipc_on) 0) = [0xCAFE]"
  using ipc_send_refines_queue [OF ipc_on_reach, of 0 "0xCAFE"] ipc_on_enabled ipc_on_empty [of 0]
  by (simp flip: length_0_conv)

text \<open>C5: A read of the IPC receive register refines the abstract queue in every state reachable
  by the three FIFO operations: with the FIFO disabled it returns 0 and changes nothing; on an empty queue it returns 0,
  leaves the queues alone and sets the error bit; otherwise it returns and removes the oldest
  word, leaves the opposite queue alone and clears the error bit.\<close>

theorem ipc_recv_refines_queue:
  assumes "ipc_reach s" "p < 2"
  shows "let (r, s') = IPC_FIFOrecv p s in
     if \<not> bit (read_cnt p s) 15 then r = 0 \<and> s' = s
     else if ipc_contents (ipc_fifo s (other p)) = [] then
       r = 0 \<and> ipc_fifo s' = ipc_fifo s \<and> bit (read_cnt p s') 14
     else ipc_contents (ipc_fifo s (other p)) = r # ipc_contents (ipc_fifo s' (other p)) \<and>
       ipc_fifo s' p = ipc_fifo s p \<and> \<not> bit (read_cnt p s') 14"
proof -
  consider "\<not> bit (read_cnt p s) 15"
    | "bit (read_cnt p s) 15" "ipc_contents (ipc_fifo s (other p)) = []"
    | "bit (read_cnt p s) 15" "ipc_contents (ipc_fifo s (other p)) \<noteq> []" by blast
  then show ?thesis
  proof cases
    case 2
    then have "unat (ipc_size (ipc_fifo s (other p))) = 0"
      using length_ipc_contents [of "ipc_fifo s (other p)"] by simp
    then show ?thesis using 2 by (simp add: recv_empty ipc_flag_defs bit_simps)
  next
    case 3
    then show ?thesis using recv_contents [OF assms 3] by (simp add: split_def Let_def)
  qed (simp add: recv_disabled)
qed

theorem ipc_recv_refines_queue_witness:
  "fst (IPC_FIFOrecv 1 ipc_on) = 0 \<and> bit (read_cnt 1 (snd (IPC_FIFOrecv 1 ipc_on))) 14"
  using ipc_recv_refines_queue [OF ipc_on_reach, of 1] ipc_on_enabled ipc_on_empty [of 0]
  by (simp add: split_def Let_def)

text \<open>C6: What one processor sends over the IPC FIFO the other receives, in order and without
  loss: from a state reachable by the three FIFO operations with both FIFOs enabled and an empty queue, any list of at most
  16 words written to the send register is what the same number of reads on the other side
  returns.\<close>

theorem ipc_delivers_in_order:
  assumes "ipc_reach s" "p < 2" "bit (read_cnt p s) 15" "bit (read_cnt (other p) s) 15"
    and "ipc_contents (ipc_fifo s p) = []" "length vs \<le> 16"
  shows "fst (ipc_read_n (other p) (length vs) (ipc_write_all p vs s)) = vs"
proof -
  note o = other_other [OF assms(2)]
  have w: "ipc_reach (ipc_write_all p vs s)" "ipc_contents (ipc_fifo (ipc_write_all p vs s) p) = vs"
    "bit (read_cnt (other p) (ipc_write_all p vs s)) 15"
    using ipc_write_all_ok [OF assms(1,2,3), of vs] assms(4,5,6) by simp_all
  then show ?thesis
    using ipc_read_n_ok [OF w(1), of "other p" "length vs"] o by (simp del: length_ipc_contents)
qed

theorem ipc_delivers_in_order_witness:
  "fst (ipc_read_n 1 3 (ipc_write_all 0 [10, 20, 30] ipc_on)) = [10, 20, 30]"
  using ipc_delivers_in_order [OF ipc_on_reach, of 0 "[10, 20, 30]"] ipc_on_enabled ipc_on_empty [of 0]
  by (simp add: numeral_3_eq_3 del: ipc_read_n.simps ipc_write_all.simps)

lemma read_sync_frame [simp]:
  "read_sync p (NDS_Reschedule s) = read_sync p s" "read_sync p (NDS_makeIrq q n s) = read_sync p s"
  by (simp_all add: read_sync_def NDS_Reschedule_def NDS_makeIrq_def setIF_def REG_PAGE_def)

lemma read_sync_write_sync [simp]:
  "read_sync p (write_sync p v s) = v"
  "read_sync (other p) (write_sync p v s) = read_sync (other p) s"
  "read_sync p (write_sync (other p) v s) = read_sync p s"
  by (simp_all add: read_sync_def write_sync_def T1ReadLong_aligned
      T1ReadLong_aligned_WriteLong_same other_def)

lemma reg_IF_bits_frame [simp]:
  "reg_IF_bits (mmu (NDS_Reschedule s)) = reg_IF_bits (mmu s)"
  "reg_IF_bits (mmu (write_sync p v s)) = reg_IF_bits (mmu s)"
  "reg_IF_bits (mmu (NDS_makeIrq q n s)) =
    (reg_IF_bits (mmu s))(q := reg_IF_bits (mmu s) q OR push_bit n 1)"
  by (simp_all add: NDS_Reschedule_def NDS_makeIrq_def setIF_def write_sync_def upd_REG_PAGE_def)

lemma sync_masks:
  "((v :: u32) AND IPCSYNC_IRQ_SEND = 0) = (\<not> bit v 13)"
  "((v :: u32) AND IPCSYNC_IRQ_RECV = 0) = (\<not> bit v 14)"
  using and_exp_eq_0_iff_not_bit [of v 13] and_exp_eq_0_iff_not_bit [of v 14]
  by (simp_all add: IPCSYNC_IRQ_SEND_def IPCSYNC_IRQ_RECV_def)

text \<open>C39: Outside the Ensata handshake a write of the IPC synchronisation register crosses the
  link: the output nibble appears in the writer's register and as the input nibble of the
  other processor's, the writer's input nibble and the other's output and control bits are
  kept, and the other processor gets the IPC-sync interrupt exactly when the writer asks for
  it and the other has it enabled.\<close>

theorem ipc_sync_crosses:
  assumes "\<not> (ensataEmulation s \<and> p = 1 \<and> ensataIpcSyncCounter s < 9)"
  shows "let s' = MMU_IPCSync p val s; l = read_sync p s; r = read_sync (other p) s in
     read_sync p s' = (l AND 0xF) OR (val AND 0x6F00) \<and>
     read_sync (other p) s' = (r AND 0x6F00) OR (drop_bit 8 val AND 0xF) \<and>
     reg_IF_bits (mmu s') = (if bit val 13 \<and> bit r 14
       then (reg_IF_bits (mmu s))(other p := reg_IF_bits (mmu s) (other p) OR push_bit 16 1)
       else reg_IF_bits (mmu s))"
proof -
  define l r where "l = read_sync p s" and "r = read_sync (other p) s"
  have l: "((l AND 0xFFFF) AND 0x000F OR val AND 0x0F00) OR val AND 0x6000 = (l AND 0xF) OR (val AND 0x6F00)"
  proof -
    have "val AND 0x6F00 = val AND 0x0F00 OR val AND 0x6000"
      using bit.conj_disj_distrib [of val "0x0F00" "0x6000"] by simp
    then show ?thesis by (simp add: and.assoc or.assoc)
  qed
  have r: "(r AND 0xFFFF) AND 0x6F00 OR drop_bit 8 val AND 0xF = (r AND 0x6F00) OR (drop_bit 8 val AND 0xF)"
    by (simp add: and.assoc)
  have b: "bit ((l AND 0xF) OR (val AND 0x6F00)) 13 = bit val 13"
    "bit ((r AND 0x6F00) OR (drop_bit 8 val AND 0xF)) 14 = bit r 14"
    by (simp_all add: bit_simps)
  have "MMU_IPCSync p val s =
    NDS_Reschedule (if bit val 13 \<and> bit r 14
      then NDS_makeIrq (other p) IRQ_BIT_IPCSYNC
        (write_sync (other p) ((r AND 0x6F00) OR (drop_bit 8 val AND 0xF))
          (write_sync p ((l AND 0xF) OR (val AND 0x6F00)) s))
      else write_sync (other p) ((r AND 0x6F00) OR (drop_bit 8 val AND 0xF))
          (write_sync p ((l AND 0xF) OR (val AND 0x6F00)) s))"
    using assms unfolding MMU_IPCSync_def Let_def l_def [symmetric] r_def [symmetric] if_not_P [OF assms]
    by (simp only: prod.case l r sync_masks b if_False not_not)
  then show ?thesis
    by (simp add: Let_def l_def r_def IRQ_BIT_IPCSYNC_def)
qed

theorem ipc_sync_crosses_witness:
  "read_sync 1 (MMU_IPCSync 0 0x0700 zero_nds) = 7"
proof -
  have "read_sync 1 zero_nds = 0"
    by (simp add: read_sync_def REG_PAGE_def zero_nds_def zero_mmu_def T1ReadLong_def)
  then show ?thesis
    using ipc_sync_crosses [of zero_nds 0 "0x0700"] by (simp add: Let_def zero_nds_def)
qed

end
