(* ===== verification/Arm_Shift.thy ===== *)
theory Arm_Shift
  imports Thumb_Mem
begin

text \<open>
  The shifter operand of the ARM data-processing instructions: the macros of
  src/source/arm_instructions.cpp, lines 46 to 247.  Each macro declares \<open>shift_op\<close>, and
  the \<open>S_\<close> variants a carry \<open>c\<close> as well; here they are functions of the
  instruction word and the processor that return the value, or the pair.  \<open>operand2\<close>
  names the nine forms, and \<open>operand2_ok\<close> says that all of them compute the
  architecture's shifter operand for every amount.
\<close>

definition LSL_IMM :: "u32 \<Rightarrow> armcpu \<Rightarrow> u32" where
  "LSL_IMM i c = c_shl (R c (REG_POS i 0)) (drop_bit 7 i AND 0x1F)"

definition S_LSL_IMM :: "u32 \<Rightarrow> armcpu \<Rightarrow> u32 \<times> u32" where
  "S_LSL_IMM i c =
     (let shift_op = drop_bit 7 i AND 0x1F;
          cy = of_bool (psr_C (CPSR c))
      in if shift_op = 0 then (R c (REG_POS i 0), cy)
         else (let cy = BIT_N (R c (REG_POS i 0)) (32 - shift_op);
                   shift_op = c_shl (R c (REG_POS i 0)) shift_op
               in (shift_op, cy)))"

definition LSL_REG :: "u32 \<Rightarrow> armcpu \<Rightarrow> u32" where
  "LSL_REG i c =
     (let shift_op = R c (REG_POS i 8) AND 0xFF in
      if shift_op \<ge> 32 then 0 else c_shl (R c (REG_POS i 0)) shift_op)"

definition S_LSL_REG :: "u32 \<Rightarrow> armcpu \<Rightarrow> u32 \<times> u32" where
  "S_LSL_REG i c =
     (let shift_op = R c (REG_POS i 8) AND 0xFF;
          cy = of_bool (psr_C (CPSR c))
      in if shift_op = 0 then (R c (REG_POS i 0), cy)
         else if shift_op < 32 then
           (let cy = BIT_N (R c (REG_POS i 0)) (32 - shift_op);
                shift_op = c_shl (R c (REG_POS i 0)) shift_op
            in (shift_op, cy))
         else if shift_op = 32 then (0, BIT0 (R c (REG_POS i 0)))
         else (0, 0))"

definition LSR_IMM :: "u32 \<Rightarrow> armcpu \<Rightarrow> u32" where
  "LSR_IMM i c =
     (let shift_op = drop_bit 7 i AND 0x1F in
      if shift_op \<noteq> 0 then c_shr (R c (REG_POS i 0)) shift_op else shift_op)"

definition S_LSR_IMM :: "u32 \<Rightarrow> armcpu \<Rightarrow> u32 \<times> u32" where
  "S_LSR_IMM i c =
     (let shift_op = drop_bit 7 i AND 0x1F in
      if shift_op = 0 then (shift_op, BIT31 (R c (REG_POS i 0)))
      else (let cy = BIT_N (R c (REG_POS i 0)) (shift_op - 1);
                shift_op = c_shr (R c (REG_POS i 0)) shift_op
            in (shift_op, cy)))"

definition LSR_REG :: "u32 \<Rightarrow> armcpu \<Rightarrow> u32" where
  "LSR_REG i c =
     (let shift_op = R c (REG_POS i 8) AND 0xFF in
      if shift_op \<ge> 32 then 0 else c_shr (R c (REG_POS i 0)) shift_op)"

definition S_LSR_REG :: "u32 \<Rightarrow> armcpu \<Rightarrow> u32 \<times> u32" where
  "S_LSR_REG i c =
     (let shift_op = R c (REG_POS i 8) AND 0xFF;
          cy = of_bool (psr_C (CPSR c))
      in if shift_op = 0 then (R c (REG_POS i 0), cy)
         else if shift_op < 32 then
           (let cy = BIT_N (R c (REG_POS i 0)) (shift_op - 1);
                shift_op = c_shr (R c (REG_POS i 0)) shift_op
            in (shift_op, cy))
         else if shift_op = 32 then (0, BIT31 (R c (REG_POS i 0)))
         else (0, 0))"

definition ASR_IMM :: "u32 \<Rightarrow> armcpu \<Rightarrow> u32" where
  "ASR_IMM i c =
     (let shift_op = drop_bit 7 i AND 0x1F in
      if shift_op = 0 then BIT31 (R c (REG_POS i 0)) * 0xFFFFFFFF
      else c_sar (R c (REG_POS i 0)) shift_op)"

definition S_ASR_IMM :: "u32 \<Rightarrow> armcpu \<Rightarrow> u32 \<times> u32" where
  "S_ASR_IMM i c =
     (let shift_op = drop_bit 7 i AND 0x1F in
      if shift_op = 0 then (BIT31 (R c (REG_POS i 0)) * 0xFFFFFFFF, BIT31 (R c (REG_POS i 0)))
      else (let cy = BIT_N (R c (REG_POS i 0)) (shift_op - 1);
                shift_op = c_sar (R c (REG_POS i 0)) shift_op
            in (shift_op, cy)))"

definition ASR_REG :: "u32 \<Rightarrow> armcpu \<Rightarrow> u32" where
  "ASR_REG i c =
     (let shift_op = R c (REG_POS i 8) AND 0xFF in
      if shift_op = 0 then R c (REG_POS i 0)
      else if shift_op < 32 then c_sar (R c (REG_POS i 0)) shift_op
      else BIT31 (R c (REG_POS i 0)) * 0xFFFFFFFF)"

definition S_ASR_REG :: "u32 \<Rightarrow> armcpu \<Rightarrow> u32 \<times> u32" where
  "S_ASR_REG i c =
     (let shift_op = R c (REG_POS i 8) AND 0xFF;
          cy = of_bool (psr_C (CPSR c))
      in if shift_op = 0 then (R c (REG_POS i 0), cy)
         else if shift_op < 32 then
           (let cy = BIT_N (R c (REG_POS i 0)) (shift_op - 1);
                shift_op = c_sar (R c (REG_POS i 0)) shift_op
            in (shift_op, cy))
         else (BIT31 (R c (REG_POS i 0)) * 0xFFFFFFFF, BIT31 (R c (REG_POS i 0))))"

definition ROR_IMM :: "u32 \<Rightarrow> armcpu \<Rightarrow> u32" where
  "ROR_IMM i c =
     (let shift_op = drop_bit 7 i AND 0x1F in
      if shift_op = 0
      then push_bit 31 (of_bool (psr_C (CPSR c))) OR drop_bit 1 (R c (REG_POS i 0))
      else ROR (R c (REG_POS i 0)) shift_op)"

definition S_ROR_IMM :: "u32 \<Rightarrow> armcpu \<Rightarrow> u32 \<times> u32" where
  "S_ROR_IMM i c =
     (let shift_op = drop_bit 7 i AND 0x1F in
      if shift_op = 0
      then (push_bit 31 (of_bool (psr_C (CPSR c))) OR drop_bit 1 (R c (REG_POS i 0)),
            BIT0 (R c (REG_POS i 0)))
      else (let cy = BIT_N (R c (REG_POS i 0)) (shift_op - 1);
                shift_op = ROR (R c (REG_POS i 0)) shift_op
            in (shift_op, cy)))"

definition ROR_REG :: "u32 \<Rightarrow> armcpu \<Rightarrow> u32" where
  "ROR_REG i c =
     (let shift_op = R c (REG_POS i 8) AND 0xFF in
      if shift_op = 0 \<or> shift_op AND 0x1F = 0 then R c (REG_POS i 0)
      else ROR (R c (REG_POS i 0)) (shift_op AND 0x1F))"

definition S_ROR_REG :: "u32 \<Rightarrow> armcpu \<Rightarrow> u32 \<times> u32" where
  "S_ROR_REG i c =
     (let shift_op = R c (REG_POS i 8) AND 0xFF;
          cy = of_bool (psr_C (CPSR c))
      in if shift_op = 0 then (R c (REG_POS i 0), cy)
         else
           (let shift_op = shift_op AND 0x1F in
            if shift_op = 0 then (R c (REG_POS i 0), BIT31 (R c (REG_POS i 0)))
            else (let cy = BIT_N (R c (REG_POS i 0)) (shift_op - 1);
                      shift_op = ROR (R c (REG_POS i 0)) shift_op
                  in (shift_op, cy))))"

definition IMM_VALUE :: "u32 \<Rightarrow> armcpu \<Rightarrow> u32" where
  "IMM_VALUE i c = ROR (i AND 0xFF) (drop_bit 7 i AND 0x1E)"

definition S_IMM_VALUE :: "u32 \<Rightarrow> armcpu \<Rightarrow> u32 \<times> u32" where
  "S_IMM_VALUE i c =
     (let shift_op = ROR (i AND 0xFF) (drop_bit 7 i AND 0x1E);
          cy = of_bool (psr_C (CPSR c))
      in if drop_bit 8 i AND 0xF \<noteq> 0 then (shift_op, BIT31 shift_op) else (shift_op, cy))"

definition IMM_OFF :: "u32 \<Rightarrow> u32" where
  "IMM_OFF i = (drop_bit 4 i AND 0xF0) + (i AND 0xF)"

definition IMM_OFF_12 :: "u32 \<Rightarrow> u32" where
  "IMM_OFF_12 i = i AND 0xFFF"

section \<open>The shifter operand of the architecture\<close>

datatype operand2 = Lsl_imm | Lsl_reg | Lsr_imm | Lsr_reg | Asr_imm | Asr_reg | Ror_imm | Ror_reg | Imm_val

fun operand2_val :: "operand2 \<Rightarrow> u32 \<Rightarrow> armcpu \<Rightarrow> u32" where
  "operand2_val Lsl_imm = LSL_IMM" | "operand2_val Lsl_reg = LSL_REG"
| "operand2_val Lsr_imm = LSR_IMM" | "operand2_val Lsr_reg = LSR_REG"
| "operand2_val Asr_imm = ASR_IMM" | "operand2_val Asr_reg = ASR_REG"
| "operand2_val Ror_imm = ROR_IMM" | "operand2_val Ror_reg = ROR_REG" | "operand2_val Imm_val = IMM_VALUE"

fun operand2_S :: "operand2 \<Rightarrow> u32 \<Rightarrow> armcpu \<Rightarrow> u32 \<times> u32" where
  "operand2_S Lsl_imm = S_LSL_IMM" | "operand2_S Lsl_reg = S_LSL_REG"
| "operand2_S Lsr_imm = S_LSR_IMM" | "operand2_S Lsr_reg = S_LSR_REG"
| "operand2_S Asr_imm = S_ASR_IMM" | "operand2_S Asr_reg = S_ASR_REG"
| "operand2_S Ror_imm = S_ROR_IMM" | "operand2_S Ror_reg = S_ROR_REG"
| "operand2_S Imm_val = S_IMM_VALUE"

text \<open>
  The value and carry-out of the operand as the ARM architecture defines them, over the shift
  specification: an immediate amount of 0 means 32 for LSR and ASR and a rotation through the
  carry for ROR; the immediate form rotates an 8-bit value by twice the 4-bit field.
\<close>

definition imm_amount :: "u32 \<Rightarrow> nat" where
  "imm_amount i = unat (drop_bit 7 i AND 0x1F)"

definition reg_amount :: "u32 \<Rightarrow> armcpu \<Rightarrow> nat" where
  "reg_amount i c = unat (R c (REG_POS i 8) AND 0xFF)"

fun operand2_spec :: "operand2 \<Rightarrow> u32 \<Rightarrow> armcpu \<Rightarrow> u32 \<times> bool" where
  "operand2_spec Lsl_imm i c = shift_spec SLSL (R c (REG_POS i 0)) (imm_amount i) (psr_C (CPSR c))"
| "operand2_spec Lsr_imm i c =
     shift_spec SLSR (R c (REG_POS i 0)) (if imm_amount i = 0 then 32 else imm_amount i) (psr_C (CPSR c))"
| "operand2_spec Asr_imm i c =
     shift_spec SASR (R c (REG_POS i 0)) (if imm_amount i = 0 then 32 else imm_amount i) (psr_C (CPSR c))"
| "operand2_spec Ror_imm i c =
     (if imm_amount i = 0
      then (of_int (uint (R c (REG_POS i 0)) div 2 + of_bool (psr_C (CPSR c)) * 2 ^ 31),
            odd (uint (R c (REG_POS i 0))))
      else shift_spec SROR (R c (REG_POS i 0)) (imm_amount i) (psr_C (CPSR c)))"
| "operand2_spec Lsl_reg i c = shift_spec SLSL (R c (REG_POS i 0)) (reg_amount i c) (psr_C (CPSR c))"
| "operand2_spec Lsr_reg i c = shift_spec SLSR (R c (REG_POS i 0)) (reg_amount i c) (psr_C (CPSR c))"
| "operand2_spec Asr_reg i c = shift_spec SASR (R c (REG_POS i 0)) (reg_amount i c) (psr_C (CPSR c))"
| "operand2_spec Ror_reg i c = shift_spec SROR (R c (REG_POS i 0)) (reg_amount i c) (psr_C (CPSR c))"
| "operand2_spec Imm_val i c =
     shift_spec SROR (i AND 0xFF) (2 * unat (REG_POS i 8)) (psr_C (CPSR c))"


lemma imm_lt32: "imm_amount i < 32"
  by (simp add: imm_amount_def and_1F)

lemma u1_pair: "map_prod id u1 (a, b) = (a, u1 b)" by simp

lemma two_field: "drop_bit 7 i AND 0x1E = push_bit 1 (REG_POS i 8)" for i :: u32
proof (rule bit_word_eqI)
  have m: "(0x1E :: u32) = push_bit 1 (mask 4)" "(0xF :: u32) = mask 4"
    by (simp_all add: mask_eq_exp_minus_1 push_bit_eq_mult)
  fix n assume "n < LENGTH(32)"
  then show "bit (drop_bit 7 i AND 0x1E) n = bit (push_bit 1 (REG_POS i 8)) n"
    unfolding REG_POS_def m
    by (auto simp only: bit_and_iff bit_drop_bit_eq bit_push_bit_iff bit_mask_iff comp_def)
      (auto simp add: Suc_le_eq)
qed

lemma unat_two_field: "unat (drop_bit 7 i AND 0x1E) = 2 * unat (REG_POS i 8)"
proof -
  have "unat (REG_POS i 8) \<le> 15"
    using REG_POS_le [of i 8] by (simp add: word_le_nat_alt)
  then show ?thesis
    unfolding two_field by (simp add: push_bit_eq_mult unat_word_ariths)
qed

lemma rrx: "of_int (uint x div 2 + of_bool b * 2 ^ 31) = push_bit 31 (of_bool b) OR drop_bit 1 x"
  for x :: u32
proof -
  have d: "push_bit 31 (of_bool b) AND drop_bit 1 x = 0"
    by (rule bit_word_eqI)
      (use bit_imp_le_length [of x] in \<open>fastforce simp add: bit_and_iff bit_push_of_bool bit_drop_bit_eq\<close>)
  have "of_int (uint x div 2 ^ 1) = drop_bit 1 x" by (rule of_int_shr)
  then have h: "of_int (uint x div 2) = drop_bit 1 x" by simp
  have "of_int (uint x div 2 + of_bool b * 2 ^ 31) = drop_bit 1 x + push_bit 31 (of_bool b)"
    unfolding of_int_add h by (simp add: push_bit_eq_mult)
  also have "\<dots> = push_bit 31 (of_bool b) OR drop_bit 1 x"
    using d by (simp add: disjunctive_add_eq_or [symmetric] add.commute)
  finally show ?thesis .
qed

definition op2_ok :: "operand2 \<Rightarrow> u32 \<Rightarrow> armcpu \<Rightarrow> bool" where
  "op2_ok k i c \<longleftrightarrow> operand2_val k i c = fst (operand2_spec k i c) \<and>
   fst (operand2_S k i c) = fst (operand2_spec k i c) \<and>
   u1 (snd (operand2_S k i c)) = snd (operand2_spec k i c)"

lemma u1_0: "u1 0 = False"
  by (simp add: u1_def)

lemma amount_le: "v AND 0x1F < 32" for v :: u32
  by (simp add: u32_lt32 and_1F)

lemma spec_32:
  "shift_spec SLSR x 32 cin = (0, bit x 31)"
  "shift_spec SASR x 32 cin = (BIT31 x * 0xFFFFFFFF, bit x 31)"
  using spec_LSR_code [of x 32 cin] spec_ASR_code [of x 32 cin] by simp_all

lemma even_uint: "even (uint x) \<longleftrightarrow> even x" for x :: u32
  using bit_uint_u32 [of x 0] by (simp add: bit_0)

lemma op2_imm: "op2_ok Lsl_imm i c" "op2_ok Lsr_imm i c" "op2_ok Asr_imm i c" "op2_ok Ror_imm i c"
proof -
  define v where "v = drop_bit 7 i AND 0x1F"
  have v: "v < 32" "v AND 0x1F = v" unfolding v_def by (rule amount_le) (simp add: and.assoc)
  have n: "imm_amount i = unat v" "unat v = 0 \<longleftrightarrow> v = 0"
    by (simp_all add: imm_amount_def v_def unat_eq_0)
  show "op2_ok Lsl_imm i c"
    unfolding op2_ok_def operand2_val.simps operand2_S.simps operand2_spec.simps Let_def
      LSL_IMM_def S_LSL_IMM_def v_def [symmetric] n
    using v by (cases "v = 0")
      (simp_all add: spec_LSL_code c_shl_def u1_BIT_N u1_BIT31 u1_BIT0)
  show "op2_ok Lsr_imm i c"
    unfolding op2_ok_def operand2_val.simps operand2_S.simps operand2_spec.simps Let_def
      LSR_IMM_def S_LSR_IMM_def v_def [symmetric] n
    using v by (cases "v = 0")
      (simp_all add: spec_LSR_code spec_32 u1_BIT_N u1_BIT31 u1_BIT0)
  show "op2_ok Asr_imm i c"
    unfolding op2_ok_def operand2_val.simps operand2_S.simps operand2_spec.simps Let_def
      ASR_IMM_def S_ASR_IMM_def v_def [symmetric] n
    using v by (cases "v = 0")
      (simp_all add: spec_ASR_code spec_32 u1_BIT_N u1_BIT31 u1_BIT0)
  show "op2_ok Ror_imm i c"
    unfolding op2_ok_def operand2_val.simps operand2_S.simps operand2_spec.simps Let_def
      ROR_IMM_def S_ROR_IMM_def v_def [symmetric] n rrx
    using v by (cases "v = 0")
      (simp_all add: spec_ROR_code bit_0 even_uint u1_BIT_N u1_BIT31 u1_BIT0)
qed

lemma op2_reg: "op2_ok Lsl_reg i c" "op2_ok Lsr_reg i c" "op2_ok Asr_reg i c" "op2_ok Ror_reg i c"
proof -
  define v where "v = R c (REG_POS i 8) AND 0xFF"
  have z: "c_shl x 0 = x" "c_shr x 0 = x" for x
    by (simp_all add: c_shl_def c_shr_def)
  have l: "v \<ge> 32 \<longleftrightarrow> \<not> v < 32" by auto
  show "op2_ok Lsl_reg i c" "op2_ok Lsr_reg i c" "op2_ok Asr_reg i c" "op2_ok Ror_reg i c"
    unfolding op2_ok_def operand2_val.simps operand2_S.simps operand2_spec.simps Let_def
      LSL_REG_def S_LSL_REG_def LSR_REG_def S_LSR_REG_def ASR_REG_def S_ASR_REG_def
      ROR_REG_def S_ROR_REG_def reg_amount_def v_def [symmetric] l
      spec_LSL_code spec_LSR_code spec_ASR_code spec_ROR_code
    by (auto simp add: z u1_BIT_N u1_BIT31 u1_BIT0 u1_0)
qed

lemma op2_val: "op2_ok Imm_val i c"
proof -
  define v where "v = drop_bit 7 i AND 0x1E"
  have n: "2 * unat (REG_POS i 8) = unat v" by (simp add: v_def unat_two_field)
  have r: "unat (REG_POS i 8) \<le> 15"
    using REG_POS_le [of i 8] by (simp add: word_le_nat_alt)
  have v: "v < 32" using r n by (simp add: u32_lt32)
  have "REG_POS i 8 = 0 \<longleftrightarrow> unat (REG_POS i 8) = 0" by (rule unat_eq_0 [symmetric])
  then have z: "drop_bit 8 i AND 0xF = 0 \<longleftrightarrow> unat v = 0"
    using n unfolding REG_POS_def by linarith
  show ?thesis
    unfolding op2_ok_def operand2_val.simps operand2_S.simps operand2_spec.simps Let_def
      IMM_VALUE_def S_IMM_VALUE_def v_def [symmetric] n z
    using ROR_rotr [OF v, of "i AND 0xFF"] shift_spec_pos(4) [of "unat v" "i AND 0xFF"]
    by (cases "unat v = 0")
      (simp_all add: u1_BIT31 ROR_def c_shl_def c_shr_def unat_eq_0 push_bit_big
        del: push_bit_and drop_bit_and)
qed

lemma operand2_ok:
  "operand2_val k i c = fst (operand2_spec k i c) \<and>
   fst (operand2_S k i c) = fst (operand2_spec k i c) \<and>
   u1 (snd (operand2_S k i c)) = snd (operand2_spec k i c)"
  using op2_imm [of i c] op2_reg [of i c] op2_val [of i c]
  by (cases k) (simp_all only: op2_ok_def)

text \<open>C24: The eighteen shifter macros compute the architecture's shifter operand for every
  instruction word and register state: immediate and register amounts from 0 to 255, the
  special meanings of amount 0, RRX and the rotated immediate, with the right carry-out in the
  S variants.\<close>

theorem operand2_correct:
  "operand2_val k i c = fst (operand2_spec k i c) \<and>
   fst (operand2_S k i c) = fst (operand2_spec k i c) \<and>
   u1 (snd (operand2_S k i c)) = snd (operand2_spec k i c)"
  by (rule operand2_ok)

end
