(* ===== verification/Arm_Mem.thy ===== *)
theory Arm_Mem
  imports Arm_Shift Thumb_Mem
begin

text \<open>
  The ARM loads and stores of one register of src/source/arm_instructions.cpp: SWP (lines 2503
  to 2530), LDRH, STRH, LDRSH and LDRSB (2532 to 2965), and LDR, LDRB, STR, STRB with the
  exclusive forms (3524 to 4677), one definition per function.  \<open>P\<close> and \<open>M\<close> in
  a name add or subtract the offset, \<open>PREIND\<close> and \<open>POSTIND\<close> write the base
  register back.  The statements of the C++ bodies are the \<open>let\<close> steps, in order.
\<close>

section \<open>SWP and SWPB\<close>

definition OP_SWP :: "'io bus \<Rightarrow> nat \<Rightarrow> u32 \<Rightarrow> 'io nds \<Rightarrow> u32 \<times> 'io nds" where
  "OP_SWP B p i s =
     (let adr = reg p s (REG_POS i 16);
          (v, s) = READ32 B p adr s;
          tmp = ROR v (push_bit 3 (adr AND 3));
          s = WRITE32 B p adr (reg p s (REG_POS i 0)) s;
          s = upd_cpu p (setR (REG_POS i 12) tmp) s;
          c = MMU_memAccessCycles p 32 MMU_AD_READ adr;
          c = c + MMU_memAccessCycles p 32 MMU_AD_WRITE adr
      in (MMU_aluMemCycles p 4 c, s))"

definition OP_SWPB :: "'io bus \<Rightarrow> nat \<Rightarrow> u32 \<Rightarrow> 'io nds \<Rightarrow> u32 \<times> 'io nds" where
  "OP_SWPB B p i s =
     (let adr = reg p s (REG_POS i 16);
          (tmp, s) = READ8 B p adr s;
          s = WRITE8 B p adr (ucast (reg p s (REG_POS i 0) AND 0xFF)) s;
          s = upd_cpu p (setR (REG_POS i 12) (ucast tmp)) s;
          c = MMU_memAccessCycles p 8 MMU_AD_READ adr;
          c = c + MMU_memAccessCycles p 8 MMU_AD_WRITE adr
      in (MMU_aluMemCycles p 4 c, s))"

section \<open>LDRH\<close>

definition OP_LDRH_P_IMM_OFF :: "'io bus \<Rightarrow> nat \<Rightarrow> u32 \<Rightarrow> 'io nds \<Rightarrow> u32 \<times> 'io nds" where
  "OP_LDRH_P_IMM_OFF B p i s =
     (let adr = reg p s (REG_POS i 16) + IMM_OFF i;
          (v, s) = READ16 B p adr s;
          s = upd_cpu p (setR (REG_POS i 12) (ucast v)) s
      in (MMU_aluMemAccessCycles p 16 MMU_AD_READ 3 adr, s))"

definition OP_LDRH_M_IMM_OFF :: "'io bus \<Rightarrow> nat \<Rightarrow> u32 \<Rightarrow> 'io nds \<Rightarrow> u32 \<times> 'io nds" where
  "OP_LDRH_M_IMM_OFF B p i s =
     (let adr = reg p s (REG_POS i 16) - IMM_OFF i;
          (v, s) = READ16 B p adr s;
          s = upd_cpu p (setR (REG_POS i 12) (ucast v)) s
      in (MMU_aluMemAccessCycles p 16 MMU_AD_READ 3 adr, s))"

definition OP_LDRH_P_REG_OFF :: "'io bus \<Rightarrow> nat \<Rightarrow> u32 \<Rightarrow> 'io nds \<Rightarrow> u32 \<times> 'io nds" where
  "OP_LDRH_P_REG_OFF B p i s =
     (let adr = reg p s (REG_POS i 16) + reg p s (REG_POS i 0);
          (v, s) = READ16 B p adr s;
          s = upd_cpu p (setR (REG_POS i 12) (ucast v)) s
      in (MMU_aluMemAccessCycles p 16 MMU_AD_READ 3 adr, s))"

definition OP_LDRH_M_REG_OFF :: "'io bus \<Rightarrow> nat \<Rightarrow> u32 \<Rightarrow> 'io nds \<Rightarrow> u32 \<times> 'io nds" where
  "OP_LDRH_M_REG_OFF B p i s =
     (let adr = reg p s (REG_POS i 16) - reg p s (REG_POS i 0);
          (v, s) = READ16 B p adr s;
          s = upd_cpu p (setR (REG_POS i 12) (ucast v)) s
      in (MMU_aluMemAccessCycles p 16 MMU_AD_READ 3 adr, s))"

definition OP_LDRH_PRE_INDE_P_IMM_OFF :: "'io bus \<Rightarrow> nat \<Rightarrow> u32 \<Rightarrow> 'io nds \<Rightarrow> u32 \<times> 'io nds" where
  "OP_LDRH_PRE_INDE_P_IMM_OFF B p i s =
     (let adr = reg p s (REG_POS i 16) + IMM_OFF i;
          s = upd_cpu p (setR (REG_POS i 16) adr) s;
          (v, s) = READ16 B p adr s;
          s = upd_cpu p (setR (REG_POS i 12) (ucast v)) s
      in (MMU_aluMemAccessCycles p 16 MMU_AD_READ 3 adr, s))"

definition OP_LDRH_PRE_INDE_M_IMM_OFF :: "'io bus \<Rightarrow> nat \<Rightarrow> u32 \<Rightarrow> 'io nds \<Rightarrow> u32 \<times> 'io nds" where
  "OP_LDRH_PRE_INDE_M_IMM_OFF B p i s =
     (let adr = reg p s (REG_POS i 16) - IMM_OFF i;
          s = upd_cpu p (setR (REG_POS i 16) adr) s;
          (v, s) = READ16 B p adr s;
          s = upd_cpu p (setR (REG_POS i 12) (ucast v)) s
      in (MMU_aluMemAccessCycles p 16 MMU_AD_READ 3 adr, s))"

definition OP_LDRH_PRE_INDE_P_REG_OFF :: "'io bus \<Rightarrow> nat \<Rightarrow> u32 \<Rightarrow> 'io nds \<Rightarrow> u32 \<times> 'io nds" where
  "OP_LDRH_PRE_INDE_P_REG_OFF B p i s =
     (let adr = reg p s (REG_POS i 16) + reg p s (REG_POS i 0);
          s = upd_cpu p (setR (REG_POS i 16) adr) s;
          (v, s) = READ16 B p adr s;
          s = upd_cpu p (setR (REG_POS i 12) (ucast v)) s
      in (MMU_aluMemAccessCycles p 16 MMU_AD_READ 3 adr, s))"

definition OP_LDRH_PRE_INDE_M_REG_OFF :: "'io bus \<Rightarrow> nat \<Rightarrow> u32 \<Rightarrow> 'io nds \<Rightarrow> u32 \<times> 'io nds" where
  "OP_LDRH_PRE_INDE_M_REG_OFF B p i s =
     (let adr = reg p s (REG_POS i 16) - reg p s (REG_POS i 0);
          s = upd_cpu p (setR (REG_POS i 16) adr) s;
          (v, s) = READ16 B p adr s;
          s = upd_cpu p (setR (REG_POS i 12) (ucast v)) s
      in (MMU_aluMemAccessCycles p 16 MMU_AD_READ 3 adr, s))"

definition OP_LDRH_POS_INDE_P_IMM_OFF :: "'io bus \<Rightarrow> nat \<Rightarrow> u32 \<Rightarrow> 'io nds \<Rightarrow> u32 \<times> 'io nds" where
  "OP_LDRH_POS_INDE_P_IMM_OFF B p i s =
     (let adr = reg p s (REG_POS i 16);
          s = upd_cpu p (setR (REG_POS i 16) (reg p s (REG_POS i 16) + IMM_OFF i)) s;
          (v, s) = READ16 B p adr s;
          s = upd_cpu p (setR (REG_POS i 12) (ucast v)) s
      in (MMU_aluMemAccessCycles p 16 MMU_AD_READ 3 adr, s))"

definition OP_LDRH_POS_INDE_M_IMM_OFF :: "'io bus \<Rightarrow> nat \<Rightarrow> u32 \<Rightarrow> 'io nds \<Rightarrow> u32 \<times> 'io nds" where
  "OP_LDRH_POS_INDE_M_IMM_OFF B p i s =
     (let adr = reg p s (REG_POS i 16);
          s = upd_cpu p (setR (REG_POS i 16) (reg p s (REG_POS i 16) - IMM_OFF i)) s;
          (v, s) = READ16 B p adr s;
          s = upd_cpu p (setR (REG_POS i 12) (ucast v)) s
      in (MMU_aluMemAccessCycles p 16 MMU_AD_READ 3 adr, s))"

definition OP_LDRH_POS_INDE_P_REG_OFF :: "'io bus \<Rightarrow> nat \<Rightarrow> u32 \<Rightarrow> 'io nds \<Rightarrow> u32 \<times> 'io nds" where
  "OP_LDRH_POS_INDE_P_REG_OFF B p i s =
     (let adr = reg p s (REG_POS i 16);
          s = upd_cpu p (setR (REG_POS i 16) (reg p s (REG_POS i 16) + reg p s (REG_POS i 0))) s;
          (v, s) = READ16 B p adr s;
          s = upd_cpu p (setR (REG_POS i 12) (ucast v)) s
      in (MMU_aluMemAccessCycles p 16 MMU_AD_READ 3 adr, s))"

definition OP_LDRH_POS_INDE_M_REG_OFF :: "'io bus \<Rightarrow> nat \<Rightarrow> u32 \<Rightarrow> 'io nds \<Rightarrow> u32 \<times> 'io nds" where
  "OP_LDRH_POS_INDE_M_REG_OFF B p i s =
     (let adr = reg p s (REG_POS i 16);
          s = upd_cpu p (setR (REG_POS i 16) (reg p s (REG_POS i 16) - reg p s (REG_POS i 0))) s;
          (v, s) = READ16 B p adr s;
          s = upd_cpu p (setR (REG_POS i 12) (ucast v)) s
      in (MMU_aluMemAccessCycles p 16 MMU_AD_READ 3 adr, s))"

section \<open>STRH\<close>

definition OP_STRH_P_IMM_OFF :: "'io bus \<Rightarrow> nat \<Rightarrow> u32 \<Rightarrow> 'io nds \<Rightarrow> u32 \<times> 'io nds" where
  "OP_STRH_P_IMM_OFF B p i s =
     (let adr = reg p s (REG_POS i 16) + IMM_OFF i;
          s = WRITE16 B p adr (ucast (reg p s (REG_POS i 12))) s
      in (MMU_aluMemAccessCycles p 16 MMU_AD_WRITE 2 adr, s))"

definition OP_STRH_M_IMM_OFF :: "'io bus \<Rightarrow> nat \<Rightarrow> u32 \<Rightarrow> 'io nds \<Rightarrow> u32 \<times> 'io nds" where
  "OP_STRH_M_IMM_OFF B p i s =
     (let adr = reg p s (REG_POS i 16) - IMM_OFF i;
          s = WRITE16 B p adr (ucast (reg p s (REG_POS i 12))) s
      in (MMU_aluMemAccessCycles p 16 MMU_AD_WRITE 2 adr, s))"

definition OP_STRH_P_REG_OFF :: "'io bus \<Rightarrow> nat \<Rightarrow> u32 \<Rightarrow> 'io nds \<Rightarrow> u32 \<times> 'io nds" where
  "OP_STRH_P_REG_OFF B p i s =
     (let adr = reg p s (REG_POS i 16) + reg p s (REG_POS i 0);
          s = WRITE16 B p adr (ucast (reg p s (REG_POS i 12))) s
      in (MMU_aluMemAccessCycles p 16 MMU_AD_WRITE 2 adr, s))"

definition OP_STRH_M_REG_OFF :: "'io bus \<Rightarrow> nat \<Rightarrow> u32 \<Rightarrow> 'io nds \<Rightarrow> u32 \<times> 'io nds" where
  "OP_STRH_M_REG_OFF B p i s =
     (let adr = reg p s (REG_POS i 16) - reg p s (REG_POS i 0);
          s = WRITE16 B p adr (ucast (reg p s (REG_POS i 12))) s
      in (MMU_aluMemAccessCycles p 16 MMU_AD_WRITE 2 adr, s))"

definition OP_STRH_PRE_INDE_P_IMM_OFF :: "'io bus \<Rightarrow> nat \<Rightarrow> u32 \<Rightarrow> 'io nds \<Rightarrow> u32 \<times> 'io nds" where
  "OP_STRH_PRE_INDE_P_IMM_OFF B p i s =
     (let adr = reg p s (REG_POS i 16) + IMM_OFF i;
          s = upd_cpu p (setR (REG_POS i 16) adr) s;
          s = WRITE16 B p adr (ucast (reg p s (REG_POS i 12))) s
      in (MMU_aluMemAccessCycles p 16 MMU_AD_WRITE 2 adr, s))"

definition OP_STRH_PRE_INDE_M_IMM_OFF :: "'io bus \<Rightarrow> nat \<Rightarrow> u32 \<Rightarrow> 'io nds \<Rightarrow> u32 \<times> 'io nds" where
  "OP_STRH_PRE_INDE_M_IMM_OFF B p i s =
     (let adr = reg p s (REG_POS i 16) - IMM_OFF i;
          s = upd_cpu p (setR (REG_POS i 16) adr) s;
          s = WRITE16 B p adr (ucast (reg p s (REG_POS i 12))) s
      in (MMU_aluMemAccessCycles p 16 MMU_AD_WRITE 2 adr, s))"

definition OP_STRH_PRE_INDE_P_REG_OFF :: "'io bus \<Rightarrow> nat \<Rightarrow> u32 \<Rightarrow> 'io nds \<Rightarrow> u32 \<times> 'io nds" where
  "OP_STRH_PRE_INDE_P_REG_OFF B p i s =
     (let adr = reg p s (REG_POS i 16) + reg p s (REG_POS i 0);
          s = upd_cpu p (setR (REG_POS i 16) adr) s;
          s = WRITE16 B p adr (ucast (reg p s (REG_POS i 12))) s
      in (MMU_aluMemAccessCycles p 16 MMU_AD_WRITE 2 adr, s))"

definition OP_STRH_PRE_INDE_M_REG_OFF :: "'io bus \<Rightarrow> nat \<Rightarrow> u32 \<Rightarrow> 'io nds \<Rightarrow> u32 \<times> 'io nds" where
  "OP_STRH_PRE_INDE_M_REG_OFF B p i s =
     (let adr = reg p s (REG_POS i 16) - reg p s (REG_POS i 0);
          s = upd_cpu p (setR (REG_POS i 16) adr) s;
          s = WRITE16 B p adr (ucast (reg p s (REG_POS i 12))) s
      in (MMU_aluMemAccessCycles p 16 MMU_AD_WRITE 2 adr, s))"

definition OP_STRH_POS_INDE_P_IMM_OFF :: "'io bus \<Rightarrow> nat \<Rightarrow> u32 \<Rightarrow> 'io nds \<Rightarrow> u32 \<times> 'io nds" where
  "OP_STRH_POS_INDE_P_IMM_OFF B p i s =
     (let adr = reg p s (REG_POS i 16);
          s = WRITE16 B p adr (ucast (reg p s (REG_POS i 12))) s;
          s = upd_cpu p (setR (REG_POS i 16) (reg p s (REG_POS i 16) + IMM_OFF i)) s
      in (MMU_aluMemAccessCycles p 16 MMU_AD_WRITE 2 adr, s))"

definition OP_STRH_POS_INDE_M_IMM_OFF :: "'io bus \<Rightarrow> nat \<Rightarrow> u32 \<Rightarrow> 'io nds \<Rightarrow> u32 \<times> 'io nds" where
  "OP_STRH_POS_INDE_M_IMM_OFF B p i s =
     (let adr = reg p s (REG_POS i 16);
          s = WRITE16 B p adr (ucast (reg p s (REG_POS i 12))) s;
          s = upd_cpu p (setR (REG_POS i 16) (reg p s (REG_POS i 16) - IMM_OFF i)) s
      in (MMU_aluMemAccessCycles p 16 MMU_AD_WRITE 2 adr, s))"

definition OP_STRH_POS_INDE_P_REG_OFF :: "'io bus \<Rightarrow> nat \<Rightarrow> u32 \<Rightarrow> 'io nds \<Rightarrow> u32 \<times> 'io nds" where
  "OP_STRH_POS_INDE_P_REG_OFF B p i s =
     (let adr = reg p s (REG_POS i 16);
          s = WRITE16 B p adr (ucast (reg p s (REG_POS i 12))) s;
          s = upd_cpu p (setR (REG_POS i 16) (reg p s (REG_POS i 16) + reg p s (REG_POS i 0))) s
      in (MMU_aluMemAccessCycles p 16 MMU_AD_WRITE 2 adr, s))"

definition OP_STRH_POS_INDE_M_REG_OFF :: "'io bus \<Rightarrow> nat \<Rightarrow> u32 \<Rightarrow> 'io nds \<Rightarrow> u32 \<times> 'io nds" where
  "OP_STRH_POS_INDE_M_REG_OFF B p i s =
     (let adr = reg p s (REG_POS i 16);
          s = WRITE16 B p adr (ucast (reg p s (REG_POS i 12))) s;
          s = upd_cpu p (setR (REG_POS i 16) (reg p s (REG_POS i 16) - reg p s (REG_POS i 0))) s
      in (MMU_aluMemAccessCycles p 16 MMU_AD_WRITE 2 adr, s))"

section \<open>LDRSH\<close>

definition OP_LDRSH_P_IMM_OFF :: "'io bus \<Rightarrow> nat \<Rightarrow> u32 \<Rightarrow> 'io nds \<Rightarrow> u32 \<times> 'io nds" where
  "OP_LDRSH_P_IMM_OFF B p i s =
     (let adr = reg p s (REG_POS i 16) + IMM_OFF i;
          (v, s) = READ16 B p adr s;
          s = upd_cpu p (setR (REG_POS i 12) (scast v)) s
      in (MMU_aluMemAccessCycles p 16 MMU_AD_READ 3 adr, s))"

definition OP_LDRSH_M_IMM_OFF :: "'io bus \<Rightarrow> nat \<Rightarrow> u32 \<Rightarrow> 'io nds \<Rightarrow> u32 \<times> 'io nds" where
  "OP_LDRSH_M_IMM_OFF B p i s =
     (let adr = reg p s (REG_POS i 16) - IMM_OFF i;
          (v, s) = READ16 B p adr s;
          s = upd_cpu p (setR (REG_POS i 12) (scast v)) s
      in (MMU_aluMemAccessCycles p 16 MMU_AD_READ 3 adr, s))"

definition OP_LDRSH_P_REG_OFF :: "'io bus \<Rightarrow> nat \<Rightarrow> u32 \<Rightarrow> 'io nds \<Rightarrow> u32 \<times> 'io nds" where
  "OP_LDRSH_P_REG_OFF B p i s =
     (let adr = reg p s (REG_POS i 16) + reg p s (REG_POS i 0);
          (v, s) = READ16 B p adr s;
          s = upd_cpu p (setR (REG_POS i 12) (scast v)) s
      in (MMU_aluMemAccessCycles p 16 MMU_AD_READ 3 adr, s))"

definition OP_LDRSH_M_REG_OFF :: "'io bus \<Rightarrow> nat \<Rightarrow> u32 \<Rightarrow> 'io nds \<Rightarrow> u32 \<times> 'io nds" where
  "OP_LDRSH_M_REG_OFF B p i s =
     (let adr = reg p s (REG_POS i 16) - reg p s (REG_POS i 0);
          (v, s) = READ16 B p adr s;
          s = upd_cpu p (setR (REG_POS i 12) (scast v)) s
      in (MMU_aluMemAccessCycles p 16 MMU_AD_READ 3 adr, s))"

definition OP_LDRSH_PRE_INDE_P_IMM_OFF :: "'io bus \<Rightarrow> nat \<Rightarrow> u32 \<Rightarrow> 'io nds \<Rightarrow> u32 \<times> 'io nds" where
  "OP_LDRSH_PRE_INDE_P_IMM_OFF B p i s =
     (let adr = reg p s (REG_POS i 16) + IMM_OFF i;
          s = upd_cpu p (setR (REG_POS i 16) adr) s;
          (v, s) = READ16 B p adr s;
          s = upd_cpu p (setR (REG_POS i 12) (scast v)) s
      in (MMU_aluMemAccessCycles p 16 MMU_AD_READ 3 adr, s))"

definition OP_LDRSH_PRE_INDE_M_IMM_OFF :: "'io bus \<Rightarrow> nat \<Rightarrow> u32 \<Rightarrow> 'io nds \<Rightarrow> u32 \<times> 'io nds" where
  "OP_LDRSH_PRE_INDE_M_IMM_OFF B p i s =
     (let adr = reg p s (REG_POS i 16) - IMM_OFF i;
          s = upd_cpu p (setR (REG_POS i 16) adr) s;
          (v, s) = READ16 B p adr s;
          s = upd_cpu p (setR (REG_POS i 12) (scast v)) s
      in (MMU_aluMemAccessCycles p 16 MMU_AD_READ 3 adr, s))"

definition OP_LDRSH_PRE_INDE_P_REG_OFF :: "'io bus \<Rightarrow> nat \<Rightarrow> u32 \<Rightarrow> 'io nds \<Rightarrow> u32 \<times> 'io nds" where
  "OP_LDRSH_PRE_INDE_P_REG_OFF B p i s =
     (let adr = reg p s (REG_POS i 16) + reg p s (REG_POS i 0);
          s = upd_cpu p (setR (REG_POS i 16) adr) s;
          (v, s) = READ16 B p adr s;
          s = upd_cpu p (setR (REG_POS i 12) (scast v)) s
      in (MMU_aluMemAccessCycles p 16 MMU_AD_READ 3 adr, s))"

definition OP_LDRSH_PRE_INDE_M_REG_OFF :: "'io bus \<Rightarrow> nat \<Rightarrow> u32 \<Rightarrow> 'io nds \<Rightarrow> u32 \<times> 'io nds" where
  "OP_LDRSH_PRE_INDE_M_REG_OFF B p i s =
     (let adr = reg p s (REG_POS i 16) - reg p s (REG_POS i 0);
          s = upd_cpu p (setR (REG_POS i 16) adr) s;
          (v, s) = READ16 B p adr s;
          s = upd_cpu p (setR (REG_POS i 12) (scast v)) s
      in (MMU_aluMemAccessCycles p 16 MMU_AD_READ 3 adr, s))"

definition OP_LDRSH_POS_INDE_P_IMM_OFF :: "'io bus \<Rightarrow> nat \<Rightarrow> u32 \<Rightarrow> 'io nds \<Rightarrow> u32 \<times> 'io nds" where
  "OP_LDRSH_POS_INDE_P_IMM_OFF B p i s =
     (let adr = reg p s (REG_POS i 16);
          s = upd_cpu p (setR (REG_POS i 16) (reg p s (REG_POS i 16) + IMM_OFF i)) s;
          (v, s) = READ16 B p adr s;
          s = upd_cpu p (setR (REG_POS i 12) (scast v)) s
      in (MMU_aluMemAccessCycles p 16 MMU_AD_READ 3 adr, s))"

definition OP_LDRSH_POS_INDE_M_IMM_OFF :: "'io bus \<Rightarrow> nat \<Rightarrow> u32 \<Rightarrow> 'io nds \<Rightarrow> u32 \<times> 'io nds" where
  "OP_LDRSH_POS_INDE_M_IMM_OFF B p i s =
     (let adr = reg p s (REG_POS i 16);
          s = upd_cpu p (setR (REG_POS i 16) (reg p s (REG_POS i 16) - IMM_OFF i)) s;
          (v, s) = READ16 B p adr s;
          s = upd_cpu p (setR (REG_POS i 12) (scast v)) s
      in (MMU_aluMemAccessCycles p 16 MMU_AD_READ 3 adr, s))"

definition OP_LDRSH_POS_INDE_P_REG_OFF :: "'io bus \<Rightarrow> nat \<Rightarrow> u32 \<Rightarrow> 'io nds \<Rightarrow> u32 \<times> 'io nds" where
  "OP_LDRSH_POS_INDE_P_REG_OFF B p i s =
     (let adr = reg p s (REG_POS i 16);
          s = upd_cpu p (setR (REG_POS i 16) (reg p s (REG_POS i 16) + reg p s (REG_POS i 0))) s;
          (v, s) = READ16 B p adr s;
          s = upd_cpu p (setR (REG_POS i 12) (scast v)) s
      in (MMU_aluMemAccessCycles p 16 MMU_AD_READ 3 adr, s))"

definition OP_LDRSH_POS_INDE_M_REG_OFF :: "'io bus \<Rightarrow> nat \<Rightarrow> u32 \<Rightarrow> 'io nds \<Rightarrow> u32 \<times> 'io nds" where
  "OP_LDRSH_POS_INDE_M_REG_OFF B p i s =
     (let adr = reg p s (REG_POS i 16);
          s = upd_cpu p (setR (REG_POS i 16) (reg p s (REG_POS i 16) - reg p s (REG_POS i 0))) s;
          (v, s) = READ16 B p adr s;
          s = upd_cpu p (setR (REG_POS i 12) (scast v)) s
      in (MMU_aluMemAccessCycles p 16 MMU_AD_READ 3 adr, s))"

section \<open>LDRSB\<close>

definition OP_LDRSB_P_IMM_OFF :: "'io bus \<Rightarrow> nat \<Rightarrow> u32 \<Rightarrow> 'io nds \<Rightarrow> u32 \<times> 'io nds" where
  "OP_LDRSB_P_IMM_OFF B p i s =
     (let adr = reg p s (REG_POS i 16) + IMM_OFF i;
          (v, s) = READ8 B p adr s;
          s = upd_cpu p (setR (REG_POS i 12) (scast v)) s
      in (MMU_aluMemAccessCycles p 8 MMU_AD_READ 3 adr, s))"

definition OP_LDRSB_M_IMM_OFF :: "'io bus \<Rightarrow> nat \<Rightarrow> u32 \<Rightarrow> 'io nds \<Rightarrow> u32 \<times> 'io nds" where
  "OP_LDRSB_M_IMM_OFF B p i s =
     (let adr = reg p s (REG_POS i 16) - IMM_OFF i;
          (v, s) = READ8 B p adr s;
          s = upd_cpu p (setR (REG_POS i 12) (scast v)) s
      in (MMU_aluMemAccessCycles p 8 MMU_AD_READ 3 adr, s))"

definition OP_LDRSB_P_REG_OFF :: "'io bus \<Rightarrow> nat \<Rightarrow> u32 \<Rightarrow> 'io nds \<Rightarrow> u32 \<times> 'io nds" where
  "OP_LDRSB_P_REG_OFF B p i s =
     (let adr = reg p s (REG_POS i 16) + reg p s (REG_POS i 0);
          (v, s) = READ8 B p adr s;
          s = upd_cpu p (setR (REG_POS i 12) (scast v)) s
      in (MMU_aluMemAccessCycles p 8 MMU_AD_READ 3 adr, s))"

definition OP_LDRSB_M_REG_OFF :: "'io bus \<Rightarrow> nat \<Rightarrow> u32 \<Rightarrow> 'io nds \<Rightarrow> u32 \<times> 'io nds" where
  "OP_LDRSB_M_REG_OFF B p i s =
     (let adr = reg p s (REG_POS i 16) - reg p s (REG_POS i 0);
          (v, s) = READ8 B p adr s;
          s = upd_cpu p (setR (REG_POS i 12) (scast v)) s
      in (MMU_aluMemAccessCycles p 8 MMU_AD_READ 3 adr, s))"

definition OP_LDRSB_PRE_INDE_P_IMM_OFF :: "'io bus \<Rightarrow> nat \<Rightarrow> u32 \<Rightarrow> 'io nds \<Rightarrow> u32 \<times> 'io nds" where
  "OP_LDRSB_PRE_INDE_P_IMM_OFF B p i s =
     (let adr = reg p s (REG_POS i 16) + IMM_OFF i;
          s = upd_cpu p (setR (REG_POS i 16) adr) s;
          (v, s) = READ8 B p adr s;
          s = upd_cpu p (setR (REG_POS i 12) (scast v)) s
      in (MMU_aluMemAccessCycles p 8 MMU_AD_READ 3 adr, s))"

definition OP_LDRSB_PRE_INDE_M_IMM_OFF :: "'io bus \<Rightarrow> nat \<Rightarrow> u32 \<Rightarrow> 'io nds \<Rightarrow> u32 \<times> 'io nds" where
  "OP_LDRSB_PRE_INDE_M_IMM_OFF B p i s =
     (let adr = reg p s (REG_POS i 16) - IMM_OFF i;
          s = upd_cpu p (setR (REG_POS i 16) adr) s;
          (v, s) = READ8 B p adr s;
          s = upd_cpu p (setR (REG_POS i 12) (scast v)) s
      in (MMU_aluMemAccessCycles p 8 MMU_AD_READ 3 adr, s))"

definition OP_LDRSB_PRE_INDE_P_REG_OFF :: "'io bus \<Rightarrow> nat \<Rightarrow> u32 \<Rightarrow> 'io nds \<Rightarrow> u32 \<times> 'io nds" where
  "OP_LDRSB_PRE_INDE_P_REG_OFF B p i s =
     (let adr = reg p s (REG_POS i 16) + reg p s (REG_POS i 0);
          s = upd_cpu p (setR (REG_POS i 16) adr) s;
          (v, s) = READ8 B p adr s;
          s = upd_cpu p (setR (REG_POS i 12) (scast v)) s
      in (MMU_aluMemAccessCycles p 8 MMU_AD_READ 3 adr, s))"

definition OP_LDRSB_PRE_INDE_M_REG_OFF :: "'io bus \<Rightarrow> nat \<Rightarrow> u32 \<Rightarrow> 'io nds \<Rightarrow> u32 \<times> 'io nds" where
  "OP_LDRSB_PRE_INDE_M_REG_OFF B p i s =
     (let adr = reg p s (REG_POS i 16) - reg p s (REG_POS i 0);
          s = upd_cpu p (setR (REG_POS i 16) adr) s;
          (v, s) = READ8 B p adr s;
          s = upd_cpu p (setR (REG_POS i 12) (scast v)) s
      in (MMU_aluMemAccessCycles p 8 MMU_AD_READ 3 adr, s))"

definition OP_LDRSB_POS_INDE_P_IMM_OFF :: "'io bus \<Rightarrow> nat \<Rightarrow> u32 \<Rightarrow> 'io nds \<Rightarrow> u32 \<times> 'io nds" where
  "OP_LDRSB_POS_INDE_P_IMM_OFF B p i s =
     (let adr = reg p s (REG_POS i 16);
          s = upd_cpu p (setR (REG_POS i 16) (reg p s (REG_POS i 16) + IMM_OFF i)) s;
          (v, s) = READ8 B p adr s;
          s = upd_cpu p (setR (REG_POS i 12) (scast v)) s
      in (MMU_aluMemAccessCycles p 8 MMU_AD_READ 3 adr, s))"

definition OP_LDRSB_POS_INDE_M_IMM_OFF :: "'io bus \<Rightarrow> nat \<Rightarrow> u32 \<Rightarrow> 'io nds \<Rightarrow> u32 \<times> 'io nds" where
  "OP_LDRSB_POS_INDE_M_IMM_OFF B p i s =
     (let adr = reg p s (REG_POS i 16);
          s = upd_cpu p (setR (REG_POS i 16) (reg p s (REG_POS i 16) - IMM_OFF i)) s;
          (v, s) = READ8 B p adr s;
          s = upd_cpu p (setR (REG_POS i 12) (scast v)) s
      in (MMU_aluMemAccessCycles p 8 MMU_AD_READ 3 adr, s))"

definition OP_LDRSB_POS_INDE_P_REG_OFF :: "'io bus \<Rightarrow> nat \<Rightarrow> u32 \<Rightarrow> 'io nds \<Rightarrow> u32 \<times> 'io nds" where
  "OP_LDRSB_POS_INDE_P_REG_OFF B p i s =
     (let adr = reg p s (REG_POS i 16);
          s = upd_cpu p (setR (REG_POS i 16) (reg p s (REG_POS i 16) + reg p s (REG_POS i 0))) s;
          (v, s) = READ8 B p adr s;
          s = upd_cpu p (setR (REG_POS i 12) (scast v)) s
      in (MMU_aluMemAccessCycles p 8 MMU_AD_READ 3 adr, s))"

definition OP_LDRSB_POS_INDE_M_REG_OFF :: "'io bus \<Rightarrow> nat \<Rightarrow> u32 \<Rightarrow> 'io nds \<Rightarrow> u32 \<times> 'io nds" where
  "OP_LDRSB_POS_INDE_M_REG_OFF B p i s =
     (let adr = reg p s (REG_POS i 16);
          s = upd_cpu p (setR (REG_POS i 16) (reg p s (REG_POS i 16) - reg p s (REG_POS i 0))) s;
          (v, s) = READ8 B p adr s;
          s = upd_cpu p (setR (REG_POS i 12) (scast v)) s
      in (MMU_aluMemAccessCycles p 8 MMU_AD_READ 3 adr, s))"

section \<open>LDR\<close>

text \<open>The three macros share their body from the load on.\<close>

definition ldr_result :: "'io bus \<Rightarrow> nat \<Rightarrow> u32 \<Rightarrow> u32 \<Rightarrow> u32 \<Rightarrow> u32 \<Rightarrow> 'io nds \<Rightarrow> u32 \<times> 'io nds" where
  "ldr_result B p a b adr i s =
     (let (v, s) = READ32 B p adr s;
          s = upd_cpu p (setR (REG_POS i 12) (ROR v (8 * (adr AND 3)))) s
      in if REG_POS i 12 = 15 then
           (let s = (if p = 0
                     then (let s = upd_cpu p (\<lambda>c. setT (u1 (BIT0 (R c 15))) c) s
                           in upd_cpu p (\<lambda>c. setR 15 (R c 15 AND 0xFFFFFFFE) c) s)
                     else upd_cpu p (\<lambda>c. setR 15 (R c 15 AND 0xFFFFFFFC) c) s);
                s = upd_cpu p (\<lambda>c. c\<lparr>next_instruction := R c 15\<rparr>) s
            in (MMU_aluMemAccessCycles p 32 MMU_AD_READ b adr, s))
         else (MMU_aluMemAccessCycles p 32 MMU_AD_READ a adr, s))"

definition OP_LDR_macro :: "'io bus \<Rightarrow> nat \<Rightarrow> u32 \<Rightarrow> u32 \<Rightarrow> u32 \<Rightarrow> u32 \<Rightarrow> 'io nds \<Rightarrow> u32 \<times> 'io nds" where
  "OP_LDR_macro B p a b adr i s = ldr_result B p a b adr i s"

definition OP_LDR_W_macro :: "'io bus \<Rightarrow> nat \<Rightarrow> u32 \<Rightarrow> u32 \<Rightarrow> u32 \<Rightarrow> u32 \<Rightarrow> 'io nds \<Rightarrow> u32 \<times> 'io nds" where
  "OP_LDR_W_macro B p a b adr i s =
     (let s = upd_cpu p (setR (REG_POS i 16) adr) s in ldr_result B p a b adr i s)"

definition OP_LDR_W2_macro :: "'io bus \<Rightarrow> nat \<Rightarrow> u32 \<Rightarrow> u32 \<Rightarrow> u32 \<Rightarrow> u32 \<Rightarrow> 'io nds \<Rightarrow> u32 \<times> 'io nds" where
  "OP_LDR_W2_macro B p a b c i s =
     (let adr = reg p s (REG_POS i 16);
          s = upd_cpu p (setR (REG_POS i 16) (adr + c)) s
      in ldr_result B p a b adr i s)"

definition OP_LDR_P_IMM_OFF :: "'io bus \<Rightarrow> nat \<Rightarrow> u32 \<Rightarrow> 'io nds \<Rightarrow> u32 \<times> 'io nds" where
  "OP_LDR_P_IMM_OFF B p i s =
     (let adr = reg p s (REG_POS i 16) + IMM_OFF_12 i
      in OP_LDR_macro B p 3 5 adr i s)"

definition OP_LDR_M_IMM_OFF :: "'io bus \<Rightarrow> nat \<Rightarrow> u32 \<Rightarrow> 'io nds \<Rightarrow> u32 \<times> 'io nds" where
  "OP_LDR_M_IMM_OFF B p i s =
     (let adr = reg p s (REG_POS i 16) - IMM_OFF_12 i
      in OP_LDR_macro B p 3 5 adr i s)"

definition OP_LDR_P_LSL_IMM_OFF :: "'io bus \<Rightarrow> nat \<Rightarrow> u32 \<Rightarrow> 'io nds \<Rightarrow> u32 \<times> 'io nds" where
  "OP_LDR_P_LSL_IMM_OFF B p i s =
     (let shift_op = LSL_IMM i (ARMPROC p s);
          adr = reg p s (REG_POS i 16) + shift_op
      in OP_LDR_macro B p 3 5 adr i s)"

definition OP_LDR_M_LSL_IMM_OFF :: "'io bus \<Rightarrow> nat \<Rightarrow> u32 \<Rightarrow> 'io nds \<Rightarrow> u32 \<times> 'io nds" where
  "OP_LDR_M_LSL_IMM_OFF B p i s =
     (let shift_op = LSL_IMM i (ARMPROC p s);
          adr = reg p s (REG_POS i 16) - shift_op
      in OP_LDR_macro B p 3 5 adr i s)"

definition OP_LDR_P_LSR_IMM_OFF :: "'io bus \<Rightarrow> nat \<Rightarrow> u32 \<Rightarrow> 'io nds \<Rightarrow> u32 \<times> 'io nds" where
  "OP_LDR_P_LSR_IMM_OFF B p i s =
     (let shift_op = LSR_IMM i (ARMPROC p s);
          adr = reg p s (REG_POS i 16) + shift_op
      in OP_LDR_macro B p 3 5 adr i s)"

definition OP_LDR_M_LSR_IMM_OFF :: "'io bus \<Rightarrow> nat \<Rightarrow> u32 \<Rightarrow> 'io nds \<Rightarrow> u32 \<times> 'io nds" where
  "OP_LDR_M_LSR_IMM_OFF B p i s =
     (let shift_op = LSR_IMM i (ARMPROC p s);
          adr = reg p s (REG_POS i 16) - shift_op
      in OP_LDR_macro B p 3 5 adr i s)"

definition OP_LDR_P_ASR_IMM_OFF :: "'io bus \<Rightarrow> nat \<Rightarrow> u32 \<Rightarrow> 'io nds \<Rightarrow> u32 \<times> 'io nds" where
  "OP_LDR_P_ASR_IMM_OFF B p i s =
     (let shift_op = ASR_IMM i (ARMPROC p s);
          adr = reg p s (REG_POS i 16) + shift_op
      in OP_LDR_macro B p 3 5 adr i s)"

definition OP_LDR_M_ASR_IMM_OFF :: "'io bus \<Rightarrow> nat \<Rightarrow> u32 \<Rightarrow> 'io nds \<Rightarrow> u32 \<times> 'io nds" where
  "OP_LDR_M_ASR_IMM_OFF B p i s =
     (let shift_op = ASR_IMM i (ARMPROC p s);
          adr = reg p s (REG_POS i 16) - shift_op
      in OP_LDR_macro B p 3 5 adr i s)"

definition OP_LDR_P_ROR_IMM_OFF :: "'io bus \<Rightarrow> nat \<Rightarrow> u32 \<Rightarrow> 'io nds \<Rightarrow> u32 \<times> 'io nds" where
  "OP_LDR_P_ROR_IMM_OFF B p i s =
     (let shift_op = ROR_IMM i (ARMPROC p s);
          adr = reg p s (REG_POS i 16) + shift_op
      in OP_LDR_macro B p 3 5 adr i s)"

definition OP_LDR_M_ROR_IMM_OFF :: "'io bus \<Rightarrow> nat \<Rightarrow> u32 \<Rightarrow> 'io nds \<Rightarrow> u32 \<times> 'io nds" where
  "OP_LDR_M_ROR_IMM_OFF B p i s =
     (let shift_op = ROR_IMM i (ARMPROC p s);
          adr = reg p s (REG_POS i 16) - shift_op
      in OP_LDR_macro B p 3 5 adr i s)"

definition OP_LDR_P_IMM_OFF_PREIND :: "'io bus \<Rightarrow> nat \<Rightarrow> u32 \<Rightarrow> 'io nds \<Rightarrow> u32 \<times> 'io nds" where
  "OP_LDR_P_IMM_OFF_PREIND B p i s =
     (let adr = reg p s (REG_POS i 16) + IMM_OFF_12 i
      in OP_LDR_W_macro B p 3 5 adr i s)"

definition OP_LDR_M_IMM_OFF_PREIND :: "'io bus \<Rightarrow> nat \<Rightarrow> u32 \<Rightarrow> 'io nds \<Rightarrow> u32 \<times> 'io nds" where
  "OP_LDR_M_IMM_OFF_PREIND B p i s =
     (let adr = reg p s (REG_POS i 16) - IMM_OFF_12 i
      in OP_LDR_W_macro B p 3 5 adr i s)"

definition OP_LDR_P_LSL_IMM_OFF_PREIND :: "'io bus \<Rightarrow> nat \<Rightarrow> u32 \<Rightarrow> 'io nds \<Rightarrow> u32 \<times> 'io nds" where
  "OP_LDR_P_LSL_IMM_OFF_PREIND B p i s =
     (let shift_op = LSL_IMM i (ARMPROC p s);
          adr = reg p s (REG_POS i 16) + shift_op
      in OP_LDR_W_macro B p 3 5 adr i s)"

definition OP_LDR_M_LSL_IMM_OFF_PREIND :: "'io bus \<Rightarrow> nat \<Rightarrow> u32 \<Rightarrow> 'io nds \<Rightarrow> u32 \<times> 'io nds" where
  "OP_LDR_M_LSL_IMM_OFF_PREIND B p i s =
     (let shift_op = LSL_IMM i (ARMPROC p s);
          adr = reg p s (REG_POS i 16) - shift_op
      in OP_LDR_W_macro B p 3 5 adr i s)"

definition OP_LDR_P_LSR_IMM_OFF_PREIND :: "'io bus \<Rightarrow> nat \<Rightarrow> u32 \<Rightarrow> 'io nds \<Rightarrow> u32 \<times> 'io nds" where
  "OP_LDR_P_LSR_IMM_OFF_PREIND B p i s =
     (let shift_op = LSR_IMM i (ARMPROC p s);
          adr = reg p s (REG_POS i 16) + shift_op
      in OP_LDR_W_macro B p 3 5 adr i s)"

definition OP_LDR_M_LSR_IMM_OFF_PREIND :: "'io bus \<Rightarrow> nat \<Rightarrow> u32 \<Rightarrow> 'io nds \<Rightarrow> u32 \<times> 'io nds" where
  "OP_LDR_M_LSR_IMM_OFF_PREIND B p i s =
     (let shift_op = LSR_IMM i (ARMPROC p s);
          adr = reg p s (REG_POS i 16) - shift_op
      in OP_LDR_W_macro B p 3 5 adr i s)"

definition OP_LDR_P_ASR_IMM_OFF_PREIND :: "'io bus \<Rightarrow> nat \<Rightarrow> u32 \<Rightarrow> 'io nds \<Rightarrow> u32 \<times> 'io nds" where
  "OP_LDR_P_ASR_IMM_OFF_PREIND B p i s =
     (let shift_op = ASR_IMM i (ARMPROC p s);
          adr = reg p s (REG_POS i 16) + shift_op
      in OP_LDR_W_macro B p 3 5 adr i s)"

definition OP_LDR_M_ASR_IMM_OFF_PREIND :: "'io bus \<Rightarrow> nat \<Rightarrow> u32 \<Rightarrow> 'io nds \<Rightarrow> u32 \<times> 'io nds" where
  "OP_LDR_M_ASR_IMM_OFF_PREIND B p i s =
     (let shift_op = ASR_IMM i (ARMPROC p s);
          adr = reg p s (REG_POS i 16) - shift_op
      in OP_LDR_W_macro B p 3 5 adr i s)"

definition OP_LDR_P_ROR_IMM_OFF_PREIND :: "'io bus \<Rightarrow> nat \<Rightarrow> u32 \<Rightarrow> 'io nds \<Rightarrow> u32 \<times> 'io nds" where
  "OP_LDR_P_ROR_IMM_OFF_PREIND B p i s =
     (let shift_op = ROR_IMM i (ARMPROC p s);
          adr = reg p s (REG_POS i 16) + shift_op
      in OP_LDR_W_macro B p 3 5 adr i s)"

definition OP_LDR_M_ROR_IMM_OFF_PREIND :: "'io bus \<Rightarrow> nat \<Rightarrow> u32 \<Rightarrow> 'io nds \<Rightarrow> u32 \<times> 'io nds" where
  "OP_LDR_M_ROR_IMM_OFF_PREIND B p i s =
     (let shift_op = ROR_IMM i (ARMPROC p s);
          adr = reg p s (REG_POS i 16) - shift_op
      in OP_LDR_W_macro B p 3 5 adr i s)"

definition OP_LDR_P_IMM_OFF_POSTIND :: "'io bus \<Rightarrow> nat \<Rightarrow> u32 \<Rightarrow> 'io nds \<Rightarrow> u32 \<times> 'io nds" where
  "OP_LDR_P_IMM_OFF_POSTIND B p i s =
     OP_LDR_W2_macro B p 3 5 (IMM_OFF_12 i) i s"

definition OP_LDR_M_IMM_OFF_POSTIND :: "'io bus \<Rightarrow> nat \<Rightarrow> u32 \<Rightarrow> 'io nds \<Rightarrow> u32 \<times> 'io nds" where
  "OP_LDR_M_IMM_OFF_POSTIND B p i s =
     OP_LDR_W2_macro B p 3 5 (- (IMM_OFF_12 i)) i s"

definition OP_LDR_P_LSL_IMM_OFF_POSTIND :: "'io bus \<Rightarrow> nat \<Rightarrow> u32 \<Rightarrow> 'io nds \<Rightarrow> u32 \<times> 'io nds" where
  "OP_LDR_P_LSL_IMM_OFF_POSTIND B p i s =
     (let shift_op = LSL_IMM i (ARMPROC p s)
      in OP_LDR_W2_macro B p 3 5 shift_op i s)"

definition OP_LDR_M_LSL_IMM_OFF_POSTIND :: "'io bus \<Rightarrow> nat \<Rightarrow> u32 \<Rightarrow> 'io nds \<Rightarrow> u32 \<times> 'io nds" where
  "OP_LDR_M_LSL_IMM_OFF_POSTIND B p i s =
     (let shift_op = LSL_IMM i (ARMPROC p s)
      in OP_LDR_W2_macro B p 3 5 (- shift_op) i s)"

definition OP_LDR_P_LSR_IMM_OFF_POSTIND :: "'io bus \<Rightarrow> nat \<Rightarrow> u32 \<Rightarrow> 'io nds \<Rightarrow> u32 \<times> 'io nds" where
  "OP_LDR_P_LSR_IMM_OFF_POSTIND B p i s =
     (let shift_op = LSR_IMM i (ARMPROC p s)
      in OP_LDR_W2_macro B p 3 5 shift_op i s)"

definition OP_LDR_M_LSR_IMM_OFF_POSTIND :: "'io bus \<Rightarrow> nat \<Rightarrow> u32 \<Rightarrow> 'io nds \<Rightarrow> u32 \<times> 'io nds" where
  "OP_LDR_M_LSR_IMM_OFF_POSTIND B p i s =
     (let shift_op = LSR_IMM i (ARMPROC p s)
      in OP_LDR_W2_macro B p 3 5 (- shift_op) i s)"

definition OP_LDR_P_ASR_IMM_OFF_POSTIND :: "'io bus \<Rightarrow> nat \<Rightarrow> u32 \<Rightarrow> 'io nds \<Rightarrow> u32 \<times> 'io nds" where
  "OP_LDR_P_ASR_IMM_OFF_POSTIND B p i s =
     (let shift_op = ASR_IMM i (ARMPROC p s)
      in OP_LDR_W2_macro B p 3 5 shift_op i s)"

definition OP_LDR_M_ASR_IMM_OFF_POSTIND :: "'io bus \<Rightarrow> nat \<Rightarrow> u32 \<Rightarrow> 'io nds \<Rightarrow> u32 \<times> 'io nds" where
  "OP_LDR_M_ASR_IMM_OFF_POSTIND B p i s =
     (let shift_op = ASR_IMM i (ARMPROC p s)
      in OP_LDR_W2_macro B p 3 5 (- shift_op) i s)"

definition OP_LDR_P_ROR_IMM_OFF_POSTIND :: "'io bus \<Rightarrow> nat \<Rightarrow> u32 \<Rightarrow> 'io nds \<Rightarrow> u32 \<times> 'io nds" where
  "OP_LDR_P_ROR_IMM_OFF_POSTIND B p i s =
     (let shift_op = ROR_IMM i (ARMPROC p s)
      in OP_LDR_W2_macro B p 3 5 shift_op i s)"

definition OP_LDR_M_ROR_IMM_OFF_POSTIND :: "'io bus \<Rightarrow> nat \<Rightarrow> u32 \<Rightarrow> 'io nds \<Rightarrow> u32 \<times> 'io nds" where
  "OP_LDR_M_ROR_IMM_OFF_POSTIND B p i s =
     (let shift_op = ROR_IMM i (ARMPROC p s)
      in OP_LDR_W2_macro B p 3 5 (- shift_op) i s)"

section \<open>LDREX\<close>

definition OP_LDREX :: "'io bus \<Rightarrow> nat \<Rightarrow> u32 \<Rightarrow> 'io nds \<Rightarrow> u32 \<times> 'io nds" where
  "OP_LDREX B p i s =
     (let adr = reg p s (REG_POS i 16);
          (v, s) = READ32 B p adr s;
          s = upd_cpu p (setR (REG_POS i 12) (ROR v (8 * (adr AND 3)))) s
      in (MMU_aluMemAccessCycles p 32 MMU_AD_READ 3 adr, s))"

section \<open>LDRB\<close>

definition OP_LDRB_P_IMM_OFF :: "'io bus \<Rightarrow> nat \<Rightarrow> u32 \<Rightarrow> 'io nds \<Rightarrow> u32 \<times> 'io nds" where
  "OP_LDRB_P_IMM_OFF B p i s =
     (let adr = reg p s (REG_POS i 16) + IMM_OFF_12 i;
          (v, s) = READ8 B p adr s;
          s = upd_cpu p (setR (REG_POS i 12) (ucast v)) s
      in (MMU_aluMemAccessCycles p 8 MMU_AD_READ 3 adr, s))"

definition OP_LDRB_M_IMM_OFF :: "'io bus \<Rightarrow> nat \<Rightarrow> u32 \<Rightarrow> 'io nds \<Rightarrow> u32 \<times> 'io nds" where
  "OP_LDRB_M_IMM_OFF B p i s =
     (let adr = reg p s (REG_POS i 16) - IMM_OFF_12 i;
          (v, s) = READ8 B p adr s;
          s = upd_cpu p (setR (REG_POS i 12) (ucast v)) s
      in (MMU_aluMemAccessCycles p 8 MMU_AD_READ 3 adr, s))"

definition OP_LDRB_P_LSL_IMM_OFF :: "'io bus \<Rightarrow> nat \<Rightarrow> u32 \<Rightarrow> 'io nds \<Rightarrow> u32 \<times> 'io nds" where
  "OP_LDRB_P_LSL_IMM_OFF B p i s =
     (let shift_op = LSL_IMM i (ARMPROC p s);
          adr = reg p s (REG_POS i 16) + shift_op;
          (v, s) = READ8 B p adr s;
          s = upd_cpu p (setR (REG_POS i 12) (ucast v)) s
      in (MMU_aluMemAccessCycles p 8 MMU_AD_READ 3 adr, s))"

definition OP_LDRB_M_LSL_IMM_OFF :: "'io bus \<Rightarrow> nat \<Rightarrow> u32 \<Rightarrow> 'io nds \<Rightarrow> u32 \<times> 'io nds" where
  "OP_LDRB_M_LSL_IMM_OFF B p i s =
     (let shift_op = LSL_IMM i (ARMPROC p s);
          adr = reg p s (REG_POS i 16) - shift_op;
          (v, s) = READ8 B p adr s;
          s = upd_cpu p (setR (REG_POS i 12) (ucast v)) s
      in (MMU_aluMemAccessCycles p 8 MMU_AD_READ 3 adr, s))"

definition OP_LDRB_P_LSR_IMM_OFF :: "'io bus \<Rightarrow> nat \<Rightarrow> u32 \<Rightarrow> 'io nds \<Rightarrow> u32 \<times> 'io nds" where
  "OP_LDRB_P_LSR_IMM_OFF B p i s =
     (let shift_op = LSR_IMM i (ARMPROC p s);
          adr = reg p s (REG_POS i 16) + shift_op;
          (v, s) = READ8 B p adr s;
          s = upd_cpu p (setR (REG_POS i 12) (ucast v)) s
      in (MMU_aluMemAccessCycles p 8 MMU_AD_READ 3 adr, s))"

definition OP_LDRB_M_LSR_IMM_OFF :: "'io bus \<Rightarrow> nat \<Rightarrow> u32 \<Rightarrow> 'io nds \<Rightarrow> u32 \<times> 'io nds" where
  "OP_LDRB_M_LSR_IMM_OFF B p i s =
     (let shift_op = LSR_IMM i (ARMPROC p s);
          adr = reg p s (REG_POS i 16) - shift_op;
          (v, s) = READ8 B p adr s;
          s = upd_cpu p (setR (REG_POS i 12) (ucast v)) s
      in (MMU_aluMemAccessCycles p 8 MMU_AD_READ 3 adr, s))"

definition OP_LDRB_P_ASR_IMM_OFF :: "'io bus \<Rightarrow> nat \<Rightarrow> u32 \<Rightarrow> 'io nds \<Rightarrow> u32 \<times> 'io nds" where
  "OP_LDRB_P_ASR_IMM_OFF B p i s =
     (let shift_op = ASR_IMM i (ARMPROC p s);
          adr = reg p s (REG_POS i 16) + shift_op;
          (v, s) = READ8 B p adr s;
          s = upd_cpu p (setR (REG_POS i 12) (ucast v)) s
      in (MMU_aluMemAccessCycles p 8 MMU_AD_READ 3 adr, s))"

definition OP_LDRB_M_ASR_IMM_OFF :: "'io bus \<Rightarrow> nat \<Rightarrow> u32 \<Rightarrow> 'io nds \<Rightarrow> u32 \<times> 'io nds" where
  "OP_LDRB_M_ASR_IMM_OFF B p i s =
     (let shift_op = ASR_IMM i (ARMPROC p s);
          adr = reg p s (REG_POS i 16) - shift_op;
          (v, s) = READ8 B p adr s;
          s = upd_cpu p (setR (REG_POS i 12) (ucast v)) s
      in (MMU_aluMemAccessCycles p 8 MMU_AD_READ 3 adr, s))"

definition OP_LDRB_P_ROR_IMM_OFF :: "'io bus \<Rightarrow> nat \<Rightarrow> u32 \<Rightarrow> 'io nds \<Rightarrow> u32 \<times> 'io nds" where
  "OP_LDRB_P_ROR_IMM_OFF B p i s =
     (let shift_op = ROR_IMM i (ARMPROC p s);
          adr = reg p s (REG_POS i 16) + shift_op;
          (v, s) = READ8 B p adr s;
          s = upd_cpu p (setR (REG_POS i 12) (ucast v)) s
      in (MMU_aluMemAccessCycles p 8 MMU_AD_READ 3 adr, s))"

definition OP_LDRB_M_ROR_IMM_OFF :: "'io bus \<Rightarrow> nat \<Rightarrow> u32 \<Rightarrow> 'io nds \<Rightarrow> u32 \<times> 'io nds" where
  "OP_LDRB_M_ROR_IMM_OFF B p i s =
     (let shift_op = ROR_IMM i (ARMPROC p s);
          adr = reg p s (REG_POS i 16) - shift_op;
          (v, s) = READ8 B p adr s;
          s = upd_cpu p (setR (REG_POS i 12) (ucast v)) s
      in (MMU_aluMemAccessCycles p 8 MMU_AD_READ 3 adr, s))"

definition OP_LDRB_P_IMM_OFF_PREIND :: "'io bus \<Rightarrow> nat \<Rightarrow> u32 \<Rightarrow> 'io nds \<Rightarrow> u32 \<times> 'io nds" where
  "OP_LDRB_P_IMM_OFF_PREIND B p i s =
     (let adr = reg p s (REG_POS i 16) + IMM_OFF_12 i;
          s = upd_cpu p (setR (REG_POS i 16) adr) s;
          (v, s) = READ8 B p adr s;
          s = upd_cpu p (setR (REG_POS i 12) (ucast v)) s
      in (MMU_aluMemAccessCycles p 8 MMU_AD_READ 3 adr, s))"

definition OP_LDRB_M_IMM_OFF_PREIND :: "'io bus \<Rightarrow> nat \<Rightarrow> u32 \<Rightarrow> 'io nds \<Rightarrow> u32 \<times> 'io nds" where
  "OP_LDRB_M_IMM_OFF_PREIND B p i s =
     (let adr = reg p s (REG_POS i 16) - IMM_OFF_12 i;
          s = upd_cpu p (setR (REG_POS i 16) adr) s;
          (v, s) = READ8 B p adr s;
          s = upd_cpu p (setR (REG_POS i 12) (ucast v)) s
      in (MMU_aluMemAccessCycles p 8 MMU_AD_READ 3 adr, s))"

definition OP_LDRB_P_LSL_IMM_OFF_PREIND :: "'io bus \<Rightarrow> nat \<Rightarrow> u32 \<Rightarrow> 'io nds \<Rightarrow> u32 \<times> 'io nds" where
  "OP_LDRB_P_LSL_IMM_OFF_PREIND B p i s =
     (let shift_op = LSL_IMM i (ARMPROC p s);
          adr = reg p s (REG_POS i 16) + shift_op;
          s = upd_cpu p (setR (REG_POS i 16) adr) s;
          (v, s) = READ8 B p adr s;
          s = upd_cpu p (setR (REG_POS i 12) (ucast v)) s
      in (MMU_aluMemAccessCycles p 8 MMU_AD_READ 3 adr, s))"

definition OP_LDRB_M_LSL_IMM_OFF_PREIND :: "'io bus \<Rightarrow> nat \<Rightarrow> u32 \<Rightarrow> 'io nds \<Rightarrow> u32 \<times> 'io nds" where
  "OP_LDRB_M_LSL_IMM_OFF_PREIND B p i s =
     (let shift_op = LSL_IMM i (ARMPROC p s);
          adr = reg p s (REG_POS i 16) - shift_op;
          s = upd_cpu p (setR (REG_POS i 16) adr) s;
          (v, s) = READ8 B p adr s;
          s = upd_cpu p (setR (REG_POS i 12) (ucast v)) s
      in (MMU_aluMemAccessCycles p 8 MMU_AD_READ 3 adr, s))"

definition OP_LDRB_P_LSR_IMM_OFF_PREIND :: "'io bus \<Rightarrow> nat \<Rightarrow> u32 \<Rightarrow> 'io nds \<Rightarrow> u32 \<times> 'io nds" where
  "OP_LDRB_P_LSR_IMM_OFF_PREIND B p i s =
     (let shift_op = LSR_IMM i (ARMPROC p s);
          adr = reg p s (REG_POS i 16) + shift_op;
          s = upd_cpu p (setR (REG_POS i 16) adr) s;
          (v, s) = READ8 B p adr s;
          s = upd_cpu p (setR (REG_POS i 12) (ucast v)) s
      in (MMU_aluMemAccessCycles p 8 MMU_AD_READ 3 adr, s))"

definition OP_LDRB_M_LSR_IMM_OFF_PREIND :: "'io bus \<Rightarrow> nat \<Rightarrow> u32 \<Rightarrow> 'io nds \<Rightarrow> u32 \<times> 'io nds" where
  "OP_LDRB_M_LSR_IMM_OFF_PREIND B p i s =
     (let shift_op = LSR_IMM i (ARMPROC p s);
          adr = reg p s (REG_POS i 16) - shift_op;
          s = upd_cpu p (setR (REG_POS i 16) adr) s;
          (v, s) = READ8 B p adr s;
          s = upd_cpu p (setR (REG_POS i 12) (ucast v)) s
      in (MMU_aluMemAccessCycles p 8 MMU_AD_READ 3 adr, s))"

definition OP_LDRB_P_ASR_IMM_OFF_PREIND :: "'io bus \<Rightarrow> nat \<Rightarrow> u32 \<Rightarrow> 'io nds \<Rightarrow> u32 \<times> 'io nds" where
  "OP_LDRB_P_ASR_IMM_OFF_PREIND B p i s =
     (let shift_op = ASR_IMM i (ARMPROC p s);
          adr = reg p s (REG_POS i 16) + shift_op;
          s = upd_cpu p (setR (REG_POS i 16) adr) s;
          (v, s) = READ8 B p adr s;
          s = upd_cpu p (setR (REG_POS i 12) (ucast v)) s
      in (MMU_aluMemAccessCycles p 8 MMU_AD_READ 3 adr, s))"

definition OP_LDRB_M_ASR_IMM_OFF_PREIND :: "'io bus \<Rightarrow> nat \<Rightarrow> u32 \<Rightarrow> 'io nds \<Rightarrow> u32 \<times> 'io nds" where
  "OP_LDRB_M_ASR_IMM_OFF_PREIND B p i s =
     (let shift_op = ASR_IMM i (ARMPROC p s);
          adr = reg p s (REG_POS i 16) - shift_op;
          s = upd_cpu p (setR (REG_POS i 16) adr) s;
          (v, s) = READ8 B p adr s;
          s = upd_cpu p (setR (REG_POS i 12) (ucast v)) s
      in (MMU_aluMemAccessCycles p 8 MMU_AD_READ 3 adr, s))"

definition OP_LDRB_P_ROR_IMM_OFF_PREIND :: "'io bus \<Rightarrow> nat \<Rightarrow> u32 \<Rightarrow> 'io nds \<Rightarrow> u32 \<times> 'io nds" where
  "OP_LDRB_P_ROR_IMM_OFF_PREIND B p i s =
     (let shift_op = ROR_IMM i (ARMPROC p s);
          adr = reg p s (REG_POS i 16) + shift_op;
          s = upd_cpu p (setR (REG_POS i 16) adr) s;
          (v, s) = READ8 B p adr s;
          s = upd_cpu p (setR (REG_POS i 12) (ucast v)) s
      in (MMU_aluMemAccessCycles p 8 MMU_AD_READ 3 adr, s))"

definition OP_LDRB_M_ROR_IMM_OFF_PREIND :: "'io bus \<Rightarrow> nat \<Rightarrow> u32 \<Rightarrow> 'io nds \<Rightarrow> u32 \<times> 'io nds" where
  "OP_LDRB_M_ROR_IMM_OFF_PREIND B p i s =
     (let shift_op = ROR_IMM i (ARMPROC p s);
          adr = reg p s (REG_POS i 16) - shift_op;
          s = upd_cpu p (setR (REG_POS i 16) adr) s;
          (v, s) = READ8 B p adr s;
          s = upd_cpu p (setR (REG_POS i 12) (ucast v)) s
      in (MMU_aluMemAccessCycles p 8 MMU_AD_READ 3 adr, s))"

definition OP_LDRB_P_IMM_OFF_POSTIND :: "'io bus \<Rightarrow> nat \<Rightarrow> u32 \<Rightarrow> 'io nds \<Rightarrow> u32 \<times> 'io nds" where
  "OP_LDRB_P_IMM_OFF_POSTIND B p i s =
     (let adr = reg p s (REG_POS i 16);
          s = upd_cpu p (setR (REG_POS i 16) (adr + IMM_OFF_12 i)) s;
          (v, s) = READ8 B p adr s;
          s = upd_cpu p (setR (REG_POS i 12) (ucast v)) s
      in (MMU_aluMemAccessCycles p 8 MMU_AD_READ 3 adr, s))"

definition OP_LDRB_M_IMM_OFF_POSTIND :: "'io bus \<Rightarrow> nat \<Rightarrow> u32 \<Rightarrow> 'io nds \<Rightarrow> u32 \<times> 'io nds" where
  "OP_LDRB_M_IMM_OFF_POSTIND B p i s =
     (let adr = reg p s (REG_POS i 16);
          s = upd_cpu p (setR (REG_POS i 16) (adr - IMM_OFF_12 i)) s;
          (v, s) = READ8 B p adr s;
          s = upd_cpu p (setR (REG_POS i 12) (ucast v)) s
      in (MMU_aluMemAccessCycles p 8 MMU_AD_READ 3 adr, s))"

definition OP_LDRB_P_LSL_IMM_OFF_POSTIND :: "'io bus \<Rightarrow> nat \<Rightarrow> u32 \<Rightarrow> 'io nds \<Rightarrow> u32 \<times> 'io nds" where
  "OP_LDRB_P_LSL_IMM_OFF_POSTIND B p i s =
     (let shift_op = LSL_IMM i (ARMPROC p s);
          adr = reg p s (REG_POS i 16);
          s = upd_cpu p (setR (REG_POS i 16) (adr + shift_op)) s;
          (v, s) = READ8 B p adr s;
          s = upd_cpu p (setR (REG_POS i 12) (ucast v)) s
      in (MMU_aluMemAccessCycles p 8 MMU_AD_READ 3 adr, s))"

definition OP_LDRB_M_LSL_IMM_OFF_POSTIND :: "'io bus \<Rightarrow> nat \<Rightarrow> u32 \<Rightarrow> 'io nds \<Rightarrow> u32 \<times> 'io nds" where
  "OP_LDRB_M_LSL_IMM_OFF_POSTIND B p i s =
     (let shift_op = LSL_IMM i (ARMPROC p s);
          adr = reg p s (REG_POS i 16);
          s = upd_cpu p (setR (REG_POS i 16) (adr - shift_op)) s;
          (v, s) = READ8 B p adr s;
          s = upd_cpu p (setR (REG_POS i 12) (ucast v)) s
      in (MMU_aluMemAccessCycles p 8 MMU_AD_READ 3 adr, s))"

definition OP_LDRB_P_LSR_IMM_OFF_POSTIND :: "'io bus \<Rightarrow> nat \<Rightarrow> u32 \<Rightarrow> 'io nds \<Rightarrow> u32 \<times> 'io nds" where
  "OP_LDRB_P_LSR_IMM_OFF_POSTIND B p i s =
     (let shift_op = LSR_IMM i (ARMPROC p s);
          adr = reg p s (REG_POS i 16);
          s = upd_cpu p (setR (REG_POS i 16) (adr + shift_op)) s;
          (v, s) = READ8 B p adr s;
          s = upd_cpu p (setR (REG_POS i 12) (ucast v)) s
      in (MMU_aluMemAccessCycles p 8 MMU_AD_READ 3 adr, s))"

definition OP_LDRB_M_LSR_IMM_OFF_POSTIND :: "'io bus \<Rightarrow> nat \<Rightarrow> u32 \<Rightarrow> 'io nds \<Rightarrow> u32 \<times> 'io nds" where
  "OP_LDRB_M_LSR_IMM_OFF_POSTIND B p i s =
     (let shift_op = LSR_IMM i (ARMPROC p s);
          adr = reg p s (REG_POS i 16);
          s = upd_cpu p (setR (REG_POS i 16) (adr - shift_op)) s;
          (v, s) = READ8 B p adr s;
          s = upd_cpu p (setR (REG_POS i 12) (ucast v)) s
      in (MMU_aluMemAccessCycles p 8 MMU_AD_READ 3 adr, s))"

definition OP_LDRB_P_ASR_IMM_OFF_POSTIND :: "'io bus \<Rightarrow> nat \<Rightarrow> u32 \<Rightarrow> 'io nds \<Rightarrow> u32 \<times> 'io nds" where
  "OP_LDRB_P_ASR_IMM_OFF_POSTIND B p i s =
     (let shift_op = ASR_IMM i (ARMPROC p s);
          adr = reg p s (REG_POS i 16);
          s = upd_cpu p (setR (REG_POS i 16) (adr + shift_op)) s;
          (v, s) = READ8 B p adr s;
          s = upd_cpu p (setR (REG_POS i 12) (ucast v)) s
      in (MMU_aluMemAccessCycles p 8 MMU_AD_READ 3 adr, s))"

definition OP_LDRB_M_ASR_IMM_OFF_POSTIND :: "'io bus \<Rightarrow> nat \<Rightarrow> u32 \<Rightarrow> 'io nds \<Rightarrow> u32 \<times> 'io nds" where
  "OP_LDRB_M_ASR_IMM_OFF_POSTIND B p i s =
     (let shift_op = ASR_IMM i (ARMPROC p s);
          adr = reg p s (REG_POS i 16);
          s = upd_cpu p (setR (REG_POS i 16) (adr - shift_op)) s;
          (v, s) = READ8 B p adr s;
          s = upd_cpu p (setR (REG_POS i 12) (ucast v)) s
      in (MMU_aluMemAccessCycles p 8 MMU_AD_READ 3 adr, s))"

definition OP_LDRB_P_ROR_IMM_OFF_POSTIND :: "'io bus \<Rightarrow> nat \<Rightarrow> u32 \<Rightarrow> 'io nds \<Rightarrow> u32 \<times> 'io nds" where
  "OP_LDRB_P_ROR_IMM_OFF_POSTIND B p i s =
     (let shift_op = ROR_IMM i (ARMPROC p s);
          adr = reg p s (REG_POS i 16);
          s = upd_cpu p (setR (REG_POS i 16) (adr + shift_op)) s;
          (v, s) = READ8 B p adr s;
          s = upd_cpu p (setR (REG_POS i 12) (ucast v)) s
      in (MMU_aluMemAccessCycles p 8 MMU_AD_READ 3 adr, s))"

definition OP_LDRB_M_ROR_IMM_OFF_POSTIND :: "'io bus \<Rightarrow> nat \<Rightarrow> u32 \<Rightarrow> 'io nds \<Rightarrow> u32 \<times> 'io nds" where
  "OP_LDRB_M_ROR_IMM_OFF_POSTIND B p i s =
     (let shift_op = ROR_IMM i (ARMPROC p s);
          adr = reg p s (REG_POS i 16);
          s = upd_cpu p (setR (REG_POS i 16) (adr - shift_op)) s;
          (v, s) = READ8 B p adr s;
          s = upd_cpu p (setR (REG_POS i 12) (ucast v)) s
      in (MMU_aluMemAccessCycles p 8 MMU_AD_READ 3 adr, s))"

section \<open>STR\<close>

definition OP_STR_P_IMM_OFF :: "'io bus \<Rightarrow> nat \<Rightarrow> u32 \<Rightarrow> 'io nds \<Rightarrow> u32 \<times> 'io nds" where
  "OP_STR_P_IMM_OFF B p i s =
     (let adr = reg p s (REG_POS i 16) + IMM_OFF_12 i;
          s = WRITE32 B p adr (reg p s (REG_POS i 12)) s
      in (MMU_aluMemAccessCycles p 32 MMU_AD_WRITE 2 adr, s))"

definition OP_STR_M_IMM_OFF :: "'io bus \<Rightarrow> nat \<Rightarrow> u32 \<Rightarrow> 'io nds \<Rightarrow> u32 \<times> 'io nds" where
  "OP_STR_M_IMM_OFF B p i s =
     (let adr = reg p s (REG_POS i 16) - IMM_OFF_12 i;
          s = WRITE32 B p adr (reg p s (REG_POS i 12)) s
      in (MMU_aluMemAccessCycles p 32 MMU_AD_WRITE 2 adr, s))"

definition OP_STR_P_LSL_IMM_OFF :: "'io bus \<Rightarrow> nat \<Rightarrow> u32 \<Rightarrow> 'io nds \<Rightarrow> u32 \<times> 'io nds" where
  "OP_STR_P_LSL_IMM_OFF B p i s =
     (let shift_op = LSL_IMM i (ARMPROC p s);
          adr = reg p s (REG_POS i 16) + shift_op;
          s = WRITE32 B p adr (reg p s (REG_POS i 12)) s
      in (MMU_aluMemAccessCycles p 32 MMU_AD_WRITE 2 adr, s))"

definition OP_STR_M_LSL_IMM_OFF :: "'io bus \<Rightarrow> nat \<Rightarrow> u32 \<Rightarrow> 'io nds \<Rightarrow> u32 \<times> 'io nds" where
  "OP_STR_M_LSL_IMM_OFF B p i s =
     (let shift_op = LSL_IMM i (ARMPROC p s);
          adr = reg p s (REG_POS i 16) - shift_op;
          s = WRITE32 B p adr (reg p s (REG_POS i 12)) s
      in (MMU_aluMemAccessCycles p 32 MMU_AD_WRITE 2 adr, s))"

definition OP_STR_P_LSR_IMM_OFF :: "'io bus \<Rightarrow> nat \<Rightarrow> u32 \<Rightarrow> 'io nds \<Rightarrow> u32 \<times> 'io nds" where
  "OP_STR_P_LSR_IMM_OFF B p i s =
     (let shift_op = LSR_IMM i (ARMPROC p s);
          adr = reg p s (REG_POS i 16) + shift_op;
          s = WRITE32 B p adr (reg p s (REG_POS i 12)) s
      in (MMU_aluMemAccessCycles p 32 MMU_AD_WRITE 2 adr, s))"

definition OP_STR_M_LSR_IMM_OFF :: "'io bus \<Rightarrow> nat \<Rightarrow> u32 \<Rightarrow> 'io nds \<Rightarrow> u32 \<times> 'io nds" where
  "OP_STR_M_LSR_IMM_OFF B p i s =
     (let shift_op = LSR_IMM i (ARMPROC p s);
          adr = reg p s (REG_POS i 16) - shift_op;
          s = WRITE32 B p adr (reg p s (REG_POS i 12)) s
      in (MMU_aluMemAccessCycles p 32 MMU_AD_WRITE 2 adr, s))"

definition OP_STR_P_ASR_IMM_OFF :: "'io bus \<Rightarrow> nat \<Rightarrow> u32 \<Rightarrow> 'io nds \<Rightarrow> u32 \<times> 'io nds" where
  "OP_STR_P_ASR_IMM_OFF B p i s =
     (let shift_op = ASR_IMM i (ARMPROC p s);
          adr = reg p s (REG_POS i 16) + shift_op;
          s = WRITE32 B p adr (reg p s (REG_POS i 12)) s
      in (MMU_aluMemAccessCycles p 32 MMU_AD_WRITE 2 adr, s))"

definition OP_STR_M_ASR_IMM_OFF :: "'io bus \<Rightarrow> nat \<Rightarrow> u32 \<Rightarrow> 'io nds \<Rightarrow> u32 \<times> 'io nds" where
  "OP_STR_M_ASR_IMM_OFF B p i s =
     (let shift_op = ASR_IMM i (ARMPROC p s);
          adr = reg p s (REG_POS i 16) - shift_op;
          s = WRITE32 B p adr (reg p s (REG_POS i 12)) s
      in (MMU_aluMemAccessCycles p 32 MMU_AD_WRITE 2 adr, s))"

definition OP_STR_P_ROR_IMM_OFF :: "'io bus \<Rightarrow> nat \<Rightarrow> u32 \<Rightarrow> 'io nds \<Rightarrow> u32 \<times> 'io nds" where
  "OP_STR_P_ROR_IMM_OFF B p i s =
     (let shift_op = ROR_IMM i (ARMPROC p s);
          adr = reg p s (REG_POS i 16) + shift_op;
          s = WRITE32 B p adr (reg p s (REG_POS i 12)) s
      in (MMU_aluMemAccessCycles p 32 MMU_AD_WRITE 2 adr, s))"

definition OP_STR_M_ROR_IMM_OFF :: "'io bus \<Rightarrow> nat \<Rightarrow> u32 \<Rightarrow> 'io nds \<Rightarrow> u32 \<times> 'io nds" where
  "OP_STR_M_ROR_IMM_OFF B p i s =
     (let shift_op = ROR_IMM i (ARMPROC p s);
          adr = reg p s (REG_POS i 16) - shift_op;
          s = WRITE32 B p adr (reg p s (REG_POS i 12)) s
      in (MMU_aluMemAccessCycles p 32 MMU_AD_WRITE 2 adr, s))"

definition OP_STR_P_IMM_OFF_PREIND :: "'io bus \<Rightarrow> nat \<Rightarrow> u32 \<Rightarrow> 'io nds \<Rightarrow> u32 \<times> 'io nds" where
  "OP_STR_P_IMM_OFF_PREIND B p i s =
     (let adr = reg p s (REG_POS i 16) + IMM_OFF_12 i;
          s = upd_cpu p (setR (REG_POS i 16) adr) s;
          s = WRITE32 B p adr (reg p s (REG_POS i 12)) s
      in (MMU_aluMemAccessCycles p 32 MMU_AD_WRITE 2 adr, s))"

definition OP_STR_M_IMM_OFF_PREIND :: "'io bus \<Rightarrow> nat \<Rightarrow> u32 \<Rightarrow> 'io nds \<Rightarrow> u32 \<times> 'io nds" where
  "OP_STR_M_IMM_OFF_PREIND B p i s =
     (let adr = reg p s (REG_POS i 16) - IMM_OFF_12 i;
          s = upd_cpu p (setR (REG_POS i 16) adr) s;
          s = WRITE32 B p adr (reg p s (REG_POS i 12)) s
      in (MMU_aluMemAccessCycles p 32 MMU_AD_WRITE 2 adr, s))"

definition OP_STR_P_LSL_IMM_OFF_PREIND :: "'io bus \<Rightarrow> nat \<Rightarrow> u32 \<Rightarrow> 'io nds \<Rightarrow> u32 \<times> 'io nds" where
  "OP_STR_P_LSL_IMM_OFF_PREIND B p i s =
     (let shift_op = LSL_IMM i (ARMPROC p s);
          adr = reg p s (REG_POS i 16) + shift_op;
          s = upd_cpu p (setR (REG_POS i 16) adr) s;
          s = WRITE32 B p adr (reg p s (REG_POS i 12)) s
      in (MMU_aluMemAccessCycles p 32 MMU_AD_WRITE 2 adr, s))"

definition OP_STR_M_LSL_IMM_OFF_PREIND :: "'io bus \<Rightarrow> nat \<Rightarrow> u32 \<Rightarrow> 'io nds \<Rightarrow> u32 \<times> 'io nds" where
  "OP_STR_M_LSL_IMM_OFF_PREIND B p i s =
     (let shift_op = LSL_IMM i (ARMPROC p s);
          adr = reg p s (REG_POS i 16) - shift_op;
          s = upd_cpu p (setR (REG_POS i 16) adr) s;
          s = WRITE32 B p adr (reg p s (REG_POS i 12)) s
      in (MMU_aluMemAccessCycles p 32 MMU_AD_WRITE 2 adr, s))"

definition OP_STR_P_LSR_IMM_OFF_PREIND :: "'io bus \<Rightarrow> nat \<Rightarrow> u32 \<Rightarrow> 'io nds \<Rightarrow> u32 \<times> 'io nds" where
  "OP_STR_P_LSR_IMM_OFF_PREIND B p i s =
     (let shift_op = LSR_IMM i (ARMPROC p s);
          adr = reg p s (REG_POS i 16) + shift_op;
          s = upd_cpu p (setR (REG_POS i 16) adr) s;
          s = WRITE32 B p adr (reg p s (REG_POS i 12)) s
      in (MMU_aluMemAccessCycles p 32 MMU_AD_WRITE 2 adr, s))"

definition OP_STR_M_LSR_IMM_OFF_PREIND :: "'io bus \<Rightarrow> nat \<Rightarrow> u32 \<Rightarrow> 'io nds \<Rightarrow> u32 \<times> 'io nds" where
  "OP_STR_M_LSR_IMM_OFF_PREIND B p i s =
     (let shift_op = LSR_IMM i (ARMPROC p s);
          adr = reg p s (REG_POS i 16) - shift_op;
          s = upd_cpu p (setR (REG_POS i 16) adr) s;
          s = WRITE32 B p adr (reg p s (REG_POS i 12)) s
      in (MMU_aluMemAccessCycles p 32 MMU_AD_WRITE 2 adr, s))"

definition OP_STR_P_ASR_IMM_OFF_PREIND :: "'io bus \<Rightarrow> nat \<Rightarrow> u32 \<Rightarrow> 'io nds \<Rightarrow> u32 \<times> 'io nds" where
  "OP_STR_P_ASR_IMM_OFF_PREIND B p i s =
     (let shift_op = ASR_IMM i (ARMPROC p s);
          adr = reg p s (REG_POS i 16) + shift_op;
          s = upd_cpu p (setR (REG_POS i 16) adr) s;
          s = WRITE32 B p adr (reg p s (REG_POS i 12)) s
      in (MMU_aluMemAccessCycles p 32 MMU_AD_WRITE 2 adr, s))"

definition OP_STR_M_ASR_IMM_OFF_PREIND :: "'io bus \<Rightarrow> nat \<Rightarrow> u32 \<Rightarrow> 'io nds \<Rightarrow> u32 \<times> 'io nds" where
  "OP_STR_M_ASR_IMM_OFF_PREIND B p i s =
     (let shift_op = ASR_IMM i (ARMPROC p s);
          adr = reg p s (REG_POS i 16) - shift_op;
          s = upd_cpu p (setR (REG_POS i 16) adr) s;
          s = WRITE32 B p adr (reg p s (REG_POS i 12)) s
      in (MMU_aluMemAccessCycles p 32 MMU_AD_WRITE 2 adr, s))"

definition OP_STR_P_ROR_IMM_OFF_PREIND :: "'io bus \<Rightarrow> nat \<Rightarrow> u32 \<Rightarrow> 'io nds \<Rightarrow> u32 \<times> 'io nds" where
  "OP_STR_P_ROR_IMM_OFF_PREIND B p i s =
     (let shift_op = ROR_IMM i (ARMPROC p s);
          adr = reg p s (REG_POS i 16) + shift_op;
          s = upd_cpu p (setR (REG_POS i 16) adr) s;
          s = WRITE32 B p adr (reg p s (REG_POS i 12)) s
      in (MMU_aluMemAccessCycles p 32 MMU_AD_WRITE 2 adr, s))"

definition OP_STR_M_ROR_IMM_OFF_PREIND :: "'io bus \<Rightarrow> nat \<Rightarrow> u32 \<Rightarrow> 'io nds \<Rightarrow> u32 \<times> 'io nds" where
  "OP_STR_M_ROR_IMM_OFF_PREIND B p i s =
     (let shift_op = ROR_IMM i (ARMPROC p s);
          adr = reg p s (REG_POS i 16) - shift_op;
          s = upd_cpu p (setR (REG_POS i 16) adr) s;
          s = WRITE32 B p adr (reg p s (REG_POS i 12)) s
      in (MMU_aluMemAccessCycles p 32 MMU_AD_WRITE 2 adr, s))"

definition OP_STR_P_IMM_OFF_POSTIND :: "'io bus \<Rightarrow> nat \<Rightarrow> u32 \<Rightarrow> 'io nds \<Rightarrow> u32 \<times> 'io nds" where
  "OP_STR_P_IMM_OFF_POSTIND B p i s =
     (let adr = reg p s (REG_POS i 16);
          s = WRITE32 B p adr (reg p s (REG_POS i 12)) s;
          s = upd_cpu p (setR (REG_POS i 16) (adr + IMM_OFF_12 i)) s
      in (MMU_aluMemAccessCycles p 32 MMU_AD_WRITE 2 adr, s))"

definition OP_STR_M_IMM_OFF_POSTIND :: "'io bus \<Rightarrow> nat \<Rightarrow> u32 \<Rightarrow> 'io nds \<Rightarrow> u32 \<times> 'io nds" where
  "OP_STR_M_IMM_OFF_POSTIND B p i s =
     (let adr = reg p s (REG_POS i 16);
          s = WRITE32 B p adr (reg p s (REG_POS i 12)) s;
          s = upd_cpu p (setR (REG_POS i 16) (adr - IMM_OFF_12 i)) s
      in (MMU_aluMemAccessCycles p 32 MMU_AD_WRITE 2 adr, s))"

definition OP_STR_P_LSL_IMM_OFF_POSTIND :: "'io bus \<Rightarrow> nat \<Rightarrow> u32 \<Rightarrow> 'io nds \<Rightarrow> u32 \<times> 'io nds" where
  "OP_STR_P_LSL_IMM_OFF_POSTIND B p i s =
     (let shift_op = LSL_IMM i (ARMPROC p s);
          adr = reg p s (REG_POS i 16);
          s = WRITE32 B p adr (reg p s (REG_POS i 12)) s;
          s = upd_cpu p (setR (REG_POS i 16) (adr + shift_op)) s
      in (MMU_aluMemAccessCycles p 32 MMU_AD_WRITE 2 adr, s))"

definition OP_STR_M_LSL_IMM_OFF_POSTIND :: "'io bus \<Rightarrow> nat \<Rightarrow> u32 \<Rightarrow> 'io nds \<Rightarrow> u32 \<times> 'io nds" where
  "OP_STR_M_LSL_IMM_OFF_POSTIND B p i s =
     (let shift_op = LSL_IMM i (ARMPROC p s);
          adr = reg p s (REG_POS i 16);
          s = WRITE32 B p adr (reg p s (REG_POS i 12)) s;
          s = upd_cpu p (setR (REG_POS i 16) (adr - shift_op)) s
      in (MMU_aluMemAccessCycles p 32 MMU_AD_WRITE 2 adr, s))"

definition OP_STR_P_LSR_IMM_OFF_POSTIND :: "'io bus \<Rightarrow> nat \<Rightarrow> u32 \<Rightarrow> 'io nds \<Rightarrow> u32 \<times> 'io nds" where
  "OP_STR_P_LSR_IMM_OFF_POSTIND B p i s =
     (let shift_op = LSR_IMM i (ARMPROC p s);
          adr = reg p s (REG_POS i 16);
          s = WRITE32 B p adr (reg p s (REG_POS i 12)) s;
          s = upd_cpu p (setR (REG_POS i 16) (adr + shift_op)) s
      in (MMU_aluMemAccessCycles p 32 MMU_AD_WRITE 2 adr, s))"

definition OP_STR_M_LSR_IMM_OFF_POSTIND :: "'io bus \<Rightarrow> nat \<Rightarrow> u32 \<Rightarrow> 'io nds \<Rightarrow> u32 \<times> 'io nds" where
  "OP_STR_M_LSR_IMM_OFF_POSTIND B p i s =
     (let shift_op = LSR_IMM i (ARMPROC p s);
          adr = reg p s (REG_POS i 16);
          s = WRITE32 B p adr (reg p s (REG_POS i 12)) s;
          s = upd_cpu p (setR (REG_POS i 16) (adr - shift_op)) s
      in (MMU_aluMemAccessCycles p 32 MMU_AD_WRITE 2 adr, s))"

definition OP_STR_P_ASR_IMM_OFF_POSTIND :: "'io bus \<Rightarrow> nat \<Rightarrow> u32 \<Rightarrow> 'io nds \<Rightarrow> u32 \<times> 'io nds" where
  "OP_STR_P_ASR_IMM_OFF_POSTIND B p i s =
     (let shift_op = ASR_IMM i (ARMPROC p s);
          adr = reg p s (REG_POS i 16);
          s = WRITE32 B p adr (reg p s (REG_POS i 12)) s;
          s = upd_cpu p (setR (REG_POS i 16) (adr + shift_op)) s
      in (MMU_aluMemAccessCycles p 32 MMU_AD_WRITE 2 adr, s))"

definition OP_STR_M_ASR_IMM_OFF_POSTIND :: "'io bus \<Rightarrow> nat \<Rightarrow> u32 \<Rightarrow> 'io nds \<Rightarrow> u32 \<times> 'io nds" where
  "OP_STR_M_ASR_IMM_OFF_POSTIND B p i s =
     (let shift_op = ASR_IMM i (ARMPROC p s);
          adr = reg p s (REG_POS i 16);
          s = WRITE32 B p adr (reg p s (REG_POS i 12)) s;
          s = upd_cpu p (setR (REG_POS i 16) (adr - shift_op)) s
      in (MMU_aluMemAccessCycles p 32 MMU_AD_WRITE 2 adr, s))"

definition OP_STR_P_ROR_IMM_OFF_POSTIND :: "'io bus \<Rightarrow> nat \<Rightarrow> u32 \<Rightarrow> 'io nds \<Rightarrow> u32 \<times> 'io nds" where
  "OP_STR_P_ROR_IMM_OFF_POSTIND B p i s =
     (let shift_op = ROR_IMM i (ARMPROC p s);
          adr = reg p s (REG_POS i 16);
          s = WRITE32 B p adr (reg p s (REG_POS i 12)) s;
          s = upd_cpu p (setR (REG_POS i 16) (adr + shift_op)) s
      in (MMU_aluMemAccessCycles p 32 MMU_AD_WRITE 2 adr, s))"

definition OP_STR_M_ROR_IMM_OFF_POSTIND :: "'io bus \<Rightarrow> nat \<Rightarrow> u32 \<Rightarrow> 'io nds \<Rightarrow> u32 \<times> 'io nds" where
  "OP_STR_M_ROR_IMM_OFF_POSTIND B p i s =
     (let shift_op = ROR_IMM i (ARMPROC p s);
          adr = reg p s (REG_POS i 16);
          s = WRITE32 B p adr (reg p s (REG_POS i 12)) s;
          s = upd_cpu p (setR (REG_POS i 16) (adr - shift_op)) s
      in (MMU_aluMemAccessCycles p 32 MMU_AD_WRITE 2 adr, s))"

section \<open>STREX\<close>

definition OP_STREX :: "'io bus \<Rightarrow> nat \<Rightarrow> u32 \<Rightarrow> 'io nds \<Rightarrow> u32 \<times> 'io nds" where
  "OP_STREX B p i s =
     (let adr = reg p s (REG_POS i 16);
          s = WRITE32 B p adr (reg p s (REG_POS i 0)) s;
          s = upd_cpu p (setR (REG_POS i 12) 0) s
      in (MMU_aluMemAccessCycles p 32 MMU_AD_WRITE 2 adr, s))"

section \<open>STRB\<close>

definition OP_STRB_P_IMM_OFF :: "'io bus \<Rightarrow> nat \<Rightarrow> u32 \<Rightarrow> 'io nds \<Rightarrow> u32 \<times> 'io nds" where
  "OP_STRB_P_IMM_OFF B p i s =
     (let adr = reg p s (REG_POS i 16) + IMM_OFF_12 i;
          s = WRITE8 B p adr (ucast (reg p s (REG_POS i 12))) s
      in (MMU_aluMemAccessCycles p 8 MMU_AD_WRITE 2 adr, s))"

definition OP_STRB_M_IMM_OFF :: "'io bus \<Rightarrow> nat \<Rightarrow> u32 \<Rightarrow> 'io nds \<Rightarrow> u32 \<times> 'io nds" where
  "OP_STRB_M_IMM_OFF B p i s =
     (let adr = reg p s (REG_POS i 16) - IMM_OFF_12 i;
          s = WRITE8 B p adr (ucast (reg p s (REG_POS i 12))) s
      in (MMU_aluMemAccessCycles p 8 MMU_AD_WRITE 2 adr, s))"

definition OP_STRB_P_LSL_IMM_OFF :: "'io bus \<Rightarrow> nat \<Rightarrow> u32 \<Rightarrow> 'io nds \<Rightarrow> u32 \<times> 'io nds" where
  "OP_STRB_P_LSL_IMM_OFF B p i s =
     (let shift_op = LSL_IMM i (ARMPROC p s);
          adr = reg p s (REG_POS i 16) + shift_op;
          s = WRITE8 B p adr (ucast (reg p s (REG_POS i 12))) s
      in (MMU_aluMemAccessCycles p 8 MMU_AD_WRITE 2 adr, s))"

definition OP_STRB_M_LSL_IMM_OFF :: "'io bus \<Rightarrow> nat \<Rightarrow> u32 \<Rightarrow> 'io nds \<Rightarrow> u32 \<times> 'io nds" where
  "OP_STRB_M_LSL_IMM_OFF B p i s =
     (let shift_op = LSL_IMM i (ARMPROC p s);
          adr = reg p s (REG_POS i 16) - shift_op;
          s = WRITE8 B p adr (ucast (reg p s (REG_POS i 12))) s
      in (MMU_aluMemAccessCycles p 8 MMU_AD_WRITE 2 adr, s))"

definition OP_STRB_P_LSR_IMM_OFF :: "'io bus \<Rightarrow> nat \<Rightarrow> u32 \<Rightarrow> 'io nds \<Rightarrow> u32 \<times> 'io nds" where
  "OP_STRB_P_LSR_IMM_OFF B p i s =
     (let shift_op = LSR_IMM i (ARMPROC p s);
          adr = reg p s (REG_POS i 16) + shift_op;
          s = WRITE8 B p adr (ucast (reg p s (REG_POS i 12))) s
      in (MMU_aluMemAccessCycles p 8 MMU_AD_WRITE 2 adr, s))"

definition OP_STRB_M_LSR_IMM_OFF :: "'io bus \<Rightarrow> nat \<Rightarrow> u32 \<Rightarrow> 'io nds \<Rightarrow> u32 \<times> 'io nds" where
  "OP_STRB_M_LSR_IMM_OFF B p i s =
     (let shift_op = LSR_IMM i (ARMPROC p s);
          adr = reg p s (REG_POS i 16) - shift_op;
          s = WRITE8 B p adr (ucast (reg p s (REG_POS i 12))) s
      in (MMU_aluMemAccessCycles p 8 MMU_AD_WRITE 2 adr, s))"

definition OP_STRB_P_ASR_IMM_OFF :: "'io bus \<Rightarrow> nat \<Rightarrow> u32 \<Rightarrow> 'io nds \<Rightarrow> u32 \<times> 'io nds" where
  "OP_STRB_P_ASR_IMM_OFF B p i s =
     (let shift_op = ASR_IMM i (ARMPROC p s);
          adr = reg p s (REG_POS i 16) + shift_op;
          s = WRITE8 B p adr (ucast (reg p s (REG_POS i 12))) s
      in (MMU_aluMemAccessCycles p 8 MMU_AD_WRITE 2 adr, s))"

definition OP_STRB_M_ASR_IMM_OFF :: "'io bus \<Rightarrow> nat \<Rightarrow> u32 \<Rightarrow> 'io nds \<Rightarrow> u32 \<times> 'io nds" where
  "OP_STRB_M_ASR_IMM_OFF B p i s =
     (let shift_op = ASR_IMM i (ARMPROC p s);
          adr = reg p s (REG_POS i 16) - shift_op;
          s = WRITE8 B p adr (ucast (reg p s (REG_POS i 12))) s
      in (MMU_aluMemAccessCycles p 8 MMU_AD_WRITE 2 adr, s))"

definition OP_STRB_P_ROR_IMM_OFF :: "'io bus \<Rightarrow> nat \<Rightarrow> u32 \<Rightarrow> 'io nds \<Rightarrow> u32 \<times> 'io nds" where
  "OP_STRB_P_ROR_IMM_OFF B p i s =
     (let shift_op = ROR_IMM i (ARMPROC p s);
          adr = reg p s (REG_POS i 16) + shift_op;
          s = WRITE8 B p adr (ucast (reg p s (REG_POS i 12))) s
      in (MMU_aluMemAccessCycles p 8 MMU_AD_WRITE 2 adr, s))"

definition OP_STRB_M_ROR_IMM_OFF :: "'io bus \<Rightarrow> nat \<Rightarrow> u32 \<Rightarrow> 'io nds \<Rightarrow> u32 \<times> 'io nds" where
  "OP_STRB_M_ROR_IMM_OFF B p i s =
     (let shift_op = ROR_IMM i (ARMPROC p s);
          adr = reg p s (REG_POS i 16) - shift_op;
          s = WRITE8 B p adr (ucast (reg p s (REG_POS i 12))) s
      in (MMU_aluMemAccessCycles p 8 MMU_AD_WRITE 2 adr, s))"

definition OP_STRB_P_IMM_OFF_PREIND :: "'io bus \<Rightarrow> nat \<Rightarrow> u32 \<Rightarrow> 'io nds \<Rightarrow> u32 \<times> 'io nds" where
  "OP_STRB_P_IMM_OFF_PREIND B p i s =
     (let adr = reg p s (REG_POS i 16) + IMM_OFF_12 i;
          s = upd_cpu p (setR (REG_POS i 16) adr) s;
          s = WRITE8 B p adr (ucast (reg p s (REG_POS i 12))) s
      in (MMU_aluMemAccessCycles p 8 MMU_AD_WRITE 2 adr, s))"

definition OP_STRB_M_IMM_OFF_PREIND :: "'io bus \<Rightarrow> nat \<Rightarrow> u32 \<Rightarrow> 'io nds \<Rightarrow> u32 \<times> 'io nds" where
  "OP_STRB_M_IMM_OFF_PREIND B p i s =
     (let adr = reg p s (REG_POS i 16) - IMM_OFF_12 i;
          s = upd_cpu p (setR (REG_POS i 16) adr) s;
          s = WRITE8 B p adr (ucast (reg p s (REG_POS i 12))) s
      in (MMU_aluMemAccessCycles p 8 MMU_AD_WRITE 2 adr, s))"

definition OP_STRB_P_LSL_IMM_OFF_PREIND :: "'io bus \<Rightarrow> nat \<Rightarrow> u32 \<Rightarrow> 'io nds \<Rightarrow> u32 \<times> 'io nds" where
  "OP_STRB_P_LSL_IMM_OFF_PREIND B p i s =
     (let shift_op = LSL_IMM i (ARMPROC p s);
          adr = reg p s (REG_POS i 16) + shift_op;
          s = upd_cpu p (setR (REG_POS i 16) adr) s;
          s = WRITE8 B p adr (ucast (reg p s (REG_POS i 12))) s
      in (MMU_aluMemAccessCycles p 8 MMU_AD_WRITE 2 adr, s))"

definition OP_STRB_M_LSL_IMM_OFF_PREIND :: "'io bus \<Rightarrow> nat \<Rightarrow> u32 \<Rightarrow> 'io nds \<Rightarrow> u32 \<times> 'io nds" where
  "OP_STRB_M_LSL_IMM_OFF_PREIND B p i s =
     (let shift_op = LSL_IMM i (ARMPROC p s);
          adr = reg p s (REG_POS i 16) - shift_op;
          s = upd_cpu p (setR (REG_POS i 16) adr) s;
          s = WRITE8 B p adr (ucast (reg p s (REG_POS i 12))) s
      in (MMU_aluMemAccessCycles p 8 MMU_AD_WRITE 2 adr, s))"

definition OP_STRB_P_LSR_IMM_OFF_PREIND :: "'io bus \<Rightarrow> nat \<Rightarrow> u32 \<Rightarrow> 'io nds \<Rightarrow> u32 \<times> 'io nds" where
  "OP_STRB_P_LSR_IMM_OFF_PREIND B p i s =
     (let shift_op = LSR_IMM i (ARMPROC p s);
          adr = reg p s (REG_POS i 16) + shift_op;
          s = upd_cpu p (setR (REG_POS i 16) adr) s;
          s = WRITE8 B p adr (ucast (reg p s (REG_POS i 12))) s
      in (MMU_aluMemAccessCycles p 8 MMU_AD_WRITE 2 adr, s))"

definition OP_STRB_M_LSR_IMM_OFF_PREIND :: "'io bus \<Rightarrow> nat \<Rightarrow> u32 \<Rightarrow> 'io nds \<Rightarrow> u32 \<times> 'io nds" where
  "OP_STRB_M_LSR_IMM_OFF_PREIND B p i s =
     (let shift_op = LSR_IMM i (ARMPROC p s);
          adr = reg p s (REG_POS i 16) - shift_op;
          s = upd_cpu p (setR (REG_POS i 16) adr) s;
          s = WRITE8 B p adr (ucast (reg p s (REG_POS i 12))) s
      in (MMU_aluMemAccessCycles p 8 MMU_AD_WRITE 2 adr, s))"

definition OP_STRB_P_ASR_IMM_OFF_PREIND :: "'io bus \<Rightarrow> nat \<Rightarrow> u32 \<Rightarrow> 'io nds \<Rightarrow> u32 \<times> 'io nds" where
  "OP_STRB_P_ASR_IMM_OFF_PREIND B p i s =
     (let shift_op = ASR_IMM i (ARMPROC p s);
          adr = reg p s (REG_POS i 16) + shift_op;
          s = upd_cpu p (setR (REG_POS i 16) adr) s;
          s = WRITE8 B p adr (ucast (reg p s (REG_POS i 12))) s
      in (MMU_aluMemAccessCycles p 8 MMU_AD_WRITE 2 adr, s))"

definition OP_STRB_M_ASR_IMM_OFF_PREIND :: "'io bus \<Rightarrow> nat \<Rightarrow> u32 \<Rightarrow> 'io nds \<Rightarrow> u32 \<times> 'io nds" where
  "OP_STRB_M_ASR_IMM_OFF_PREIND B p i s =
     (let shift_op = ASR_IMM i (ARMPROC p s);
          adr = reg p s (REG_POS i 16) - shift_op;
          s = upd_cpu p (setR (REG_POS i 16) adr) s;
          s = WRITE8 B p adr (ucast (reg p s (REG_POS i 12))) s
      in (MMU_aluMemAccessCycles p 8 MMU_AD_WRITE 2 adr, s))"

definition OP_STRB_P_ROR_IMM_OFF_PREIND :: "'io bus \<Rightarrow> nat \<Rightarrow> u32 \<Rightarrow> 'io nds \<Rightarrow> u32 \<times> 'io nds" where
  "OP_STRB_P_ROR_IMM_OFF_PREIND B p i s =
     (let shift_op = ROR_IMM i (ARMPROC p s);
          adr = reg p s (REG_POS i 16) + shift_op;
          s = upd_cpu p (setR (REG_POS i 16) adr) s;
          s = WRITE8 B p adr (ucast (reg p s (REG_POS i 12))) s
      in (MMU_aluMemAccessCycles p 8 MMU_AD_WRITE 2 adr, s))"

definition OP_STRB_M_ROR_IMM_OFF_PREIND :: "'io bus \<Rightarrow> nat \<Rightarrow> u32 \<Rightarrow> 'io nds \<Rightarrow> u32 \<times> 'io nds" where
  "OP_STRB_M_ROR_IMM_OFF_PREIND B p i s =
     (let shift_op = ROR_IMM i (ARMPROC p s);
          adr = reg p s (REG_POS i 16) - shift_op;
          s = upd_cpu p (setR (REG_POS i 16) adr) s;
          s = WRITE8 B p adr (ucast (reg p s (REG_POS i 12))) s
      in (MMU_aluMemAccessCycles p 8 MMU_AD_WRITE 2 adr, s))"

definition OP_STRB_P_IMM_OFF_POSTIND :: "'io bus \<Rightarrow> nat \<Rightarrow> u32 \<Rightarrow> 'io nds \<Rightarrow> u32 \<times> 'io nds" where
  "OP_STRB_P_IMM_OFF_POSTIND B p i s =
     (let adr = reg p s (REG_POS i 16);
          s = WRITE8 B p adr (ucast (reg p s (REG_POS i 12))) s;
          s = upd_cpu p (setR (REG_POS i 16) (adr + IMM_OFF_12 i)) s
      in (MMU_aluMemAccessCycles p 8 MMU_AD_WRITE 2 adr, s))"

definition OP_STRB_M_IMM_OFF_POSTIND :: "'io bus \<Rightarrow> nat \<Rightarrow> u32 \<Rightarrow> 'io nds \<Rightarrow> u32 \<times> 'io nds" where
  "OP_STRB_M_IMM_OFF_POSTIND B p i s =
     (let adr = reg p s (REG_POS i 16);
          s = WRITE8 B p adr (ucast (reg p s (REG_POS i 12))) s;
          s = upd_cpu p (setR (REG_POS i 16) (adr - IMM_OFF_12 i)) s
      in (MMU_aluMemAccessCycles p 8 MMU_AD_WRITE 2 adr, s))"

definition OP_STRB_P_LSL_IMM_OFF_POSTIND :: "'io bus \<Rightarrow> nat \<Rightarrow> u32 \<Rightarrow> 'io nds \<Rightarrow> u32 \<times> 'io nds" where
  "OP_STRB_P_LSL_IMM_OFF_POSTIND B p i s =
     (let shift_op = LSL_IMM i (ARMPROC p s);
          adr = reg p s (REG_POS i 16);
          s = WRITE8 B p adr (ucast (reg p s (REG_POS i 12))) s;
          s = upd_cpu p (setR (REG_POS i 16) (adr + shift_op)) s
      in (MMU_aluMemAccessCycles p 8 MMU_AD_WRITE 2 adr, s))"

definition OP_STRB_M_LSL_IMM_OFF_POSTIND :: "'io bus \<Rightarrow> nat \<Rightarrow> u32 \<Rightarrow> 'io nds \<Rightarrow> u32 \<times> 'io nds" where
  "OP_STRB_M_LSL_IMM_OFF_POSTIND B p i s =
     (let shift_op = LSL_IMM i (ARMPROC p s);
          adr = reg p s (REG_POS i 16);
          s = WRITE8 B p adr (ucast (reg p s (REG_POS i 12))) s;
          s = upd_cpu p (setR (REG_POS i 16) (adr - shift_op)) s
      in (MMU_aluMemAccessCycles p 8 MMU_AD_WRITE 2 adr, s))"

definition OP_STRB_P_LSR_IMM_OFF_POSTIND :: "'io bus \<Rightarrow> nat \<Rightarrow> u32 \<Rightarrow> 'io nds \<Rightarrow> u32 \<times> 'io nds" where
  "OP_STRB_P_LSR_IMM_OFF_POSTIND B p i s =
     (let shift_op = LSR_IMM i (ARMPROC p s);
          adr = reg p s (REG_POS i 16);
          s = WRITE8 B p adr (ucast (reg p s (REG_POS i 12))) s;
          s = upd_cpu p (setR (REG_POS i 16) (adr + shift_op)) s
      in (MMU_aluMemAccessCycles p 8 MMU_AD_WRITE 2 adr, s))"

definition OP_STRB_M_LSR_IMM_OFF_POSTIND :: "'io bus \<Rightarrow> nat \<Rightarrow> u32 \<Rightarrow> 'io nds \<Rightarrow> u32 \<times> 'io nds" where
  "OP_STRB_M_LSR_IMM_OFF_POSTIND B p i s =
     (let shift_op = LSR_IMM i (ARMPROC p s);
          adr = reg p s (REG_POS i 16);
          s = WRITE8 B p adr (ucast (reg p s (REG_POS i 12))) s;
          s = upd_cpu p (setR (REG_POS i 16) (adr - shift_op)) s
      in (MMU_aluMemAccessCycles p 8 MMU_AD_WRITE 2 adr, s))"

definition OP_STRB_P_ASR_IMM_OFF_POSTIND :: "'io bus \<Rightarrow> nat \<Rightarrow> u32 \<Rightarrow> 'io nds \<Rightarrow> u32 \<times> 'io nds" where
  "OP_STRB_P_ASR_IMM_OFF_POSTIND B p i s =
     (let shift_op = ASR_IMM i (ARMPROC p s);
          adr = reg p s (REG_POS i 16);
          s = WRITE8 B p adr (ucast (reg p s (REG_POS i 12))) s;
          s = upd_cpu p (setR (REG_POS i 16) (adr + shift_op)) s
      in (MMU_aluMemAccessCycles p 8 MMU_AD_WRITE 2 adr, s))"

definition OP_STRB_M_ASR_IMM_OFF_POSTIND :: "'io bus \<Rightarrow> nat \<Rightarrow> u32 \<Rightarrow> 'io nds \<Rightarrow> u32 \<times> 'io nds" where
  "OP_STRB_M_ASR_IMM_OFF_POSTIND B p i s =
     (let shift_op = ASR_IMM i (ARMPROC p s);
          adr = reg p s (REG_POS i 16);
          s = WRITE8 B p adr (ucast (reg p s (REG_POS i 12))) s;
          s = upd_cpu p (setR (REG_POS i 16) (adr - shift_op)) s
      in (MMU_aluMemAccessCycles p 8 MMU_AD_WRITE 2 adr, s))"

definition OP_STRB_P_ROR_IMM_OFF_POSTIND :: "'io bus \<Rightarrow> nat \<Rightarrow> u32 \<Rightarrow> 'io nds \<Rightarrow> u32 \<times> 'io nds" where
  "OP_STRB_P_ROR_IMM_OFF_POSTIND B p i s =
     (let shift_op = ROR_IMM i (ARMPROC p s);
          adr = reg p s (REG_POS i 16);
          s = WRITE8 B p adr (ucast (reg p s (REG_POS i 12))) s;
          s = upd_cpu p (setR (REG_POS i 16) (adr + shift_op)) s
      in (MMU_aluMemAccessCycles p 8 MMU_AD_WRITE 2 adr, s))"

definition OP_STRB_M_ROR_IMM_OFF_POSTIND :: "'io bus \<Rightarrow> nat \<Rightarrow> u32 \<Rightarrow> 'io nds \<Rightarrow> u32 \<times> 'io nds" where
  "OP_STRB_M_ROR_IMM_OFF_POSTIND B p i s =
     (let shift_op = ROR_IMM i (ARMPROC p s);
          adr = reg p s (REG_POS i 16);
          s = WRITE8 B p adr (ucast (reg p s (REG_POS i 12))) s;
          s = upd_cpu p (setR (REG_POS i 16) (adr - shift_op)) s
      in (MMU_aluMemAccessCycles p 8 MMU_AD_WRITE 2 adr, s))"


section \<open>The addressing modes\<close>

text \<open>
  A reference for all of the above: an addressing mode is an index kind, a direction and an
  offset.  \<open>word_forms\<close> and \<open>half_forms\<close> list the modes in the order the
  source has its handlers.
\<close>

datatype index_kind = Offset | Pre | Post

datatype offset_kind = Imm12 | Shifted operand2 | Imm8 | Reg_off

fun offset_spec :: "offset_kind \<Rightarrow> u32 \<Rightarrow> armcpu \<Rightarrow> u32" where
  "offset_spec Imm12 i c = i AND 0xFFF"
| "offset_spec (Shifted k) i c = fst (operand2_spec k i c)"
| "offset_spec Imm8 i c = (drop_bit 4 i AND 0xF0) + (i AND 0xF)"
| "offset_spec Reg_off i c = R c (REG_POS i 0)"

type_synonym addr_mode = "index_kind \<times> offset_kind \<times> bool"

text \<open>The address of the access and the new value of the base register.\<close>

definition address_spec :: "addr_mode \<Rightarrow> u32 \<Rightarrow> armcpu \<Rightarrow> u32 \<times> u32" where
  "address_spec m i c =
     (let (x, f, up) = m; base = R c (REG_POS i 16); off = offset_spec f i c;
          ea = (if up then base + off else base - off)
      in (if x = Post then base else ea, if x = Offset then base else ea))"

definition word_forms :: "addr_mode list" where
  "word_forms = [(x, f, up). x \<leftarrow> [Offset, Pre, Post],
     f \<leftarrow> [Imm12, Shifted Lsl_imm, Shifted Lsr_imm, Shifted Asr_imm, Shifted Ror_imm],
     up \<leftarrow> [True, False]]"

definition half_forms :: "addr_mode list" where
  "half_forms = [(x, f, up). x \<leftarrow> [Offset, Pre, Post], f \<leftarrow> [Imm8, Reg_off], up \<leftarrow> [True, False]]"

text \<open>A load writes the base register back first, so that a loaded base wins.\<close>

definition load_spec :: "nat \<Rightarrow> (u32 \<Rightarrow> 'io nds \<Rightarrow> u32 \<times> 'io nds) \<Rightarrow> addr_mode \<Rightarrow> u32 \<Rightarrow> 'io nds \<Rightarrow> u32 \<times> 'io nds" where
  "load_spec p transfer m i s =
     (let (adr, base') = address_spec m i (ARMPROC p s)
      in transfer adr (if fst m = Offset then s else upd_cpu p (setR (REG_POS i 16) base') s))"

definition load_byte :: "'io bus \<Rightarrow> nat \<Rightarrow> (u8 \<Rightarrow> u32) \<Rightarrow> u32 \<Rightarrow> u32 \<Rightarrow> 'io nds \<Rightarrow> u32 \<times> 'io nds" where
  "load_byte B p ext i adr s =
     (case READ8 B p adr s of (v, s) \<Rightarrow> (MMU_aluMemAccessCycles p 8 MMU_AD_READ 3 adr,
        upd_cpu p (setR (REG_POS i 12) (ext v)) s))"

definition load_half :: "'io bus \<Rightarrow> nat \<Rightarrow> (u16 \<Rightarrow> u32) \<Rightarrow> u32 \<Rightarrow> u32 \<Rightarrow> 'io nds \<Rightarrow> u32 \<times> 'io nds" where
  "load_half B p ext i adr s =
     (case READ16 B p adr s of (v, s) \<Rightarrow> (MMU_aluMemAccessCycles p 16 MMU_AD_READ 3 adr,
        upd_cpu p (setR (REG_POS i 12) (ext v)) s))"

text \<open>A store with pre-indexing writes the base back before it reads the register to store.\<close>

definition store_spec :: "nat \<Rightarrow> (u32 \<Rightarrow> u32 \<Rightarrow> 'io nds \<Rightarrow> 'io nds) \<Rightarrow> nat \<Rightarrow> addr_mode \<Rightarrow> u32 \<Rightarrow> 'io nds \<Rightarrow> u32 \<times> 'io nds" where
  "store_spec p write width m i s =
     (let (adr, base') = address_spec m i (ARMPROC p s);
          back = upd_cpu p (setR (REG_POS i 16) base');
          s = (if fst m = Pre then back s else s);
          s = write adr (R (ARMPROC p s) (REG_POS i 12)) s
      in (MMU_aluMemAccessCycles p width MMU_AD_WRITE 2 adr, if fst m = Post then back s else s))"

lemmas addr_forms = word_forms_def half_forms_def address_spec_def Let_def reg_def
  IMM_OFF_def IMM_OFF_12_def

lemma shifted_imm:
  "LSL_IMM i c = fst (operand2_spec Lsl_imm i c)" "LSR_IMM i c = fst (operand2_spec Lsr_imm i c)"
  "ASR_IMM i c = fst (operand2_spec Asr_imm i c)" "ROR_IMM i c = fst (operand2_spec Ror_imm i c)"
  using operand2_ok [of Lsl_imm i c] operand2_ok [of Lsr_imm i c]
    operand2_ok [of Asr_imm i c] operand2_ok [of Ror_imm i c] by simp_all

definition LDR_handlers :: "'io bus \<Rightarrow> (nat \<Rightarrow> u32 \<Rightarrow> 'io nds \<Rightarrow> u32 \<times> 'io nds) list" where
  "LDR_handlers B = [
    OP_LDR_P_IMM_OFF B, OP_LDR_M_IMM_OFF B, OP_LDR_P_LSL_IMM_OFF B, OP_LDR_M_LSL_IMM_OFF
    B, OP_LDR_P_LSR_IMM_OFF B, OP_LDR_M_LSR_IMM_OFF B, OP_LDR_P_ASR_IMM_OFF B,
    OP_LDR_M_ASR_IMM_OFF B, OP_LDR_P_ROR_IMM_OFF B, OP_LDR_M_ROR_IMM_OFF B,
    OP_LDR_P_IMM_OFF_PREIND B, OP_LDR_M_IMM_OFF_PREIND B, OP_LDR_P_LSL_IMM_OFF_PREIND B,
    OP_LDR_M_LSL_IMM_OFF_PREIND B, OP_LDR_P_LSR_IMM_OFF_PREIND B,
    OP_LDR_M_LSR_IMM_OFF_PREIND B, OP_LDR_P_ASR_IMM_OFF_PREIND B,
    OP_LDR_M_ASR_IMM_OFF_PREIND B, OP_LDR_P_ROR_IMM_OFF_PREIND B,
    OP_LDR_M_ROR_IMM_OFF_PREIND B, OP_LDR_P_IMM_OFF_POSTIND B, OP_LDR_M_IMM_OFF_POSTIND
    B, OP_LDR_P_LSL_IMM_OFF_POSTIND B, OP_LDR_M_LSL_IMM_OFF_POSTIND B,
    OP_LDR_P_LSR_IMM_OFF_POSTIND B, OP_LDR_M_LSR_IMM_OFF_POSTIND B,
    OP_LDR_P_ASR_IMM_OFF_POSTIND B, OP_LDR_M_ASR_IMM_OFF_POSTIND B,
    OP_LDR_P_ROR_IMM_OFF_POSTIND B, OP_LDR_M_ROR_IMM_OFF_POSTIND B]"

definition LDRB_handlers :: "'io bus \<Rightarrow> (nat \<Rightarrow> u32 \<Rightarrow> 'io nds \<Rightarrow> u32 \<times> 'io nds) list" where
  "LDRB_handlers B = [
    OP_LDRB_P_IMM_OFF B, OP_LDRB_M_IMM_OFF B, OP_LDRB_P_LSL_IMM_OFF B,
    OP_LDRB_M_LSL_IMM_OFF B, OP_LDRB_P_LSR_IMM_OFF B, OP_LDRB_M_LSR_IMM_OFF B,
    OP_LDRB_P_ASR_IMM_OFF B, OP_LDRB_M_ASR_IMM_OFF B, OP_LDRB_P_ROR_IMM_OFF B,
    OP_LDRB_M_ROR_IMM_OFF B, OP_LDRB_P_IMM_OFF_PREIND B, OP_LDRB_M_IMM_OFF_PREIND B,
    OP_LDRB_P_LSL_IMM_OFF_PREIND B, OP_LDRB_M_LSL_IMM_OFF_PREIND B,
    OP_LDRB_P_LSR_IMM_OFF_PREIND B, OP_LDRB_M_LSR_IMM_OFF_PREIND B,
    OP_LDRB_P_ASR_IMM_OFF_PREIND B, OP_LDRB_M_ASR_IMM_OFF_PREIND B,
    OP_LDRB_P_ROR_IMM_OFF_PREIND B, OP_LDRB_M_ROR_IMM_OFF_PREIND B,
    OP_LDRB_P_IMM_OFF_POSTIND B, OP_LDRB_M_IMM_OFF_POSTIND B,
    OP_LDRB_P_LSL_IMM_OFF_POSTIND B, OP_LDRB_M_LSL_IMM_OFF_POSTIND B,
    OP_LDRB_P_LSR_IMM_OFF_POSTIND B, OP_LDRB_M_LSR_IMM_OFF_POSTIND B,
    OP_LDRB_P_ASR_IMM_OFF_POSTIND B, OP_LDRB_M_ASR_IMM_OFF_POSTIND B,
    OP_LDRB_P_ROR_IMM_OFF_POSTIND B, OP_LDRB_M_ROR_IMM_OFF_POSTIND B]"

definition LDRH_handlers :: "'io bus \<Rightarrow> (nat \<Rightarrow> u32 \<Rightarrow> 'io nds \<Rightarrow> u32 \<times> 'io nds) list" where
  "LDRH_handlers B = [
    OP_LDRH_P_IMM_OFF B, OP_LDRH_M_IMM_OFF B, OP_LDRH_P_REG_OFF B, OP_LDRH_M_REG_OFF B,
    OP_LDRH_PRE_INDE_P_IMM_OFF B, OP_LDRH_PRE_INDE_M_IMM_OFF B,
    OP_LDRH_PRE_INDE_P_REG_OFF B, OP_LDRH_PRE_INDE_M_REG_OFF B,
    OP_LDRH_POS_INDE_P_IMM_OFF B, OP_LDRH_POS_INDE_M_IMM_OFF B,
    OP_LDRH_POS_INDE_P_REG_OFF B, OP_LDRH_POS_INDE_M_REG_OFF B]"

definition LDRSH_handlers :: "'io bus \<Rightarrow> (nat \<Rightarrow> u32 \<Rightarrow> 'io nds \<Rightarrow> u32 \<times> 'io nds) list" where
  "LDRSH_handlers B = [
    OP_LDRSH_P_IMM_OFF B, OP_LDRSH_M_IMM_OFF B, OP_LDRSH_P_REG_OFF B, OP_LDRSH_M_REG_OFF
    B, OP_LDRSH_PRE_INDE_P_IMM_OFF B, OP_LDRSH_PRE_INDE_M_IMM_OFF B,
    OP_LDRSH_PRE_INDE_P_REG_OFF B, OP_LDRSH_PRE_INDE_M_REG_OFF B,
    OP_LDRSH_POS_INDE_P_IMM_OFF B, OP_LDRSH_POS_INDE_M_IMM_OFF B,
    OP_LDRSH_POS_INDE_P_REG_OFF B, OP_LDRSH_POS_INDE_M_REG_OFF B]"

definition LDRSB_handlers :: "'io bus \<Rightarrow> (nat \<Rightarrow> u32 \<Rightarrow> 'io nds \<Rightarrow> u32 \<times> 'io nds) list" where
  "LDRSB_handlers B = [
    OP_LDRSB_P_IMM_OFF B, OP_LDRSB_M_IMM_OFF B, OP_LDRSB_P_REG_OFF B, OP_LDRSB_M_REG_OFF
    B, OP_LDRSB_PRE_INDE_P_IMM_OFF B, OP_LDRSB_PRE_INDE_M_IMM_OFF B,
    OP_LDRSB_PRE_INDE_P_REG_OFF B, OP_LDRSB_PRE_INDE_M_REG_OFF B,
    OP_LDRSB_POS_INDE_P_IMM_OFF B, OP_LDRSB_POS_INDE_M_IMM_OFF B,
    OP_LDRSB_POS_INDE_P_REG_OFF B, OP_LDRSB_POS_INDE_M_REG_OFF B]"

definition STR_handlers :: "'io bus \<Rightarrow> (nat \<Rightarrow> u32 \<Rightarrow> 'io nds \<Rightarrow> u32 \<times> 'io nds) list" where
  "STR_handlers B = [
    OP_STR_P_IMM_OFF B, OP_STR_M_IMM_OFF B, OP_STR_P_LSL_IMM_OFF B, OP_STR_M_LSL_IMM_OFF
    B, OP_STR_P_LSR_IMM_OFF B, OP_STR_M_LSR_IMM_OFF B, OP_STR_P_ASR_IMM_OFF B,
    OP_STR_M_ASR_IMM_OFF B, OP_STR_P_ROR_IMM_OFF B, OP_STR_M_ROR_IMM_OFF B,
    OP_STR_P_IMM_OFF_PREIND B, OP_STR_M_IMM_OFF_PREIND B, OP_STR_P_LSL_IMM_OFF_PREIND B,
    OP_STR_M_LSL_IMM_OFF_PREIND B, OP_STR_P_LSR_IMM_OFF_PREIND B,
    OP_STR_M_LSR_IMM_OFF_PREIND B, OP_STR_P_ASR_IMM_OFF_PREIND B,
    OP_STR_M_ASR_IMM_OFF_PREIND B, OP_STR_P_ROR_IMM_OFF_PREIND B,
    OP_STR_M_ROR_IMM_OFF_PREIND B, OP_STR_P_IMM_OFF_POSTIND B, OP_STR_M_IMM_OFF_POSTIND
    B, OP_STR_P_LSL_IMM_OFF_POSTIND B, OP_STR_M_LSL_IMM_OFF_POSTIND B,
    OP_STR_P_LSR_IMM_OFF_POSTIND B, OP_STR_M_LSR_IMM_OFF_POSTIND B,
    OP_STR_P_ASR_IMM_OFF_POSTIND B, OP_STR_M_ASR_IMM_OFF_POSTIND B,
    OP_STR_P_ROR_IMM_OFF_POSTIND B, OP_STR_M_ROR_IMM_OFF_POSTIND B]"

definition STRB_handlers :: "'io bus \<Rightarrow> (nat \<Rightarrow> u32 \<Rightarrow> 'io nds \<Rightarrow> u32 \<times> 'io nds) list" where
  "STRB_handlers B = [
    OP_STRB_P_IMM_OFF B, OP_STRB_M_IMM_OFF B, OP_STRB_P_LSL_IMM_OFF B,
    OP_STRB_M_LSL_IMM_OFF B, OP_STRB_P_LSR_IMM_OFF B, OP_STRB_M_LSR_IMM_OFF B,
    OP_STRB_P_ASR_IMM_OFF B, OP_STRB_M_ASR_IMM_OFF B, OP_STRB_P_ROR_IMM_OFF B,
    OP_STRB_M_ROR_IMM_OFF B, OP_STRB_P_IMM_OFF_PREIND B, OP_STRB_M_IMM_OFF_PREIND B,
    OP_STRB_P_LSL_IMM_OFF_PREIND B, OP_STRB_M_LSL_IMM_OFF_PREIND B,
    OP_STRB_P_LSR_IMM_OFF_PREIND B, OP_STRB_M_LSR_IMM_OFF_PREIND B,
    OP_STRB_P_ASR_IMM_OFF_PREIND B, OP_STRB_M_ASR_IMM_OFF_PREIND B,
    OP_STRB_P_ROR_IMM_OFF_PREIND B, OP_STRB_M_ROR_IMM_OFF_PREIND B,
    OP_STRB_P_IMM_OFF_POSTIND B, OP_STRB_M_IMM_OFF_POSTIND B,
    OP_STRB_P_LSL_IMM_OFF_POSTIND B, OP_STRB_M_LSL_IMM_OFF_POSTIND B,
    OP_STRB_P_LSR_IMM_OFF_POSTIND B, OP_STRB_M_LSR_IMM_OFF_POSTIND B,
    OP_STRB_P_ASR_IMM_OFF_POSTIND B, OP_STRB_M_ASR_IMM_OFF_POSTIND B,
    OP_STRB_P_ROR_IMM_OFF_POSTIND B, OP_STRB_M_ROR_IMM_OFF_POSTIND B]"

definition STRH_handlers :: "'io bus \<Rightarrow> (nat \<Rightarrow> u32 \<Rightarrow> 'io nds \<Rightarrow> u32 \<times> 'io nds) list" where
  "STRH_handlers B = [
    OP_STRH_P_IMM_OFF B, OP_STRH_M_IMM_OFF B, OP_STRH_P_REG_OFF B, OP_STRH_M_REG_OFF B,
    OP_STRH_PRE_INDE_P_IMM_OFF B, OP_STRH_PRE_INDE_M_IMM_OFF B,
    OP_STRH_PRE_INDE_P_REG_OFF B, OP_STRH_PRE_INDE_M_REG_OFF B,
    OP_STRH_POS_INDE_P_IMM_OFF B, OP_STRH_POS_INDE_M_IMM_OFF B,
    OP_STRH_POS_INDE_P_REG_OFF B, OP_STRH_POS_INDE_M_REG_OFF B]"

lemmas LDR_defs = OP_LDR_P_IMM_OFF_def OP_LDR_M_IMM_OFF_def OP_LDR_P_LSL_IMM_OFF_def
    OP_LDR_M_LSL_IMM_OFF_def OP_LDR_P_LSR_IMM_OFF_def OP_LDR_M_LSR_IMM_OFF_def
    OP_LDR_P_ASR_IMM_OFF_def OP_LDR_M_ASR_IMM_OFF_def OP_LDR_P_ROR_IMM_OFF_def
    OP_LDR_M_ROR_IMM_OFF_def OP_LDR_P_IMM_OFF_PREIND_def OP_LDR_M_IMM_OFF_PREIND_def
    OP_LDR_P_LSL_IMM_OFF_PREIND_def OP_LDR_M_LSL_IMM_OFF_PREIND_def
    OP_LDR_P_LSR_IMM_OFF_PREIND_def OP_LDR_M_LSR_IMM_OFF_PREIND_def
    OP_LDR_P_ASR_IMM_OFF_PREIND_def OP_LDR_M_ASR_IMM_OFF_PREIND_def
    OP_LDR_P_ROR_IMM_OFF_PREIND_def OP_LDR_M_ROR_IMM_OFF_PREIND_def
    OP_LDR_P_IMM_OFF_POSTIND_def OP_LDR_M_IMM_OFF_POSTIND_def
    OP_LDR_P_LSL_IMM_OFF_POSTIND_def OP_LDR_M_LSL_IMM_OFF_POSTIND_def
    OP_LDR_P_LSR_IMM_OFF_POSTIND_def OP_LDR_M_LSR_IMM_OFF_POSTIND_def
    OP_LDR_P_ASR_IMM_OFF_POSTIND_def OP_LDR_M_ASR_IMM_OFF_POSTIND_def
    OP_LDR_P_ROR_IMM_OFF_POSTIND_def OP_LDR_M_ROR_IMM_OFF_POSTIND_def

lemma LDR_forms:
  "list_all2 (\<lambda>m h. h p i s = load_spec p (\<lambda>adr. ldr_result B p 3 5 adr i) m i s) word_forms (LDR_handlers B)"
  by (simp add: addr_forms LDR_handlers_def load_spec_def OP_LDR_macro_def OP_LDR_W_macro_def OP_LDR_W2_macro_def LDR_defs shifted_imm
      split_def)

lemmas LDRB_defs = OP_LDRB_P_IMM_OFF_def OP_LDRB_M_IMM_OFF_def OP_LDRB_P_LSL_IMM_OFF_def
    OP_LDRB_M_LSL_IMM_OFF_def OP_LDRB_P_LSR_IMM_OFF_def OP_LDRB_M_LSR_IMM_OFF_def
    OP_LDRB_P_ASR_IMM_OFF_def OP_LDRB_M_ASR_IMM_OFF_def OP_LDRB_P_ROR_IMM_OFF_def
    OP_LDRB_M_ROR_IMM_OFF_def OP_LDRB_P_IMM_OFF_PREIND_def OP_LDRB_M_IMM_OFF_PREIND_def
    OP_LDRB_P_LSL_IMM_OFF_PREIND_def OP_LDRB_M_LSL_IMM_OFF_PREIND_def
    OP_LDRB_P_LSR_IMM_OFF_PREIND_def OP_LDRB_M_LSR_IMM_OFF_PREIND_def
    OP_LDRB_P_ASR_IMM_OFF_PREIND_def OP_LDRB_M_ASR_IMM_OFF_PREIND_def
    OP_LDRB_P_ROR_IMM_OFF_PREIND_def OP_LDRB_M_ROR_IMM_OFF_PREIND_def
    OP_LDRB_P_IMM_OFF_POSTIND_def OP_LDRB_M_IMM_OFF_POSTIND_def
    OP_LDRB_P_LSL_IMM_OFF_POSTIND_def OP_LDRB_M_LSL_IMM_OFF_POSTIND_def
    OP_LDRB_P_LSR_IMM_OFF_POSTIND_def OP_LDRB_M_LSR_IMM_OFF_POSTIND_def
    OP_LDRB_P_ASR_IMM_OFF_POSTIND_def OP_LDRB_M_ASR_IMM_OFF_POSTIND_def
    OP_LDRB_P_ROR_IMM_OFF_POSTIND_def OP_LDRB_M_ROR_IMM_OFF_POSTIND_def

lemma LDRB_forms:
  "list_all2 (\<lambda>m h. h p i s = load_spec p (load_byte B p ucast i) m i s) word_forms (LDRB_handlers B)"
  by (simp add: addr_forms LDRB_handlers_def load_spec_def load_byte_def LDRB_defs shifted_imm
      split_def)

lemmas LDRH_defs = OP_LDRH_P_IMM_OFF_def OP_LDRH_M_IMM_OFF_def OP_LDRH_P_REG_OFF_def OP_LDRH_M_REG_OFF_def
    OP_LDRH_PRE_INDE_P_IMM_OFF_def OP_LDRH_PRE_INDE_M_IMM_OFF_def
    OP_LDRH_PRE_INDE_P_REG_OFF_def OP_LDRH_PRE_INDE_M_REG_OFF_def
    OP_LDRH_POS_INDE_P_IMM_OFF_def OP_LDRH_POS_INDE_M_IMM_OFF_def
    OP_LDRH_POS_INDE_P_REG_OFF_def OP_LDRH_POS_INDE_M_REG_OFF_def

lemma LDRH_forms:
  "list_all2 (\<lambda>m h. h p i s = load_spec p (load_half B p ucast i) m i s) half_forms (LDRH_handlers B)"
  by (simp add: addr_forms LDRH_handlers_def load_spec_def load_half_def LDRH_defs shifted_imm
      split_def)

lemmas LDRSH_defs = OP_LDRSH_P_IMM_OFF_def OP_LDRSH_M_IMM_OFF_def OP_LDRSH_P_REG_OFF_def
    OP_LDRSH_M_REG_OFF_def OP_LDRSH_PRE_INDE_P_IMM_OFF_def OP_LDRSH_PRE_INDE_M_IMM_OFF_def
    OP_LDRSH_PRE_INDE_P_REG_OFF_def OP_LDRSH_PRE_INDE_M_REG_OFF_def
    OP_LDRSH_POS_INDE_P_IMM_OFF_def OP_LDRSH_POS_INDE_M_IMM_OFF_def
    OP_LDRSH_POS_INDE_P_REG_OFF_def OP_LDRSH_POS_INDE_M_REG_OFF_def

lemma LDRSH_forms:
  "list_all2 (\<lambda>m h. h p i s = load_spec p (load_half B p scast i) m i s) half_forms (LDRSH_handlers B)"
  by (simp add: addr_forms LDRSH_handlers_def load_spec_def load_half_def LDRSH_defs shifted_imm
      split_def)

lemmas LDRSB_defs = OP_LDRSB_P_IMM_OFF_def OP_LDRSB_M_IMM_OFF_def OP_LDRSB_P_REG_OFF_def
    OP_LDRSB_M_REG_OFF_def OP_LDRSB_PRE_INDE_P_IMM_OFF_def OP_LDRSB_PRE_INDE_M_IMM_OFF_def
    OP_LDRSB_PRE_INDE_P_REG_OFF_def OP_LDRSB_PRE_INDE_M_REG_OFF_def
    OP_LDRSB_POS_INDE_P_IMM_OFF_def OP_LDRSB_POS_INDE_M_IMM_OFF_def
    OP_LDRSB_POS_INDE_P_REG_OFF_def OP_LDRSB_POS_INDE_M_REG_OFF_def

lemma LDRSB_forms:
  "list_all2 (\<lambda>m h. h p i s = load_spec p (load_byte B p scast i) m i s) half_forms (LDRSB_handlers B)"
  by (simp add: addr_forms LDRSB_handlers_def load_spec_def load_byte_def LDRSB_defs shifted_imm
      split_def)

lemmas STR_defs = OP_STR_P_IMM_OFF_def OP_STR_M_IMM_OFF_def OP_STR_P_LSL_IMM_OFF_def
    OP_STR_M_LSL_IMM_OFF_def OP_STR_P_LSR_IMM_OFF_def OP_STR_M_LSR_IMM_OFF_def
    OP_STR_P_ASR_IMM_OFF_def OP_STR_M_ASR_IMM_OFF_def OP_STR_P_ROR_IMM_OFF_def
    OP_STR_M_ROR_IMM_OFF_def OP_STR_P_IMM_OFF_PREIND_def OP_STR_M_IMM_OFF_PREIND_def
    OP_STR_P_LSL_IMM_OFF_PREIND_def OP_STR_M_LSL_IMM_OFF_PREIND_def
    OP_STR_P_LSR_IMM_OFF_PREIND_def OP_STR_M_LSR_IMM_OFF_PREIND_def
    OP_STR_P_ASR_IMM_OFF_PREIND_def OP_STR_M_ASR_IMM_OFF_PREIND_def
    OP_STR_P_ROR_IMM_OFF_PREIND_def OP_STR_M_ROR_IMM_OFF_PREIND_def
    OP_STR_P_IMM_OFF_POSTIND_def OP_STR_M_IMM_OFF_POSTIND_def
    OP_STR_P_LSL_IMM_OFF_POSTIND_def OP_STR_M_LSL_IMM_OFF_POSTIND_def
    OP_STR_P_LSR_IMM_OFF_POSTIND_def OP_STR_M_LSR_IMM_OFF_POSTIND_def
    OP_STR_P_ASR_IMM_OFF_POSTIND_def OP_STR_M_ASR_IMM_OFF_POSTIND_def
    OP_STR_P_ROR_IMM_OFF_POSTIND_def OP_STR_M_ROR_IMM_OFF_POSTIND_def

lemma STR_forms:
  "list_all2 (\<lambda>m h. h p i s = store_spec p (WRITE32 B p) 32 m i s) word_forms (STR_handlers B)"
  by (simp add: addr_forms STR_handlers_def store_spec_def STR_defs shifted_imm split_def)

lemmas STRB_defs = OP_STRB_P_IMM_OFF_def OP_STRB_M_IMM_OFF_def OP_STRB_P_LSL_IMM_OFF_def
    OP_STRB_M_LSL_IMM_OFF_def OP_STRB_P_LSR_IMM_OFF_def OP_STRB_M_LSR_IMM_OFF_def
    OP_STRB_P_ASR_IMM_OFF_def OP_STRB_M_ASR_IMM_OFF_def OP_STRB_P_ROR_IMM_OFF_def
    OP_STRB_M_ROR_IMM_OFF_def OP_STRB_P_IMM_OFF_PREIND_def OP_STRB_M_IMM_OFF_PREIND_def
    OP_STRB_P_LSL_IMM_OFF_PREIND_def OP_STRB_M_LSL_IMM_OFF_PREIND_def
    OP_STRB_P_LSR_IMM_OFF_PREIND_def OP_STRB_M_LSR_IMM_OFF_PREIND_def
    OP_STRB_P_ASR_IMM_OFF_PREIND_def OP_STRB_M_ASR_IMM_OFF_PREIND_def
    OP_STRB_P_ROR_IMM_OFF_PREIND_def OP_STRB_M_ROR_IMM_OFF_PREIND_def
    OP_STRB_P_IMM_OFF_POSTIND_def OP_STRB_M_IMM_OFF_POSTIND_def
    OP_STRB_P_LSL_IMM_OFF_POSTIND_def OP_STRB_M_LSL_IMM_OFF_POSTIND_def
    OP_STRB_P_LSR_IMM_OFF_POSTIND_def OP_STRB_M_LSR_IMM_OFF_POSTIND_def
    OP_STRB_P_ASR_IMM_OFF_POSTIND_def OP_STRB_M_ASR_IMM_OFF_POSTIND_def
    OP_STRB_P_ROR_IMM_OFF_POSTIND_def OP_STRB_M_ROR_IMM_OFF_POSTIND_def

lemma STRB_forms:
  "list_all2 (\<lambda>m h. h p i s = store_spec p (\<lambda>adr v. WRITE8 B p adr (ucast v)) 8 m i s) word_forms (STRB_handlers B)"
  by (simp add: addr_forms STRB_handlers_def store_spec_def STRB_defs shifted_imm split_def)

lemmas STRH_defs = OP_STRH_P_IMM_OFF_def OP_STRH_M_IMM_OFF_def OP_STRH_P_REG_OFF_def OP_STRH_M_REG_OFF_def
    OP_STRH_PRE_INDE_P_IMM_OFF_def OP_STRH_PRE_INDE_M_IMM_OFF_def
    OP_STRH_PRE_INDE_P_REG_OFF_def OP_STRH_PRE_INDE_M_REG_OFF_def
    OP_STRH_POS_INDE_P_IMM_OFF_def OP_STRH_POS_INDE_M_IMM_OFF_def
    OP_STRH_POS_INDE_P_REG_OFF_def OP_STRH_POS_INDE_M_REG_OFF_def

lemma STRH_forms:
  assumes "\<And>a v s. R (ARMPROC p (WRITE16 B p a v s)) = R (ARMPROC p s)"
  shows "list_all2 (\<lambda>m h. h p i s = store_spec p (\<lambda>adr v. WRITE16 B p adr (ucast v)) 16 m i s)
    half_forms (STRH_handlers B)"
  using assms by (simp add: addr_forms STRH_handlers_def store_spec_def STRH_defs split_def)

section \<open>Properties\<close>

text \<open>C25: Every LDR, LDRB, LDRH, LDRSH and LDRSB handler is the reference load of its width in
  its addressing mode: base register plus or minus the immediate, register or shifted-register
  offset, with no write-back, write-back of the address before the load, or of the updated
  base after it (thirty word and byte forms, twelve halfword and signed forms, handlers listed
  in the order of the reference modes).  The reference shares the load of one address (rotation
  of an unaligned word, load of the program counter) with the handlers: what is pinned here is
  the addressing mode and the order of the write-back.\<close>

theorem arm_load_addressing:
  "list_all2 (\<lambda>m h. h p i s = load_spec p (\<lambda>adr. ldr_result B p 3 5 adr i) m i s) word_forms (LDR_handlers B) \<and>
   list_all2 (\<lambda>m h. h p i s = load_spec p (load_byte B p ucast i) m i s) word_forms (LDRB_handlers B) \<and>
   list_all2 (\<lambda>m h. h p i s = load_spec p (load_half B p ucast i) m i s) half_forms (LDRH_handlers B) \<and>
   list_all2 (\<lambda>m h. h p i s = load_spec p (load_half B p scast i) m i s) half_forms (LDRSH_handlers B) \<and>
   list_all2 (\<lambda>m h. h p i s = load_spec p (load_byte B p scast i) m i s) half_forms (LDRSB_handlers B)"
  by (intro conjI LDR_forms LDRB_forms LDRH_forms LDRSH_forms LDRSB_forms)

text \<open>C26: Every STR, STRB and STRH handler is the reference store of its width in its addressing
  mode (thirty word and byte forms, twelve halfword forms), when a halfword store through the
  bus does not itself change the processor's registers.\<close>

theorem arm_store_addressing:
  assumes "\<And>a v s. R (ARMPROC p (WRITE16 B p a v s)) = R (ARMPROC p s)"
  shows "list_all2 (\<lambda>m h. h p i s = store_spec p (WRITE32 B p) 32 m i s) word_forms (STR_handlers B) \<and>
    list_all2 (\<lambda>m h. h p i s = store_spec p (\<lambda>adr v. WRITE8 B p adr (ucast v)) 8 m i s) word_forms (STRB_handlers B) \<and>
    list_all2 (\<lambda>m h. h p i s = store_spec p (\<lambda>adr v. WRITE16 B p adr (ucast v)) 16 m i s) half_forms (STRH_handlers B)"
  by (intro conjI STR_forms STRB_forms STRH_forms [OF assms])

lemma null_bus_write16: "R (ARMPROC p (WRITE16 null_bus p a v s)) = R (ARMPROC p s)"
  by (simp add: WRITE16_def mmu_write16_def null_bus_def set_DTCM_def set_MAIN_MEM_def Let_def)

theorem arm_store_addressing_witness:
  "list_all2 (\<lambda>m h. h 0 0xE1C100B2 sample_nds =
     store_spec 0 (\<lambda>adr v. WRITE16 null_bus 0 adr (ucast v)) 16 m 0xE1C100B2 sample_nds)
   half_forms (STRH_handlers null_bus)"
  using arm_store_addressing [of 0 null_bus "0xE1C100B2" sample_nds] null_bus_write16 by blast

theorem ldr_loads_rotated_word:
  fixes s :: "'io nds"
  assumes "ram_addr p adr s" "REG_POS i 12 \<noteq> 15"
  shows "ldr_result B p a b adr i s =
    (MMU_aluMemAccessCycles p 32 MMU_AD_READ a adr,
     upd_cpu p (setR (REG_POS i 12) (word_rotr (8 * unat (adr AND 3)) (load32 B p adr s))) s)"
proof -
  have m: "unat (8 * (adr AND 3)) = 8 * unat (adr AND 3)"
  proof -
    have "adr AND 3 \<le> 3" by (rule word_and_le1)
    then have "unat (adr AND 3) \<le> 3" by (simp add: word_le_nat_alt)
    then show ?thesis by (simp add: unat_word_ariths)
  qed
  have lt: "8 * (adr AND 3) < 32"
  proof -
    have "adr AND 3 \<le> 3" by (rule word_and_le1)
    then show ?thesis using m by (simp add: word_less_nat_alt word_le_nat_alt)
  qed
  show ?thesis
    using assms by (simp add: ldr_result_def READ32_load32 Let_def ROR_rotr [OF lt] m)
qed

theorem ldr_loads_rotated_word_witness:
  "R (ARMPROC 0 (snd (ldr_result null_bus 0 3 5 0x02000001 0xE5910000
     (WRITE32 null_bus 0 0x02000000 0x11223344 sample_nds)))) 0 = 0x44112233"
proof -
  let ?s = "WRITE32 null_bus 0 0x02000000 0x11223344 sample_nds"
  have m: "mmu sample_nds = zero_mmu" by (simp add: sample_nds_def zero_nds_def)
  have a: "ram_addr 0 0x02000000 sample_nds" "ram_addr 0 0x02000001 sample_nds"
    by (simp_all add: ram_addr_def m masks_ok_iff in_main_def) (simp_all add: zero_mmu_def)
  have "ram_cell 0 0x02000001 sample_nds = ram_cell 0 0x02000000 sample_nds"
    by (simp add: ram_cell_def m in_dtcm_def) (simp add: zero_mmu_def)
  then have l: "load32 null_bus 0 0x02000001 ?s = 0x11223344"
    by (simp add: ram.rd_wr [OF a])
  have s: "ram_addr 0 0x02000001 ?s" by (simp add: ram.ok_wr [OF a(1)] a(2))
  have d: "REG_POS 0xE5910000 12 \<noteq> 15" by (simp add: REG_POS_def)
  have "word_rotr 8 (0x11223344 :: u32) = 0x44112233" by code_simp
  then show ?thesis
    using ldr_loads_rotated_word [OF s d, of null_bus 3 5] l
    by (simp add: setR_def REG_POS_def)
qed

end
