(* ===== verification/Arm_Block.thy ===== *)
theory Arm_Block
  imports Arm_Mem
begin

text \<open>
  The block transfers of src/source/arm_instructions.cpp, lines 4679 to 6024: LDM and STM in
  their four directions, with write-back (\<open>_W\<close>) and in the user-register forms
  (\<open>2\<close>), and LDRD and STRD.  The macros \<open>OP_L_IA\<close> to \<open>OP_L_DB\<close>, which
  the source writes out once per register, and the bodies of the STM loops are step functions on
  the running address, the cycle count and the machine, folded over the register numbers.
  \<open>bit i n\<close> is \<open>BITn(i)\<close>.
\<close>

section \<open>The steps\<close>

type_synonym 'io xfer = "u32 \<times> u32 \<times> 'io nds"

definition OP_L_IA :: "'io bus \<Rightarrow> nat \<Rightarrow> u32 \<Rightarrow> nat \<Rightarrow> 'io xfer \<Rightarrow> 'io xfer" where
  "OP_L_IA B p i r x =
     (if bit i r then
        (let (start, c, s) = x;
             (v, s) = READ32 B p start s;
             s = upd_cpu p (setR (of_nat r) v) s;
             c = c + MMU_memAccessCycles p 32 MMU_AD_READ start;
             start = start + 4
         in (start, c, s))
      else x)"

definition OP_L_IB :: "'io bus \<Rightarrow> nat \<Rightarrow> u32 \<Rightarrow> nat \<Rightarrow> 'io xfer \<Rightarrow> 'io xfer" where
  "OP_L_IB B p i r x =
     (if bit i r then
        (let (start, c, s) = x;
             start = start + 4;
             (v, s) = READ32 B p start s;
             s = upd_cpu p (setR (of_nat r) v) s;
             c = c + MMU_memAccessCycles p 32 MMU_AD_READ start
         in (start, c, s))
      else x)"

definition OP_L_DA :: "'io bus \<Rightarrow> nat \<Rightarrow> u32 \<Rightarrow> nat \<Rightarrow> 'io xfer \<Rightarrow> 'io xfer" where
  "OP_L_DA B p i r x =
     (if bit i r then
        (let (start, c, s) = x;
             (v, s) = READ32 B p start s;
             s = upd_cpu p (setR (of_nat r) v) s;
             c = c + MMU_memAccessCycles p 32 MMU_AD_READ start;
             start = start - 4
         in (start, c, s))
      else x)"

definition OP_L_DB :: "'io bus \<Rightarrow> nat \<Rightarrow> u32 \<Rightarrow> nat \<Rightarrow> 'io xfer \<Rightarrow> 'io xfer" where
  "OP_L_DB B p i r x =
     (if bit i r then
        (let (start, c, s) = x;
             start = start - 4;
             (v, s) = READ32 B p start s;
             s = upd_cpu p (setR (of_nat r) v) s;
             c = c + MMU_memAccessCycles p 32 MMU_AD_READ start
         in (start, c, s))
      else x)"

definition STMIA_step :: "'io bus \<Rightarrow> nat \<Rightarrow> u32 \<Rightarrow> nat \<Rightarrow> 'io xfer \<Rightarrow> 'io xfer" where
  "STMIA_step B p i b x =
     (if bit i b then
        (let (start, c, s) = x;
             s = WRITE32 B p start (reg p s (of_nat b)) s;
             c = c + MMU_memAccessCycles p 32 MMU_AD_WRITE start;
             start = start + 4
         in (start, c, s))
      else x)"

definition STMIB_step :: "'io bus \<Rightarrow> nat \<Rightarrow> u32 \<Rightarrow> nat \<Rightarrow> 'io xfer \<Rightarrow> 'io xfer" where
  "STMIB_step B p i b x =
     (if bit i b then
        (let (start, c, s) = x;
             start = start + 4;
             s = WRITE32 B p start (reg p s (of_nat b)) s;
             c = c + MMU_memAccessCycles p 32 MMU_AD_WRITE start
         in (start, c, s))
      else x)"

definition STMDA_step :: "'io bus \<Rightarrow> nat \<Rightarrow> u32 \<Rightarrow> nat \<Rightarrow> 'io xfer \<Rightarrow> 'io xfer" where
  "STMDA_step B p i b x =
     (if bit i (15 - b) then
        (let (start, c, s) = x;
             s = WRITE32 B p start (reg p s (of_nat (15 - b))) s;
             c = c + MMU_memAccessCycles p 32 MMU_AD_WRITE start;
             start = start - 4
         in (start, c, s))
      else x)"

definition STMDB_step :: "'io bus \<Rightarrow> nat \<Rightarrow> u32 \<Rightarrow> nat \<Rightarrow> 'io xfer \<Rightarrow> 'io xfer" where
  "STMDB_step B p i b x =
     (if bit i (15 - b) then
        (let (start, c, s) = x;
             start = start - 4;
             s = WRITE32 B p start (reg p s (of_nat (15 - b))) s;
             c = c + MMU_memAccessCycles p 32 MMU_AD_WRITE start
         in (start, c, s))
      else x)"

text \<open>The four statements that load the program counter from \<open>tmp\<close>.\<close>

definition load_pc :: "nat \<Rightarrow> u32 \<Rightarrow> 'io nds \<Rightarrow> 'io nds" where
  "load_pc p tmp s =
     (if p = 0 then upd_cpu p (\<lambda>c. setR 15 (tmp AND 0xFFFFFFFE) (setT (u1 (BIT0 tmp)) c)) s
      else upd_cpu p (setR 15 (tmp AND 0xFFFFFFFC)) s)"

definition next_is_pc :: "nat \<Rightarrow> 'io nds \<Rightarrow> 'io nds" where
  "next_is_pc p s = upd_cpu p (\<lambda>c. c\<lparr>next_instruction := R c 15\<rparr>) s"

text \<open>The write-back of LDM: a base in the list is overwritten only when it is not the last.\<close>

definition ldm_writeback :: "nat \<Rightarrow> u32 \<Rightarrow> u32 \<Rightarrow> 'io nds \<Rightarrow> 'io nds" where
  "ldm_writeback p i start s =
     (let bitList = NOT (c_shl 2 (REG_POS i 16) - 1) AND 0xFFFF;
          s' = upd_cpu p (setR (REG_POS i 16) start) s
      in if i AND c_shl 1 (REG_POS i 16) \<noteq> 0 then (if i AND bitList \<noteq> 0 then s' else s) else s')"

definition cycles_read :: "nat \<Rightarrow> u32 \<Rightarrow> u32" where
  "cycles_read p a = MMU_memAccessCycles p 32 MMU_AD_READ a"

section \<open>LDM\<close>

definition OP_LDMIA :: "'io bus \<Rightarrow> nat \<Rightarrow> u32 \<Rightarrow> 'io nds \<Rightarrow> u32 \<times> 'io nds" where
  "OP_LDMIA B p i s =
     (let start = reg p s (REG_POS i 16);
          (start, c, s) = fold (OP_L_IA B p i) [0..<15] (start, 0, s);
          (c, s) =
            (if bit i 15 then
               (let (tmp, s) = READ32 B p start s; s = load_pc p tmp s; s = next_is_pc p s
                in (c + cycles_read p start, s))
             else (c, s))
      in (MMU_aluMemCycles p 2 c, s))"

definition OP_LDMIB :: "'io bus \<Rightarrow> nat \<Rightarrow> u32 \<Rightarrow> 'io nds \<Rightarrow> u32 \<times> 'io nds" where
  "OP_LDMIB B p i s =
     (let start = reg p s (REG_POS i 16);
          (start, c, s) = fold (OP_L_IB B p i) [0..<15] (start, 0, s)
      in if bit i 15 then
           (let start = start + 4;
                c = c + cycles_read p start;
                (tmp, s) = READ32 B p start s;
                s = load_pc p tmp s;
                s = next_is_pc p s
            in (MMU_aluMemCycles p 4 c, s))
         else (MMU_aluMemCycles p 2 c, s))"

definition OP_LDMDA :: "'io bus \<Rightarrow> nat \<Rightarrow> u32 \<Rightarrow> 'io nds \<Rightarrow> u32 \<times> 'io nds" where
  "OP_LDMDA B p i s =
     (let start = reg p s (REG_POS i 16);
          (start, c, s) =
            (if bit i 15 then
               (let (tmp, s) = READ32 B p start s;
                    s = load_pc p tmp s;
                    c = 0 + cycles_read p start;
                    start = start - 4;
                    s = next_is_pc p s
                in (start, c, s))
             else (start, 0, s));
          (start, c, s) = fold (OP_L_DA B p i) (rev [0..<15]) (start, c, s)
      in (MMU_aluMemCycles p 2 c, s))"

definition OP_LDMDB :: "'io bus \<Rightarrow> nat \<Rightarrow> u32 \<Rightarrow> 'io nds \<Rightarrow> u32 \<times> 'io nds" where
  "OP_LDMDB B p i s =
     (let start = reg p s (REG_POS i 16);
          (start, c, s) =
            (if bit i 15 then
               (let start = start - 4;
                    (tmp, s) = READ32 B p start s;
                    s = load_pc p tmp s;
                    s = next_is_pc p s
                in (start, 0 + cycles_read p start, s))
             else (start, 0, s));
          (start, c, s) = fold (OP_L_DB B p i) (rev [0..<15]) (start, c, s)
      in (MMU_aluMemCycles p 2 c, s))"

definition OP_LDMIA_W :: "'io bus \<Rightarrow> nat \<Rightarrow> u32 \<Rightarrow> 'io nds \<Rightarrow> u32 \<times> 'io nds" where
  "OP_LDMIA_W B p i s =
     (let start = reg p s (REG_POS i 16);
          (start, c, s) = fold (OP_L_IA B p i) [0..<15] (start, 0, s);
          (start, c, s) =
            (if bit i 15 then
               (let (tmp, s) = READ32 B p start s;
                    s = load_pc p tmp s;
                    c = c + cycles_read p start;
                    start = start + 4;
                    s = next_is_pc p s
                in (start, c, s))
             else (start, c, s));
          s = ldm_writeback p i start s
      in (MMU_aluMemCycles p (if bit i 15 then 4 else 2) c, s))"

definition OP_LDMIB_W :: "'io bus \<Rightarrow> nat \<Rightarrow> u32 \<Rightarrow> 'io nds \<Rightarrow> u32 \<times> 'io nds" where
  "OP_LDMIB_W B p i s =
     (let start = reg p s (REG_POS i 16);
          (start, c, s) = fold (OP_L_IB B p i) [0..<15] (start, 0, s);
          (start, c, s) =
            (if bit i 15 then
               (let start = start + 4;
                    c = c + cycles_read p start;
                    (tmp, s) = READ32 B p start s;
                    s = load_pc p tmp s;
                    s = next_is_pc p s
                in (start, c, s))
             else (start, c, s));
          s = ldm_writeback p i start s
      in (MMU_aluMemCycles p (if bit i 15 then 4 else 2) c, s))"

definition OP_LDMDA_W :: "'io bus \<Rightarrow> nat \<Rightarrow> u32 \<Rightarrow> 'io nds \<Rightarrow> u32 \<times> 'io nds" where
  "OP_LDMDA_W B p i s =
     (let start = reg p s (REG_POS i 16);
          (start, c, s) =
            (if bit i 15 then
               (let (tmp, s) = READ32 B p start s;
                    s = load_pc p tmp s;
                    c = 0 + cycles_read p start;
                    start = start - 4;
                    s = next_is_pc p s
                in (start, c, s))
             else (start, 0, s));
          (start, c, s) = fold (OP_L_DA B p i) (rev [0..<15]) (start, c, s);
          s = ldm_writeback p i start s
      in (MMU_aluMemCycles p 2 c, s))"

definition OP_LDMDB_W :: "'io bus \<Rightarrow> nat \<Rightarrow> u32 \<Rightarrow> 'io nds \<Rightarrow> u32 \<times> 'io nds" where
  "OP_LDMDB_W B p i s =
     (let start = reg p s (REG_POS i 16);
          (start, c, s) =
            (if bit i 15 then
               (let start = start - 4;
                    (tmp, s) = READ32 B p start s;
                    s = load_pc p tmp s;
                    s = next_is_pc p s
                in (start, 0 + cycles_read p start, s))
             else (start, 0, s));
          (start, c, s) = fold (OP_L_DB B p i) (rev [0..<15]) (start, c, s);
          s = ldm_writeback p i start s
      in (MMU_aluMemCycles p 2 c, s))"

section \<open>LDM of the user registers, or with return from an exception\<close>

definition in_usr_or_sys :: "nat \<Rightarrow> 'io nds \<Rightarrow> bool" where
  "in_usr_or_sys p s \<longleftrightarrow> psr_mode (CPSR (ARMPROC p s)) = USR \<or> psr_mode (CPSR (ARMPROC p s)) = SYS"

text \<open>\<open>registres[15] = tmp & (0xFFFFFFFC | (BIT0(tmp)<<1))\<close>\<close>

definition load_pc_masked :: "nat \<Rightarrow> u32 \<Rightarrow> 'io nds \<Rightarrow> 'io nds" where
  "load_pc_masked p tmp s = upd_cpu p (setR 15 (tmp AND (0xFFFFFFFC OR push_bit 1 (BIT0 tmp)))) s"

text \<open>\<open>SPSR = cpu->SPSR; armcpu_switchMode(cpu, SPSR.bits.mode); cpu->CPSR = SPSR;
  cpu->changeCPSR()\<close>\<close>

definition return_mode :: "nat \<Rightarrow> 'io nds \<Rightarrow> 'io nds" where
  "return_mode p s =
     (let SPSR' = SPSR (ARMPROC p s);
          s = snd (armcpu_switchMode p (ucast (psr_mode SPSR')) s);
          s = upd_cpu p (\<lambda>c. c\<lparr>CPSR := SPSR'\<rparr>) s
      in changeCPSR s)"

definition copy_SPSR :: "nat \<Rightarrow> 'io nds \<Rightarrow> 'io nds" where
  "copy_SPSR p s = changeCPSR (upd_cpu p (\<lambda>c. c\<lparr>CPSR := SPSR c\<rparr>) s)"

definition OP_LDMIA2 :: "'io bus \<Rightarrow> nat \<Rightarrow> u32 \<Rightarrow> 'io nds \<Rightarrow> u32 \<times> 'io nds" where
  "OP_LDMIA2 B p i s =
     (let start = reg p s (REG_POS i 16) in
      if \<not> bit i 15 \<and> in_usr_or_sys p s then (1, s)
      else
        (let (oldmode, s) = (if \<not> bit i 15 then armcpu_switchMode p (ucast SYS) s else (0, s));
             (start, c, s) = fold (OP_L_IA B p i) [0..<15] (start, 0, s);
             (c, s) =
               (if \<not> bit i 15 then (c, snd (armcpu_switchMode p (ucast oldmode) s))
                else
                  (let (tmp, s) = READ32 B p start s;
                       s = load_pc_masked p tmp s;
                       s = return_mode p s;
                       s = next_is_pc p s
                   in (c + cycles_read p start, s)))
         in (MMU_aluMemCycles p 2 c, s)))"

definition OP_LDMIB2 :: "'io bus \<Rightarrow> nat \<Rightarrow> u32 \<Rightarrow> 'io nds \<Rightarrow> u32 \<times> 'io nds" where
  "OP_LDMIB2 B p i s =
     (let start = reg p s (REG_POS i 16) in
      if \<not> bit i 15 \<and> in_usr_or_sys p s then (1, s)
      else
        (let (oldmode, s) = (if \<not> bit i 15 then armcpu_switchMode p (ucast SYS) s else (0, s));
             (start, c, s) = fold (OP_L_IB B p i) [0..<15] (start, 0, s);
             (c, s) =
               (if \<not> bit i 15 then (c, snd (armcpu_switchMode p (ucast oldmode) s))
                else
                  (let start = start + 4;
                       (tmp, s) = READ32 B p start s;
                       s = load_pc_masked p tmp s;
                       s = return_mode p s;
                       s = next_is_pc p s
                   in (c + cycles_read p start, s)))
         in (MMU_aluMemCycles p 2 c, s)))"

definition OP_LDMDA2 :: "'io bus \<Rightarrow> nat \<Rightarrow> u32 \<Rightarrow> 'io nds \<Rightarrow> u32 \<times> 'io nds" where
  "OP_LDMDA2 B p i s =
     (let start = reg p s (REG_POS i 16) in
      if \<not> bit i 15 \<and> in_usr_or_sys p s then (1, s)
      else
        (let (oldmode, s) = (if \<not> bit i 15 then armcpu_switchMode p (ucast SYS) s else (0, s));
             (start, c, s) =
               (if bit i 15 then
                  (let (tmp, s) = READ32 B p start s;
                       s = load_pc_masked p tmp s;
                       s = copy_SPSR p s;
                       c = 0 + cycles_read p start;
                       start = start - 4;
                       s = next_is_pc p s
                   in (start, c, s))
                else (start, 0, s));
             (start, c, s) = fold (OP_L_DA B p i) (rev [0..<15]) (start, c, s);
             s = (if \<not> bit i 15 then snd (armcpu_switchMode p (ucast oldmode) s) else return_mode p s)
         in (MMU_aluMemCycles p 2 c, s)))"

definition OP_LDMDB2 :: "'io bus \<Rightarrow> nat \<Rightarrow> u32 \<Rightarrow> 'io nds \<Rightarrow> u32 \<times> 'io nds" where
  "OP_LDMDB2 B p i s =
     (let start = reg p s (REG_POS i 16) in
      if \<not> bit i 15 \<and> in_usr_or_sys p s then (1, s)
      else
        (let (oldmode, s) = (if \<not> bit i 15 then armcpu_switchMode p (ucast SYS) s else (0, s));
             (start, c, s) =
               (if bit i 15 then
                  (let start = start - 4;
                       (tmp, s) = READ32 B p start s;
                       s = load_pc_masked p tmp s;
                       s = copy_SPSR p s;
                       s = next_is_pc p s
                   in (start, 0 + cycles_read p start, s))
                else (start, 0, s));
             (start, c, s) = fold (OP_L_DB B p i) (rev [0..<15]) (start, c, s);
             s = (if \<not> bit i 15 then snd (armcpu_switchMode p (ucast oldmode) s) else return_mode p s)
         in (MMU_aluMemCycles p 2 c, s)))"

definition OP_LDMIA2_W :: "'io bus \<Rightarrow> nat \<Rightarrow> u32 \<Rightarrow> 'io nds \<Rightarrow> u32 \<times> 'io nds" where
  "OP_LDMIA2_W B p i s =
     (let start = reg p s (REG_POS i 16) in
      if \<not> bit i 15 \<and> in_usr_or_sys p s then (1, s)
      else
        (let (oldmode, s) = (if \<not> bit i 15 then armcpu_switchMode p (ucast SYS) s else (0, s));
             (start, c, s) = fold (OP_L_IA B p i) [0..<15] (start, 0, s)
         in (if \<not> bit i 15 then
               (let s = (if BIT_N i (REG_POS i 16) = 0 then upd_cpu p (setR (REG_POS i 16) start) s else s);
                    s = snd (armcpu_switchMode p (ucast oldmode) s)
                in (MMU_aluMemCycles p 2 c, s))
             else
               (let s = (if BIT_N i (REG_POS i 16) = 0 then upd_cpu p (setR (REG_POS i 16) (start + 4)) s else s);
                    (tmp, s) = READ32 B p start s;
                    s = load_pc_masked p tmp s;
                    s = return_mode p s;
                    s = next_is_pc p s
                in (MMU_aluMemCycles p 2 (c + cycles_read p start), s)))))"

definition OP_LDMIB2_W :: "'io bus \<Rightarrow> nat \<Rightarrow> u32 \<Rightarrow> 'io nds \<Rightarrow> u32 \<times> 'io nds" where
  "OP_LDMIB2_W B p i s =
     (let start = reg p s (REG_POS i 16) in
      if \<not> bit i 15 \<and> in_usr_or_sys p s then (1, s)
      else
        (let (oldmode, s) = (if \<not> bit i 15 then armcpu_switchMode p (ucast SYS) s else (0, s));
             (start, c, s) = fold (OP_L_IB B p i) [0..<15] (start, 0, s)
         in (if \<not> bit i 15 then
               (let s = (if BIT_N i (REG_POS i 16) = 0 then upd_cpu p (setR (REG_POS i 16) start) s else s);
                    s = snd (armcpu_switchMode p (ucast oldmode) s)
                in (MMU_aluMemCycles p 2 c, s))
             else
               (let s = (if BIT_N i (REG_POS i 16) = 0 then upd_cpu p (setR (REG_POS i 16) (start + 4)) s else s);
                    (tmp, s) = READ32 B p (start + 4) s;
                    s = load_pc_masked p tmp s;
                    s = copy_SPSR p s;
                    s = next_is_pc p s;
                    s = return_mode p s
                in (MMU_aluMemCycles p 2 (c + cycles_read p start), s)))))"

definition OP_LDMDA2_W :: "'io bus \<Rightarrow> nat \<Rightarrow> u32 \<Rightarrow> 'io nds \<Rightarrow> u32 \<times> 'io nds" where
  "OP_LDMDA2_W B p i s =
     (let start = reg p s (REG_POS i 16) in
      if \<not> bit i 15 \<and> in_usr_or_sys p s then (1, s)
      else
        (let (oldmode, s) = (if \<not> bit i 15 then armcpu_switchMode p (ucast SYS) s else (0, s));
             (start, c, s) =
               (if bit i 15 then
                  (let (tmp, s) = READ32 B p start s;
                       s = load_pc_masked p tmp s;
                       c = 0 + cycles_read p start;
                       start = start - 4;
                       s = next_is_pc p s
                   in (start, c, s))
                else (start, 0, s));
             (start, c, s) = fold (OP_L_DA B p i) (rev [0..<15]) (start, c, s);
             s = (if BIT_N i (REG_POS i 16) = 0 then upd_cpu p (setR (REG_POS i 16) start) s else s);
             s = (if \<not> bit i 15 then snd (armcpu_switchMode p (ucast oldmode) s) else return_mode p s)
         in (MMU_aluMemCycles p 2 c, s)))"

definition OP_LDMDB2_W :: "'io bus \<Rightarrow> nat \<Rightarrow> u32 \<Rightarrow> 'io nds \<Rightarrow> u32 \<times> 'io nds" where
  "OP_LDMDB2_W B p i s =
     (let start = reg p s (REG_POS i 16) in
      if \<not> bit i 15 \<and> in_usr_or_sys p s then (1, s)
      else
        (let (oldmode, s) = (if \<not> bit i 15 then armcpu_switchMode p (ucast SYS) s else (0, s));
             (start, c, s) =
               (if bit i 15 then
                  (let start = start - 4;
                       (tmp, s) = READ32 B p start s;
                       c = 0 + cycles_read p start;
                       s = load_pc_masked p tmp s;
                       s = copy_SPSR p s;
                       s = next_is_pc p s
                   in (start, c, s))
                else (start, 0, s));
             (start, c, s) = fold (OP_L_DB B p i) (rev [0..<15]) (start, c, s);
             s = (if BIT_N i (REG_POS i 16) = 0 then upd_cpu p (setR (REG_POS i 16) start) s else s);
             s = (if \<not> bit i 15 then snd (armcpu_switchMode p (ucast oldmode) s) else return_mode p s)
         in (MMU_aluMemCycles p 2 c, s)))"

section \<open>STM\<close>

definition OP_STMIA :: "'io bus \<Rightarrow> nat \<Rightarrow> u32 \<Rightarrow> 'io nds \<Rightarrow> u32 \<times> 'io nds" where
  "OP_STMIA B p i s =
     (let start = reg p s (REG_POS i 16);
          (start, c, s) = fold (STMIA_step B p i) [0..<16] (start, 0, s)
      in (MMU_aluMemCycles p 1 c, s))"

definition OP_STMIB :: "'io bus \<Rightarrow> nat \<Rightarrow> u32 \<Rightarrow> 'io nds \<Rightarrow> u32 \<times> 'io nds" where
  "OP_STMIB B p i s =
     (let start = reg p s (REG_POS i 16);
          (start, c, s) = fold (STMIB_step B p i) [0..<16] (start, 0, s)
      in (MMU_aluMemCycles p 1 c, s))"

definition OP_STMDA :: "'io bus \<Rightarrow> nat \<Rightarrow> u32 \<Rightarrow> 'io nds \<Rightarrow> u32 \<times> 'io nds" where
  "OP_STMDA B p i s =
     (let start = reg p s (REG_POS i 16);
          (start, c, s) = fold (STMDA_step B p i) [0..<16] (start, 0, s)
      in (MMU_aluMemCycles p 1 c, s))"

definition OP_STMDB :: "'io bus \<Rightarrow> nat \<Rightarrow> u32 \<Rightarrow> 'io nds \<Rightarrow> u32 \<times> 'io nds" where
  "OP_STMDB B p i s =
     (let start = reg p s (REG_POS i 16);
          (start, c, s) = fold (STMDB_step B p i) [0..<16] (start, 0, s)
      in (MMU_aluMemCycles p 1 c, s))"

definition OP_STMIA_W :: "'io bus \<Rightarrow> nat \<Rightarrow> u32 \<Rightarrow> 'io nds \<Rightarrow> u32 \<times> 'io nds" where
  "OP_STMIA_W B p i s =
     (let start = reg p s (REG_POS i 16);
          (start, c, s) = fold (STMIA_step B p i) [0..<16] (start, 0, s);
          s = upd_cpu p (setR (REG_POS i 16) start) s
      in (MMU_aluMemCycles p 1 c, s))"

definition OP_STMIB_W :: "'io bus \<Rightarrow> nat \<Rightarrow> u32 \<Rightarrow> 'io nds \<Rightarrow> u32 \<times> 'io nds" where
  "OP_STMIB_W B p i s =
     (let start = reg p s (REG_POS i 16);
          (start, c, s) = fold (STMIB_step B p i) [0..<16] (start, 0, s);
          s = upd_cpu p (setR (REG_POS i 16) start) s
      in (MMU_aluMemCycles p 1 c, s))"

definition OP_STMDA_W :: "'io bus \<Rightarrow> nat \<Rightarrow> u32 \<Rightarrow> 'io nds \<Rightarrow> u32 \<times> 'io nds" where
  "OP_STMDA_W B p i s =
     (let start = reg p s (REG_POS i 16);
          (start, c, s) = fold (STMDA_step B p i) [0..<16] (start, 0, s);
          s = upd_cpu p (setR (REG_POS i 16) start) s
      in (MMU_aluMemCycles p 1 c, s))"

definition OP_STMDB_W :: "'io bus \<Rightarrow> nat \<Rightarrow> u32 \<Rightarrow> 'io nds \<Rightarrow> u32 \<times> 'io nds" where
  "OP_STMDB_W B p i s =
     (let start = reg p s (REG_POS i 16);
          (start, c, s) = fold (STMDB_step B p i) [0..<16] (start, 0, s);
          s = upd_cpu p (setR (REG_POS i 16) start) s
      in (MMU_aluMemCycles p 1 c, s))"

section \<open>STM of the user registers\<close>

definition OP_STMIA2 :: "'io bus \<Rightarrow> nat \<Rightarrow> u32 \<Rightarrow> 'io nds \<Rightarrow> u32 \<times> 'io nds" where
  "OP_STMIA2 B p i s =
     (if psr_mode (CPSR (ARMPROC p s)) = USR then (2, s)
      else
        (let start = reg p s (REG_POS i 16);
             (oldmode, s) = armcpu_switchMode p (ucast SYS) s;
             (start, c, s) = fold (STMIA_step B p i) [0..<16] (start, 0, s);
             s = snd (armcpu_switchMode p (ucast oldmode) s)
         in (MMU_aluMemCycles p 1 c, s)))"

definition OP_STMIB2 :: "'io bus \<Rightarrow> nat \<Rightarrow> u32 \<Rightarrow> 'io nds \<Rightarrow> u32 \<times> 'io nds" where
  "OP_STMIB2 B p i s =
     (if psr_mode (CPSR (ARMPROC p s)) = USR then (2, s)
      else
        (let start = reg p s (REG_POS i 16);
             (oldmode, s) = armcpu_switchMode p (ucast SYS) s;
             (start, c, s) = fold (STMIB_step B p i) [0..<16] (start, 0, s);
             s = snd (armcpu_switchMode p (ucast oldmode) s)
         in (MMU_aluMemCycles p 1 c, s)))"

definition OP_STMDA2 :: "'io bus \<Rightarrow> nat \<Rightarrow> u32 \<Rightarrow> 'io nds \<Rightarrow> u32 \<times> 'io nds" where
  "OP_STMDA2 B p i s =
     (if psr_mode (CPSR (ARMPROC p s)) = USR then (2, s)
      else
        (let start = reg p s (REG_POS i 16);
             (oldmode, s) = armcpu_switchMode p (ucast SYS) s;
             (start, c, s) = fold (STMDA_step B p i) [0..<16] (start, 0, s);
             s = snd (armcpu_switchMode p (ucast oldmode) s)
         in (MMU_aluMemCycles p 1 c, s)))"

definition OP_STMDB2 :: "'io bus \<Rightarrow> nat \<Rightarrow> u32 \<Rightarrow> 'io nds \<Rightarrow> u32 \<times> 'io nds" where
  "OP_STMDB2 B p i s =
     (if psr_mode (CPSR (ARMPROC p s)) = USR then (2, s)
      else
        (let start = reg p s (REG_POS i 16);
             (oldmode, s) = armcpu_switchMode p (ucast SYS) s;
             (start, c, s) = fold (STMDB_step B p i) [0..<16] (start, 0, s);
             s = snd (armcpu_switchMode p (ucast oldmode) s)
         in (MMU_aluMemCycles p 1 c, s)))"

definition OP_STMIA2_W :: "'io bus \<Rightarrow> nat \<Rightarrow> u32 \<Rightarrow> 'io nds \<Rightarrow> u32 \<times> 'io nds" where
  "OP_STMIA2_W B p i s =
     (if psr_mode (CPSR (ARMPROC p s)) = USR then (2, s)
      else
        (let start = reg p s (REG_POS i 16);
             (oldmode, s) = armcpu_switchMode p (ucast SYS) s;
             (start, c, s) = fold (STMIA_step B p i) [0..<16] (start, 0, s);
             s = upd_cpu p (setR (REG_POS i 16) start) s;
             s = snd (armcpu_switchMode p (ucast oldmode) s)
         in (MMU_aluMemCycles p 1 c, s)))"

definition OP_STMIB2_W :: "'io bus \<Rightarrow> nat \<Rightarrow> u32 \<Rightarrow> 'io nds \<Rightarrow> u32 \<times> 'io nds" where
  "OP_STMIB2_W B p i s =
     (if psr_mode (CPSR (ARMPROC p s)) = USR then (2, s)
      else
        (let start = reg p s (REG_POS i 16);
             (oldmode, s) = armcpu_switchMode p (ucast SYS) s;
             (start, c, s) = fold (STMIB_step B p i) [0..<16] (start, 0, s);
             s = snd (armcpu_switchMode p (ucast oldmode) s);
             s = upd_cpu p (setR (REG_POS i 16) start) s
         in (MMU_aluMemCycles p 1 c, s)))"

definition OP_STMDA2_W :: "'io bus \<Rightarrow> nat \<Rightarrow> u32 \<Rightarrow> 'io nds \<Rightarrow> u32 \<times> 'io nds" where
  "OP_STMDA2_W B p i s =
     (if psr_mode (CPSR (ARMPROC p s)) = USR then (2, s)
      else
        (let start = reg p s (REG_POS i 16);
             (oldmode, s) = armcpu_switchMode p (ucast SYS) s;
             (start, c, s) = fold (STMDA_step B p i) [0..<16] (start, 0, s);
             s = upd_cpu p (setR (REG_POS i 16) start) s;
             s = snd (armcpu_switchMode p (ucast oldmode) s)
         in (MMU_aluMemCycles p 1 c, s)))"

definition OP_STMDB2_W :: "'io bus \<Rightarrow> nat \<Rightarrow> u32 \<Rightarrow> 'io nds \<Rightarrow> u32 \<times> 'io nds" where
  "OP_STMDB2_W B p i s =
     (if psr_mode (CPSR (ARMPROC p s)) = USR then (2, s)
      else
        (let start = reg p s (REG_POS i 16);
             (oldmode, s) = armcpu_switchMode p (ucast SYS) s;
             (start, c, s) = fold (STMDB_step B p i) [0..<16] (start, 0, s);
             s = upd_cpu p (setR (REG_POS i 16) start) s;
             s = snd (armcpu_switchMode p (ucast oldmode) s)
         in (MMU_aluMemCycles p 1 c, s)))"

section \<open>LDRD and STRD\<close>

definition OP_LDRD_STRD_POST_INDEX :: "'io bus \<Rightarrow> nat \<Rightarrow> u32 \<Rightarrow> 'io nds \<Rightarrow> u32 \<times> 'io nds" where
  "OP_LDRD_STRD_POST_INDEX B p i s =
     (let Rd_num = REG_POS i 12;
          addr = reg p s (REG_POS i 16);
          index = (if bit i 22 then IMM_OFF i else reg p s (REG_POS i 0));
          s = (if bit i 23 then upd_cpu p (setR (REG_POS i 16) (reg p s (REG_POS i 16) + index)) s
               else upd_cpu p (setR (REG_POS i 16) (reg p s (REG_POS i 16) - index)) s);
          (c, s) =
            (if Rd_num AND 1 = 0 then
               (if bit i 5 then
                  (let s = WRITE32 B p addr (reg p s Rd_num) s;
                       s = WRITE32 B p (addr + 4) (reg p s (Rd_num + 1)) s
                   in (MMU_memAccessCycles p 32 MMU_AD_WRITE addr +
                       MMU_memAccessCycles p 32 MMU_AD_WRITE (addr + 4), s))
                else
                  (let (v, s) = READ32 B p addr s;
                       s = upd_cpu p (setR Rd_num v) s;
                       (v, s) = READ32 B p (addr + 4) s;
                       s = upd_cpu p (setR (Rd_num + 1) v) s
                   in (cycles_read p addr + cycles_read p (addr + 4), s)))
             else (0, s))
      in (MMU_aluMemCycles p 3 c, s))"

definition OP_LDRD_STRD_OFFSET_PRE_INDEX :: "'io bus \<Rightarrow> nat \<Rightarrow> u32 \<Rightarrow> 'io nds \<Rightarrow> u32 \<times> 'io nds" where
  "OP_LDRD_STRD_OFFSET_PRE_INDEX B p i s =
     (let Rd_num = REG_POS i 12;
          addr = reg p s (REG_POS i 16);
          index = (if bit i 22 then IMM_OFF i else reg p s (REG_POS i 0));
          addr = (if bit i 23 then addr + index else addr - index);
          (c, s) =
            (if Rd_num AND 1 = 0 then
               (if bit i 5 then
                  (let s = WRITE32 B p addr (reg p s Rd_num) s;
                       s = WRITE32 B p (addr + 4) (reg p s (Rd_num + 1)) s;
                       c = MMU_memAccessCycles p 32 MMU_AD_WRITE addr +
                           MMU_memAccessCycles p 32 MMU_AD_WRITE (addr + 4);
                       s = (if bit i 21 then upd_cpu p (setR (REG_POS i 16) addr) s else s)
                   in (c, s))
                else
                  (let s = (if bit i 21 then upd_cpu p (setR (REG_POS i 16) addr) s else s);
                       (v, s) = READ32 B p addr s;
                       s = upd_cpu p (setR Rd_num v) s;
                       (v, s) = READ32 B p (addr + 4) s;
                       s = upd_cpu p (setR (Rd_num + 1) v) s
                   in (cycles_read p addr + cycles_read p (addr + 4), s)))
             else (0, s))
      in (MMU_aluMemCycles p 3 c, s))"

end
