(* ===== verification/Block_Laws.thy ===== *)
theory Block_Laws
  imports Arm_Block
begin

text \<open>
  What the block transfers of \<open>Arm_Block\<close> do, over RAM: whatever the direction, ascending
  registers go to ascending addresses; a store followed by the opposite load restores the
  registers; and the two loads that return from an exception with a descending address keep the
  banked registers of the mode they leave.
\<close>

section \<open>Lists of transfers\<close>

text \<open>The register numbers of the list in the instruction word, in ascending order, and the
  addresses a transfer walks through.\<close>

definition reg_list :: "u32 \<Rightarrow> nat list" where
  "reg_list i = filter (bit i) [0..<16]"

fun walk :: "u32 \<Rightarrow> u32 \<Rightarrow> nat list \<Rightarrow> (u32 \<times> nat) list" where
  "walk d a [] = []"
| "walk d a (r # rs) = (a, r) # walk d (a + d) rs"

definition ram_walk :: "nat \<Rightarrow> (u32 \<times> nat) list \<Rightarrow> 'io nds \<Rightarrow> bool" where
  "ram_walk p xs s \<longleftrightarrow> list_all (\<lambda>x. ram_addr p (fst x) s) xs"

lemma ram_walk_simps [simp]:
  "ram_walk p [] s" "ram_walk p (x # xs) s \<longleftrightarrow> ram_addr p (fst x) s \<and> ram_walk p xs s"
  "ram_walk p xs (upd_cpu q f s) = ram_walk p xs s"
  by (simp_all add: ram_walk_def)

lemma ram_walk_wr [simp]:
  "ram_addr p a s \<Longrightarrow> ram_walk p xs (WRITE32 B p a v s) = ram_walk p xs s"
  by (simp add: ram_walk_def ram.ok_wr)

lemma ram_walk_oks: "ram_walk p xs s = ram.oks p (map fst xs) s"
  by (simp add: ram_walk_def ram.oks_def list_all_iff)

text \<open>Stores: the memory after storing the listed registers at their addresses, in order.\<close>

definition put_regs :: "'io bus \<Rightarrow> nat \<Rightarrow> (u32 \<times> nat) list \<Rightarrow> 'io nds \<Rightarrow> 'io nds" where
  "put_regs B p xs s = ram.wr_all B p (map fst xs) (map (\<lambda>x. R (ARMPROC p s) (of_nat (snd x))) xs) s"

lemma put_regs_Nil [simp]: "put_regs B p [] s = s"
  by (simp add: put_regs_def)

lemma put_regs_Cons:
  "ram_addr p a s \<Longrightarrow>
    put_regs B p ((a, r) # xs) s = put_regs B p xs (WRITE32 B p a (reg p s (of_nat r)) s)"
  by (simp add: put_regs_def reg_def)

lemma put_regs_frame:
  "ram_walk p xs s \<Longrightarrow> ARMPROC q (put_regs B p xs s) = ARMPROC q s"
proof (induction xs arbitrary: s)
  case (Cons x xs)
  then show ?case by (cases x) (simp add: put_regs_Cons)
qed simp

lemma put_regs_ok:
  "ram_walk p xs s \<Longrightarrow> ram_addr p a (put_regs B p xs s) = ram_addr p a s \<and>
    ram_cell p a (put_regs B p xs s) = ram_cell p a s"
  unfolding put_regs_def ram_walk_oks by (rule ram.wr_all_frame)

text \<open>Loads: the processor after loading the listed registers with the values at their addresses.\<close>

fun get_regs :: "(u32 \<times> nat) list \<Rightarrow> (u32 \<Rightarrow> u32) \<Rightarrow> armcpu \<Rightarrow> armcpu" where
  "get_regs [] f c = c"
| "get_regs ((a, r) # xs) f c = get_regs xs f (setR (of_nat r) (f a) c)"

lemma get_regs_Cons_fun:
  "get_regs ((a, r) # xs) f = (\<lambda>c. get_regs xs f (setR (of_nat r) (f a) c))"
  by (rule ext) simp

lemma get_regs_cong:
  "list_all (\<lambda>x. f (fst x) = g (fst x)) xs \<Longrightarrow> get_regs xs f c = get_regs xs g c"
  by (induction xs f c rule: get_regs.induct) simp_all

lemma get_regs_other:
  "x \<notin> of_nat ` snd ` set xs \<Longrightarrow> R (get_regs xs f c) x = R c x"
proof (induction xs f c rule: get_regs.induct)
  case (2 a r xs f c)
  then show ?case by (simp add: setR_def)
qed simp

lemma of_nat_u32_inj: "a < 16 \<Longrightarrow> b < 16 \<Longrightarrow> (of_nat a = (of_nat b :: u32)) = (a = b)"
  by (auto dest!: arg_cong [where f = unat] simp: unat_of_nat take_bit_nat_eq_self)

lemma get_regs_at:
  "(a, r) \<in> set xs \<Longrightarrow> distinct (map snd xs) \<Longrightarrow> list_all (\<lambda>x. snd x < 16) xs \<Longrightarrow>
    R (get_regs xs f c) (of_nat r) = f a"
proof (induction xs f c rule: get_regs.induct)
  case (2 b q xs f c)
  show ?case
  proof (cases "(a, r) = (b, q)")
    case True
    have "of_nat q \<notin> (of_nat :: nat \<Rightarrow> u32) ` snd ` set xs"
      using 2(3,4) of_nat_u32_inj [of q] by (force simp: list_all_iff)
    then show ?thesis using True by (simp add: get_regs_other setR_def)
  next
    case False
    then show ?thesis using 2 by auto
  qed
qed simp

lemma get_regs_CPSR [simp]: "CPSR (get_regs xs f c) = CPSR c"
  by (induction xs f c rule: get_regs.induct) (simp_all add: setR_def)

section \<open>The folds walk\<close>

lemma walk_snd [simp]: "map snd (walk d a rs) = rs" "length (walk d a rs) = length rs"
  by (induction d a rs rule: walk.induct) simp_all

text \<open>All eight step functions have one shape: adjust the address, transfer, adjust it again.\<close>

definition store_step :: "'io bus \<Rightarrow> nat \<Rightarrow> u32 \<Rightarrow> u32 \<Rightarrow> u32 \<Rightarrow> nat \<Rightarrow> 'io xfer \<Rightarrow> 'io xfer" where
  "store_step B p i pre post r x =
     (if bit i r then
        (case x of (a, c, s) \<Rightarrow>
          (a + pre + post, c + MMU_memAccessCycles p 32 MMU_AD_WRITE (a + pre),
           WRITE32 B p (a + pre) (reg p s (of_nat r)) s))
      else x)"

definition load_step :: "'io bus \<Rightarrow> nat \<Rightarrow> u32 \<Rightarrow> u32 \<Rightarrow> u32 \<Rightarrow> nat \<Rightarrow> 'io xfer \<Rightarrow> 'io xfer" where
  "load_step B p i pre post r x =
     (if bit i r then
        (case x of (a, c, s) \<Rightarrow>
          (case READ32 B p (a + pre) s of (v, s) \<Rightarrow>
            (a + pre + post, c + MMU_memAccessCycles p 32 MMU_AD_READ (a + pre),
             upd_cpu p (setR (of_nat r) v) s)))
      else x)"

lemma stm_steps:
  "STMIA_step B p i = store_step B p i 0 4" "STMIB_step B p i = store_step B p i 4 0"
  "STMDA_step B p i = (\<lambda>b. store_step B p i 0 (- 4) (15 - b))"
  "STMDB_step B p i = (\<lambda>b. store_step B p i (- 4) 0 (15 - b))"
  by (simp_all add: fun_eq_iff store_step_def STMIA_step_def STMIB_step_def STMDA_step_def
      STMDB_step_def Let_def split_def)

lemma ldm_steps:
  "OP_L_IA B p i = load_step B p i 0 4" "OP_L_IB B p i = load_step B p i 4 0"
  "OP_L_DA B p i = load_step B p i 0 (- 4)" "OP_L_DB B p i = load_step B p i (- 4) 0"
  by (simp_all add: fun_eq_iff load_step_def OP_L_IA_def OP_L_IB_def OP_L_DA_def OP_L_DB_def
      Let_def split_def)

lemma store_fold:
  "ram_walk p (walk (pre + post) (a + pre) (filter (bit i) rs)) s \<Longrightarrow>
    \<exists>c'. fold (store_step B p i pre post) rs (a, c, s) =
      (a + (pre + post) * of_nat (length (filter (bit i) rs)), c',
       put_regs B p (walk (pre + post) (a + pre) (filter (bit i) rs)) s)"
proof (induction rs arbitrary: a c s)
  case (Cons r rs)
  show ?case
  proof (cases "bit i r")
    case True
    let ?s = "WRITE32 B p (a + pre) (reg p s (of_nat r)) s"
    from True have "ram_addr p (a + pre) s"
      "ram_walk p (walk (pre + post) (a + pre + post + pre) (filter (bit i) rs)) ?s"
      using Cons.prems by (simp_all add: algebra_simps)
    with Cons.IH [OF this(2)] True show ?thesis
      by (simp add: store_step_def put_regs_Cons algebra_simps)
  qed (use Cons in \<open>simp add: store_step_def\<close>)
qed simp

lemma load_fold:
  "ram_walk p (walk (pre + post) (a + pre) (filter (bit i) rs)) s \<Longrightarrow>
    \<exists>c'. fold (load_step B p i pre post) rs (a, c, s) =
      (a + (pre + post) * of_nat (length (filter (bit i) rs)), c',
       upd_cpu p (get_regs (walk (pre + post) (a + pre) (filter (bit i) rs)) (\<lambda>b. load32 B p b s)) s)"
proof (induction rs arbitrary: a c s)
  case Nil
  then show ?case by (simp add: upd_cpu_def)
next
  case (Cons r rs)
  show ?case
  proof (cases "bit i r")
    case True
    let ?v = "load32 B p (a + pre) s" and ?xs = "walk (pre + post) (a + pre + post + pre) (filter (bit i) rs)"
    let ?s = "upd_cpu p (setR (of_nat r) ?v) s"
    from True have ram: "ram_addr p (a + pre) s" "ram_walk p ?xs s"
      using Cons.prems by (simp_all add: algebra_simps)
    then have "ram_walk p ?xs ?s" by simp
    note ih = Cons.IH [OF this, of "c + MMU_memAccessCycles p 32 MMU_AD_READ (a + pre)"]
    have eq: "get_regs ?xs (\<lambda>b. load32 B p b ?s) c = get_regs ?xs (\<lambda>b. load32 B p b s) c" for c
      using ram(2) by (intro get_regs_cong) (auto simp: ram_walk_def list_all_iff load32_upd_cpu)
    have "upd_cpu p (get_regs ?xs (\<lambda>b. load32 B p b ?s)) ?s =
      upd_cpu p (get_regs ((a + pre, r) # ?xs) (\<lambda>b. load32 B p b s)) s"
      unfolding upd_cpu_upd_cpu comp_def eq get_regs_Cons_fun by (rule refl)
    with ih True ram show ?thesis
      by (simp add: load_step_def READ32_load32 get_regs_Cons_fun algebra_simps)
  qed (use Cons in \<open>simp add: load_step_def\<close>)
qed

section \<open>The addresses of a block\<close>

datatype block_kind = IA | IB | DA | DB

fun block_low :: "block_kind \<Rightarrow> u32 \<Rightarrow> nat \<Rightarrow> u32" where
  "block_low IA a n = a"
| "block_low IB a n = a + 4"
| "block_low DA a n = a - 4 * of_nat n + 4"
| "block_low DB a n = a - 4 * of_nat n"

fun block_end :: "block_kind \<Rightarrow> u32 \<Rightarrow> nat \<Rightarrow> u32" where
  "block_end IA a n = a + 4 * of_nat n"
| "block_end IB a n = a + 4 * of_nat n"
| "block_end DA a n = a - 4 * of_nat n"
| "block_end DB a n = a - 4 * of_nat n"

text \<open>Ascending registers at ascending addresses, whatever the direction.\<close>

definition block :: "block_kind \<Rightarrow> u32 \<Rightarrow> u32 \<Rightarrow> (u32 \<times> nat) list" where
  "block m i a = walk 4 (block_low m a (length (reg_list i))) (reg_list i)"

lemma walk_append: "walk d a (xs @ ys) = walk d a xs @ walk d (a + d * of_nat (length xs)) ys"
  by (induction d a xs rule: walk.induct) (simp_all add: algebra_simps)

lemma rev_walk: "rev (walk d a rs) = walk (- d) (a + d * of_nat (length rs) - d) (rev rs)"
  by (induction d a rs rule: walk.induct) (simp_all add: walk_append algebra_simps)

lemma ram_walk_rev [simp]: "ram_walk p (rev xs) s = ram_walk p xs s"
  by (simp add: ram_walk_def)

lemma walk_nth: "k < length rs \<Longrightarrow> walk d a rs ! k = (a + d * of_nat k, rs ! k)"
proof (induction d a rs arbitrary: k rule: walk.induct)
  case (2 d a r rs)
  then show ?case by (cases k) (simp_all add: algebra_simps)
qed simp

lemma reg_list_props: "distinct (reg_list i)" "length (reg_list i) \<le> 16" "r \<in> set (reg_list i) \<Longrightarrow> r < 16"
proof -
  show "distinct (reg_list i)" by (simp add: reg_list_def)
  have "length (reg_list i) \<le> length [0..<16]"
    unfolding reg_list_def by (rule length_filter_le)
  then show "length (reg_list i) \<le> 16" by simp
  show "r \<in> set (reg_list i) \<Longrightarrow> r < 16" by (simp add: reg_list_def)
qed

lemma bit_15_list: "bit i 15 = (15 \<in> set (reg_list i))"
  by (simp add: reg_list_def)

lemma desc_list: "map (\<lambda>b. 15 - b) [0..<16] = rev [0..<16 :: nat]"
  by (simp add: upt_rec)

lemma fold_desc: "fold (\<lambda>b. g (15 - b)) [0..<16] = fold g (rev [0..<16 :: nat])"
  using fold_map [of g "\<lambda>b. 15 - b" "[0..<16]"] by (simp only: desc_list comp_def)

lemma filter_rev_upt: "filter (bit i) (rev [0..<16]) = rev (reg_list i)"
  by (simp only: reg_list_def rev_filter)

lemma filter_15:
  assumes "\<not> bit i 15"
  shows "filter (bit i) [0..<15] = reg_list i" "filter (bit i) (rev [0..<15]) = rev (reg_list i)"
proof -
  have "[0..<16] = [0..<15] @ [15 :: nat]" by (simp add: upt_rec)
  then show "filter (bit i) [0..<15] = reg_list i"
    using assms by (simp add: reg_list_def del: upt_Suc)
  then show "filter (bit i) (rev [0..<15]) = rev (reg_list i)"
    by (simp only: rev_filter [symmetric])
qed

text \<open>Two word addresses with the same cell agree in their lowest 14 bits, so the words of a
  block are distinct cells.\<close>

lemma same_cell:
  assumes "ram_addr p a s" "ram_cell p a s = ram_cell p b s"
  shows "a AND 0x3FFC = b AND 0x3FFC"
proof -
  have "masks_ok (mmu s)" using assms(1) by (simp add: ram_addr_def)
  then have "MAIN_MEM_MASK32 (mmu s) AND 0x3FFC = 0x3FFC"
    by (rule masks_ok_cases) simp_all
  moreover have "(a AND M) AND 0x3FFC = a AND (M AND 0x3FFC)" for a M :: u32
    by (rule and.assoc)
  ultimately have "a AND MAIN_MEM_MASK32 (mmu s) = b AND MAIN_MEM_MASK32 (mmu s) \<Longrightarrow> ?thesis"
    by (metis (no_types))
  then show ?thesis
    using assms(2) by (simp add: ram_cell_def split: if_splits)
qed

lemma dvd_imp_eq_0_if: "d dvd x \<Longrightarrow> \<bar>x\<bar> < d \<Longrightarrow> x = 0" for d x :: int
  using dvd_imp_le_int [of x d] by fastforce

lemma word_step_inj:
  assumes "(a + 4 * of_nat k) AND 0x3FFC = (a + 4 * of_nat j :: u32) AND 0x3FFC" "k < 16" "j < 16"
  shows "k = j"
proof -
  have m: "x AND 0x3FFF = take_bit 14 x" "x AND 3 = take_bit 2 x" for x :: u32
    by (simp_all add: take_bit_eq_mask mask_eq_exp_minus_1)
  have split_low: "x AND 0x3FFF = x AND 0x3FFC OR x AND 3" for x :: u32
    using bit.conj_disj_distrib [of x "0x3FFC" 3] by simp
  have u: "unat (a + 4 * of_nat n) = (unat a + 4 * n) mod 2 ^ 32" for n
    by (simp add: unat_word_ariths unat_of_nat take_bit_eq_mod mod_simps)
  have low: "(a + 4 * of_nat n) AND 3 = a AND 3" for n
  proof -
    have "unat (take_bit 2 (a + 4 * of_nat n)) = unat (take_bit 2 a)"
      by (simp only: unsigned_take_bit_eq u) (simp add: take_bit_eq_mod mod_mod_cancel)
    then show ?thesis by (simp only: m(2) word_unat_eq_iff)
  qed
  have "take_bit 14 (a + 4 * of_nat k) = take_bit 14 (a + 4 * of_nat j :: u32)"
    using assms(1) by (simp only: m(1) [symmetric] split_low low)
  then have "unat (take_bit 14 (a + 4 * of_nat k)) = unat (take_bit 14 (a + 4 * of_nat j))"
    by (rule arg_cong)
  then have "take_bit 14 ((unat a + 4 * k) mod 2 ^ 32) = take_bit 14 ((unat a + 4 * j) mod 2 ^ 32)"
    by (simp only: unsigned_take_bit_eq u)
  then have "(unat a + 4 * k) mod 2 ^ 32 mod 2 ^ 14 = (unat a + 4 * j) mod 2 ^ 32 mod 2 ^ 14"
    by (simp only: take_bit_eq_mod)
  then have "(unat a + 4 * k) mod 2 ^ 14 = (unat a + 4 * j) mod 2 ^ 14"
    by (simp only: mod_mod_cancel [OF le_imp_power_dvd] arith_simps)
  then have "int ((unat a + 4 * k) mod 2 ^ 14) = int ((unat a + 4 * j) mod 2 ^ 14)"
    by (rule arg_cong)
  then have "(int (unat a + 4 * k)) mod 2 ^ 14 = (int (unat a + 4 * j)) mod 2 ^ 14"
    by (simp only: of_nat_mod) simp
  then have "(2 ^ 14 :: int) dvd 4 * int k - 4 * int j"
    by (simp add: mod_eq_dvd_iff)
  moreover have "\<bar>4 * int k - 4 * int j\<bar> < 2 ^ 14"
    using assms(2,3) by simp
  ultimately have "4 * int k - 4 * int j = 0"
    by (rule dvd_imp_eq_0_if)
  then show ?thesis by simp
qed

lemma block_distinct:
  assumes "ram_walk p (walk 4 a rs) s" "length rs \<le> 16"
  shows "distinct (map (\<lambda>x. ram_cell p (fst x) s) (walk 4 a rs))"
proof -
  have "k = j" if "k < length rs" "j < length rs"
    "ram_cell p (a + 4 * of_nat k) s = ram_cell p (a + 4 * of_nat j) s" for k j
  proof -
    have "ram_addr p (a + 4 * of_nat k) s"
      using assms(1) that(1) by (simp add: ram_walk_def list_all_length walk_nth)
    then show ?thesis using same_cell [OF _ that(3)] that(1,2) word_step_inj [of a k j] assms(2) by simp
  qed
  then show ?thesis by (auto simp: distinct_conv_nth walk_nth)
qed

section \<open>The handlers as block transfers\<close>

fun STM_handler :: "'io bus \<Rightarrow> block_kind \<Rightarrow> bool \<Rightarrow> nat \<Rightarrow> u32 \<Rightarrow> 'io nds \<Rightarrow> u32 \<times> 'io nds" where
  "STM_handler B IA w = (if w then OP_STMIA_W B else OP_STMIA B)"
| "STM_handler B IB w = (if w then OP_STMIB_W B else OP_STMIB B)"
| "STM_handler B DA w = (if w then OP_STMDA_W B else OP_STMDA B)"
| "STM_handler B DB w = (if w then OP_STMDB_W B else OP_STMDB B)"

fun LDM_handler :: "'io bus \<Rightarrow> block_kind \<Rightarrow> bool \<Rightarrow> nat \<Rightarrow> u32 \<Rightarrow> 'io nds \<Rightarrow> u32 \<times> 'io nds" where
  "LDM_handler B IA w = (if w then OP_LDMIA_W B else OP_LDMIA B)"
| "LDM_handler B IB w = (if w then OP_LDMIB_W B else OP_LDMIB B)"
| "LDM_handler B DA w = (if w then OP_LDMDA_W B else OP_LDMDA B)"
| "LDM_handler B DB w = (if w then OP_LDMDB_W B else OP_LDMDB B)"

text \<open>The order in which a transfer visits its block.\<close>

definition visit :: "block_kind \<Rightarrow> (u32 \<times> nat) list \<Rightarrow> (u32 \<times> nat) list" where
  "visit m xs = (if m = IA \<or> m = IB then xs else rev xs)"

lemma ram_walk_visit [simp]: "ram_walk p (visit m xs) s = ram_walk p xs s"
  by (simp add: visit_def)

lemma visit_set [simp]: "set (visit m xs) = set xs"
  by (simp add: visit_def)

lemma rev_block:
  "rev (block DA i a) = walk (- 4) a (rev (reg_list i))"
  "rev (block DB i a) = walk (- 4) (a - 4) (rev (reg_list i))"
  by (simp_all add: block_def rev_walk)

lemma stm_state:
  assumes "ram_walk p (block m i a) s" "a = reg p s (REG_POS i 16)"
  shows "snd (STM_handler B m w p i s) =
    (if w then upd_cpu p (setR (REG_POS i 16) (block_end m a (length (reg_list i))))
       (put_regs B p (visit m (block m i a)) s)
     else put_regs B p (visit m (block m i a)) s)"
proof (cases m)
  case IA
  then obtain c where "fold (store_step B p i 0 4) [0..<16] (a, 0, s) =
      (a + 4 * of_nat (length (reg_list i)), c, put_regs B p (block IA i a) s)"
    using assms(1) store_fold [where rs = "[0..<16]" and pre = 0 and post = 4 and i = i]
    unfolding block_def reg_list_def by fastforce
  then show ?thesis
    unfolding IA visit_def STM_handler.simps OP_STMIA_def OP_STMIA_W_def stm_steps Let_def
    by (cases w) (simp_all add: assms(2) del: upt_Suc)
next
  case IB
  then obtain c where "fold (store_step B p i 4 0) [0..<16] (a, 0, s) =
      (a + 4 * of_nat (length (reg_list i)), c, put_regs B p (block IB i a) s)"
    using assms(1) store_fold [where rs = "[0..<16]" and pre = 4 and post = 0 and i = i]
    unfolding block_def reg_list_def by fastforce
  then show ?thesis
    unfolding IB visit_def STM_handler.simps OP_STMIB_def OP_STMIB_W_def stm_steps Let_def
    by (cases w) (simp_all add: assms(2) del: upt_Suc)
next
  case DA
  then have "ram_walk p (rev (block DA i a)) s" using assms(1) by simp
  then obtain c where "fold (store_step B p i 0 (- 4)) (rev [0..<16]) (a, 0, s) =
      (a - 4 * of_nat (length (reg_list i)), c, put_regs B p (rev (block DA i a)) s)"
    using store_fold [where rs = "rev [0..<16]" and pre = 0 and post = "- 4" and i = i and a = a and c = 0]
    unfolding rev_block filter_rev_upt by fastforce
  then show ?thesis
    unfolding DA visit_def STM_handler.simps OP_STMDA_def OP_STMDA_W_def stm_steps fold_desc Let_def
    by (cases w) (simp_all add: assms(2) del: upt_Suc)
next
  case DB
  then have "ram_walk p (rev (block DB i a)) s" using assms(1) by simp
  then obtain c where "fold (store_step B p i (- 4) 0) (rev [0..<16]) (a, 0, s) =
      (a - 4 * of_nat (length (reg_list i)), c, put_regs B p (rev (block DB i a)) s)"
    using store_fold [where rs = "rev [0..<16]" and pre = "- 4" and post = 0 and i = i and a = a and c = 0]
    unfolding rev_block filter_rev_upt by fastforce
  then show ?thesis
    unfolding DB visit_def STM_handler.simps OP_STMDB_def OP_STMDB_W_def stm_steps fold_desc Let_def
    by (cases w) (simp_all add: assms(2) del: upt_Suc)
qed

lemma ldm_state:
  assumes "ram_walk p (block m i a) s" "a = reg p s (REG_POS i 16)" "\<not> bit i 15"
  shows "snd (LDM_handler B m w p i s) =
    (let s' = upd_cpu p (get_regs (visit m (block m i a)) (\<lambda>b. load32 B p b s)) s
     in if w then ldm_writeback p i (block_end m a (length (reg_list i))) s' else s')"
proof (cases m)
  case IA
  then obtain c where "fold (load_step B p i 0 4) [0..<15] (a, 0, s) =
      (a + 4 * of_nat (length (reg_list i)), c,
       upd_cpu p (get_regs (block IA i a) (\<lambda>b. load32 B p b s)) s)"
    using assms(1) load_fold [where rs = "[0..<15]" and pre = 0 and post = 4 and i = i]
    unfolding block_def filter_15 [OF assms(3)] by fastforce
  then show ?thesis
    unfolding IA visit_def LDM_handler.simps OP_LDMIA_def OP_LDMIA_W_def ldm_steps Let_def
    by (cases w) (simp_all add: assms(2,3) del: upt_Suc)
next
  case IB
  then obtain c where "fold (load_step B p i 4 0) [0..<15] (a, 0, s) =
      (a + 4 * of_nat (length (reg_list i)), c,
       upd_cpu p (get_regs (block IB i a) (\<lambda>b. load32 B p b s)) s)"
    using assms(1) load_fold [where rs = "[0..<15]" and pre = 4 and post = 0 and i = i]
    unfolding block_def filter_15 [OF assms(3)] by fastforce
  then show ?thesis
    unfolding IB visit_def LDM_handler.simps OP_LDMIB_def OP_LDMIB_W_def ldm_steps Let_def
    by (cases w) (simp_all add: assms(2,3) del: upt_Suc)
next
  case DA
  then have "ram_walk p (rev (block DA i a)) s" using assms(1) by simp
  then obtain c where "fold (load_step B p i 0 (- 4)) (rev [0..<15]) (a, 0, s) =
      (a - 4 * of_nat (length (reg_list i)), c,
       upd_cpu p (get_regs (rev (block DA i a)) (\<lambda>b. load32 B p b s)) s)"
    using load_fold [where rs = "rev [0..<15]" and pre = 0 and post = "- 4" and i = i and a = a and c = 0]
    unfolding rev_block filter_15 [OF assms(3)] by fastforce
  then show ?thesis
    unfolding DA visit_def LDM_handler.simps OP_LDMDA_def OP_LDMDA_W_def ldm_steps Let_def
    by (cases w) (simp_all add: assms(2,3) del: upt_Suc)
next
  case DB
  then have "ram_walk p (rev (block DB i a)) s" using assms(1) by simp
  then obtain c where "fold (load_step B p i (- 4) 0) (rev [0..<15]) (a, 0, s) =
      (a - 4 * of_nat (length (reg_list i)), c,
       upd_cpu p (get_regs (rev (block DB i a)) (\<lambda>b. load32 B p b s)) s)"
    using load_fold [where rs = "rev [0..<15]" and pre = "- 4" and post = 0 and i = i and a = a and c = 0]
    unfolding rev_block filter_15 [OF assms(3)] by fastforce
  then show ?thesis
    unfolding DB visit_def LDM_handler.simps OP_LDMDB_def OP_LDMDB_W_def ldm_steps Let_def
    by (cases w) (simp_all add: assms(2,3) del: upt_Suc)
qed

text \<open>What was put is what a load at the address finds.\<close>

lemma load_put:
  assumes "ram_walk p xs s" "distinct (map (\<lambda>x. ram_cell p (fst x) s) xs)" "(a, r) \<in> set xs"
  shows "load32 B p a (put_regs B p xs s) = R (ARMPROC p s) (of_nat r)"
proof -
  obtain k where k: "k < length xs" "xs ! k = (a, r)" using assms(3) by (auto simp: in_set_conv_nth)
  then show ?thesis
    using ram.rd_wr_all [of p "map fst xs" s "map (\<lambda>x. R (ARMPROC p s) (of_nat (snd x))) xs" k B] assms(1,2)
    by (simp add: put_regs_def ram_walk_oks ram.cells_def comp_def)
qed

lemma block_cells:
  assumes "ram_walk p (block m i a) s"
  shows "distinct (map (\<lambda>x. ram_cell p (fst x) s) (visit m (block m i a)))"
  using block_distinct [OF assms [unfolded block_def]] reg_list_props(2) [of i]
  by (simp add: visit_def block_def rev_map [symmetric])

lemma block_regs:
  "map snd (block m i a) = reg_list i" "length (block m i a) = length (reg_list i)"
  by (simp_all add: block_def)

lemma get_block:
  assumes "(b, r) \<in> set (block m i a)"
  shows "R (get_regs (visit m (block m i a)) f c) (of_nat r) = f b"
proof (rule get_regs_at)
  show "(b, r) \<in> set (visit m (block m i a))" using assms by simp
  have "distinct (map snd (block m i a))" by (simp add: block_regs reg_list_props)
  then show "distinct (map snd (visit m (block m i a)))"
    by (simp add: visit_def rev_map [symmetric])
  have "snd x < 16" if "x \<in> set (block m i a)" for x
    using that block_regs(1) [of m i a] reg_list_props(3) [of "snd x" i]
    by (metis image_eqI set_map)
  then show "list_all (\<lambda>x. snd x < 16) (visit m (block m i a))"
    by (simp add: list_all_iff)
qed

lemma get_block_other:
  assumes "x \<notin> of_nat ` set (reg_list i)"
  shows "R (get_regs (visit m (block m i a)) f c) x = R c x"
proof (rule get_regs_other)
  have "snd ` set (block m i a) = set (reg_list i)"
    using block_regs(1) [of m i a] by (metis set_map)
  then show "x \<notin> of_nat ` snd ` set (visit m (block m i a))" using assms by simp
qed

lemma reg_upd_cpu [simp]: "reg p (upd_cpu p f s) x = R (f (ARMPROC p s)) x"
  by (simp add: reg_def)

lemma base_bit: "(i AND c_shl 1 (REG_POS i 16) \<noteq> 0) = (unat (REG_POS i 16) \<in> set (reg_list i))"
proof -
  have "REG_POS i 16 \<le> 15" by (rule REG_POS_le)
  then have "unat (REG_POS i 16) < 16" by (simp add: word_le_nat_alt)
  then show ?thesis
    using and_exp_eq_0_iff_not_bit [of i "unat (REG_POS i 16)"]
    by (simp add: c_shl_def reg_list_def push_bit_eq_mult)
qed

lemma ldm_writeback_regs:
  "x \<noteq> REG_POS i 16 \<Longrightarrow> reg p (ldm_writeback p i e s) x = reg p s x"
  "unat (REG_POS i 16) \<notin> set (reg_list i) \<Longrightarrow> reg p (ldm_writeback p i e s) (REG_POS i 16) = e"
  "mmu (ldm_writeback p i e s) = mmu s"
  by (auto simp: ldm_writeback_def Let_def base_bit setR_def reg_def)

lemma of_nat_base: "(of_nat r = REG_POS i 16) = (r = unat (REG_POS i 16))" if "r < 16"
  using that by (simp add: word_unat_eq_iff unat_of_nat take_bit_nat_eq_self)

lemma stm_block:
  assumes "ram_walk p (block m i (reg p s (REG_POS i 16))) s"
  shows "let a = reg p s (REG_POS i 16); s' = snd (STM_handler B m w p i s) in
     list_all (\<lambda>(b, r). load32 B p b s' = reg p s (of_nat r)) (block m i a) \<and>
     ARMPROC p s' = (if w then setR (REG_POS i 16) (block_end m a (length (reg_list i))) (ARMPROC p s)
       else ARMPROC p s)"
proof -
  let ?a = "reg p s (REG_POS i 16)"
  let ?q = "put_regs B p (visit m (block m i ?a)) s"
  have v: "ram_walk p (visit m (block m i ?a)) s" using assms by simp
  have "load32 B p b ?q = reg p s (of_nat r)" "ram_addr p b ?q" if "(b, r) \<in> set (block m i ?a)" for b r
    using load_put [OF v block_cells [OF assms]] put_regs_ok [OF v] that assms
    by (auto simp: reg_def ram_walk_def list_all_iff)
  then show ?thesis
    using put_regs_frame [OF v]
    by (auto simp: stm_state [OF assms refl] Let_def list_all_iff load32_upd_cpu)
qed

lemma ldm_block:
  assumes "ram_walk p (block m i (reg p s (REG_POS i 16))) s" "\<not> bit i 15"
  shows "let n = REG_POS i 16; a = reg p s n; s' = snd (LDM_handler B m w p i s) in
     list_all (\<lambda>(b, r). (w \<and> of_nat r = n) \<or> reg p s' (of_nat r) = load32 B p b s) (block m i a) \<and>
     (\<forall>x. x \<in> of_nat ` set (reg_list i) \<or> (w \<and> x = n) \<or> reg p s' x = reg p s x) \<and>
     (w \<and> unat n \<notin> set (reg_list i) \<longrightarrow> reg p s' n = block_end m a (length (reg_list i))) \<and>
     mmu s' = mmu s"
proof -
  let ?a = "reg p s (REG_POS i 16)"
  let ?g = "upd_cpu p (get_regs (visit m (block m i ?a)) (\<lambda>b. load32 B p b s)) s"
  let ?s = "snd (LDM_handler B m w p i s)"
  have s: "reg p ?s x = reg p ?g x" if "\<not> (w \<and> x = REG_POS i 16)" for x
    using that ldm_writeback_regs(1) [of x i]
    by (auto simp: ldm_state [OF assms(1) refl assms(2)] Let_def simp del: reg_upd_cpu)
  have "w \<and> of_nat r = REG_POS i 16 \<or> reg p ?s (of_nat r) = load32 B p b s"
    if "(b, r) \<in> set (block m i ?a)" for b r
    using get_block [OF that] s [of "of_nat r"] by auto
  moreover have "x \<in> of_nat ` set (reg_list i) \<or> (w \<and> x = REG_POS i 16) \<or> reg p ?s x = reg p s x" for x
    using get_block_other [of x i m ?a] s [of x]
    by (cases "w \<and> x = REG_POS i 16"; cases "x \<in> of_nat ` set (reg_list i)")
      (simp_all add: reg_def)
  moreover have "w \<and> unat (REG_POS i 16) \<notin> set (reg_list i) \<longrightarrow>
      reg p ?s (REG_POS i 16) = block_end m ?a (length (reg_list i))" "mmu ?s = mmu s"
    using ldm_writeback_regs(2) [of i]
    by (auto simp: ldm_state [OF assms(1) refl assms(2)] Let_def ldm_writeback_regs(3))
  ultimately show ?thesis
    unfolding Let_def list_all_iff by (auto simp del: block_low.simps)
qed

text \<open>A transfer that undoes another.\<close>

fun opposite :: "block_kind \<Rightarrow> block_kind" where
  "opposite IA = DB" | "opposite IB = DA" | "opposite DA = IB" | "opposite DB = IA"

lemma opposite_block:
  assumes "reg_list j = reg_list i"
  shows "block (opposite m) j (block_end m a (length (reg_list i))) = block m i a"
    and "block_end (opposite m) (block_end m a n) n = a"
  using assms by (cases m; simp add: block_def algebra_simps)+

lemma ram_walk_put:
  assumes "ram_walk p ys s" "ram_walk p xs s"
  shows "ram_walk p xs (put_regs B p ys s)"
  using assms(2) put_regs_ok [OF assms(1)] by (simp add: ram_walk_def)

lemma sample_push:
  "reg_list 0xE92D4070 = [4, 5, 6, 14]" "reg_list 0xE8BD4070 = [4, 5, 6, 14]"
  "REG_POS 0xE92D4070 16 = 13" "REG_POS 0xE8BD4070 16 = 13"
  "ram_walk 0 (block DB 0xE92D4070 0x02001D00) sample_nds"
proof -
  show l: "reg_list 0xE92D4070 = [4, 5, 6, 14]" "reg_list 0xE8BD4070 = [4, 5, 6, 14]"
    by (simp_all add: reg_list_def upt_rec)
  show "REG_POS 0xE92D4070 16 = 13" "REG_POS 0xE8BD4070 16 = 13" by (simp_all add: REG_POS_def)
  have m: "mmu sample_nds = zero_mmu" by (simp add: sample_nds_def zero_nds_def)
  have "masks_ok zero_mmu" by (simp add: masks_ok_iff) (simp add: zero_mmu_def)
  then show "ram_walk 0 (block DB 0xE92D4070 0x02001D00) sample_nds"
    by (simp add: block_def l ram_addr_def m in_main_def)
qed

lemma sample_sp: "reg 0 sample_nds 13 = 0x02001D00"
  by (simp add: reg_def)

section \<open>Properties\<close>

text \<open>C27: STM in each of its four directions, with or without write-back, stores the listed
  registers to ascending addresses of the block, lowest register lowest, and changes the
  processor state only by the write-back of the block's end address to the base register, when
  the block lies in RAM and its words are distinct.\<close>

theorem stm_stores_block:
  assumes "ram_walk p (block m i (reg p s (REG_POS i 16))) s"
  shows "let a = reg p s (REG_POS i 16); s' = snd (STM_handler B m w p i s) in
     list_all (\<lambda>(b, r). load32 B p b s' = reg p s (of_nat r)) (block m i a) \<and>
     ARMPROC p s' = (if w then setR (REG_POS i 16) (block_end m a (length (reg_list i))) (ARMPROC p s)
       else ARMPROC p s)"
  using assms by (rule stm_block)

theorem stm_stores_block_witness:
  "load32 null_bus 0 0x02001CF0 (snd (STM_handler null_bus DB True 0 0xE92D4070 sample_nds)) = 0x02001400"
  using stm_stores_block [of 0 DB "0xE92D4070" sample_nds null_bus True] sample_push
  by (simp add: sample_sp Let_def block_def) (simp add: reg_def)

text \<open>C28: LDM in each of its four directions, with or without write-back, loads every listed
  register (other than a written-back base) with its word of the block, writes the block's end
  to an unlisted base, and changes no other register and no memory, when the block lies in RAM
  and the program counter is not listed.\<close>

theorem ldm_loads_block:
  assumes "ram_walk p (block m i (reg p s (REG_POS i 16))) s" "\<not> bit i 15"
  shows "let n = REG_POS i 16; a = reg p s n; s' = snd (LDM_handler B m w p i s) in
     list_all (\<lambda>(b, r). (w \<and> of_nat r = n) \<or> reg p s' (of_nat r) = load32 B p b s) (block m i a) \<and>
     (\<forall>x. x \<in> of_nat ` set (reg_list i) \<or> (w \<and> x = n) \<or> reg p s' x = reg p s x) \<and>
     (w \<and> unat n \<notin> set (reg_list i) \<longrightarrow> reg p s' n = block_end m a (length (reg_list i))) \<and>
     mmu s' = mmu s"
  using assms by (rule ldm_block)

theorem ldm_loads_block_witness:
  "reg 0 (snd (LDM_handler null_bus DB True 0 0xE92D4070 sample_nds)) 13 = 0x02001CF0 \<and>
   mmu (snd (LDM_handler null_bus DB True 0 0xE92D4070 sample_nds)) = zero_mmu"
  using ldm_loads_block [of 0 DB "0xE92D4070" sample_nds null_bus True] sample_push
  by (simp add: sample_sp Let_def) (simp add: sample_nds_def zero_nds_def)

text \<open>C29: A push with STM and write-back followed by the LDM of the opposite direction and the
  same register list restores every listed register and the base, whatever happened to the
  registers other than the base in between, for all four directions, when the block lies in RAM
  and neither the program counter nor the base is in the list.\<close>

theorem block_round_trip:
  fixes s :: "'io nds"
  assumes "ram_walk p (block m i (reg p s (REG_POS i 16))) s" "\<not> bit i 15"
    and "unat (REG_POS i 16) \<notin> set (reg_list i)"
    and "REG_POS j 16 = REG_POS i 16" "reg_list j = reg_list i"
    and "\<And>c. R (g c) (REG_POS i 16) = R c (REG_POS i 16)"
  shows "let s1 = upd_cpu p g (snd (STM_handler B m True p i s));
       s2 = snd (LDM_handler B (opposite m) True p j s1) in
     list_all (\<lambda>r. reg p s2 (of_nat r) = reg p s (of_nat r)) (reg_list i) \<and>
     reg p s2 (REG_POS i 16) = reg p s (REG_POS i 16)"
proof -
  let ?a = "reg p s (REG_POS i 16)" and ?n = "length (reg_list i)"
  let ?t = "snd (STM_handler B m True p i s)"
  let ?s1 = "upd_cpu p g ?t"
  have v: "ram_walk p (visit m (block m i ?a)) s" using assms(1) by simp
  have stm: "list_all (\<lambda>(b, r). load32 B p b ?t = reg p s (of_nat r)) (block m i ?a)"
    "ARMPROC p ?t = setR (REG_POS i 16) (block_end m ?a ?n) (ARMPROC p s)"
    using stm_block [OF assms(1), of B True] by (simp_all add: Let_def)
  have "reg p ?s1 (REG_POS j 16) = block_end m ?a ?n"
    by (simp add: assms(4,6) stm(2) setR_def)
  then have blk: "block (opposite m) j (reg p ?s1 (REG_POS j 16)) = block m i ?a"
    "block_end (opposite m) (reg p ?s1 (REG_POS j 16)) ?n = ?a"
    using opposite_block [OF assms(5)] by simp_all
  have ram: "ram_walk p (block m i ?a) ?t"
    using ram_walk_put [OF v assms(1)] by (simp add: stm_state [OF assms(1) refl])
  have 15: "\<not> bit j 15"
    using assms(2,5) by (simp add: bit_15_list)
  have eq: "load32 B p b ?s1 = reg p s (of_nat r)" if "(b, r) \<in> set (block m i ?a)" for b r
  proof -
    have "ram_addr p b ?t" using ram that by (force simp: ram_walk_def list_all_iff)
    then show ?thesis using stm(1) that by (auto simp: list_all_iff load32_upd_cpu)
  qed
  have ldm: "list_all (\<lambda>(b, r). of_nat r = REG_POS i 16 \<or>
      reg p (snd (LDM_handler B (opposite m) True p j ?s1)) (of_nat r) = load32 B p b ?s1) (block m i ?a)"
    "reg p (snd (LDM_handler B (opposite m) True p j ?s1)) (REG_POS i 16) = ?a"
    using ldm_block [of p "opposite m" j ?s1, OF _ 15, where B = B and w = True] ram assms(3-5) blk
    by (simp_all add: Let_def del: reg_upd_cpu)
  have "reg p (snd (LDM_handler B (opposite m) True p j ?s1)) (of_nat r) = reg p s (of_nat r)"
    if "r \<in> set (reg_list i)" for r
  proof -
    have "r \<in> snd ` set (block m i ?a)"
      using that block_regs(1) [of m i ?a] by (metis set_map)
    then obtain b where "(b, r) \<in> set (block m i ?a)" by force
    moreover have "of_nat r \<noteq> REG_POS i 16"
      using that assms(3) of_nat_base [OF reg_list_props(3) [OF that]] by auto
    ultimately show ?thesis using ldm(1) eq by (auto simp: list_all_iff)
  qed
  with ldm(2) show ?thesis by (simp add: Let_def list_all_iff)
qed

theorem block_round_trip_witness:
  "let s1 = upd_cpu 0 (\<lambda>c. setR 4 0 (setR 5 0 c)) (snd (STM_handler null_bus DB True 0 0xE92D4070 sample_nds));
     s2 = snd (LDM_handler null_bus IA True 0 0xE8BD4070 s1)
   in reg 0 s2 4 = 0x02001400 \<and> reg 0 s2 13 = 0x02001D00"
  using block_round_trip [of 0 DB "0xE92D4070" sample_nds "0xE8BD4070" "\<lambda>c. setR 4 0 (setR 5 0 c)" null_bus]
    sample_push
  by (simp add: sample_sp Let_def setR_def) (simp add: reg_def)

text \<open>The status is copied before the mode switch: the switch then sees the new mode as the old
  one and leaves the banked registers of the mode it came from in place.\<close>

lemma switch_same_mode:
  assumes "valid_mode (psr_mode (CPSR c))"
  shows "R (switch_banks (ucast (psr_mode (CPSR c))) c) = R c"
proof
  fix n
  obtain b where b: "bank_of (psr_mode (CPSR c)) = Some b" using assms by (auto simp: valid_mode_def)
  have "R (switch_banks (ucast (psr_mode (CPSR c))) c) n =
      arch_reg (switch_banks (ucast (psr_mode (CPSR c))) c) b n"
    using R_arch cur_bank_switch [OF b] by metis
  also have "\<dots> = R c n"
    using b by (simp add: arch_reg_switch [OF assms assms] R_arch [of c] cur_bank_def)
  finally show "R (switch_banks (ucast (psr_mode (CPSR c))) c) n = R c n" .
qed

lemma return_mode_R:
  assumes "valid_mode (psr_mode (CPSR (ARMPROC p s)))" "bank_of (psr_mode (SPSR (ARMPROC p s))) = Some b"
  shows "R (ARMPROC p (return_mode p s)) n = arch_reg (ARMPROC p s) b n"
proof -
  let ?c = "ARMPROC p s"
  have v: "valid_mode (psr_mode (SPSR ?c))" using assms(2) by (simp add: valid_mode_def)
  have "R (ARMPROC p (return_mode p s)) n = R (switch_banks (ucast (psr_mode (SPSR ?c))) ?c) n"
    by (simp add: return_mode_def Let_def cpu_of_switch)
  also have "\<dots> = arch_reg (switch_banks (ucast (psr_mode (SPSR ?c))) ?c) b n"
    using R_arch cur_bank_switch [OF assms(2)] by metis
  finally show ?thesis by (simp add: arch_reg_switch [OF assms(1) v])
qed

lemma load_pc_masked_simps [simp]:
  "CPSR (ARMPROC p (load_pc_masked p v s)) = CPSR (ARMPROC p s)"
  "SPSR (ARMPROC p (load_pc_masked p v s)) = SPSR (ARMPROC p s)"
  "n \<noteq> 15 \<Longrightarrow> R (ARMPROC p (load_pc_masked p v s)) n = R (ARMPROC p s) n"
  "n \<noteq> 15 \<Longrightarrow> arch_reg (ARMPROC p (load_pc_masked p v s)) b n = arch_reg (ARMPROC p s) b n"
  by (simp_all add: load_pc_masked_def)

lemma next_is_pc_simps [simp]:
  "R (ARMPROC p (next_is_pc p s)) = R (ARMPROC p s)"
  "CPSR (ARMPROC p (next_is_pc p s)) = CPSR (ARMPROC p s)"
  "SPSR (ARMPROC p (next_is_pc p s)) = SPSR (ARMPROC p s)"
  by (simp_all add: next_is_pc_def)

lemma arch_reg_setR_other:
  assumes "n \<noteq> r"
  shows "arch_reg (setR r v c) b n = arch_reg c b n"
proof -
  have "stored13 (c\<lparr>R := f\<rparr>) b = stored13 c b" "stored14 (c\<lparr>R := f\<rparr>) b = stored14 c b" for f
    by (cases b; simp)+
  then show ?thesis
    using assms by (auto simp add: arch_reg_def setR_def cur_bank_def stored_fiq_def)
qed

lemma get_regs_SPSR [simp]: "SPSR (get_regs xs f c) = SPSR c"
  by (induction xs f c rule: get_regs.induct) simp_all

lemma get_regs_unlisted:
  "n \<notin> of_nat ` snd ` set xs \<Longrightarrow> arch_reg (get_regs xs f c) b n = arch_reg c b n"
  by (induction xs f c rule: get_regs.induct) (simp_all add: arch_reg_setR_other)

lemma ram_walk_mmu: "mmu t = mmu s \<Longrightarrow> ram_walk p xs t = ram_walk p xs s"
  by (simp add: ram_walk_def ram_addr_def in_dtcm_def)

lemma return_mmu [simp]:
  "mmu (load_pc_masked p v s) = mmu s" "mmu (copy_SPSR p s) = mmu s" "mmu (next_is_pc p s) = mmu s"
  by (simp_all add: load_pc_masked_def copy_SPSR_def next_is_pc_def changeCPSR_def NDS_Reschedule_def)

lemma list_with_15:
  assumes "bit i 15"
  shows "reg_list i = filter (bit i) [0..<15] @ [15]"
    and "rev (reg_list i) = 15 # filter (bit i) (rev [0..<15])"
proof -
  have "[0..<16] = [0..<15] @ [15 :: nat]" by (simp add: upt_rec)
  then show e: "reg_list i = filter (bit i) [0..<15] @ [15]"
    using assms by (simp add: reg_list_def del: upt_Suc)
  show "rev (reg_list i) = 15 # filter (bit i) (rev [0..<15])"
    unfolding e by (simp only: rev_filter [symmetric] rev_append) simp
qed

lemma walk_unlisted:
  assumes "n \<notin> of_nat ` set (reg_list i)" "set rs \<subseteq> {0..<15}"
  shows "n \<notin> of_nat ` snd ` set (walk d a (filter (bit i) rs))"
proof -
  have "snd ` set (walk d a (filter (bit i) rs)) = set (filter (bit i) rs)"
    by (metis list.set_map walk_snd(1))
  then show ?thesis using assms by (auto simp: reg_list_def)
qed

lemma unlisted_not_pc:
  assumes "bit i 15" "n \<notin> of_nat ` set (reg_list i)"
  shows "n \<noteq> 15"
proof -
  have "of_nat 15 \<in> of_nat ` set (reg_list i)" using assms(1) by (simp only: bit_15_list imageI)
  with assms(2) show ?thesis by auto
qed

lemma bank_after_same_mode:
  assumes "valid_mode (psr_mode (SPSR (ARMPROC p s)))" "CPSR (ARMPROC p s) = SPSR (ARMPROC p s)"
  shows "R (ARMPROC p (return_mode p s)) = R (ARMPROC p s)"
  using assms switch_same_mode [of "ARMPROC p s"]
  by (simp add: return_mode_def Let_def cpu_of_switch)

lemma ldmdb2_return:
  assumes "valid_mode (psr_mode (SPSR (ARMPROC p s)))" "bit i 15" "n \<notin> of_nat ` set (reg_list i)"
    and "ram_walk p (block DB i (reg p s (REG_POS i 16))) s"
  shows "reg p (snd (OP_LDMDB2 B p i s)) n = reg p s n"
proof -
  let ?a = "reg p s (REG_POS i 16) - 4" and ?rs = "rev [0..<15 :: nat]"
  have "ram_walk p (rev (block DB i (reg p s (REG_POS i 16)))) s" using assms(4) by simp
  then have w: "ram_addr p ?a s" "ram_walk p (walk (- 4) (?a - 4) (filter (bit i) ?rs)) s"
    by (simp_all add: rev_block list_with_15(2) [OF assms(2)] algebra_simps del: upt_Suc)
  define s1 where "s1 = next_is_pc p (copy_SPSR p (load_pc_masked p (load32 B p ?a s) s))"
  let ?xs = "walk (- 4) (?a - 4) (filter (bit i) ?rs)"
  have "mmu s1 = mmu s" by (simp add: s1_def)
  from w(2) [folded ram_walk_mmu [OF this]] obtain k where fold: "fold (load_step B p i (- 4) 0) ?rs (?a, 0 + cycles_read p ?a, s1) =
      (?a + - 4 * of_nat (length (filter (bit i) ?rs)), k, upd_cpu p (get_regs ?xs (\<lambda>b. load32 B p b s1)) s1)"
    using load_fold [of p "- 4" 0 ?a i ?rs s1 B "0 + cycles_read p ?a"] by auto
  let ?s2 = "upd_cpu p (get_regs ?xs (\<lambda>b. load32 B p b s1)) s1"
  have c: "CPSR (ARMPROC p s1) = SPSR (ARMPROC p s1)" "SPSR (ARMPROC p s1) = SPSR (ARMPROC p s)"
    by (simp_all add: s1_def) (simp_all add: copy_SPSR_def)
  have n: "n \<noteq> 15" "n \<notin> of_nat ` snd ` set ?xs"
    using unlisted_not_pc [OF assms(2,3)] walk_unlisted [OF assms(3)] by (auto simp del: upt_Suc)
  have "snd (OP_LDMDB2 B p i s) = return_mode p ?s2"
    using assms(2) fold
    by (simp add: OP_LDMDB2_def Let_def READ32_load32 [OF w(1)] ldm_steps s1_def [symmetric] del: upt_Suc)
  moreover have "R (ARMPROC p (return_mode p ?s2)) = R (ARMPROC p ?s2)"
    using assms(1) c by (intro bank_after_same_mode) simp_all
  ultimately show ?thesis
    using n by (simp add: reg_def get_regs_other) (simp add: s1_def copy_SPSR_def)
qed

lemma ldmia2_return:
  assumes "valid_mode (psr_mode (CPSR (ARMPROC p s)))" "bank_of (psr_mode (SPSR (ARMPROC p s))) = Some b"
    and "bit i 15" "n \<notin> of_nat ` set (reg_list i)"
    and "ram_walk p (block IA i (reg p s (REG_POS i 16))) s"
  shows "reg p (snd (OP_LDMIA2 B p i s)) n = arch_reg (ARMPROC p s) b n"
proof -
  let ?a = "reg p s (REG_POS i 16)" and ?rs = "[0..<15 :: nat]"
  let ?xs = "walk 4 ?a (filter (bit i) ?rs)" and ?e = "?a + 4 * of_nat (length (filter (bit i) ?rs))"
  have w: "ram_walk p ?xs s" "ram_addr p ?e s"
    using assms(5) by (simp_all add: block_def list_with_15 [OF assms(3)] walk_append ram_walk_def del: upt_Suc)
  then obtain k where fold: "fold (load_step B p i 0 4) ?rs (?a, 0, s) =
      (?e, k, upd_cpu p (get_regs ?xs (\<lambda>b. load32 B p b s)) s)"
    using load_fold [of p 0 4 ?a i ?rs s B 0] by (auto simp del: upt_Suc)
  let ?s1 = "upd_cpu p (get_regs ?xs (\<lambda>b. load32 B p b s)) s"
  have n: "n \<noteq> 15" "n \<notin> of_nat ` snd ` set ?xs"
    using unlisted_not_pc [OF assms(3,4)] walk_unlisted [OF assms(4)] by (simp_all del: upt_Suc)
  have e: "ram_addr p ?e ?s1" using w(2) by (simp del: upt_Suc)
  have "snd (OP_LDMIA2 B p i s) = next_is_pc p (return_mode p (load_pc_masked p (load32 B p ?e ?s1) ?s1))"
    using assms(3) fold
    by (simp add: OP_LDMIA2_def Let_def READ32_load32 [OF e] ldm_steps del: upt_Suc)
  then show ?thesis
    using assms(1,2) n
    by (simp add: reg_def return_mode_R [of p "load_pc_masked p _ _"] get_regs_unlisted del: upt_Suc)
qed

text \<open>C30: Returning from an exception with LDMDB ^ (the program counter in the list, no
  write-back, between valid modes, the words in RAM) leaves every register outside the list,
  banked ones included, as it was in the exception's mode, where LDMIA ^ with the same list
  leaves those of the mode returned to: OP_LDMDB2 copies SPSR to CPSR before it asks for the
  mode switch, which then sees no change of mode.\<close>

theorem ldmdb_return_keeps_wrong_bank:
  fixes s :: "'io nds"
  assumes "valid_mode (psr_mode (CPSR (ARMPROC p s)))" "bank_of (psr_mode (SPSR (ARMPROC p s))) = Some b"
    and "bit i 15" "n \<notin> of_nat ` set (reg_list i)"
    and "ram_walk p (block DB i (reg p s (REG_POS i 16))) s"
    and "ram_walk p (block IA i (reg p s (REG_POS i 16))) s"
  shows "reg p (snd (OP_LDMDB2 B p i s)) n = reg p s n \<and>
    reg p (snd (OP_LDMIA2 B p i s)) n = arch_reg (ARMPROC p s) b n"
  using ldmdb2_return [OF _ assms(3,4,5), of B] ldmia2_return [OF assms(1-4,6), of B] assms(2)
  by (simp add: valid_mode_def)

theorem ldmdb_return_keeps_wrong_bank_witness:
  "let s = sample_nds\<lparr>NDS_ARM9 := sample_cpu\<lparr>CPSR := psr_of_val 0x12, SPSR := psr_of_val 0x10,
       R13_usr := 0x02FFF000\<rparr>\<rparr>
   in reg 0 (snd (OP_LDMDB2 null_bus 0 0xE9508010 s)) 13 = 0x02001D00 \<and>
      reg 0 (snd (OP_LDMIA2 null_bus 0 0xE9508010 s)) 13 = 0x02FFF000"
proof -
  let ?c = "sample_cpu\<lparr>CPSR := psr_of_val 0x12, SPSR := psr_of_val 0x10, R13_usr := 0x02FFF000\<rparr>"
  let ?s = "sample_nds\<lparr>NDS_ARM9 := ?c\<rparr>"
  have c: "ARMPROC 0 ?s = ?c" by (simp add: ARMPROC_def)
  have m: "psr_mode (psr_of_val 0x12) = IRQ" "psr_mode (psr_of_val 0x10) = USR"
    by (simp_all add: psr_of_val_def IRQ_def USR_def)
  have l: "reg_list 0xE9508010 = [4, 15]" "bit (0xE9508010 :: u32) 15" by (simp_all add: reg_list_def upt_rec)
  have n: "REG_POS 0xE9508010 16 = 0" by (simp add: REG_POS_def)
  have r: "reg 0 ?s 0 = 0x02001000" "reg 0 ?s 13 = 0x02001D00" by (simp_all add: reg_def c)
  have mm: "mmu ?s = zero_mmu" by (simp add: sample_nds_def zero_nds_def)
  have "masks_ok zero_mmu" by (simp add: masks_ok_iff) (simp add: zero_mmu_def)
  then have "ram_addr 0 0x02001000 ?s" "ram_addr 0 0x02001004 ?s" "ram_addr 0 0x02000FFC ?s" "ram_addr 0 0x02000FF8 ?s"
    by (simp_all add: ram_addr_def mm in_main_def)
  then have a: "ram_walk 0 (block DB 0xE9508010 0x02001000) ?s" "ram_walk 0 (block IA 0xE9508010 0x02001000) ?s"
    by (simp_all add: block_def l)
  have u: "arch_reg ?c Busr 13 = 0x02FFF000"
    by (simp add: arch_reg_def cur_bank_def m)
  show ?thesis
    using ldmdb_return_keeps_wrong_bank [of 0 ?s Busr "0xE9508010" 13 null_bus] c m l n r a u
    by (simp add: Let_def)
qed

end
