(* ===== verification/Arm_Data.thy ===== *)
theory Arm_Data
  imports Arm_Shift
begin

text \<open>
  The ARM data-processing instructions: src/source/arm_instructions.cpp, lines 262 to 2298.
  The source has one function per operation, shifter form and S bit; each is a shifter macro
  followed by an operation macro with its cycle counts.  The operation macros are the
  definitions with suffix \<open>_macro\<close> (the C macros take \<open>shift_op\<close>, \<open>c\<close>,
  \<open>v\<close> and \<open>i\<close> from the expansion's scope; here they are arguments), and the
  functions \<open>OP_AND_LSL_IMM\<close>, \<open>OP_AND_LSL_REG\<close> and so on are the equations of
  \<open>OP_AND_fn\<close>, one per form.  An S operation with destination R15 restores CPSR from SPSR and
  may switch the register bank, so the S operations act on the machine.
\<close>

text \<open>The block every S macro runs when the destination is R15.\<close>

definition restore_CPSR :: "nat \<Rightarrow> 'io nds \<Rightarrow> 'io nds" where
  "restore_CPSR p s =
     (let SPSR' = SPSR (ARMPROC p s);
          s = snd (armcpu_switchMode p (ucast (psr_mode SPSR')) s);
          s = upd_cpu p (\<lambda>c. c\<lparr>CPSR := SPSR'\<rparr>) s;
          s = changeCPSR s;
          s = upd_cpu p (\<lambda>c. setR 15 (R c 15 AND (0xFFFFFFFC OR push_bit 1 (of_bool (psr_T (CPSR c))))) c) s
      in upd_cpu p (\<lambda>c. c\<lparr>next_instruction := R c 15\<rparr>) s)"

section \<open>AND\<close>

definition OP_AND_macro :: "u32 \<Rightarrow> u32 \<Rightarrow> u32 \<Rightarrow> u32 \<Rightarrow> armcpu \<Rightarrow> u32 \<times> armcpu" where
  "OP_AND_macro a b shift_op i c =
     (let c = setR (REG_POS i 12) (R c (REG_POS i 16) AND shift_op) c in
      if REG_POS i 12 = 15 then (b, c\<lparr>next_instruction := R c 15\<rparr>) else (a, c))"

primrec OP_AND_fn :: "operand2 \<Rightarrow> u32 \<Rightarrow> armcpu \<Rightarrow> u32 \<times> armcpu" where
  "OP_AND_fn Lsl_imm i c = OP_AND_macro 1 3 (LSL_IMM i c) i c"
| "OP_AND_fn Lsl_reg i c = OP_AND_macro 2 4 (LSL_REG i c) i c"
| "OP_AND_fn Lsr_imm i c = OP_AND_macro 1 3 (LSR_IMM i c) i c"
| "OP_AND_fn Lsr_reg i c = OP_AND_macro 2 4 (LSR_REG i c) i c"
| "OP_AND_fn Asr_imm i c = OP_AND_macro 1 3 (ASR_IMM i c) i c"
| "OP_AND_fn Asr_reg i c = OP_AND_macro 2 4 (ASR_REG i c) i c"
| "OP_AND_fn Ror_imm i c = OP_AND_macro 1 3 (ROR_IMM i c) i c"
| "OP_AND_fn Ror_reg i c = OP_AND_macro 2 4 (ROR_REG i c) i c"
| "OP_AND_fn Imm_val i c = OP_AND_macro 1 3 (IMM_VALUE i c) i c"

definition OP_ANDS_macro :: "u32 \<Rightarrow> u32 \<Rightarrow> u32 \<times> u32 \<Rightarrow> u32 \<Rightarrow> nat \<Rightarrow> 'io nds \<Rightarrow> u32 \<times> 'io nds" where
  "OP_ANDS_macro a b op i p s =
     (let (shift_op, cy) = op;
          s = upd_cpu p (\<lambda>c. setR (REG_POS i 12) (R c (REG_POS i 16) AND shift_op) c) s
      in if REG_POS i 12 = 15 then (b, restore_CPSR p s)
         else
           (let s = upd_cpu p (setC (u1 cy)) s;
                s = upd_cpu p (NZ (REG_POS i 12)) s
            in (a, s)))"

primrec OP_AND_S_fn :: "operand2 \<Rightarrow> u32 \<Rightarrow> nat \<Rightarrow> 'io nds \<Rightarrow> u32 \<times> 'io nds" where
  "OP_AND_S_fn Lsl_imm i p s = OP_ANDS_macro 1 3 (S_LSL_IMM i (ARMPROC p s)) i p s"
| "OP_AND_S_fn Lsl_reg i p s = OP_ANDS_macro 2 4 (S_LSL_REG i (ARMPROC p s)) i p s"
| "OP_AND_S_fn Lsr_imm i p s = OP_ANDS_macro 1 3 (S_LSR_IMM i (ARMPROC p s)) i p s"
| "OP_AND_S_fn Lsr_reg i p s = OP_ANDS_macro 2 4 (S_LSR_REG i (ARMPROC p s)) i p s"
| "OP_AND_S_fn Asr_imm i p s = OP_ANDS_macro 1 3 (S_ASR_IMM i (ARMPROC p s)) i p s"
| "OP_AND_S_fn Asr_reg i p s = OP_ANDS_macro 2 4 (S_ASR_REG i (ARMPROC p s)) i p s"
| "OP_AND_S_fn Ror_imm i p s = OP_ANDS_macro 1 3 (S_ROR_IMM i (ARMPROC p s)) i p s"
| "OP_AND_S_fn Ror_reg i p s = OP_ANDS_macro 2 4 (S_ROR_REG i (ARMPROC p s)) i p s"
| "OP_AND_S_fn Imm_val i p s = OP_ANDS_macro 1 3 (S_IMM_VALUE i (ARMPROC p s)) i p s"

section \<open>EOR\<close>

definition OP_EOR_macro :: "u32 \<Rightarrow> u32 \<Rightarrow> u32 \<Rightarrow> u32 \<Rightarrow> armcpu \<Rightarrow> u32 \<times> armcpu" where
  "OP_EOR_macro a b shift_op i c =
     (let c = setR (REG_POS i 12) (R c (REG_POS i 16) XOR shift_op) c in
      if REG_POS i 12 = 15 then (b, c\<lparr>next_instruction := R c 15\<rparr>) else (a, c))"

primrec OP_EOR_fn :: "operand2 \<Rightarrow> u32 \<Rightarrow> armcpu \<Rightarrow> u32 \<times> armcpu" where
  "OP_EOR_fn Lsl_imm i c = OP_EOR_macro 1 3 (LSL_IMM i c) i c"
| "OP_EOR_fn Lsl_reg i c = OP_EOR_macro 2 4 (LSL_REG i c) i c"
| "OP_EOR_fn Lsr_imm i c = OP_EOR_macro 1 3 (LSR_IMM i c) i c"
| "OP_EOR_fn Lsr_reg i c = OP_EOR_macro 2 4 (LSR_REG i c) i c"
| "OP_EOR_fn Asr_imm i c = OP_EOR_macro 1 3 (ASR_IMM i c) i c"
| "OP_EOR_fn Asr_reg i c = OP_EOR_macro 2 4 (ASR_REG i c) i c"
| "OP_EOR_fn Ror_imm i c = OP_EOR_macro 1 3 (ROR_IMM i c) i c"
| "OP_EOR_fn Ror_reg i c = OP_EOR_macro 2 4 (ROR_REG i c) i c"
| "OP_EOR_fn Imm_val i c = OP_EOR_macro 1 3 (IMM_VALUE i c) i c"

definition OP_EORS_macro :: "u32 \<Rightarrow> u32 \<Rightarrow> u32 \<times> u32 \<Rightarrow> u32 \<Rightarrow> nat \<Rightarrow> 'io nds \<Rightarrow> u32 \<times> 'io nds" where
  "OP_EORS_macro a b op i p s =
     (let (shift_op, cy) = op;
          s = upd_cpu p (\<lambda>c. setR (REG_POS i 12) (R c (REG_POS i 16) XOR shift_op) c) s
      in if REG_POS i 12 = 15 then (b, restore_CPSR p s)
         else
           (let s = upd_cpu p (setC (u1 cy)) s;
                s = upd_cpu p (NZ (REG_POS i 12)) s
            in (a, s)))"

primrec OP_EOR_S_fn :: "operand2 \<Rightarrow> u32 \<Rightarrow> nat \<Rightarrow> 'io nds \<Rightarrow> u32 \<times> 'io nds" where
  "OP_EOR_S_fn Lsl_imm i p s = OP_EORS_macro 1 3 (S_LSL_IMM i (ARMPROC p s)) i p s"
| "OP_EOR_S_fn Lsl_reg i p s = OP_EORS_macro 2 4 (S_LSL_REG i (ARMPROC p s)) i p s"
| "OP_EOR_S_fn Lsr_imm i p s = OP_EORS_macro 1 3 (S_LSR_IMM i (ARMPROC p s)) i p s"
| "OP_EOR_S_fn Lsr_reg i p s = OP_EORS_macro 2 4 (S_LSR_REG i (ARMPROC p s)) i p s"
| "OP_EOR_S_fn Asr_imm i p s = OP_EORS_macro 1 3 (S_ASR_IMM i (ARMPROC p s)) i p s"
| "OP_EOR_S_fn Asr_reg i p s = OP_EORS_macro 2 4 (S_ASR_REG i (ARMPROC p s)) i p s"
| "OP_EOR_S_fn Ror_imm i p s = OP_EORS_macro 1 3 (S_ROR_IMM i (ARMPROC p s)) i p s"
| "OP_EOR_S_fn Ror_reg i p s = OP_EORS_macro 2 4 (S_ROR_REG i (ARMPROC p s)) i p s"
| "OP_EOR_S_fn Imm_val i p s = OP_EORS_macro 1 3 (S_IMM_VALUE i (ARMPROC p s)) i p s"

section \<open>SUB\<close>

definition OP_SUB_macro :: "u32 \<Rightarrow> u32 \<Rightarrow> u32 \<Rightarrow> u32 \<Rightarrow> armcpu \<Rightarrow> u32 \<times> armcpu" where
  "OP_SUB_macro a b shift_op i c =
     (let c = setR (REG_POS i 12) (R c (REG_POS i 16) - shift_op) c in
      if REG_POS i 12 = 15 then (b, c\<lparr>next_instruction := R c 15\<rparr>) else (a, c))"

primrec OP_SUB_fn :: "operand2 \<Rightarrow> u32 \<Rightarrow> armcpu \<Rightarrow> u32 \<times> armcpu" where
  "OP_SUB_fn Lsl_imm i c = OP_SUB_macro 1 3 (LSL_IMM i c) i c"
| "OP_SUB_fn Lsl_reg i c = OP_SUB_macro 2 4 (LSL_REG i c) i c"
| "OP_SUB_fn Lsr_imm i c = OP_SUB_macro 1 3 (LSR_IMM i c) i c"
| "OP_SUB_fn Lsr_reg i c = OP_SUB_macro 2 4 (LSR_REG i c) i c"
| "OP_SUB_fn Asr_imm i c = OP_SUB_macro 1 3 (ASR_IMM i c) i c"
| "OP_SUB_fn Asr_reg i c = OP_SUB_macro 2 4 (ASR_REG i c) i c"
| "OP_SUB_fn Ror_imm i c = OP_SUB_macro 1 3 (ROR_IMM i c) i c"
| "OP_SUB_fn Ror_reg i c = OP_SUB_macro 2 4 (ROR_REG i c) i c"
| "OP_SUB_fn Imm_val i c = OP_SUB_macro 1 3 (IMM_VALUE i c) i c"

definition OP_SUBS_macro :: "u32 \<Rightarrow> u32 \<Rightarrow> u32 \<Rightarrow> u32 \<Rightarrow> u32 \<Rightarrow> nat \<Rightarrow> 'io nds \<Rightarrow> u32 \<times> 'io nds" where
  "OP_SUBS_macro a b v shift_op i p s =
     (let s = upd_cpu p (setR (REG_POS i 12) (v - shift_op)) s in
      if REG_POS i 12 = 15 then (b, restore_CPSR p s)
      else
        (let s = upd_cpu p (NZ (REG_POS i 12)) s;
             s = upd_cpu p (setC (\<not> BorrowFrom v shift_op)) s;
             s = upd_cpu p (\<lambda>c. setV (OverflowFromSUB (R c (REG_POS i 12)) v shift_op) c) s
         in (a, s)))"

primrec OP_SUB_S_fn :: "operand2 \<Rightarrow> u32 \<Rightarrow> nat \<Rightarrow> 'io nds \<Rightarrow> u32 \<times> 'io nds" where
  "OP_SUB_S_fn Lsl_imm i p s = OP_SUBS_macro 1 3 (R (ARMPROC p s) (REG_POS i 16)) (LSL_IMM i (ARMPROC p s)) i p s"
| "OP_SUB_S_fn Lsl_reg i p s = OP_SUBS_macro 2 4 (R (ARMPROC p s) (REG_POS i 16)) (LSL_REG i (ARMPROC p s)) i p s"
| "OP_SUB_S_fn Lsr_imm i p s = OP_SUBS_macro 1 3 (R (ARMPROC p s) (REG_POS i 16)) (LSR_IMM i (ARMPROC p s)) i p s"
| "OP_SUB_S_fn Lsr_reg i p s = OP_SUBS_macro 2 4 (R (ARMPROC p s) (REG_POS i 16)) (LSR_REG i (ARMPROC p s)) i p s"
| "OP_SUB_S_fn Asr_imm i p s = OP_SUBS_macro 1 3 (R (ARMPROC p s) (REG_POS i 16)) (ASR_IMM i (ARMPROC p s)) i p s"
| "OP_SUB_S_fn Asr_reg i p s = OP_SUBS_macro 2 4 (R (ARMPROC p s) (REG_POS i 16)) (ASR_REG i (ARMPROC p s)) i p s"
| "OP_SUB_S_fn Ror_imm i p s = OP_SUBS_macro 1 3 (R (ARMPROC p s) (REG_POS i 16)) (ROR_IMM i (ARMPROC p s)) i p s"
| "OP_SUB_S_fn Ror_reg i p s = OP_SUBS_macro 2 4 (R (ARMPROC p s) (REG_POS i 16)) (ROR_REG i (ARMPROC p s)) i p s"
| "OP_SUB_S_fn Imm_val i p s = OP_SUBS_macro 1 3 (R (ARMPROC p s) (REG_POS i 16)) (IMM_VALUE i (ARMPROC p s)) i p s"

section \<open>RSB\<close>

definition OP_RSB_macro :: "u32 \<Rightarrow> u32 \<Rightarrow> u32 \<Rightarrow> u32 \<Rightarrow> armcpu \<Rightarrow> u32 \<times> armcpu" where
  "OP_RSB_macro a b shift_op i c =
     (let c = setR (REG_POS i 12) (shift_op - R c (REG_POS i 16)) c in
      if REG_POS i 12 = 15 then (b, c\<lparr>next_instruction := R c 15\<rparr>) else (a, c))"

primrec OP_RSB_fn :: "operand2 \<Rightarrow> u32 \<Rightarrow> armcpu \<Rightarrow> u32 \<times> armcpu" where
  "OP_RSB_fn Lsl_imm i c = OP_RSB_macro 1 3 (LSL_IMM i c) i c"
| "OP_RSB_fn Lsl_reg i c = OP_RSB_macro 2 4 (LSL_REG i c) i c"
| "OP_RSB_fn Lsr_imm i c = OP_RSB_macro 1 3 (LSR_IMM i c) i c"
| "OP_RSB_fn Lsr_reg i c = OP_RSB_macro 2 4 (LSR_REG i c) i c"
| "OP_RSB_fn Asr_imm i c = OP_RSB_macro 1 3 (ASR_IMM i c) i c"
| "OP_RSB_fn Asr_reg i c = OP_RSB_macro 2 4 (ASR_REG i c) i c"
| "OP_RSB_fn Ror_imm i c = OP_RSB_macro 1 3 (ROR_IMM i c) i c"
| "OP_RSB_fn Ror_reg i c = OP_RSB_macro 2 4 (ROR_REG i c) i c"
| "OP_RSB_fn Imm_val i c = OP_RSB_macro 1 3 (IMM_VALUE i c) i c"

definition OP_RSBS_macro :: "u32 \<Rightarrow> u32 \<Rightarrow> u32 \<Rightarrow> u32 \<Rightarrow> u32 \<Rightarrow> nat \<Rightarrow> 'io nds \<Rightarrow> u32 \<times> 'io nds" where
  "OP_RSBS_macro a b v shift_op i p s =
     (let s = upd_cpu p (setR (REG_POS i 12) (shift_op - v)) s in
      if REG_POS i 12 = 15 then (b, restore_CPSR p s)
      else
        (let s = upd_cpu p (NZ (REG_POS i 12)) s;
             s = upd_cpu p (setC (\<not> BorrowFrom shift_op v)) s;
             s = upd_cpu p (\<lambda>c. setV (OverflowFromSUB (R c (REG_POS i 12)) shift_op v) c) s
         in (a, s)))"

primrec OP_RSB_S_fn :: "operand2 \<Rightarrow> u32 \<Rightarrow> nat \<Rightarrow> 'io nds \<Rightarrow> u32 \<times> 'io nds" where
  "OP_RSB_S_fn Lsl_imm i p s = OP_RSBS_macro 1 3 (R (ARMPROC p s) (REG_POS i 16)) (LSL_IMM i (ARMPROC p s)) i p s"
| "OP_RSB_S_fn Lsl_reg i p s = OP_RSBS_macro 2 4 (R (ARMPROC p s) (REG_POS i 16)) (LSL_REG i (ARMPROC p s)) i p s"
| "OP_RSB_S_fn Lsr_imm i p s = OP_RSBS_macro 1 3 (R (ARMPROC p s) (REG_POS i 16)) (LSR_IMM i (ARMPROC p s)) i p s"
| "OP_RSB_S_fn Lsr_reg i p s = OP_RSBS_macro 2 4 (R (ARMPROC p s) (REG_POS i 16)) (LSR_REG i (ARMPROC p s)) i p s"
| "OP_RSB_S_fn Asr_imm i p s = OP_RSBS_macro 1 3 (R (ARMPROC p s) (REG_POS i 16)) (ASR_IMM i (ARMPROC p s)) i p s"
| "OP_RSB_S_fn Asr_reg i p s = OP_RSBS_macro 2 4 (R (ARMPROC p s) (REG_POS i 16)) (ASR_REG i (ARMPROC p s)) i p s"
| "OP_RSB_S_fn Ror_imm i p s = OP_RSBS_macro 1 3 (R (ARMPROC p s) (REG_POS i 16)) (ROR_IMM i (ARMPROC p s)) i p s"
| "OP_RSB_S_fn Ror_reg i p s = OP_RSBS_macro 2 4 (R (ARMPROC p s) (REG_POS i 16)) (ROR_REG i (ARMPROC p s)) i p s"
| "OP_RSB_S_fn Imm_val i p s = OP_RSBS_macro 1 3 (R (ARMPROC p s) (REG_POS i 16)) (IMM_VALUE i (ARMPROC p s)) i p s"

section \<open>ADD\<close>

definition OP_ADD_macro :: "u32 \<Rightarrow> u32 \<Rightarrow> u32 \<Rightarrow> u32 \<Rightarrow> armcpu \<Rightarrow> u32 \<times> armcpu" where
  "OP_ADD_macro a b shift_op i c =
     (let c = setR (REG_POS i 12) (R c (REG_POS i 16) + shift_op) c in
      if REG_POS i 12 = 15 then (b, c\<lparr>next_instruction := R c 15\<rparr>) else (a, c))"

primrec OP_ADD_fn :: "operand2 \<Rightarrow> u32 \<Rightarrow> armcpu \<Rightarrow> u32 \<times> armcpu" where
  "OP_ADD_fn Lsl_imm i c = OP_ADD_macro 1 3 (LSL_IMM i c) i c"
| "OP_ADD_fn Lsl_reg i c = OP_ADD_macro 2 4 (LSL_REG i c) i c"
| "OP_ADD_fn Lsr_imm i c = OP_ADD_macro 1 3 (LSR_IMM i c) i c"
| "OP_ADD_fn Lsr_reg i c = OP_ADD_macro 2 4 (LSR_REG i c) i c"
| "OP_ADD_fn Asr_imm i c = OP_ADD_macro 1 3 (ASR_IMM i c) i c"
| "OP_ADD_fn Asr_reg i c = OP_ADD_macro 2 4 (ASR_REG i c) i c"
| "OP_ADD_fn Ror_imm i c = OP_ADD_macro 1 3 (ROR_IMM i c) i c"
| "OP_ADD_fn Ror_reg i c = OP_ADD_macro 2 4 (ROR_REG i c) i c"
| "OP_ADD_fn Imm_val i c = OP_ADD_macro 1 3 (IMM_VALUE i c) i c"

definition OP_ADDS_macro :: "u32 \<Rightarrow> u32 \<Rightarrow> u32 \<Rightarrow> u32 \<Rightarrow> u32 \<Rightarrow> nat \<Rightarrow> 'io nds \<Rightarrow> u32 \<times> 'io nds" where
  "OP_ADDS_macro a b v shift_op i p s =
     (let s = upd_cpu p (setR (REG_POS i 12) (v + shift_op)) s in
      if REG_POS i 12 = 15 then (b, restore_CPSR p s)
      else
        (let s = upd_cpu p (NZ (REG_POS i 12)) s;
             s = upd_cpu p (setC (CarryFrom v shift_op)) s;
             s = upd_cpu p (\<lambda>c. setV (OverflowFromADD (R c (REG_POS i 12)) v shift_op) c) s
         in (a, s)))"

primrec OP_ADD_S_fn :: "operand2 \<Rightarrow> u32 \<Rightarrow> nat \<Rightarrow> 'io nds \<Rightarrow> u32 \<times> 'io nds" where
  "OP_ADD_S_fn Lsl_imm i p s = OP_ADDS_macro 1 3 (R (ARMPROC p s) (REG_POS i 16)) (LSL_IMM i (ARMPROC p s)) i p s"
| "OP_ADD_S_fn Lsl_reg i p s = OP_ADDS_macro 2 4 (R (ARMPROC p s) (REG_POS i 16)) (LSL_REG i (ARMPROC p s)) i p s"
| "OP_ADD_S_fn Lsr_imm i p s = OP_ADDS_macro 1 3 (R (ARMPROC p s) (REG_POS i 16)) (LSR_IMM i (ARMPROC p s)) i p s"
| "OP_ADD_S_fn Lsr_reg i p s = OP_ADDS_macro 2 4 (R (ARMPROC p s) (REG_POS i 16)) (LSR_REG i (ARMPROC p s)) i p s"
| "OP_ADD_S_fn Asr_imm i p s = OP_ADDS_macro 1 3 (R (ARMPROC p s) (REG_POS i 16)) (ASR_IMM i (ARMPROC p s)) i p s"
| "OP_ADD_S_fn Asr_reg i p s = OP_ADDS_macro 2 4 (R (ARMPROC p s) (REG_POS i 16)) (ASR_REG i (ARMPROC p s)) i p s"
| "OP_ADD_S_fn Ror_imm i p s = OP_ADDS_macro 1 3 (R (ARMPROC p s) (REG_POS i 16)) (ROR_IMM i (ARMPROC p s)) i p s"
| "OP_ADD_S_fn Ror_reg i p s = OP_ADDS_macro 2 4 (R (ARMPROC p s) (REG_POS i 16)) (ROR_REG i (ARMPROC p s)) i p s"
| "OP_ADD_S_fn Imm_val i p s = OP_ADDS_macro 1 3 (R (ARMPROC p s) (REG_POS i 16)) (IMM_VALUE i (ARMPROC p s)) i p s"

section \<open>ADC\<close>

definition OP_ADC_macro :: "u32 \<Rightarrow> u32 \<Rightarrow> u32 \<Rightarrow> u32 \<Rightarrow> armcpu \<Rightarrow> u32 \<times> armcpu" where
  "OP_ADC_macro a b shift_op i c =
     (let c = setR (REG_POS i 12) (R c (REG_POS i 16) + shift_op + of_bool (psr_C (CPSR c))) c in
      if REG_POS i 12 = 15 then (b, c\<lparr>next_instruction := R c 15\<rparr>) else (a, c))"

primrec OP_ADC_fn :: "operand2 \<Rightarrow> u32 \<Rightarrow> armcpu \<Rightarrow> u32 \<times> armcpu" where
  "OP_ADC_fn Lsl_imm i c = OP_ADC_macro 1 3 (LSL_IMM i c) i c"
| "OP_ADC_fn Lsl_reg i c = OP_ADC_macro 2 4 (LSL_REG i c) i c"
| "OP_ADC_fn Lsr_imm i c = OP_ADC_macro 1 3 (LSR_IMM i c) i c"
| "OP_ADC_fn Lsr_reg i c = OP_ADC_macro 2 4 (LSR_REG i c) i c"
| "OP_ADC_fn Asr_imm i c = OP_ADC_macro 1 3 (ASR_IMM i c) i c"
| "OP_ADC_fn Asr_reg i c = OP_ADC_macro 2 4 (ASR_REG i c) i c"
| "OP_ADC_fn Ror_imm i c = OP_ADC_macro 1 3 (ROR_IMM i c) i c"
| "OP_ADC_fn Ror_reg i c = OP_ADC_macro 2 4 (ROR_REG i c) i c"
| "OP_ADC_fn Imm_val i c = OP_ADC_macro 1 3 (IMM_VALUE i c) i c"

definition OP_ADCS_macro :: "u32 \<Rightarrow> u32 \<Rightarrow> u32 \<Rightarrow> u32 \<Rightarrow> u32 \<Rightarrow> nat \<Rightarrow> 'io nds \<Rightarrow> u32 \<times> 'io nds" where
  "OP_ADCS_macro a b v shift_op i p s =
     (if REG_POS i 12 = 15 then
        (let s = upd_cpu p (\<lambda>c. setR (REG_POS i 12) (v + shift_op + of_bool (psr_C (CPSR c))) c) s
         in (b, restore_CPSR p s))
      else
        (let s = (if \<not> psr_C (CPSR (ARMPROC p s)) then
                    (let s = upd_cpu p (setR (REG_POS i 12) (v + shift_op)) s
                     in upd_cpu p (\<lambda>c. setC (R c (REG_POS i 12) < v) c) s)
                  else
                    (let s = upd_cpu p (setR (REG_POS i 12) (v + shift_op + 1)) s
                     in upd_cpu p (\<lambda>c. setC (R c (REG_POS i 12) \<le> v) c) s));
             s = upd_cpu p (NZ (REG_POS i 12)) s;
             s = upd_cpu p (\<lambda>c. setV (u1 (BIT31 ((v XOR shift_op XOR -1) AND (v XOR R c (REG_POS i 12))))) c) s
         in (a, s)))"

primrec OP_ADC_S_fn :: "operand2 \<Rightarrow> u32 \<Rightarrow> nat \<Rightarrow> 'io nds \<Rightarrow> u32 \<times> 'io nds" where
  "OP_ADC_S_fn Lsl_imm i p s = OP_ADCS_macro 1 3 (R (ARMPROC p s) (REG_POS i 16)) (LSL_IMM i (ARMPROC p s)) i p s"
| "OP_ADC_S_fn Lsl_reg i p s = OP_ADCS_macro 2 4 (R (ARMPROC p s) (REG_POS i 16)) (LSL_REG i (ARMPROC p s)) i p s"
| "OP_ADC_S_fn Lsr_imm i p s = OP_ADCS_macro 1 3 (R (ARMPROC p s) (REG_POS i 16)) (LSR_IMM i (ARMPROC p s)) i p s"
| "OP_ADC_S_fn Lsr_reg i p s = OP_ADCS_macro 2 4 (R (ARMPROC p s) (REG_POS i 16)) (LSR_REG i (ARMPROC p s)) i p s"
| "OP_ADC_S_fn Asr_imm i p s = OP_ADCS_macro 1 3 (R (ARMPROC p s) (REG_POS i 16)) (ASR_IMM i (ARMPROC p s)) i p s"
| "OP_ADC_S_fn Asr_reg i p s = OP_ADCS_macro 2 4 (R (ARMPROC p s) (REG_POS i 16)) (ASR_REG i (ARMPROC p s)) i p s"
| "OP_ADC_S_fn Ror_imm i p s = OP_ADCS_macro 1 3 (R (ARMPROC p s) (REG_POS i 16)) (ROR_IMM i (ARMPROC p s)) i p s"
| "OP_ADC_S_fn Ror_reg i p s = OP_ADCS_macro 2 4 (R (ARMPROC p s) (REG_POS i 16)) (ROR_REG i (ARMPROC p s)) i p s"
| "OP_ADC_S_fn Imm_val i p s = OP_ADCS_macro 1 3 (R (ARMPROC p s) (REG_POS i 16)) (IMM_VALUE i (ARMPROC p s)) i p s"

section \<open>SBC\<close>

definition OP_SBC_macro :: "u32 \<Rightarrow> u32 \<Rightarrow> u32 \<Rightarrow> u32 \<Rightarrow> armcpu \<Rightarrow> u32 \<times> armcpu" where
  "OP_SBC_macro a b shift_op i c =
     (let c = setR (REG_POS i 12) (R c (REG_POS i 16) - shift_op - of_bool (\<not> psr_C (CPSR c))) c in
      if REG_POS i 12 = 15 then (b, c\<lparr>next_instruction := R c 15\<rparr>) else (a, c))"

primrec OP_SBC_fn :: "operand2 \<Rightarrow> u32 \<Rightarrow> armcpu \<Rightarrow> u32 \<times> armcpu" where
  "OP_SBC_fn Lsl_imm i c = OP_SBC_macro 1 3 (LSL_IMM i c) i c"
| "OP_SBC_fn Lsl_reg i c = OP_SBC_macro 2 4 (LSL_REG i c) i c"
| "OP_SBC_fn Lsr_imm i c = OP_SBC_macro 1 3 (LSR_IMM i c) i c"
| "OP_SBC_fn Lsr_reg i c = OP_SBC_macro 2 4 (LSR_REG i c) i c"
| "OP_SBC_fn Asr_imm i c = OP_SBC_macro 1 3 (ASR_IMM i c) i c"
| "OP_SBC_fn Asr_reg i c = OP_SBC_macro 2 4 (ASR_REG i c) i c"
| "OP_SBC_fn Ror_imm i c = OP_SBC_macro 1 3 (ROR_IMM i c) i c"
| "OP_SBC_fn Ror_reg i c = OP_SBC_macro 2 4 (ROR_REG i c) i c"
| "OP_SBC_fn Imm_val i c = OP_SBC_macro 1 3 (IMM_VALUE i c) i c"

definition OP_SBCS_macro :: "u32 \<Rightarrow> u32 \<Rightarrow> u32 \<Rightarrow> u32 \<Rightarrow> u32 \<Rightarrow> nat \<Rightarrow> 'io nds \<Rightarrow> u32 \<times> 'io nds" where
  "OP_SBCS_macro a b v shift_op i p s =
     (if REG_POS i 12 = 15 then
        (let s = upd_cpu p (\<lambda>c. setR (REG_POS i 12) (v - shift_op - of_bool (\<not> psr_C (CPSR c))) c) s
         in (b, restore_CPSR p s))
      else
        (let s = (if \<not> psr_C (CPSR (ARMPROC p s)) then
                    (let s = upd_cpu p (setR (REG_POS i 12) (v - shift_op - 1)) s
                     in upd_cpu p (\<lambda>c. setC (v > shift_op) c) s)
                  else
                    (let s = upd_cpu p (setR (REG_POS i 12) (v - shift_op)) s
                     in upd_cpu p (\<lambda>c. setC (v \<ge> shift_op) c) s));
             s = upd_cpu p (NZ (REG_POS i 12)) s;
             s = upd_cpu p (\<lambda>c. setV (u1 (BIT31 ((v XOR shift_op) AND (v XOR R c (REG_POS i 12))))) c) s
         in (a, s)))"

primrec OP_SBC_S_fn :: "operand2 \<Rightarrow> u32 \<Rightarrow> nat \<Rightarrow> 'io nds \<Rightarrow> u32 \<times> 'io nds" where
  "OP_SBC_S_fn Lsl_imm i p s = OP_SBCS_macro 1 3 (R (ARMPROC p s) (REG_POS i 16)) (LSL_IMM i (ARMPROC p s)) i p s"
| "OP_SBC_S_fn Lsl_reg i p s = OP_SBCS_macro 2 4 (R (ARMPROC p s) (REG_POS i 16)) (LSL_REG i (ARMPROC p s)) i p s"
| "OP_SBC_S_fn Lsr_imm i p s = OP_SBCS_macro 1 3 (R (ARMPROC p s) (REG_POS i 16)) (LSR_IMM i (ARMPROC p s)) i p s"
| "OP_SBC_S_fn Lsr_reg i p s = OP_SBCS_macro 2 4 (R (ARMPROC p s) (REG_POS i 16)) (LSR_REG i (ARMPROC p s)) i p s"
| "OP_SBC_S_fn Asr_imm i p s = OP_SBCS_macro 1 3 (R (ARMPROC p s) (REG_POS i 16)) (ASR_IMM i (ARMPROC p s)) i p s"
| "OP_SBC_S_fn Asr_reg i p s = OP_SBCS_macro 2 4 (R (ARMPROC p s) (REG_POS i 16)) (ASR_REG i (ARMPROC p s)) i p s"
| "OP_SBC_S_fn Ror_imm i p s = OP_SBCS_macro 1 3 (R (ARMPROC p s) (REG_POS i 16)) (ROR_IMM i (ARMPROC p s)) i p s"
| "OP_SBC_S_fn Ror_reg i p s = OP_SBCS_macro 2 4 (R (ARMPROC p s) (REG_POS i 16)) (ROR_REG i (ARMPROC p s)) i p s"
| "OP_SBC_S_fn Imm_val i p s = OP_SBCS_macro 1 3 (R (ARMPROC p s) (REG_POS i 16)) (IMM_VALUE i (ARMPROC p s)) i p s"

section \<open>RSC\<close>

definition OP_RSC_macro :: "u32 \<Rightarrow> u32 \<Rightarrow> u32 \<Rightarrow> u32 \<Rightarrow> armcpu \<Rightarrow> u32 \<times> armcpu" where
  "OP_RSC_macro a b shift_op i c =
     (let c = setR (REG_POS i 12) (shift_op - R c (REG_POS i 16) + of_bool (psr_C (CPSR c)) - 1) c in
      if REG_POS i 12 = 15 then (b, c\<lparr>next_instruction := R c 15\<rparr>) else (a, c))"

primrec OP_RSC_fn :: "operand2 \<Rightarrow> u32 \<Rightarrow> armcpu \<Rightarrow> u32 \<times> armcpu" where
  "OP_RSC_fn Lsl_imm i c = OP_RSC_macro 1 3 (LSL_IMM i c) i c"
| "OP_RSC_fn Lsl_reg i c = OP_RSC_macro 2 4 (LSL_REG i c) i c"
| "OP_RSC_fn Lsr_imm i c = OP_RSC_macro 1 3 (LSR_IMM i c) i c"
| "OP_RSC_fn Lsr_reg i c = OP_RSC_macro 2 4 (LSR_REG i c) i c"
| "OP_RSC_fn Asr_imm i c = OP_RSC_macro 1 3 (ASR_IMM i c) i c"
| "OP_RSC_fn Asr_reg i c = OP_RSC_macro 2 4 (ASR_REG i c) i c"
| "OP_RSC_fn Ror_imm i c = OP_RSC_macro 1 3 (ROR_IMM i c) i c"
| "OP_RSC_fn Ror_reg i c = OP_RSC_macro 2 4 (ROR_REG i c) i c"
| "OP_RSC_fn Imm_val i c = OP_RSC_macro 1 3 (IMM_VALUE i c) i c"

definition OP_RSCS_macro :: "u32 \<Rightarrow> u32 \<Rightarrow> u32 \<Rightarrow> u32 \<Rightarrow> u32 \<Rightarrow> nat \<Rightarrow> 'io nds \<Rightarrow> u32 \<times> 'io nds" where
  "OP_RSCS_macro a b v shift_op i p s =
     (if REG_POS i 12 = 15 then
        (let s = upd_cpu p (\<lambda>c. setR (REG_POS i 12) (shift_op - v - of_bool (\<not> psr_C (CPSR c))) c) s
         in (b, restore_CPSR p s))
      else
        (let s = (if \<not> psr_C (CPSR (ARMPROC p s)) then
                    (let s = upd_cpu p (setR (REG_POS i 12) (shift_op - v - 1)) s
                     in upd_cpu p (\<lambda>c. setC (shift_op > v) c) s)
                  else
                    (let s = upd_cpu p (setR (REG_POS i 12) (shift_op - v)) s
                     in upd_cpu p (\<lambda>c. setC (shift_op \<ge> v) c) s));
             s = upd_cpu p (NZ (REG_POS i 12)) s;
             s = upd_cpu p (\<lambda>c. setV (u1 (BIT31 ((shift_op XOR v) AND (shift_op XOR R c (REG_POS i 12))))) c) s
         in (a, s)))"

primrec OP_RSC_S_fn :: "operand2 \<Rightarrow> u32 \<Rightarrow> nat \<Rightarrow> 'io nds \<Rightarrow> u32 \<times> 'io nds" where
  "OP_RSC_S_fn Lsl_imm i p s = OP_RSCS_macro 1 3 (R (ARMPROC p s) (REG_POS i 16)) (LSL_IMM i (ARMPROC p s)) i p s"
| "OP_RSC_S_fn Lsl_reg i p s = OP_RSCS_macro 2 4 (R (ARMPROC p s) (REG_POS i 16)) (LSL_REG i (ARMPROC p s)) i p s"
| "OP_RSC_S_fn Lsr_imm i p s = OP_RSCS_macro 1 3 (R (ARMPROC p s) (REG_POS i 16)) (LSR_IMM i (ARMPROC p s)) i p s"
| "OP_RSC_S_fn Lsr_reg i p s = OP_RSCS_macro 2 4 (R (ARMPROC p s) (REG_POS i 16)) (LSR_REG i (ARMPROC p s)) i p s"
| "OP_RSC_S_fn Asr_imm i p s = OP_RSCS_macro 1 3 (R (ARMPROC p s) (REG_POS i 16)) (ASR_IMM i (ARMPROC p s)) i p s"
| "OP_RSC_S_fn Asr_reg i p s = OP_RSCS_macro 2 4 (R (ARMPROC p s) (REG_POS i 16)) (ASR_REG i (ARMPROC p s)) i p s"
| "OP_RSC_S_fn Ror_imm i p s = OP_RSCS_macro 1 3 (R (ARMPROC p s) (REG_POS i 16)) (ROR_IMM i (ARMPROC p s)) i p s"
| "OP_RSC_S_fn Ror_reg i p s = OP_RSCS_macro 2 4 (R (ARMPROC p s) (REG_POS i 16)) (ROR_REG i (ARMPROC p s)) i p s"
| "OP_RSC_S_fn Imm_val i p s = OP_RSCS_macro 1 3 (R (ARMPROC p s) (REG_POS i 16)) (IMM_VALUE i (ARMPROC p s)) i p s"

section \<open>TST\<close>

definition OP_TST_macro :: "u32 \<Rightarrow> u32 \<times> u32 \<Rightarrow> u32 \<Rightarrow> armcpu \<Rightarrow> u32 \<times> armcpu" where
  "OP_TST_macro a op i c =
     (let (shift_op, cy) = op;
          tmp = R c (REG_POS i 16) AND shift_op;
          c = setC (u1 cy) c;
          c = NZ_val tmp c
      in (a, c))"

primrec OP_TST_fn :: "operand2 \<Rightarrow> u32 \<Rightarrow> armcpu \<Rightarrow> u32 \<times> armcpu" where
  "OP_TST_fn Lsl_imm i c = OP_TST_macro 1 (S_LSL_IMM i c) i c"
| "OP_TST_fn Lsl_reg i c = OP_TST_macro 2 (S_LSL_REG i c) i c"
| "OP_TST_fn Lsr_imm i c = OP_TST_macro 1 (S_LSR_IMM i c) i c"
| "OP_TST_fn Lsr_reg i c = OP_TST_macro 2 (S_LSR_REG i c) i c"
| "OP_TST_fn Asr_imm i c = OP_TST_macro 1 (S_ASR_IMM i c) i c"
| "OP_TST_fn Asr_reg i c = OP_TST_macro 2 (S_ASR_REG i c) i c"
| "OP_TST_fn Ror_imm i c = OP_TST_macro 1 (S_ROR_IMM i c) i c"
| "OP_TST_fn Ror_reg i c = OP_TST_macro 2 (S_ROR_REG i c) i c"
| "OP_TST_fn Imm_val i c = OP_TST_macro 1 (S_IMM_VALUE i c) i c"

section \<open>TEQ\<close>

definition OP_TEQ_macro :: "u32 \<Rightarrow> u32 \<times> u32 \<Rightarrow> u32 \<Rightarrow> armcpu \<Rightarrow> u32 \<times> armcpu" where
  "OP_TEQ_macro a op i c =
     (let (shift_op, cy) = op;
          tmp = R c (REG_POS i 16) XOR shift_op;
          c = setC (u1 cy) c;
          c = NZ_val tmp c
      in (a, c))"

primrec OP_TEQ_fn :: "operand2 \<Rightarrow> u32 \<Rightarrow> armcpu \<Rightarrow> u32 \<times> armcpu" where
  "OP_TEQ_fn Lsl_imm i c = OP_TEQ_macro 1 (S_LSL_IMM i c) i c"
| "OP_TEQ_fn Lsl_reg i c = OP_TEQ_macro 2 (S_LSL_REG i c) i c"
| "OP_TEQ_fn Lsr_imm i c = OP_TEQ_macro 1 (S_LSR_IMM i c) i c"
| "OP_TEQ_fn Lsr_reg i c = OP_TEQ_macro 2 (S_LSR_REG i c) i c"
| "OP_TEQ_fn Asr_imm i c = OP_TEQ_macro 1 (S_ASR_IMM i c) i c"
| "OP_TEQ_fn Asr_reg i c = OP_TEQ_macro 2 (S_ASR_REG i c) i c"
| "OP_TEQ_fn Ror_imm i c = OP_TEQ_macro 1 (S_ROR_IMM i c) i c"
| "OP_TEQ_fn Ror_reg i c = OP_TEQ_macro 2 (S_ROR_REG i c) i c"
| "OP_TEQ_fn Imm_val i c = OP_TEQ_macro 1 (S_IMM_VALUE i c) i c"

section \<open>CMP\<close>

definition OP_CMP_macro :: "u32 \<Rightarrow> u32 \<Rightarrow> u32 \<Rightarrow> armcpu \<Rightarrow> u32 \<times> armcpu" where
  "OP_CMP_macro a shift_op i c =
     (let tmp = R c (REG_POS i 16) - shift_op;
          c = NZ_val tmp c;
          c = setC (\<not> BorrowFrom (R c (REG_POS i 16)) shift_op) c;
          c = setV (OverflowFromSUB tmp (R c (REG_POS i 16)) shift_op) c
      in (a, c))"

primrec OP_CMP_fn :: "operand2 \<Rightarrow> u32 \<Rightarrow> armcpu \<Rightarrow> u32 \<times> armcpu" where
  "OP_CMP_fn Lsl_imm i c = OP_CMP_macro 1 (LSL_IMM i c) i c"
| "OP_CMP_fn Lsl_reg i c = OP_CMP_macro 2 (LSL_REG i c) i c"
| "OP_CMP_fn Lsr_imm i c = OP_CMP_macro 1 (LSR_IMM i c) i c"
| "OP_CMP_fn Lsr_reg i c = OP_CMP_macro 2 (LSR_REG i c) i c"
| "OP_CMP_fn Asr_imm i c = OP_CMP_macro 1 (ASR_IMM i c) i c"
| "OP_CMP_fn Asr_reg i c = OP_CMP_macro 2 (ASR_REG i c) i c"
| "OP_CMP_fn Ror_imm i c = OP_CMP_macro 1 (ROR_IMM i c) i c"
| "OP_CMP_fn Ror_reg i c = OP_CMP_macro 2 (ROR_REG i c) i c"
| "OP_CMP_fn Imm_val i c = OP_CMP_macro 1 (IMM_VALUE i c) i c"

section \<open>CMN\<close>

definition OP_CMN_macro :: "u32 \<Rightarrow> u32 \<Rightarrow> u32 \<Rightarrow> armcpu \<Rightarrow> u32 \<times> armcpu" where
  "OP_CMN_macro a shift_op i c =
     (let tmp = R c (REG_POS i 16) + shift_op;
          c = NZ_val tmp c;
          c = setC (CarryFrom (R c (REG_POS i 16)) shift_op) c;
          c = setV (OverflowFromADD tmp (R c (REG_POS i 16)) shift_op) c
      in (a, c))"

primrec OP_CMN_fn :: "operand2 \<Rightarrow> u32 \<Rightarrow> armcpu \<Rightarrow> u32 \<times> armcpu" where
  "OP_CMN_fn Lsl_imm i c = OP_CMN_macro 1 (LSL_IMM i c) i c"
| "OP_CMN_fn Lsl_reg i c = OP_CMN_macro 2 (LSL_REG i c) i c"
| "OP_CMN_fn Lsr_imm i c = OP_CMN_macro 1 (LSR_IMM i c) i c"
| "OP_CMN_fn Lsr_reg i c = OP_CMN_macro 2 (LSR_REG i c) i c"
| "OP_CMN_fn Asr_imm i c = OP_CMN_macro 1 (ASR_IMM i c) i c"
| "OP_CMN_fn Asr_reg i c = OP_CMN_macro 2 (ASR_REG i c) i c"
| "OP_CMN_fn Ror_imm i c = OP_CMN_macro 1 (ROR_IMM i c) i c"
| "OP_CMN_fn Ror_reg i c = OP_CMN_macro 2 (ROR_REG i c) i c"
| "OP_CMN_fn Imm_val i c = OP_CMN_macro 1 (IMM_VALUE i c) i c"

section \<open>ORR\<close>

definition OP_ORR_macro :: "u32 \<Rightarrow> u32 \<Rightarrow> u32 \<Rightarrow> u32 \<Rightarrow> armcpu \<Rightarrow> u32 \<times> armcpu" where
  "OP_ORR_macro a b shift_op i c =
     (let c = setR (REG_POS i 12) (R c (REG_POS i 16) OR shift_op) c in
      if REG_POS i 12 = 15 then (b, c\<lparr>next_instruction := R c 15\<rparr>) else (a, c))"

primrec OP_ORR_fn :: "operand2 \<Rightarrow> u32 \<Rightarrow> armcpu \<Rightarrow> u32 \<times> armcpu" where
  "OP_ORR_fn Lsl_imm i c = OP_ORR_macro 1 3 (LSL_IMM i c) i c"
| "OP_ORR_fn Lsl_reg i c = OP_ORR_macro 2 4 (LSL_REG i c) i c"
| "OP_ORR_fn Lsr_imm i c = OP_ORR_macro 1 3 (LSR_IMM i c) i c"
| "OP_ORR_fn Lsr_reg i c = OP_ORR_macro 2 4 (LSR_REG i c) i c"
| "OP_ORR_fn Asr_imm i c = OP_ORR_macro 1 3 (ASR_IMM i c) i c"
| "OP_ORR_fn Asr_reg i c = OP_ORR_macro 2 4 (ASR_REG i c) i c"
| "OP_ORR_fn Ror_imm i c = OP_ORR_macro 1 3 (ROR_IMM i c) i c"
| "OP_ORR_fn Ror_reg i c = OP_ORR_macro 2 4 (ROR_REG i c) i c"
| "OP_ORR_fn Imm_val i c = OP_ORR_macro 1 3 (IMM_VALUE i c) i c"

definition OP_ORRS_macro :: "u32 \<Rightarrow> u32 \<Rightarrow> u32 \<times> u32 \<Rightarrow> u32 \<Rightarrow> nat \<Rightarrow> 'io nds \<Rightarrow> u32 \<times> 'io nds" where
  "OP_ORRS_macro a b op i p s =
     (let (shift_op, cy) = op;
          s = upd_cpu p (\<lambda>c. setR (REG_POS i 12) (R c (REG_POS i 16) OR shift_op) c) s
      in if REG_POS i 12 = 15 then (b, restore_CPSR p s)
         else
           (let s = upd_cpu p (setC (u1 cy)) s;
                s = upd_cpu p (NZ (REG_POS i 12)) s
            in (a, s)))"

primrec OP_ORR_S_fn :: "operand2 \<Rightarrow> u32 \<Rightarrow> nat \<Rightarrow> 'io nds \<Rightarrow> u32 \<times> 'io nds" where
  "OP_ORR_S_fn Lsl_imm i p s = OP_ORRS_macro 1 3 (S_LSL_IMM i (ARMPROC p s)) i p s"
| "OP_ORR_S_fn Lsl_reg i p s = OP_ORRS_macro 2 4 (S_LSL_REG i (ARMPROC p s)) i p s"
| "OP_ORR_S_fn Lsr_imm i p s = OP_ORRS_macro 1 3 (S_LSR_IMM i (ARMPROC p s)) i p s"
| "OP_ORR_S_fn Lsr_reg i p s = OP_ORRS_macro 2 4 (S_LSR_REG i (ARMPROC p s)) i p s"
| "OP_ORR_S_fn Asr_imm i p s = OP_ORRS_macro 1 3 (S_ASR_IMM i (ARMPROC p s)) i p s"
| "OP_ORR_S_fn Asr_reg i p s = OP_ORRS_macro 2 4 (S_ASR_REG i (ARMPROC p s)) i p s"
| "OP_ORR_S_fn Ror_imm i p s = OP_ORRS_macro 1 3 (S_ROR_IMM i (ARMPROC p s)) i p s"
| "OP_ORR_S_fn Ror_reg i p s = OP_ORRS_macro 2 4 (S_ROR_REG i (ARMPROC p s)) i p s"
| "OP_ORR_S_fn Imm_val i p s = OP_ORRS_macro 1 3 (S_IMM_VALUE i (ARMPROC p s)) i p s"

section \<open>MOV\<close>

definition OP_MOV_macro :: "u32 \<Rightarrow> u32 \<Rightarrow> u32 \<Rightarrow> u32 \<Rightarrow> armcpu \<Rightarrow> u32 \<times> armcpu" where
  "OP_MOV_macro a b shift_op i c =
     (let c = setR (REG_POS i 12) shift_op c in
      if REG_POS i 12 = 15 then (b, c\<lparr>next_instruction := shift_op\<rparr>) else (a, c))"

primrec OP_MOV_fn :: "operand2 \<Rightarrow> u32 \<Rightarrow> armcpu \<Rightarrow> u32 \<times> armcpu" where
  "OP_MOV_fn Lsl_imm i c = (if i = 0xE1A00000 then (1, c) else OP_MOV_macro 1 3 (LSL_IMM i c) i c)"
| "OP_MOV_fn Lsl_reg i c = OP_MOV_macro 2 4 (let shift_op = LSL_REG i c in if REG_POS i 0 = 15 then shift_op + 4 else shift_op) i c"
| "OP_MOV_fn Lsr_imm i c = OP_MOV_macro 1 3 (LSR_IMM i c) i c"
| "OP_MOV_fn Lsr_reg i c = OP_MOV_macro 2 4 (let shift_op = LSR_REG i c in if REG_POS i 0 = 15 then shift_op + 4 else shift_op) i c"
| "OP_MOV_fn Asr_imm i c = OP_MOV_macro 1 3 (ASR_IMM i c) i c"
| "OP_MOV_fn Asr_reg i c = OP_MOV_macro 2 4 (ASR_REG i c) i c"
| "OP_MOV_fn Ror_imm i c = OP_MOV_macro 1 3 (ROR_IMM i c) i c"
| "OP_MOV_fn Ror_reg i c = OP_MOV_macro 2 4 (ROR_REG i c) i c"
| "OP_MOV_fn Imm_val i c = OP_MOV_macro 1 3 (IMM_VALUE i c) i c"

definition OP_MOVS_macro :: "u32 \<Rightarrow> u32 \<Rightarrow> u32 \<times> u32 \<Rightarrow> u32 \<Rightarrow> nat \<Rightarrow> 'io nds \<Rightarrow> u32 \<times> 'io nds" where
  "OP_MOVS_macro a b op i p s =
     (let (shift_op, cy) = op;
          s = upd_cpu p (\<lambda>c. setR (REG_POS i 12) (shift_op) c) s
      in if REG_POS i 12 = 15 then (b, restore_CPSR p s)
         else
           (let s = upd_cpu p (setC (u1 cy)) s;
                s = upd_cpu p (NZ (REG_POS i 12)) s
            in (a, s)))"

primrec OP_MOV_S_fn :: "operand2 \<Rightarrow> u32 \<Rightarrow> nat \<Rightarrow> 'io nds \<Rightarrow> u32 \<times> 'io nds" where
  "OP_MOV_S_fn Lsl_imm i p s = OP_MOVS_macro 1 3 (S_LSL_IMM i (ARMPROC p s)) i p s"
| "OP_MOV_S_fn Lsl_reg i p s = OP_MOVS_macro 2 4 (let (shift_op, cy) = S_LSL_REG i (ARMPROC p s) in (if REG_POS i 0 = 15 then shift_op + 4 else shift_op, cy)) i p s"
| "OP_MOV_S_fn Lsr_imm i p s = OP_MOVS_macro 1 3 (S_LSR_IMM i (ARMPROC p s)) i p s"
| "OP_MOV_S_fn Lsr_reg i p s = OP_MOVS_macro 2 4 (let (shift_op, cy) = S_LSR_REG i (ARMPROC p s) in (if REG_POS i 0 = 15 then shift_op + 4 else shift_op, cy)) i p s"
| "OP_MOV_S_fn Asr_imm i p s = OP_MOVS_macro 1 3 (S_ASR_IMM i (ARMPROC p s)) i p s"
| "OP_MOV_S_fn Asr_reg i p s = OP_MOVS_macro 2 4 (S_ASR_REG i (ARMPROC p s)) i p s"
| "OP_MOV_S_fn Ror_imm i p s = OP_MOVS_macro 1 3 (S_ROR_IMM i (ARMPROC p s)) i p s"
| "OP_MOV_S_fn Ror_reg i p s = OP_MOVS_macro 2 4 (S_ROR_REG i (ARMPROC p s)) i p s"
| "OP_MOV_S_fn Imm_val i p s = OP_MOVS_macro 1 3 (S_IMM_VALUE i (ARMPROC p s)) i p s"

section \<open>BIC\<close>

definition OP_BIC_macro :: "u32 \<Rightarrow> u32 \<Rightarrow> u32 \<Rightarrow> u32 \<Rightarrow> armcpu \<Rightarrow> u32 \<times> armcpu" where
  "OP_BIC_macro a b shift_op i c =
     (let c = setR (REG_POS i 12) (R c (REG_POS i 16) AND NOT shift_op) c in
      if REG_POS i 12 = 15 then (b, c\<lparr>next_instruction := R c 15\<rparr>) else (a, c))"

primrec OP_BIC_fn :: "operand2 \<Rightarrow> u32 \<Rightarrow> armcpu \<Rightarrow> u32 \<times> armcpu" where
  "OP_BIC_fn Lsl_imm i c = OP_BIC_macro 1 3 (LSL_IMM i c) i c"
| "OP_BIC_fn Lsl_reg i c = OP_BIC_macro 2 4 (LSL_REG i c) i c"
| "OP_BIC_fn Lsr_imm i c = OP_BIC_macro 1 3 (LSR_IMM i c) i c"
| "OP_BIC_fn Lsr_reg i c = OP_BIC_macro 2 4 (LSR_REG i c) i c"
| "OP_BIC_fn Asr_imm i c = OP_BIC_macro 1 3 (ASR_IMM i c) i c"
| "OP_BIC_fn Asr_reg i c = OP_BIC_macro 2 4 (ASR_REG i c) i c"
| "OP_BIC_fn Ror_imm i c = OP_BIC_macro 1 3 (ROR_IMM i c) i c"
| "OP_BIC_fn Ror_reg i c = OP_BIC_macro 2 4 (ROR_REG i c) i c"
| "OP_BIC_fn Imm_val i c = OP_BIC_macro 1 3 (IMM_VALUE i c) i c"

definition OP_BICS_macro :: "u32 \<Rightarrow> u32 \<Rightarrow> u32 \<times> u32 \<Rightarrow> u32 \<Rightarrow> nat \<Rightarrow> 'io nds \<Rightarrow> u32 \<times> 'io nds" where
  "OP_BICS_macro a b op i p s =
     (let (shift_op, cy) = op;
          s = upd_cpu p (\<lambda>c. setR (REG_POS i 12) (R c (REG_POS i 16) AND NOT shift_op) c) s
      in if REG_POS i 12 = 15 then (b, restore_CPSR p s)
         else
           (let s = upd_cpu p (setC (u1 cy)) s;
                s = upd_cpu p (NZ (REG_POS i 12)) s
            in (a, s)))"

primrec OP_BIC_S_fn :: "operand2 \<Rightarrow> u32 \<Rightarrow> nat \<Rightarrow> 'io nds \<Rightarrow> u32 \<times> 'io nds" where
  "OP_BIC_S_fn Lsl_imm i p s = OP_BICS_macro 1 3 (S_LSL_IMM i (ARMPROC p s)) i p s"
| "OP_BIC_S_fn Lsl_reg i p s = OP_BICS_macro 2 4 (S_LSL_REG i (ARMPROC p s)) i p s"
| "OP_BIC_S_fn Lsr_imm i p s = OP_BICS_macro 1 3 (S_LSR_IMM i (ARMPROC p s)) i p s"
| "OP_BIC_S_fn Lsr_reg i p s = OP_BICS_macro 2 4 (S_LSR_REG i (ARMPROC p s)) i p s"
| "OP_BIC_S_fn Asr_imm i p s = OP_BICS_macro 1 3 (S_ASR_IMM i (ARMPROC p s)) i p s"
| "OP_BIC_S_fn Asr_reg i p s = OP_BICS_macro 2 4 (S_ASR_REG i (ARMPROC p s)) i p s"
| "OP_BIC_S_fn Ror_imm i p s = OP_BICS_macro 1 3 (S_ROR_IMM i (ARMPROC p s)) i p s"
| "OP_BIC_S_fn Ror_reg i p s = OP_BICS_macro 2 4 (S_ROR_REG i (ARMPROC p s)) i p s"
| "OP_BIC_S_fn Imm_val i p s = OP_BICS_macro 1 3 (S_IMM_VALUE i (ARMPROC p s)) i p s"

section \<open>MVN\<close>

definition OP_MVN_macro :: "u32 \<Rightarrow> u32 \<Rightarrow> u32 \<Rightarrow> u32 \<Rightarrow> armcpu \<Rightarrow> u32 \<times> armcpu" where
  "OP_MVN_macro a b shift_op i c =
     (let c = setR (REG_POS i 12) (NOT shift_op) c in
      if REG_POS i 12 = 15 then (b, c\<lparr>next_instruction := R c 15\<rparr>) else (a, c))"

primrec OP_MVN_fn :: "operand2 \<Rightarrow> u32 \<Rightarrow> armcpu \<Rightarrow> u32 \<times> armcpu" where
  "OP_MVN_fn Lsl_imm i c = OP_MVN_macro 1 3 (LSL_IMM i c) i c"
| "OP_MVN_fn Lsl_reg i c = OP_MVN_macro 2 4 (LSL_REG i c) i c"
| "OP_MVN_fn Lsr_imm i c = OP_MVN_macro 1 3 (LSR_IMM i c) i c"
| "OP_MVN_fn Lsr_reg i c = OP_MVN_macro 2 4 (LSR_REG i c) i c"
| "OP_MVN_fn Asr_imm i c = OP_MVN_macro 1 3 (ASR_IMM i c) i c"
| "OP_MVN_fn Asr_reg i c = OP_MVN_macro 2 4 (ASR_REG i c) i c"
| "OP_MVN_fn Ror_imm i c = OP_MVN_macro 1 3 (ROR_IMM i c) i c"
| "OP_MVN_fn Ror_reg i c = OP_MVN_macro 2 4 (ROR_REG i c) i c"
| "OP_MVN_fn Imm_val i c = OP_MVN_macro 1 3 (IMM_VALUE i c) i c"

definition OP_MVNS_macro :: "u32 \<Rightarrow> u32 \<Rightarrow> u32 \<times> u32 \<Rightarrow> u32 \<Rightarrow> nat \<Rightarrow> 'io nds \<Rightarrow> u32 \<times> 'io nds" where
  "OP_MVNS_macro a b op i p s =
     (let (shift_op, cy) = op;
          s = upd_cpu p (\<lambda>c. setR (REG_POS i 12) (NOT shift_op) c) s
      in if REG_POS i 12 = 15 then (b, restore_CPSR p s)
         else
           (let s = upd_cpu p (setC (u1 cy)) s;
                s = upd_cpu p (NZ (REG_POS i 12)) s
            in (a, s)))"

primrec OP_MVN_S_fn :: "operand2 \<Rightarrow> u32 \<Rightarrow> nat \<Rightarrow> 'io nds \<Rightarrow> u32 \<times> 'io nds" where
  "OP_MVN_S_fn Lsl_imm i p s = OP_MVNS_macro 1 3 (S_LSL_IMM i (ARMPROC p s)) i p s"
| "OP_MVN_S_fn Lsl_reg i p s = OP_MVNS_macro 2 4 (S_LSL_REG i (ARMPROC p s)) i p s"
| "OP_MVN_S_fn Lsr_imm i p s = OP_MVNS_macro 1 3 (S_LSR_IMM i (ARMPROC p s)) i p s"
| "OP_MVN_S_fn Lsr_reg i p s = OP_MVNS_macro 2 4 (S_LSR_REG i (ARMPROC p s)) i p s"
| "OP_MVN_S_fn Asr_imm i p s = OP_MVNS_macro 1 3 (S_ASR_IMM i (ARMPROC p s)) i p s"
| "OP_MVN_S_fn Asr_reg i p s = OP_MVNS_macro 2 4 (S_ASR_REG i (ARMPROC p s)) i p s"
| "OP_MVN_S_fn Ror_imm i p s = OP_MVNS_macro 1 3 (S_ROR_IMM i (ARMPROC p s)) i p s"
| "OP_MVN_S_fn Ror_reg i p s = OP_MVNS_macro 2 4 (S_ROR_REG i (ARMPROC p s)) i p s"
| "OP_MVN_S_fn Imm_val i p s = OP_MVNS_macro 1 3 (S_IMM_VALUE i (ARMPROC p s)) i p s"

section \<open>What the instructions compute\<close>

text \<open>The cycles of a form, and the processor after an unconditional result write.\<close>

definition op_cycles :: "operand2 \<Rightarrow> u32" where
  "op_cycles k = (if k \<in> {Lsl_reg, Lsr_reg, Asr_reg, Ror_reg} then 2 else 1)"

definition write_result :: "u32 \<Rightarrow> u32 \<Rightarrow> armcpu \<Rightarrow> armcpu" where
  "write_result d v c = c\<lparr>R := (R c)(d := v),
     next_instruction := if d = 15 then v else next_instruction c\<rparr>"

definition arm_cycles :: "operand2 \<Rightarrow> u32 \<Rightarrow> u32" where
  "arm_cycles k d = (if d = 15 then op_cycles k + 2 else op_cycles k)"

lemma upd_cpu_cong:
  "f (ARMPROC p s) = g (ARMPROC p s) \<Longrightarrow> upd_cpu p f s = upd_cpu p g s"
  by (simp add: upd_cpu_def ARMPROC_def split: if_splits)

lemma arm_nonS_macros:
  "OP_AND_fn k i c = OP_AND_macro (op_cycles k) (op_cycles k + 2) (operand2_val k i c) i c"
  "OP_EOR_fn k i c = OP_EOR_macro (op_cycles k) (op_cycles k + 2) (operand2_val k i c) i c"
  "OP_SUB_fn k i c = OP_SUB_macro (op_cycles k) (op_cycles k + 2) (operand2_val k i c) i c"
  "OP_RSB_fn k i c = OP_RSB_macro (op_cycles k) (op_cycles k + 2) (operand2_val k i c) i c"
  "OP_ADD_fn k i c = OP_ADD_macro (op_cycles k) (op_cycles k + 2) (operand2_val k i c) i c"
  "OP_ADC_fn k i c = OP_ADC_macro (op_cycles k) (op_cycles k + 2) (operand2_val k i c) i c"
  "OP_SBC_fn k i c = OP_SBC_macro (op_cycles k) (op_cycles k + 2) (operand2_val k i c) i c"
  "OP_RSC_fn k i c = OP_RSC_macro (op_cycles k) (op_cycles k + 2) (operand2_val k i c) i c"
  "OP_ORR_fn k i c = OP_ORR_macro (op_cycles k) (op_cycles k + 2) (operand2_val k i c) i c"
  "OP_BIC_fn k i c = OP_BIC_macro (op_cycles k) (op_cycles k + 2) (operand2_val k i c) i c"
  "OP_MVN_fn k i c = OP_MVN_macro (op_cycles k) (op_cycles k + 2) (operand2_val k i c) i c"
  by (cases k; simp add: op_cycles_def)+

lemma arm_test_macros:
  "OP_TST_fn k i c = OP_TST_macro (op_cycles k) (operand2_S k i c) i c"
  "OP_TEQ_fn k i c = OP_TEQ_macro (op_cycles k) (operand2_S k i c) i c"
  "OP_CMP_fn k i c = OP_CMP_macro (op_cycles k) (operand2_val k i c) i c"
  "OP_CMN_fn k i c = OP_CMN_macro (op_cycles k) (operand2_val k i c) i c"
  by (cases k; simp add: op_cycles_def)+

lemma arm_logic_macros:
  "OP_AND_S_fn k i p s = OP_ANDS_macro (op_cycles k) (op_cycles k + 2) (operand2_S k i (ARMPROC p s)) i p s"
  "OP_EOR_S_fn k i p s = OP_EORS_macro (op_cycles k) (op_cycles k + 2) (operand2_S k i (ARMPROC p s)) i p s"
  "OP_ORR_S_fn k i p s = OP_ORRS_macro (op_cycles k) (op_cycles k + 2) (operand2_S k i (ARMPROC p s)) i p s"
  "OP_BIC_S_fn k i p s = OP_BICS_macro (op_cycles k) (op_cycles k + 2) (operand2_S k i (ARMPROC p s)) i p s"
  "OP_MVN_S_fn k i p s = OP_MVNS_macro (op_cycles k) (op_cycles k + 2) (operand2_S k i (ARMPROC p s)) i p s"
  by (cases k; simp add: op_cycles_def)+

lemma arm_arith_macros:
  "OP_SUB_S_fn k i p s = OP_SUBS_macro (op_cycles k) (op_cycles k + 2)
     (R (ARMPROC p s) (REG_POS i 16)) (operand2_val k i (ARMPROC p s)) i p s"
  "OP_RSB_S_fn k i p s = OP_RSBS_macro (op_cycles k) (op_cycles k + 2)
     (R (ARMPROC p s) (REG_POS i 16)) (operand2_val k i (ARMPROC p s)) i p s"
  "OP_ADD_S_fn k i p s = OP_ADDS_macro (op_cycles k) (op_cycles k + 2)
     (R (ARMPROC p s) (REG_POS i 16)) (operand2_val k i (ARMPROC p s)) i p s"
  "OP_ADC_S_fn k i p s = OP_ADCS_macro (op_cycles k) (op_cycles k + 2)
     (R (ARMPROC p s) (REG_POS i 16)) (operand2_val k i (ARMPROC p s)) i p s"
  "OP_SBC_S_fn k i p s = OP_SBCS_macro (op_cycles k) (op_cycles k + 2)
     (R (ARMPROC p s) (REG_POS i 16)) (operand2_val k i (ARMPROC p s)) i p s"
  "OP_RSC_S_fn k i p s = OP_RSCS_macro (op_cycles k) (op_cycles k + 2)
     (R (ARMPROC p s) (REG_POS i 16)) (operand2_val k i (ARMPROC p s)) i p s"
  by (cases k; simp add: op_cycles_def)+

lemmas arm_nonS_macro_defs = OP_AND_macro_def OP_EOR_macro_def OP_SUB_macro_def OP_RSB_macro_def
  OP_ADD_macro_def OP_ADC_macro_def OP_SBC_macro_def OP_RSC_macro_def OP_ORR_macro_def
  OP_BIC_macro_def OP_MVN_macro_def

lemmas arm_test_macro_defs = OP_TST_macro_def OP_TEQ_macro_def OP_CMP_macro_def OP_CMN_macro_def

lemmas arm_logic_macro_defs = OP_ANDS_macro_def OP_EORS_macro_def OP_ORRS_macro_def
  OP_BICS_macro_def OP_MVNS_macro_def

lemmas arm_arith_macro_defs = OP_SUBS_macro_def OP_RSBS_macro_def OP_ADDS_macro_def

lemmas arm_carry_macro_defs = OP_ADCS_macro_def OP_SBCS_macro_def OP_RSCS_macro_def

text \<open>C21: For each of the nine shifter operand forms, the eleven flagless ARM data-processing
  instructions AND, EOR, ORR, BIC, MVN, ADD, SUB, RSB, ADC, SBC and RSC write the result of
  the reference operation on Rn and the architecture's shifter operand to Rd, continue at the
  result when Rd is the program counter, and change nothing else.\<close>

theorem arm_data_results:
  "let d = REG_POS i 12; x = R c (REG_POS i 16); y = fst (operand2_spec k i c);
       cf = psr_C (CPSR c); done = (\<lambda>v. (arm_cycles k d, write_result d v c))
   in OP_AND_fn k i c = done (x AND y) \<and> OP_EOR_fn k i c = done (x XOR y) \<and>
      OP_ORR_fn k i c = done (x OR y) \<and> OP_BIC_fn k i c = done (x AND NOT y) \<and>
      OP_MVN_fn k i c = done (NOT y) \<and>
      OP_ADD_fn k i c = done (fst (add_spec x y False)) \<and>
      OP_SUB_fn k i c = done (fst (sub_spec x y True)) \<and>
      OP_RSB_fn k i c = done (fst (sub_spec y x True)) \<and>
      OP_ADC_fn k i c = done (fst (add_spec x y cf)) \<and>
      OP_SBC_fn k i c = done (fst (sub_spec x y cf)) \<and>
      OP_RSC_fn k i c = done (fst (sub_spec y x cf))"
  using operand2_ok [of k i c]
  by (cases "psr_C (CPSR c)")
    (simp_all add: Let_def arm_nonS_macros arm_nonS_macro_defs arm_cycles_def write_result_def
      setR_def add_spec_result sub_spec_result)

text \<open>C22: For each of the nine shifter operand forms, ANDS, EORS, ORRS, BICS and MVNS write the
  bitwise result to Rd, set N and Z from it and C to the shifter's carry-out, and keep V,
  whenever Rd is not the program counter.\<close>

theorem arm_logic_flags:
  fixes s :: "'io nds"
  assumes "REG_POS i 12 \<noteq> 15"
  shows "let c = ARMPROC p s; x = R c (REG_POS i 16); (y, cy) = operand2_spec k i c;
             done = (\<lambda>v. (op_cycles k,
               upd_cpu p (with_result (REG_POS i 12) v cy (psr_V (CPSR c))) s))
    in OP_AND_S_fn k i p s = done (x AND y) \<and> OP_EOR_S_fn k i p s = done (x XOR y) \<and>
       OP_ORR_S_fn k i p s = done (x OR y) \<and> OP_BIC_S_fn k i p s = done (x AND NOT y) \<and>
       OP_MVN_S_fn k i p s = done (NOT y)"
  using assms operand2_ok [of k i "ARMPROC p s"]
  by (cases "operand2_S k i (ARMPROC p s)")
    (auto simp add: Let_def arm_logic_macros arm_logic_macro_defs cpu_simps with_result_def
      split: prod.split intro!: upd_cpu_cong)

theorem arm_logic_flags_witness:
  "REG_POS 0xE0110002 12 \<noteq> 15 \<and>
   R (ARMPROC 0 (snd (OP_AND_S_fn Lsl_imm 0xE0110002 0 sample_nds))) 0 = 0x02001000"
proof -
  have d: "REG_POS 0xE0110002 12 \<noteq> 15" by (simp add: REG_POS_def)
  from arm_logic_flags [OF d, where k = Lsl_imm and p = 0 and s = sample_nds] d show ?thesis
    by (simp add: Let_def split_def with_result_def setR_def REG_POS_def imm_amount_def)
qed

lemma adc_spec_code':
  "add_spec a b cin =
     (a + b + of_bool cin, if cin then a + b + 1 \<le> a else a + b < a,
      bit ((a XOR b XOR -1) AND (a XOR (a + b + of_bool cin))) 31)"
  using adc_spec_code [of a b cin] add_carry_code [of a b] add_carry_code [of b a]
  by (simp add: add.commute)

lemma ADDS_result:
  assumes "REG_POS i 12 \<noteq> 15"
  shows "OP_ADDS_macro a b x y i p s = (case add_spec x y False of
    (v, C, V) \<Rightarrow> (a, upd_cpu p (with_result (REG_POS i 12) v C V) s))"
  by (simp add: assms add_spec_code OP_ADDS_macro_def Let_def;
      rule upd_cpu_cong;
      simp add: cpu_simps with_result_def u1_BIT31)

lemma SUBS_result:
  assumes "REG_POS i 12 \<noteq> 15"
  shows "OP_SUBS_macro a b x y i p s = (case sub_spec x y True of
    (v, C, V) \<Rightarrow> (a, upd_cpu p (with_result (REG_POS i 12) v C V) s))"
  by (simp add: assms sub_spec_code OP_SUBS_macro_def Let_def;
      rule upd_cpu_cong;
      simp add: cpu_simps with_result_def u1_BIT31)

lemma RSBS_result:
  assumes "REG_POS i 12 \<noteq> 15"
  shows "OP_RSBS_macro a b x y i p s = (case sub_spec y x True of
    (v, C, V) \<Rightarrow> (a, upd_cpu p (with_result (REG_POS i 12) v C V) s))"
  by (simp add: assms sub_spec_code OP_RSBS_macro_def Let_def;
      rule upd_cpu_cong;
      simp add: cpu_simps with_result_def u1_BIT31)

lemma ADCS_result:
  assumes "REG_POS i 12 \<noteq> 15"
  shows "OP_ADCS_macro a b x y i p s = (case add_spec x y (psr_C (CPSR (ARMPROC p s))) of
    (v, C, V) \<Rightarrow> (a, upd_cpu p (with_result (REG_POS i 12) v C V) s))"
  by (cases "psr_C (CPSR (ARMPROC p s))";
      simp add: assms adc_spec_code' OP_ADCS_macro_def Let_def;
      rule upd_cpu_cong;
      simp add: cpu_simps with_result_def u1_BIT31)

lemma SBCS_result:
  assumes "REG_POS i 12 \<noteq> 15"
  shows "OP_SBCS_macro a b x y i p s = (case sub_spec x y (psr_C (CPSR (ARMPROC p s))) of
    (v, C, V) \<Rightarrow> (a, upd_cpu p (with_result (REG_POS i 12) v C V) s))"
  by (cases "psr_C (CPSR (ARMPROC p s))";
      simp add: assms sbc_spec_code OP_SBCS_macro_def Let_def;
      rule upd_cpu_cong;
      simp add: cpu_simps with_result_def u1_BIT31)

lemma RSCS_result:
  assumes "REG_POS i 12 \<noteq> 15"
  shows "OP_RSCS_macro a b x y i p s = (case sub_spec y x (psr_C (CPSR (ARMPROC p s))) of
    (v, C, V) \<Rightarrow> (a, upd_cpu p (with_result (REG_POS i 12) v C V) s))"
  by (cases "psr_C (CPSR (ARMPROC p s))";
      simp add: assms sbc_spec_code OP_RSCS_macro_def Let_def;
      rule upd_cpu_cong;
      simp add: cpu_simps with_result_def u1_BIT31)

lemmas arith_results = ADDS_result SUBS_result RSBS_result ADCS_result SBCS_result RSCS_result

text \<open>C3: For each of the nine shifter operand forms, ADDS, SUBS, RSBS, ADCS, SBCS and RSCS write
  the reference sum or difference (with the carry where the instruction takes it) to Rd and
  set N, Z, C and V to those of the reference integer arithmetic, whenever Rd is not the
  program counter.\<close>

theorem arm_arith_flags:
  fixes s :: "'io nds"
  assumes "REG_POS i 12 \<noteq> 15"
  shows "let c = ARMPROC p s; x = R c (REG_POS i 16); y = fst (operand2_spec k i c);
             cf = psr_C (CPSR c);
             done = (\<lambda>(v, C, V). (op_cycles k, upd_cpu p (with_result (REG_POS i 12) v C V) s))
    in OP_ADD_S_fn k i p s = done (add_spec x y False) \<and>
       OP_SUB_S_fn k i p s = done (sub_spec x y True) \<and>
       OP_RSB_S_fn k i p s = done (sub_spec y x True) \<and>
       OP_ADC_S_fn k i p s = done (add_spec x y cf) \<and>
       OP_SBC_S_fn k i p s = done (sub_spec x y cf) \<and>
       OP_RSC_S_fn k i p s = done (sub_spec y x cf)"
  using operand2_ok [of k i "ARMPROC p s"]
  by (simp add: Let_def arm_arith_macros arith_results [OF assms])

theorem arm_arith_flags_witness:
  "REG_POS 0xE0900001 12 \<noteq> 15 \<and>
   R (ARMPROC 0 (snd (OP_ADD_S_fn Lsl_imm 0xE0900001 0 sample_nds))) 0 = 0x04002100"
proof -
  have d: "REG_POS 0xE0900001 12 \<noteq> 15" by (simp add: REG_POS_def)
  from arm_arith_flags [OF d, where k = Lsl_imm and p = 0 and s = sample_nds] d show ?thesis
    by (simp add: Let_def split_def with_result_def setR_def REG_POS_def imm_amount_def add_spec_def)
qed

theorem arm_compare_flags:
  "let x = R c (REG_POS i 16); (y, cy) = operand2_spec k i c;
       flags = (\<lambda>v C V. (op_cycles k, c\<lparr>CPSR := (CPSR c)\<lparr>psr_N := sint v < 0, psr_Z := v = 0,
         psr_C := C, psr_V := V\<rparr>\<rparr>))
   in OP_CMP_fn k i c = (case sub_spec x y True of (v, C, V) \<Rightarrow> flags v C V) \<and>
      OP_CMN_fn k i c = (case add_spec x y False of (v, C, V) \<Rightarrow> flags v C V) \<and>
      OP_TST_fn k i c = flags (x AND y) cy (psr_V (CPSR c)) \<and>
      OP_TEQ_fn k i c = flags (x XOR y) cy (psr_V (CPSR c))"
  using operand2_ok [of k i c]
  by (cases "operand2_S k i c"; cases "operand2_spec k i c")
    (simp add: Let_def arm_test_macros arm_test_macro_defs cpu_simps add_spec_code sub_spec_code)

lemma CMP_flags:
  assumes "c' = snd (OP_CMP_fn k i c)"
  defines "x \<equiv> R c (REG_POS i 16)" and "y \<equiv> fst (operand2_spec k i c)"
  shows "psr_Z (CPSR c') \<longleftrightarrow> x = y" "psr_C (CPSR c') \<longleftrightarrow> uint y \<le> uint x"
    "psr_N (CPSR c') = psr_V (CPSR c') \<longleftrightarrow> sint y \<le> sint x"
proof -
  have e: "CPSR c' = (CPSR c)\<lparr>psr_N := sint (x - y) < 0, psr_Z := x - y = 0,
      psr_C := \<not> BorrowFrom x y, psr_V := OverflowFromSUB (x - y) x y\<rparr>"
    using operand2_ok [of k i c]
    by (simp add: assms(1) Let_def arm_test_macros arm_test_macro_defs cpu_simps x_def y_def)
  show "psr_Z (CPSR c') \<longleftrightarrow> x = y" "psr_C (CPSR c') \<longleftrightarrow> uint y \<le> uint x"
    by (auto simp add: e BorrowFrom_iff word_less_def)
  show "psr_N (CPSR c') = psr_V (CPSR c') \<longleftrightarrow> sint y \<le> sint x"
    using sint_range [of x] sint_range [of y]
    by (auto simp add: e OverflowFromSUB_iff s32_range_def sint_sub32 wrap32)
qed

text \<open>C23: After CMP x, y the ten ordering conditions, looked up in the table TEST_COND uses, hold
  exactly when the operands compare so: EQ, NE, CS and CC as unsigned at-least and less, HI
  and LS as unsigned more and at-most, GE, LT, GT and LE as the signed comparisons.\<close>

theorem cmp_then_condition:
  "let x = R c (REG_POS i 16); y = fst (operand2_spec k i c);
       p = CPSR (snd (OP_CMP_fn k i c));
       holds = (\<lambda>cond. TEST_COND cond 0 p)
   in (holds 0x0 \<longleftrightarrow> x = y) \<and> (holds 0x1 \<longleftrightarrow> x \<noteq> y) \<and>
      (holds 0x2 \<longleftrightarrow> uint x \<ge> uint y) \<and> (holds 0x3 \<longleftrightarrow> uint x < uint y) \<and>
      (holds 0x8 \<longleftrightarrow> uint x > uint y) \<and> (holds 0x9 \<longleftrightarrow> uint x \<le> uint y) \<and>
      (holds 0xA \<longleftrightarrow> sint x \<ge> sint y) \<and> (holds 0xB \<longleftrightarrow> sint x < sint y) \<and>
      (holds 0xC \<longleftrightarrow> sint x > sint y) \<and> (holds 0xD \<longleftrightarrow> sint x \<le> sint y)"
proof -
  define x y p where "x = R c (REG_POS i 16)" and "y = fst (operand2_spec k i c)"
    and "p = CPSR (snd (OP_CMP_fn k i c))"
  have f: "psr_Z p \<longleftrightarrow> x = y" "psr_C p \<longleftrightarrow> uint y \<le> uint x" "psr_N p = psr_V p \<longleftrightarrow> sint y \<le> sint x"
    unfolding x_def y_def p_def by (rule CMP_flags [OF refl])+
  have "x = y \<longleftrightarrow> uint x = uint y" "x = y \<longleftrightarrow> sint x = sint y" by (auto simp: word_eq_iff_unsigned signed_word_eqI)
  then show ?thesis
    unfolding Let_def x_def [symmetric] y_def [symmetric] p_def [symmetric]
    by (simp add: TEST_COND_code cond_code_def f) linarith
qed

lemma cpu_restore:
  "ARMPROC p (restore_CPSR p s) =
    (let c = ARMPROC p s;
         c1 = (switch_banks (ucast (psr_mode (SPSR c))) c)\<lparr>CPSR := SPSR c\<rparr>;
         c2 = setR 15 (R c1 15 AND (0xFFFFFFFC OR push_bit 1 (of_bool (psr_T (SPSR c))))) c1
     in c2\<lparr>next_instruction := R c2 15\<rparr>)"
  by (simp add: restore_CPSR_def Let_def cpu_of_switch comp_def setR_def)

definition SUBS_PC_LR_4 :: u32 where "SUBS_PC_LR_4 = 0xE25EF004"

lemma SUBS_fields:
  "REG_POS SUBS_PC_LR_4 12 = 15" "REG_POS SUBS_PC_LR_4 16 = 14" "IMM_VALUE SUBS_PC_LR_4 c = 4"
  by (simp_all add: SUBS_PC_LR_4_def REG_POS_def IMM_VALUE_def ROR_def c_shl_def c_shr_def)

lemma and_clear: "a AND m = 0 \<Longrightarrow> a AND NOT m = a" for a :: u32
proof -
  assume z: "a AND m = 0"
  have "a AND NOT m OR a AND m = a"
    by (rule bit_word_eqI) (auto simp add: bit_simps)
  with z show ?thesis by simp
qed

lemma NOT_small: "NOT 1 = (0xFFFFFFFE :: u32)" "NOT 3 = (0xFFFFFFFC :: u32)"
  by (rule word_uint_eqI; simp)+

lemma pc_mask: "0xFFFFFFFC OR push_bit 1 (of_bool t) = (if t then 0xFFFFFFFE else 0xFFFFFFFC :: u32)"
  by simp

lemma pc_mask_id:
  assumes "a AND (if t then 1 else 3) = 0"
  shows "a AND (0xFFFFFFFC OR push_bit 1 (of_bool t)) = (a :: u32)"
  using assms and_clear [of a 1] and_clear [of a 3] unfolding pc_mask NOT_small
  by (cases t) simp_all

text \<open>C10: SUBS PC, LR, #4 undoes interrupt entry: executed in IRQ mode with the SPSR and R14 that
  the entry left (whatever the handler did to the other registers), it restores the
  interrupted CPSR and continues at the interrupted instruction, and no banked register
  changes.\<close>

theorem irq_return:
  fixes s :: "'io nds"
  assumes "valid_mode (psr_mode (CPSR (ARMPROC p s)))"
    and "instruct_adr (ARMPROC p s) AND (if psr_T (CPSR (ARMPROC p s)) then 1 else 3) = 0"
    and "c1 = ARMPROC p s1" "psr_mode (CPSR c1) = IRQ"
    and "SPSR c1 = SPSR (ARMPROC p (irq_entry p s))"
    and "R c1 14 = R (ARMPROC p (irq_entry p s)) 14"
  shows "let c = ARMPROC p s; c2 = ARMPROC p (snd (OP_SUB_S_fn Imm_val SUBS_PC_LR_4 p s1)) in
     CPSR c2 = CPSR c \<and> next_instruction c2 = instruct_adr c \<and>
     (\<forall>b n. n \<noteq> 15 \<longrightarrow> arch_reg c2 b n = arch_reg c1 b n)"
proof -
  let ?c = "ARMPROC p s"
  have e: "SPSR c1 = CPSR ?c" "R c1 14 = instruct_adr ?c + 4"
    using irq_entry_cpu [OF assms(1)] assms(5,6) by (simp_all add: Let_def)
  have m: "instruct_adr ?c AND (0xFFFFFFFC OR push_bit 1 (of_bool (psr_T (CPSR ?c)))) = instruct_adr ?c"
    using assms(2) by (rule pc_mask_id)
  define d where "d = setR 15 (instruct_adr ?c) c1"
  have "ARMPROC p (snd (OP_SUB_S_fn Imm_val SUBS_PC_LR_4 p s1)) = ARMPROC p (restore_CPSR p (upd_cpu p (setR 15 (instruct_adr ?c)) s1))"
    by (simp add: OP_SUBS_macro_def SUBS_fields Let_def assms(3) [symmetric] e)
  then have c2: "ARMPROC p (snd (OP_SUB_S_fn Imm_val SUBS_PC_LR_4 p s1)) = 
      (let c1 = (switch_banks (ucast (psr_mode (CPSR ?c))) d)\<lparr>CPSR := CPSR ?c\<rparr>;
         c2 = setR 15 (R c1 15 AND (0xFFFFFFFC OR push_bit 1 (of_bool (psr_T (CPSR ?c))))) c1
     in c2\<lparr>next_instruction := R c2 15\<rparr>)"
    by (simp add: cpu_restore assms(3) [symmetric] e d_def Let_def)
  have v: "valid_mode (psr_mode (CPSR d))" by (simp add: d_def assms(4))
  have "arch_reg (switch_banks (ucast (psr_mode (CPSR ?c))) d) b 15 = arch_reg d b 15" for b
    by (rule arch_reg_switch [OF v assms(1)])
  then have "R (switch_banks (ucast (psr_mode (CPSR ?c))) d) 15 = instruct_adr ?c"
    by (simp add: arch_reg_def d_def)
  then show ?thesis
    unfolding Let_def c2 using m arch_reg_switch [OF v assms(1)]
    by (simp add: switch_banks_CPSR d_def)
qed

theorem irq_return_witness:
  "R (ARMPROC 0 (irq_entry 0 sample_nds)) 14 = 0x02000104 \<and>
   next_instruction (ARMPROC 0 (snd (OP_SUB_S_fn Imm_val SUBS_PC_LR_4 0 (irq_entry 0 sample_nds)))) = 0x02000100 \<and>
   CPSR (ARMPROC 0 (snd (OP_SUB_S_fn Imm_val SUBS_PC_LR_4 0 (irq_entry 0 sample_nds)))) = psr_of_val 0x6000001F"
proof -
  have v: "valid_mode (psr_mode (CPSR (ARMPROC 0 sample_nds)))" by simp
  have c: "CPSR sample_cpu = psr_of_val 0x6000001F" by (simp add: sample_cpu_def)
  have a: "instruct_adr (ARMPROC 0 sample_nds) AND (if psr_T (CPSR (ARMPROC 0 sample_nds)) then 1 else 3) = 0"
    by (simp add: c psr_of_val_def)
  have m: "psr_mode (CPSR (ARMPROC 0 (irq_entry 0 sample_nds))) = IRQ"
    using irq_entry_cpu [OF v] unfolding Let_def by simp
  have e: "R (ARMPROC 0 (irq_entry 0 sample_nds)) 14 = 0x02000104"
    using irq_entry_cpu [OF v] unfolding Let_def by simp
  from irq_return [OF v a refl m refl refl] e show ?thesis
    unfolding Let_def ARMPROC_sample c sample_regs by blast
qed

end
