(* ===== verification/Arm_Mul.thy ===== *)
theory Arm_Mul
  imports Arm_Data
begin

text \<open>
  Multiplication, count leading zeros and the DSP instructions of
  src/source/arm_instructions.cpp (lines 2301 to 2501 and 3157 to 3522).  A C \<open>s64\<close> is a
  64-bit word read with \<open>sint\<close>: a conversion from \<open>s32\<close> is \<open>scast\<close>, a
  right shift is \<open>signed_drop_bit\<close>.
\<close>

section \<open>MUL and MLA\<close>

definition MUL_Mxx_END :: "u32 \<Rightarrow> u32 \<Rightarrow> u32" where
  "MUL_Mxx_END c v =
     (let v = drop_bit 8 v in
      if v = 0 \<or> v = 0xFFFFFF then c + 1
      else (let v = drop_bit 8 v in
        if v = 0 \<or> v = 0xFFFF then c + 2
        else (let v = drop_bit 8 v in
          if v = 0 \<or> v = 0xFF then c + 3 else c + 4)))"

definition OP_MUL :: "u32 \<Rightarrow> armcpu \<Rightarrow> u32 \<times> armcpu" where
  "OP_MUL i c =
     (let v = R c (REG_POS i 8);
          c = setR (REG_POS i 16) (R c (REG_POS i 0) * v) c
      in (MUL_Mxx_END 1 v, c))"

definition OP_MLA :: "u32 \<Rightarrow> armcpu \<Rightarrow> u32 \<times> armcpu" where
  "OP_MLA i c =
     (let v = R c (REG_POS i 8);
          c = setR (REG_POS i 16) (R c (REG_POS i 0) * v + R c (REG_POS i 12)) c
      in (MUL_Mxx_END 2 v, c))"

definition OP_MUL_S :: "u32 \<Rightarrow> armcpu \<Rightarrow> u32 \<times> armcpu" where
  "OP_MUL_S i c =
     (let v = R c (REG_POS i 8);
          c = setR (REG_POS i 16) (R c (REG_POS i 0) * v) c;
          c = NZ (REG_POS i 16) c
      in (MUL_Mxx_END 1 v, c))"

definition OP_MLA_S :: "u32 \<Rightarrow> armcpu \<Rightarrow> u32 \<times> armcpu" where
  "OP_MLA_S i c =
     (let v = R c (REG_POS i 8);
          c = setR (REG_POS i 16) (R c (REG_POS i 0) * v + R c (REG_POS i 12)) c;
          c = NZ (REG_POS i 16) c
      in (MUL_Mxx_END 2 v, c))"

section \<open>UMULL and UMLAL\<close>

definition MUL_UMxxL_END :: "u32 \<Rightarrow> u32 \<Rightarrow> u32" where
  "MUL_UMxxL_END c v =
     (let v = drop_bit 8 v in
      if v = 0 then c + 1
      else (let v = drop_bit 8 v in
        if v = 0 then c + 2
        else (let v = drop_bit 8 v in
          if v = 0 then c + 3 else c + 4)))"

definition OP_UMULL :: "u32 \<Rightarrow> armcpu \<Rightarrow> u32 \<times> armcpu" where
  "OP_UMULL i c =
     (let v = R c (REG_POS i 8);
          res = (ucast (R c (REG_POS i 0)) :: u64) * ucast v;
          c = setR (REG_POS i 12) (ucast res) c;
          c = setR (REG_POS i 16) (ucast (drop_bit 32 res)) c
      in (MUL_UMxxL_END 2 v, c))"

definition OP_UMLAL :: "u32 \<Rightarrow> armcpu \<Rightarrow> u32 \<times> armcpu" where
  "OP_UMLAL i c =
     (let v = R c (REG_POS i 8);
          res = (ucast (R c (REG_POS i 0)) :: u64) * ucast v;
          tmp = ucast res;
          c = setR (REG_POS i 16) (ucast (drop_bit 32 res) + R c (REG_POS i 16) + of_bool (CarryFrom tmp (R c (REG_POS i 12)))) c;
          c = setR (REG_POS i 12) (R c (REG_POS i 12) + tmp) c
      in (MUL_UMxxL_END 3 v, c))"

definition OP_UMULL_S :: "u32 \<Rightarrow> armcpu \<Rightarrow> u32 \<times> armcpu" where
  "OP_UMULL_S i c =
     (let v = R c (REG_POS i 8);
          res = (ucast (R c (REG_POS i 0)) :: u64) * ucast v;
          c = setR (REG_POS i 12) (ucast res) c;
          c = setR (REG_POS i 16) (ucast (drop_bit 32 res)) c;
          c = setN (u1 (BIT31 (R c (REG_POS i 16)))) c;
          c = setZ (R c (REG_POS i 16) = 0 \<and> R c (REG_POS i 12) = 0) c
      in (MUL_UMxxL_END 2 v, c))"

definition OP_UMLAL_S :: "u32 \<Rightarrow> armcpu \<Rightarrow> u32 \<times> armcpu" where
  "OP_UMLAL_S i c =
     (let v = R c (REG_POS i 8);
          res = (ucast (R c (REG_POS i 0)) :: u64) * ucast v;
          tmp = ucast res;
          c = setR (REG_POS i 16) (ucast (drop_bit 32 res) + R c (REG_POS i 16) + of_bool (CarryFrom tmp (R c (REG_POS i 12)))) c;
          c = setR (REG_POS i 12) (R c (REG_POS i 12) + tmp) c;
          c = setN (u1 (BIT31 (R c (REG_POS i 16)))) c;
          c = setZ (R c (REG_POS i 16) = 0 \<and> R c (REG_POS i 12) = 0) c
      in (MUL_UMxxL_END 3 v, c))"

section \<open>SMULL and SMLAL\<close>

definition MUL_SMxxL_END :: "u32 \<Rightarrow> u64 \<Rightarrow> u32" where
  "MUL_SMxxL_END c v =
     (let v = v AND 0xFFFFFFFF;
          v = signed_drop_bit 8 v
      in if v = 0 \<or> v = 0xFFFFFF then c + 1
      else (let v = signed_drop_bit 8 v in
        if v = 0 \<or> v = 0xFFFF then c + 2
        else (let v = signed_drop_bit 8 v in
          if v = 0 \<or> v = 0xFF then c + 3 else c + 4)))"

definition OP_SMULL :: "u32 \<Rightarrow> armcpu \<Rightarrow> u32 \<times> armcpu" where
  "OP_SMULL i c =
     (let v = (scast (R c (REG_POS i 8)) :: u64);
          res = v * scast (R c (REG_POS i 0));
          c = setR (REG_POS i 12) (ucast res) c;
          c = setR (REG_POS i 16) (ucast (signed_drop_bit 32 res)) c
      in (MUL_SMxxL_END 2 v, c))"

definition OP_SMLAL :: "u32 \<Rightarrow> armcpu \<Rightarrow> u32 \<times> armcpu" where
  "OP_SMLAL i c =
     (let v = (scast (R c (REG_POS i 8)) :: u64);
          res = v * scast (R c (REG_POS i 0));
          tmp = ucast res;
          c = setR (REG_POS i 16) (ucast (signed_drop_bit 32 res) + R c (REG_POS i 16) + of_bool (CarryFrom tmp (R c (REG_POS i 12)))) c;
          c = setR (REG_POS i 12) (R c (REG_POS i 12) + tmp) c
      in (MUL_SMxxL_END 3 v, c))"

definition OP_SMULL_S :: "u32 \<Rightarrow> armcpu \<Rightarrow> u32 \<times> armcpu" where
  "OP_SMULL_S i c =
     (let v = (scast (R c (REG_POS i 8)) :: u64);
          res = v * scast (R c (REG_POS i 0));
          c = setR (REG_POS i 12) (ucast res) c;
          c = setR (REG_POS i 16) (ucast (signed_drop_bit 32 res)) c;
          c = setN (u1 (BIT31 (R c (REG_POS i 16)))) c;
          c = setZ (R c (REG_POS i 16) = 0 \<and> R c (REG_POS i 12) = 0) c
      in (MUL_SMxxL_END 2 v, c))"

definition OP_SMLAL_S :: "u32 \<Rightarrow> armcpu \<Rightarrow> u32 \<times> armcpu" where
  "OP_SMLAL_S i c =
     (let v = (scast (R c (REG_POS i 8)) :: u64);
          res = v * scast (R c (REG_POS i 0));
          tmp = ucast res;
          c = setR (REG_POS i 16) (ucast (signed_drop_bit 32 res) + R c (REG_POS i 16) + of_bool (CarryFrom tmp (R c (REG_POS i 12)))) c;
          c = setR (REG_POS i 12) (R c (REG_POS i 12) + tmp) c;
          c = setN (u1 (BIT31 (R c (REG_POS i 16)))) c;
          c = setZ (R c (REG_POS i 16) = 0 \<and> R c (REG_POS i 12) = 0) c
      in (MUL_SMxxL_END 3 v, c))"

section \<open>CLZ\<close>

definition CLZ_TAB :: "u32 list" where
  "CLZ_TAB = [0, 1, 2, 2, 3, 3, 3, 3, 4, 4, 4, 4, 4, 4, 4, 4]"

text \<open>The five smearing steps of \<open>OP_CLZ\<close> and the sum over the nibbles.\<close>

definition clz_smear :: "u32 \<Rightarrow> u32" where
  "clz_smear Rm =
     (let Rm = Rm OR drop_bit 1 Rm;
          Rm = Rm OR drop_bit 2 Rm;
          Rm = Rm OR drop_bit 4 Rm;
          Rm = Rm OR drop_bit 8 Rm
      in Rm OR drop_bit 16 Rm)"

definition clz_nibble :: "u32 \<Rightarrow> nat \<Rightarrow> u32" where
  "clz_nibble Rm n = CLZ_TAB ! unat (drop_bit n Rm AND 0xF)"

definition OP_CLZ :: "u32 \<Rightarrow> armcpu \<Rightarrow> u32 \<times> armcpu" where
  "OP_CLZ i c =
     (let Rm = R c (REG_POS i 0) in
      if Rm = 0 then (2, setR (REG_POS i 12) 32 c)
      else
        (let Rm = clz_smear Rm;
             pos = clz_nibble Rm 0 + clz_nibble Rm 4 + clz_nibble Rm 8 + clz_nibble Rm 12 +
                   clz_nibble Rm 16 + clz_nibble Rm 20 + clz_nibble Rm 24 + clz_nibble Rm 28;
             c = setR (REG_POS i 12) (32 - pos) c
         in (2, c)))"

section \<open>Saturating arithmetic\<close>

definition OP_QADD :: "u32 \<Rightarrow> armcpu \<Rightarrow> u32 \<times> armcpu" where
  "OP_QADD i c =
     (let res = R c (REG_POS i 16) + R c (REG_POS i 0) in
        if SIGNED_OVERFLOW (R c (REG_POS i 16)) (R c (REG_POS i 0)) res \<noteq> 0 then
          (let c = setQ True c;
               c = setR (REG_POS i 12) (0x80000000 - BIT31 res) c
           in (2, c))
        else
          (let c = setR (REG_POS i 12) res c in
           if REG_POS i 12 = 15 then
             (let c = setR 15 (R c 15 AND 0xFFFFFFFC) c;
                  c = c\<lparr>next_instruction := R c 15\<rparr>
              in (3, c))
           else (2, c)))"

definition OP_QSUB :: "u32 \<Rightarrow> armcpu \<Rightarrow> u32 \<times> armcpu" where
  "OP_QSUB i c =
     (let res = R c (REG_POS i 0) - R c (REG_POS i 16) in
        if SIGNED_UNDERFLOW (R c (REG_POS i 0)) (R c (REG_POS i 16)) res \<noteq> 0 then
          (let c = setQ True c;
               c = setR (REG_POS i 12) (0x80000000 - BIT31 res) c
           in (2, c))
        else
          (let c = setR (REG_POS i 12) res c in
           if REG_POS i 12 = 15 then
             (let c = setR 15 (R c 15 AND 0xFFFFFFFC) c;
                  c = c\<lparr>next_instruction := R c 15\<rparr>
              in (3, c))
           else (2, c)))"

definition OP_QDADD :: "u32 \<Rightarrow> armcpu \<Rightarrow> u32 \<times> armcpu" where
  "OP_QDADD i c =
     (let mul = push_bit 1 (R c (REG_POS i 16));
         (c, mul) = (if BIT31 (R c (REG_POS i 16)) \<noteq> BIT31 mul
                     then (setQ True c, 0x80000000 - BIT31 mul) else (c, mul));
         res = mul + R c (REG_POS i 0)
     in if SIGNED_OVERFLOW (R c (REG_POS i 0)) (mul) res \<noteq> 0 then
          (let c = setQ True c;
               c = setR (REG_POS i 12) (0x80000000 - BIT31 res) c
           in (2, c))
        else
          (let c = setR (REG_POS i 12) res c in
           if REG_POS i 12 = 15 then
             (let c = setR 15 (R c 15 AND 0xFFFFFFFC) c;
                  c = c\<lparr>next_instruction := R c 15\<rparr>
              in (3, c))
           else (2, c)))"

definition OP_QDSUB :: "u32 \<Rightarrow> armcpu \<Rightarrow> u32 \<times> armcpu" where
  "OP_QDSUB i c =
     (let mul = push_bit 1 (R c (REG_POS i 16));
         (c, mul) = (if BIT31 (R c (REG_POS i 16)) \<noteq> BIT31 mul
                     then (setQ True c, 0x80000000 - BIT31 mul) else (c, mul));
         res = R c (REG_POS i 0) - mul
     in if SIGNED_UNDERFLOW (R c (REG_POS i 0)) (mul) res \<noteq> 0 then
          (let c = setQ True c;
               c = setR (REG_POS i 12) (0x80000000 - BIT31 res) c
           in (2, c))
        else
          (let c = setR (REG_POS i 12) res c in
           if REG_POS i 12 = 15 then
             (let c = setR 15 (R c 15 AND 0xFFFFFFFC) c;
                  c = c\<lparr>next_instruction := R c 15\<rparr>
              in (3, c))
           else (2, c)))"

section \<open>Halfword multiplication\<close>

definition HWORD :: "u32 \<Rightarrow> u32" where
  "HWORD x = signed_drop_bit 16 x"

definition LWORD :: "u32 \<Rightarrow> u32" where
  "LWORD x = signed_drop_bit 16 (push_bit 16 x)"

definition OP_SMUL_B_B :: "u32 \<Rightarrow> armcpu \<Rightarrow> u32 \<times> armcpu" where
  "OP_SMUL_B_B i c =
     (let c = setR (REG_POS i 16) (LWORD (R c (REG_POS i 0)) * LWORD (R c (REG_POS i 8))) c
      in (2, c))"

definition OP_SMUL_B_T :: "u32 \<Rightarrow> armcpu \<Rightarrow> u32 \<times> armcpu" where
  "OP_SMUL_B_T i c =
     (let c = setR (REG_POS i 16) (LWORD (R c (REG_POS i 0)) * HWORD (R c (REG_POS i 8))) c
      in (2, c))"

definition OP_SMUL_T_B :: "u32 \<Rightarrow> armcpu \<Rightarrow> u32 \<times> armcpu" where
  "OP_SMUL_T_B i c =
     (let c = setR (REG_POS i 16) (HWORD (R c (REG_POS i 0)) * LWORD (R c (REG_POS i 8))) c
      in (2, c))"

definition OP_SMUL_T_T :: "u32 \<Rightarrow> armcpu \<Rightarrow> u32 \<times> armcpu" where
  "OP_SMUL_T_T i c =
     (let c = setR (REG_POS i 16) (HWORD (R c (REG_POS i 0)) * HWORD (R c (REG_POS i 8))) c
      in (2, c))"

definition OP_SMLA_B_B :: "u32 \<Rightarrow> armcpu \<Rightarrow> u32 \<times> armcpu" where
  "OP_SMLA_B_B i c =
     (let tmp = scast (ucast (R c (REG_POS i 0)) :: u16) * scast (ucast (R c (REG_POS i 8)) :: u16);
          c = setR (REG_POS i 16) (tmp + R c (REG_POS i 12)) c;
          c = (if OverflowFromADD (R c (REG_POS i 16)) tmp (R c (REG_POS i 12)) then setQ True c else c)
      in (2, c))"

definition OP_SMLA_B_T :: "u32 \<Rightarrow> armcpu \<Rightarrow> u32 \<times> armcpu" where
  "OP_SMLA_B_T i c =
     (let tmp = LWORD (R c (REG_POS i 0)) * HWORD (R c (REG_POS i 8));
          a = R c (REG_POS i 12);
          c = setR (REG_POS i 16) (tmp + a) c;
          c = (if SIGNED_OVERFLOW tmp a (R c (REG_POS i 16)) \<noteq> 0 then setQ True c else c)
      in (2, c))"

definition OP_SMLA_T_B :: "u32 \<Rightarrow> armcpu \<Rightarrow> u32 \<times> armcpu" where
  "OP_SMLA_T_B i c =
     (let tmp = HWORD (R c (REG_POS i 0)) * LWORD (R c (REG_POS i 8));
          a = R c (REG_POS i 12);
          c = setR (REG_POS i 16) (tmp + a) c;
          c = (if SIGNED_OVERFLOW tmp a (R c (REG_POS i 16)) \<noteq> 0 then setQ True c else c)
      in (2, c))"

definition OP_SMLA_T_T :: "u32 \<Rightarrow> armcpu \<Rightarrow> u32 \<times> armcpu" where
  "OP_SMLA_T_T i c =
     (let tmp = HWORD (R c (REG_POS i 0)) * HWORD (R c (REG_POS i 8));
          a = R c (REG_POS i 12);
          c = setR (REG_POS i 16) (tmp + a) c;
          c = (if SIGNED_OVERFLOW tmp a (R c (REG_POS i 16)) \<noteq> 0 then setQ True c else c)
      in (2, c))"

definition OP_SMLAL_B_B :: "u32 \<Rightarrow> armcpu \<Rightarrow> u32 \<times> armcpu" where
  "OP_SMLAL_B_B i c =
     (let tmp = (scast (LWORD (R c (REG_POS i 0)) * LWORD (R c (REG_POS i 8))) :: u64);
          res = tmp + ucast (R c (REG_POS i 12));
          c = setR (REG_POS i 12) (ucast res) c;
          c = setR (REG_POS i 16) (R c (REG_POS i 16) + ucast (res + ucast (of_bool (sint tmp < 0) * 0xFFFFFFFF :: u32))) c
      in (2, c))"

definition OP_SMLAL_B_T :: "u32 \<Rightarrow> armcpu \<Rightarrow> u32 \<times> armcpu" where
  "OP_SMLAL_B_T i c =
     (let tmp = (scast (LWORD (R c (REG_POS i 0)) * HWORD (R c (REG_POS i 8))) :: u64);
          res = tmp + ucast (R c (REG_POS i 12));
          c = setR (REG_POS i 12) (ucast res) c;
          c = setR (REG_POS i 16) (R c (REG_POS i 16) + ucast (res + ucast (of_bool (sint tmp < 0) * 0xFFFFFFFF :: u32))) c
      in (2, c))"

definition OP_SMLAL_T_B :: "u32 \<Rightarrow> armcpu \<Rightarrow> u32 \<times> armcpu" where
  "OP_SMLAL_T_B i c =
     (let tmp = (scast (HWORD (R c (REG_POS i 0))) :: u64) * scast (LWORD (R c (REG_POS i 8)));
          res = tmp + ucast (R c (REG_POS i 12));
          c = setR (REG_POS i 12) (ucast res) c;
          c = setR (REG_POS i 16) (R c (REG_POS i 16) + ucast (res + ucast (of_bool (sint tmp < 0) * 0xFFFFFFFF :: u32))) c
      in (2, c))"

definition OP_SMLAL_T_T :: "u32 \<Rightarrow> armcpu \<Rightarrow> u32 \<times> armcpu" where
  "OP_SMLAL_T_T i c =
     (let tmp = (scast (HWORD (R c (REG_POS i 0)) * HWORD (R c (REG_POS i 8))) :: u64);
          res = tmp + ucast (R c (REG_POS i 12));
          c = setR (REG_POS i 12) (ucast res) c;
          c = setR (REG_POS i 16) (R c (REG_POS i 16) + ucast (res + ucast (of_bool (sint tmp < 0) * 0xFFFFFFFF :: u32))) c
      in (2, c))"

definition OP_SMULW_B :: "u32 \<Rightarrow> armcpu \<Rightarrow> u32 \<times> armcpu" where
  "OP_SMULW_B i c =
     (let tmp = (scast (LWORD (R c (REG_POS i 8))) :: u64) * scast (R c (REG_POS i 0));
          c = setR (REG_POS i 16) (ucast (signed_drop_bit 16 tmp AND 0xFFFFFFFF)) c
      in (2, c))"

definition OP_SMULW_T :: "u32 \<Rightarrow> armcpu \<Rightarrow> u32 \<times> armcpu" where
  "OP_SMULW_T i c =
     (let tmp = (scast (HWORD (R c (REG_POS i 8))) :: u64) * scast (R c (REG_POS i 0));
          c = setR (REG_POS i 16) (ucast (signed_drop_bit 16 tmp AND 0xFFFFFFFF)) c
      in (2, c))"

definition OP_SMLAW_B :: "u32 \<Rightarrow> armcpu \<Rightarrow> u32 \<times> armcpu" where
  "OP_SMLAW_B i c =
     (let tmp = (scast (LWORD (R c (REG_POS i 8))) :: u64) * scast (R c (REG_POS i 0));
          a = R c (REG_POS i 12);
          tmp = signed_drop_bit 16 tmp;
          c = setR (REG_POS i 16) (ucast (tmp + ucast a)) c;
          c = (if SIGNED_OVERFLOW (ucast tmp) a (R c (REG_POS i 16)) \<noteq> 0 then setQ True c else c)
      in (2, c))"

definition OP_SMLAW_T :: "u32 \<Rightarrow> armcpu \<Rightarrow> u32 \<times> armcpu" where
  "OP_SMLAW_T i c =
     (let tmp = (scast (HWORD (R c (REG_POS i 8))) :: u64) * scast (R c (REG_POS i 0));
          a = R c (REG_POS i 12);
          tmp = signed_drop_bit 16 tmp AND 0xFFFFFFFF;
          c = setR (REG_POS i 16) (ucast (tmp + ucast a)) c;
          c = (if SIGNED_OVERFLOW (ucast tmp) a (R c (REG_POS i 16)) \<noteq> 0 then setQ True c else c)
      in (2, c))"

section \<open>64-bit products\<close>

text \<open>The 64-bit value of a register pair.\<close>

definition pair64 :: "u32 \<Rightarrow> u32 \<Rightarrow> u64" where
  "pair64 hi lo = push_bit 32 (ucast hi) OR ucast lo"

lemma pair64_add: "pair64 hi lo = push_bit 32 (ucast hi) + ucast lo"
proof -
  have "push_bit 32 (ucast hi) AND (ucast lo :: u64) = 0"
    by (rule bit_word_eqI)
      (use bit_imp_le_length [of lo] in \<open>fastforce simp add: bit_and_iff bit_push_bit_iff bit_ucast_iff\<close>)
  then show ?thesis by (simp add: pair64_def disjunctive_add_eq_or)
qed

lemma pair64_split: "pair64 (ucast (drop_bit 32 x)) (ucast x) = x" for x :: u64
  unfolding pair64_def
  by (rule bit_word_eqI) (auto simp add: bit_simps)

lemma sdb32: "(ucast (signed_drop_bit 32 x) :: u32) = ucast (drop_bit 32 x)" for x :: u64
  by (rule bit_word_eqI) (auto simp add: bit_ucast_iff bit_signed_drop_bit_iff bit_drop_bit_eq)

lemma uint_pair64: "uint (pair64 hi lo) = uint hi * 2 ^ 32 + uint lo"
proof -
  have "uint (pair64 hi lo) = (uint hi * 2 ^ 32 + uint lo) mod 2 ^ 64"
    unfolding pair64_add by (simp add: push_bit_eq_mult uint_word_ariths unsigned_ucast_eq take_bit_eq_mod mod_simps)
  moreover have "uint hi * 2 ^ 32 + uint lo < 2 ^ 64" "0 \<le> uint hi * 2 ^ 32 + uint lo"
    using uint_bounds [of hi] uint_bounds [of lo] by auto
  ultimately show ?thesis by simp
qed

text \<open>Adding to a pair by halves, with the carry of the low words.\<close>

lemma uint_add_carry:
  "uint (a + b) = uint a + uint b - of_bool (CarryFrom a b) * 2 ^ 32" for a b :: u32
proof -
  have c: "CarryFrom a b \<longleftrightarrow> 2 ^ 32 \<le> uint a + uint b"
    using add_spec_code [of a b] by (simp add: add_spec_def)
  have "a + b = of_int (uint a + uint b)" by simp
  then have "uint (a + b) = (if uint a + uint b < 2 ^ 32 then uint a + uint b else uint a + uint b - 2 ^ 32)"
    using uint_wrap [of "uint a + uint b"] uint_bounds [of a] uint_bounds [of b] by simp
  then show ?thesis using c by simp
qed

lemma ucast64_uint: "(ucast a :: u64) = of_int (uint a)" for a :: u32
  by (simp add: unsigned_of_nat unsigned_ucast_eq)

lemma ucast_add_carry:
  "(ucast (a + b) :: u64) = ucast a + ucast b - of_bool (CarryFrom a b) * 2 ^ 32" for a b :: u32
  unfolding ucast64_uint uint_add_carry by simp

lemma push32_add: "push_bit 32 (ucast (a + b) :: u64) = push_bit 32 (ucast a) + push_bit 32 (ucast b)"
  for a b :: u32
proof -
  have "(x + y - k * z) * z = x * z + y * z - k * (z * z)" for x y k z :: u64
    by (simp add: algebra_simps)
  moreover have "(2 ^ 32 * 2 ^ 32 :: u64) = 0"
    by (simp only: power_add [symmetric] exp_eq_zero_iff) simp
  ultimately show ?thesis
    unfolding ucast_add_carry push_bit_eq_mult by (simp only: mult_zero_right diff_zero)
qed

lemma push32_of_bool: "push_bit 32 (ucast (of_bool c :: u32) :: u64) = of_bool c * 2 ^ 32"
  by (cases c) (simp_all add: push_bit_eq_mult)

lemma pair64_accumulate:
  "pair64 (ucast (drop_bit 32 x) + hi + of_bool (CarryFrom (ucast x) lo)) (lo + ucast x) =
    pair64 hi lo + x" for x :: u64
proof -
  let ?l = "ucast x :: u32" and ?h = "ucast (drop_bit 32 x) :: u32"
  have x: "x = push_bit 32 (ucast ?h) + ucast ?l"
    using pair64_split [of x] by (simp add: pair64_add)
  have "pair64 (?h + hi + of_bool (CarryFrom ?l lo)) (lo + ?l) =
      push_bit 32 (ucast ?h) + push_bit 32 (ucast hi) + of_bool (CarryFrom ?l lo) * 2 ^ 32 +
      (ucast ?l + ucast lo - of_bool (CarryFrom ?l lo) * 2 ^ 32)"
    unfolding pair64_add push32_add push32_of_bool
    by (simp only: add.commute [of lo] ucast_add_carry [of ?l lo])
  also have "\<dots> = pair64 hi lo + (push_bit 32 (ucast ?h) + ucast ?l)"
    by (simp add: pair64_add)
  also have "push_bit 32 (ucast ?h) + ucast ?l = x" using x by simp
  finally show ?thesis .
qed

lemma uint_ucast_mult: "uint (ucast a * ucast b :: u64) = uint a * uint b" for a b :: u32
proof -
  have "uint a \<le> 2 ^ 32 - 1" "uint b \<le> 2 ^ 32 - 1"
    using uint_bounds [of a] uint_bounds [of b] by linarith+
  then have m: "uint a * uint b \<le> (2 ^ 32 - 1) * (2 ^ 32 - 1)"
    using uint_bounds [of a] uint_bounds [of b] by (intro mult_mono) auto
  have p: "0 \<le> uint a * uint b" using uint_bounds [of a] uint_bounds [of b] by simp
  have t: "uint a * uint b < 2 ^ 64"
    using m by (rule le_less_trans) simp
  have "(ucast a * ucast b :: u64) = word_of_int (uint a * uint b)"
    unfolding ucast64_uint by (simp only: of_int_mult)
  then have "uint (ucast a * ucast b :: u64) = take_bit 64 (uint a * uint b)"
    by (simp only: uint_word_of_int_eq) simp
  also have "\<dots> = uint a * uint b"
    using p t by (rule take_bit_int_eq_self)
  finally show ?thesis .
qed

lemma sint_scast_mult: "sint (scast a * scast b :: u64) = sint a * sint b" for a b :: u32
proof -
  have "\<bar>sint a\<bar> \<le> 2 ^ 31" "\<bar>sint b\<bar> \<le> 2 ^ 31"
    using sint_range [of a] sint_range [of b] by (auto simp only: abs_le_iff)
  then have "\<bar>sint a * sint b\<bar> \<le> 2 ^ 31 * 2 ^ 31"
    unfolding abs_mult by (rule mult_mono) simp_all
  then have r: "- (2 ^ 63) \<le> sint a * sint b" "sint a * sint b < 2 ^ 63" by simp_all
  have "(scast a * scast b :: u64) = word_of_int (sint a * sint b)"
    by simp
  then have "sint (scast a * scast b :: u64) = signed_take_bit 63 (sint a * sint b)"
    by (simp only: sint_sbintrunc') simp
  also have "\<dots> = sint a * sint b"
    using r by (rule signed_take_bit_int_eq_self)
  finally show ?thesis .
qed

theorem long_multiply:
  assumes "REG_POS i 12 \<noteq> REG_POS i 16"
  shows "let rm = R c (REG_POS i 0); rs = R c (REG_POS i 8);
             acc = pair64 (R c (REG_POS i 16)) (R c (REG_POS i 12));
             res = (\<lambda>r. pair64 (R (snd r) (REG_POS i 16)) (R (snd r) (REG_POS i 12)))
    in uint (res (OP_UMULL i c)) = uint rm * uint rs \<and>
       sint (res (OP_SMULL i c)) = sint rm * sint rs \<and>
       res (OP_UMLAL i c) = acc + ucast rm * ucast rs \<and>
       res (OP_SMLAL i c) = acc + scast rm * scast rs"
proof -
  show ?thesis
    using assms
    by (simp add: Let_def OP_UMULL_def OP_SMULL_def OP_UMLAL_def OP_SMLAL_def setR_def
        pair64_split sdb32 pair64_accumulate uint_ucast_mult sint_scast_mult mult.commute)
qed

theorem long_multiply_witness:
  "REG_POS 0xE0821392 12 \<noteq> REG_POS 0xE0821392 16 \<and>
   uint (pair64 (R (snd (OP_UMULL 0xE0821392 sample_cpu)) 2) (R (snd (OP_UMULL 0xE0821392 sample_cpu)) 1)) =
     0x02001200 * 0x02001300"
proof -
  have r: "REG_POS 0xE0821392 12 = 1" "REG_POS 0xE0821392 16 = 2" "REG_POS 0xE0821392 0 = 2"
    "REG_POS 0xE0821392 8 = 3" by (simp_all add: REG_POS_def)
  then have d: "REG_POS 0xE0821392 12 \<noteq> REG_POS 0xE0821392 16" by simp
  from long_multiply [OF d, of sample_cpu] d show ?thesis
    unfolding Let_def r by simp
qed

section \<open>Saturation\<close>

text \<open>The nearest 32-bit signed integer, and an addition that clamps to it.\<close>

definition clamp32 :: "int \<Rightarrow> int" where
  "clamp32 x = max (-(2^31)) (min (2^31 - 1) x)"

lemma clamp32_id: "s32_range x \<Longrightarrow> clamp32 x = x"
  by (simp add: clamp32_def s32_range_def)

lemma saturated:
  assumes "-(2^32) \<le> x" "x < 2^32" "\<not> s32_range x"
  shows "(0x80000000 :: u32) - BIT31 (of_int x) = of_int (clamp32 x)"
proof (cases "x < 0")
  case True
  then have x: "x < -(2^31)" using assms(3) by (auto simp add: s32_range_def)
  then have "\<not> sint (of_int x :: u32) < 0"
    using assms(1,2) by (subst sint_wrap) auto
  moreover have "clamp32 x = -(2^31)" using x by (simp add: clamp32_def)
  ultimately show ?thesis by (simp add: BIT31_of_bool bit31_sint)
next
  case False
  then have x: "2^31 \<le> x" using assms(3) by (auto simp add: s32_range_def)
  then have "sint (of_int x :: u32) < 0"
    using assms(1,2) by (subst sint_wrap) auto
  moreover have "clamp32 x = 2^31 - 1" using x by (simp add: clamp32_def)
  ultimately show ?thesis by (simp add: BIT31_of_bool bit31_sint)
qed

lemma saturate_add:
  "(if s32_range (sint a + sint b) then a + b else 0x80000000 - BIT31 (a + b)) =
    of_int (clamp32 (sint a + sint b))" for a b :: u32
  using saturated [of "sint a + sint b"] sint_range [of a] sint_range [of b]
  by (auto simp add: clamp32_id)

lemma saturate_sub:
  "(if s32_range (sint a - sint b) then a - b else 0x80000000 - BIT31 (a - b)) =
    of_int (clamp32 (sint a - sint b))" for a b :: u32
  using saturated [of "sint a - sint b"] sint_range [of a] sint_range [of b]
  by (auto simp add: clamp32_id)

lemma sint_clamp32: "sint (of_int (clamp32 x) :: u32) = clamp32 x"
  by (subst sint_wrap) (auto simp add: clamp32_def)

lemma doubled:
  fixes a :: u32
  shows "(BIT31 a \<noteq> BIT31 (push_bit 1 a)) = (\<not> s32_range (2 * sint a))"
    and "(if BIT31 a \<noteq> BIT31 (push_bit 1 a) then 0x80000000 - BIT31 (push_bit 1 a) else push_bit 1 a) =
      of_int (clamp32 (2 * sint a))"
proof -
  have p: "push_bit 1 a = of_int (2 * sint a)" by (simp add: push_bit_eq_mult)
  have r: "-(2^32) \<le> 2 * sint a" "2 * sint a < 2^32" using sint_range [of a] by auto
  have s: "sint (of_int (2 * sint a) :: u32) < 0 \<longleftrightarrow>
      2 * sint a < 0 \<and> -(2^31) \<le> 2 * sint a \<or> 2^31 \<le> 2 * sint a"
    using r by (subst sint_wrap) auto
  show d: "(BIT31 a \<noteq> BIT31 (push_bit 1 a)) = (\<not> s32_range (2 * sint a))"
    unfolding p BIT31_of_bool bit31_sint s by (auto simp add: s32_range_def)
  show "(if BIT31 a \<noteq> BIT31 (push_bit 1 a) then 0x80000000 - BIT31 (push_bit 1 a) else push_bit 1 a) =
      of_int (clamp32 (2 * sint a))"
    unfolding d unfolding p using saturated [OF r] clamp32_id [of "2 * sint a"]
    by (cases "s32_range (2 * sint a)") (simp_all only: if_True if_False simp_thms)
qed

definition saturating :: "u32 \<Rightarrow> int \<Rightarrow> bool \<Rightarrow> armcpu \<Rightarrow> armcpu" where
  "saturating d v q c = c\<lparr>R := (R c)(d := of_int (clamp32 v)),
     CPSR := (CPSR c)\<lparr>psr_Q := psr_Q (CPSR c) \<or> q \<or> \<not> s32_range v\<rparr>\<rparr>"

lemma sat_add_tail:
  assumes "d \<noteq> 15"
  shows "(if SIGNED_OVERFLOW x y (x + y) \<noteq> 0 then
          (let c = setQ True c; c = setR d (0x80000000 - BIT31 (x + y)) c in (2, c))
        else (let c = setR d (x + y) c in if d = 15 then f c else (2, c))) =
    (2, saturating d (sint x + sint y) False c)"
  using assms saturate_add [of x y]
  unfolding SIGNED_OVERFLOW_iff
  by (cases "s32_range (sint x + sint y)") (simp_all add: saturating_def setR_def setQ_def)

lemma sat_sub_tail:
  assumes "d \<noteq> 15"
  shows "(if SIGNED_UNDERFLOW x y (x - y) \<noteq> 0 then
          (let c = setQ True c; c = setR d (0x80000000 - BIT31 (x - y)) c in (2, c))
        else (let c = setR d (x - y) c in if d = 15 then f c else (2, c))) =
    (2, saturating d (sint x - sint y) False c)"
  using assms saturate_sub [of x y]
  unfolding SIGNED_UNDERFLOW_iff
  by (cases "s32_range (sint x - sint y)") (simp_all add: saturating_def setR_def setQ_def)

lemma double_step:
  "(if BIT31 b \<noteq> BIT31 (push_bit 1 b) then (setQ True c, 0x80000000 - BIT31 (push_bit 1 b))
    else (c, push_bit 1 b)) =
   (if s32_range (2 * sint b) then c else setQ True c, of_int (clamp32 (2 * sint b)))"
  using doubled [of b] by (cases "BIT31 b \<noteq> BIT31 (push_bit 1 b)") simp_all

lemma saturating_setQ:
  "saturating d v False (if s32_range w then c else setQ True c) = saturating d v (\<not> s32_range w) c"
  by (simp add: saturating_def setQ_def)

lemma setQ_R: "R (if b then c else setQ True c) = R c"
  by (simp add: setQ_def)



section \<open>CLZ\<close>

lemma ex_less_add: "(\<exists>j<a + b. P (j :: nat)) \<longleftrightarrow> (\<exists>j<a. P j) \<or> (\<exists>j<b. P (j + a))"
proof
  assume "\<exists>j<a + b. P j"
  then obtain j where j: "j < a + b" "P j" by blast
  show "(\<exists>j<a. P j) \<or> (\<exists>j<b. P (j + a))"
  proof (cases "j < a")
    case False
    then have "j - a < b" "P (j - a + a)" using j by simp_all
    then show ?thesis by blast
  qed (use j in blast)
next
  assume "(\<exists>j<a. P j) \<or> (\<exists>j<b. P (j + a))"
  then show "\<exists>j<a + b. P j"
    by (metis add.commute add_less_cancel_right trans_less_add1)
qed

lemma smear_step:
  fixes x y :: u32
  assumes "\<And>n. bit y n \<longleftrightarrow> (\<exists>j<k. bit x (n + j))"
  and "m = k + k"
  shows "bit (y OR drop_bit k y) n \<longleftrightarrow> (\<exists>j<m. bit x (n + j))"
  unfolding assms(2) bit_or_iff bit_drop_bit_eq comp_def assms(1) ex_less_add by (simp add: ac_simps)

lemma bit_clz_smear: "bit (clz_smear x) n \<longleftrightarrow> (\<exists>j<32. bit x (n + j))"
proof -
  define a where "a = x OR drop_bit 1 x"
  define b where "b = a OR drop_bit 2 a"
  define d where "d = b OR drop_bit 4 b"
  define e where "e = d OR drop_bit 8 d"
  have a: "bit a n \<longleftrightarrow> (\<exists>j<2. bit x (n + j))" for n
    unfolding a_def by (rule smear_step) simp_all
  have b: "bit b n \<longleftrightarrow> (\<exists>j<4. bit x (n + j))" for n
    unfolding b_def by (rule smear_step [OF a]) simp
  have d: "bit d n \<longleftrightarrow> (\<exists>j<8. bit x (n + j))" for n
    unfolding d_def by (rule smear_step [OF b]) simp
  have e: "bit e n \<longleftrightarrow> (\<exists>j<16. bit x (n + j))" for n
    unfolding e_def by (rule smear_step [OF d]) simp
  have "clz_smear x = e OR drop_bit 16 e"
    by (simp only: clz_smear_def Let_def a_def b_def d_def e_def)
  then show ?thesis by (simp only: smear_step [OF e, of 32])
qed

text \<open>The bit length of a word: one more than its highest bit.\<close>

lemma highest_bit:
  fixes x :: u32
  assumes "x \<noteq> 0"
  obtains k where "k < 32" "bit x k" "\<And>j. bit x j \<Longrightarrow> j \<le> k"
proof -
  let ?S = "{n. bit x n}"
  have fin: "finite ?S" using bit_imp_le_length [of x] by (auto intro!: finite_subset [of _ "{..<32}"])
  have "?S \<noteq> {}"
  proof
    assume "?S = {}"
    then have "x = 0" by (intro bit_word_eqI) auto
    with assms show False by simp
  qed
  then have "Max ?S \<in> ?S" using fin by (rule Max_in [rotated])
  then have m: "bit x (Max ?S)" by simp
  moreover have "j \<le> Max ?S" if "bit x j" for j using fin that by simp
  moreover have "Max ?S < 32" using m bit_imp_le_length [of x "Max ?S"] by simp
  ultimately show thesis using that [of "Max ?S"] by blast
qed

lemma clz_smear_mask:
  assumes "bit x k" "\<And>j. bit x j \<Longrightarrow> j \<le> k"
  shows "clz_smear x = mask (Suc k)"
proof (rule bit_word_eqI)
  fix n assume "n < LENGTH(32)"
  have k: "k < 32" using assms(1) bit_imp_le_length [of x k] by simp
  have "(\<exists>j<32. bit x (n + j)) \<longleftrightarrow> n \<le> k"
  proof
    assume "n \<le> k"
    then have "k - n < 32" "bit x (n + (k - n))" using k assms(1) by simp_all
    then show "\<exists>j<32. bit x (n + j)" by blast
  next
    assume "\<exists>j<32. bit x (n + j)"
    then show "n \<le> k" using assms(2) by (meson le_add1 le_trans)
  qed
  then show "bit (clz_smear x) n = bit (mask (Suc k) :: u32) n"
    using \<open>n < LENGTH(32)\<close> by (auto simp add: bit_clz_smear bit_mask_iff)
qed

definition clz_pos :: "u32 \<Rightarrow> u32" where
  "clz_pos Rm = clz_nibble Rm 0 + clz_nibble Rm 4 + clz_nibble Rm 8 + clz_nibble Rm 12 +
     clz_nibble Rm 16 + clz_nibble Rm 20 + clz_nibble Rm 24 + clz_nibble Rm 28"

lemma clz_pos_mask_all: "map (\<lambda>k. clz_pos (mask k)) [0..<33] = map of_nat [0..<33]"
  by code_simp

lemma clz_pos_mask: "k \<le> 32 \<Longrightarrow> clz_pos (mask k) = of_nat k"
proof -
  assume "k \<le> 32"
  then have "k < 33" by simp
  then have "map (\<lambda>k. clz_pos (mask k)) [0..<33] ! k = (map of_nat [0..<33] :: u32 list) ! k"
    by (simp only: clz_pos_mask_all)
  then show ?thesis using \<open>k < 33\<close> by (simp del: upt_conv_Cons)
qed

text \<open>C32: The smear-and-table routine of CLZ writes the number of leading zero bits of the
  operand to Rd, 32 for zero.\<close>

theorem clz_counts_leading_zeros:
  "\<exists>n. OP_CLZ i c = (2, setR (REG_POS i 12) (of_nat n) c) \<and>
     (let x = R c (REG_POS i 0) in
      if x = 0 then n = 32 else n < 32 \<and> bit x (31 - n) \<and> (\<forall>j<n. \<not> bit x (31 - j)))"
proof (cases "R c (REG_POS i 0) = 0")
  case True
  then show ?thesis by (intro exI [of _ 32]) (simp add: OP_CLZ_def Let_def)
next
  case False
  let ?x = "R c (REG_POS i 0)"
  obtain k where k: "k < 32" "bit ?x k" "\<And>j. bit ?x j \<Longrightarrow> j \<le> k"
    using highest_bit [OF False] by metis
  have "clz_pos (clz_smear ?x) = of_nat (Suc k)"
    using k clz_smear_mask [of ?x k] clz_pos_mask [of "Suc k"] by simp
  then have "OP_CLZ i c = (2, setR (REG_POS i 12) (32 - of_nat (Suc k)) c)"
    using False unfolding OP_CLZ_def Let_def clz_pos_def by simp
  moreover have "(32 - of_nat (Suc k) :: u32) = of_nat (31 - k)"
    using k(1) by (simp add: of_nat_diff)
  ultimately show ?thesis
    using False k by (intro exI [of _ "31 - k"]) (auto simp add: Let_def dest: k(3))
qed

theorem clz_counts_leading_zeros_witness:
  "\<exists>n. OP_CLZ 0xE16F0F11 (sample_cpu\<lparr>R := (\<lambda>_. 0x00010000)\<rparr>) = (2, setR 0 (of_nat n) (sample_cpu\<lparr>R := (\<lambda>_. 0x00010000)\<rparr>)) \<and> n < 32"
  using clz_counts_leading_zeros [of "0xE16F0F11" "sample_cpu\<lparr>R := (\<lambda>_. 0x00010000)\<rparr>"]
  by (auto simp: Let_def REG_POS_def)

section \<open>Halfword multiplication\<close>

text \<open>The signed value of the bottom or top half of a word.\<close>

definition half :: "bool \<Rightarrow> u32 \<Rightarrow> int" where
  "half t x = (if t then sint (ucast (drop_bit 16 x) :: u16) else sint (ucast x :: u16))"

lemma LWORD_scast: "LWORD x = scast (ucast x :: u16)"
  unfolding LWORD_def
proof (rule bit_word_eqI)
  fix n assume n: "n < LENGTH(32)"
  show "bit (signed_drop_bit 16 (push_bit 16 x)) n = bit (scast (ucast x :: u16) :: u32) n"
    using n by (cases "n < 15"; cases "n = 15") (auto simp add: bit_signed_drop_bit_iff bit_push_bit_iff bit_signed_iff bit_ucast_iff min_def)
qed

lemma HWORD_scast: "HWORD x = scast (ucast (drop_bit 16 x) :: u16)"
  unfolding HWORD_def
proof (rule bit_word_eqI)
  fix n assume n: "n < LENGTH(32)"
  show "bit (signed_drop_bit 16 x) n = bit (scast (ucast (drop_bit 16 x) :: u16) :: u32) n"
    using n by (cases "n < 15"; cases "n = 15") (auto simp add: bit_signed_drop_bit_iff bit_drop_bit_eq bit_signed_iff bit_ucast_iff min_def)
qed

lemma sint_scast16: "sint (scast w :: u32) = sint w" for w :: u16
  by (simp add: sint_up_scast is_up)

lemma half_code: "sint (LWORD x) = half False x" "sint (HWORD x) = half True x"
  unfolding LWORD_scast HWORD_scast half_def sint_scast16 by simp_all

lemma half_range: "- (2 ^ 15) \<le> half t x \<and> half t x < 2 ^ 15"
  using sint_ge [of "ucast x :: u16"] sint_lt [of "ucast x :: u16"]
    sint_ge [of "ucast (drop_bit 16 x) :: u16"] sint_lt [of "ucast (drop_bit 16 x) :: u16"]
  by (simp add: half_def)

lemma half_product:
  fixes a b :: u32
  assumes "sint a = half s x" "sint b = half t y"
  shows "sint (a * b) = half s x * half t y"
proof -
  have "\<bar>half s x\<bar> \<le> 2 ^ 15" "\<bar>half t y\<bar> \<le> 2 ^ 15"
    using half_range [of s x] half_range [of t y] by (auto simp only: abs_le_iff)
  then have "\<bar>half s x * half t y\<bar> \<le> 2 ^ 15 * 2 ^ 15"
    unfolding abs_mult by (rule mult_mono) simp_all
  then have r: "- (2 ^ 31) \<le> half s x * half t y" "half s x * half t y < 2 ^ 31" by simp_all
  have "a * b = of_int (half s x * half t y)"
    unfolding assms [symmetric] by simp
  then show ?thesis using r by (simp only:) (subst sint_wrap, auto)
qed


definition mul_result :: "u32 \<Rightarrow> int \<Rightarrow> bool \<Rightarrow> armcpu \<Rightarrow> armcpu" where
  "mul_result d v q c = c\<lparr>R := (R c)(d := of_int v),
     CPSR := (CPSR c)\<lparr>psr_Q := psr_Q (CPSR c) \<or> q\<rparr>\<rparr>"

lemma of_int_product:
  assumes "sint a = half s x" "sint b = half t y"
  shows "a * b = (of_int (half s x * half t y) :: u32)"
  unfolding assms [symmetric] by simp

lemmas half_products =
  of_int_product [OF half_code(1) half_code(1)] of_int_product [OF half_code(1) half_code(2)]
  of_int_product [OF half_code(2) half_code(1)] of_int_product [OF half_code(2) half_code(2)]

lemmas sint_half_products =
  half_product [OF half_code(1) half_code(1)] half_product [OF half_code(1) half_code(2)]
  half_product [OF half_code(2) half_code(1)] half_product [OF half_code(2) half_code(2)]

theorem halfword_multiply:
  "let x = R c (REG_POS i 0); y = R c (REG_POS i 8); d = REG_POS i 16;
       a = sint (R c (REG_POS i 12));
       mul = (\<lambda>s t. (2, mul_result d (half s x * half t y) False c));
       mla = (\<lambda>s t. (2, mul_result d (half s x * half t y + a) (\<not> s32_range (half s x * half t y + a)) c))
   in OP_SMUL_B_B i c = mul False False \<and> OP_SMUL_B_T i c = mul False True \<and>
      OP_SMUL_T_B i c = mul True False \<and> OP_SMUL_T_T i c = mul True True \<and>
      OP_SMLA_B_T i c = mla False True \<and> OP_SMLA_T_B i c = mla True False \<and>
      OP_SMLA_T_T i c = mla True True"
proof -
  have q: "(if b then setQ True (setR d v c) else setR d v c) =
      c\<lparr>R := (R c)(d := v), CPSR := (CPSR c)\<lparr>psr_Q := psr_Q (CPSR c) \<or> b\<rparr>\<rparr>" for b d v
    by (simp add: setQ_def setR_def)
  show ?thesis
    unfolding Let_def OP_SMUL_B_B_def OP_SMUL_B_T_def OP_SMUL_T_B_def OP_SMUL_T_T_def
      OP_SMLA_B_T_def OP_SMLA_T_B_def OP_SMLA_T_T_def mul_result_def
    by (simp add: q setR_def SIGNED_OVERFLOW_iff sint_half_products)
      (simp add: half_products)
qed

theorem smla_b_b_distinct:
  assumes "REG_POS i 16 \<noteq> REG_POS i 12"
  shows "let v = half False (R c (REG_POS i 0)) * half False (R c (REG_POS i 8)) + sint (R c (REG_POS i 12))
    in OP_SMLA_B_B i c = (2, mul_result (REG_POS i 16) v (\<not> s32_range v) c)"
proof -
  have q: "(if b then setQ True (setR d v c) else setR d v c) =
      c\<lparr>R := (R c)(d := v), CPSR := (CPSR c)\<lparr>psr_Q := psr_Q (CPSR c) \<or> b\<rparr>\<rparr>" for b d v
    by (simp add: setQ_def setR_def)
  show ?thesis
    using assms
    unfolding Let_def OP_SMLA_B_B_def LWORD_scast [symmetric] mul_result_def
    by (simp add: q setR_def OverflowFromADD_iff sint_half_products) (simp add: half_products)
qed

theorem smla_b_b_distinct_witness:
  "REG_POS 0xE1001382 16 \<noteq> REG_POS 0xE1001382 12 \<and>
   OP_SMLA_B_B 0xE1001382 sample_cpu =
     (2, mul_result 0 (0x1200 * 0x1300 + 0x02001100) False sample_cpu)"
proof -
  have r: "REG_POS 0xE1001382 16 = 0" "REG_POS 0xE1001382 12 = 1" "REG_POS 0xE1001382 8 = 3"
    "REG_POS 0xE1001382 0 = 2" by (simp_all add: REG_POS_def)
  then have d: "REG_POS 0xE1001382 16 \<noteq> REG_POS 0xE1001382 12" by simp
  from smla_b_b_distinct [OF d, of sample_cpu] d show ?thesis
    unfolding Let_def r by (simp add: half_def s32_range_def)
qed

theorem smla_b_b_same_register:
  "let c = sample_cpu\<lparr>R := (R sample_cpu)(1 := 0x7FFFFFFF, 2 := 1, 3 := 1)\<rparr>;
       c' = snd (OP_SMLA_B_B 0xE1011382 c)
   in R c' 1 = 0x80000000 \<and> \<not> psr_Q (CPSR c) \<and> \<not> psr_Q (CPSR c')"
  by (simp add: Let_def OP_SMLA_B_B_def REG_POS_def setR_def sample_cpu_def psr_of_val_def
      OverflowFromADD_def)

theorem smlal_halfword_high_word:
  assumes "REG_POS i 12 \<noteq> REG_POS i 16" "R c (REG_POS i 0) = 0"
  shows "let c' = \<lambda>f. snd (f i c); acc = \<lambda>d. pair64 (R d (REG_POS i 16)) (R d (REG_POS i 12)) in
     (\<forall>f \<in> {OP_SMLAL_B_B, OP_SMLAL_B_T, OP_SMLAL_T_B, OP_SMLAL_T_T}.
        R (c' f) (REG_POS i 16) = R c (REG_POS i 16) + R c (REG_POS i 12) \<and>
        (acc (c' f) = acc c \<longleftrightarrow> R c (REG_POS i 12) = 0))"
proof -
  have z: "LWORD 0 = 0" "HWORD 0 = 0" by (simp_all add: LWORD_def HWORD_def)
  have u: "(ucast (ucast x :: u64) :: u32) = x" for x :: u32
    by (rule bit_word_eqI) (simp add: bit_ucast_iff)
  have p: "pair64 (h + l) l = pair64 h l \<longleftrightarrow> l = 0" for h l :: u32
  proof
    assume "pair64 (h + l) l = pair64 h l"
    then have "uint (h + l) = uint h"
      using uint_pair64 [of "h + l" l] uint_pair64 [of h l] by simp
    then have "h + l = h" by (simp only: word_uint_eq_iff)
    then show "l = 0" by simp
  qed simp
  show ?thesis
    using assms
    by (simp add: Let_def OP_SMLAL_B_B_def OP_SMLAL_B_T_def OP_SMLAL_T_B_def OP_SMLAL_T_T_def z u p setR_def)
qed

theorem smlal_halfword_high_word_witness:
  "R (snd (OP_SMLAL_B_B 0xE1421380 (setR 0 0 sample_cpu))) 2 = 0x04002300"
proof -
  have r: "REG_POS 0xE1421380 16 = 2" "REG_POS 0xE1421380 12 = 1" "REG_POS 0xE1421380 8 = 3"
    "REG_POS 0xE1421380 0 = 0" by (simp_all add: REG_POS_def)
  then have d: "REG_POS 0xE1421380 12 \<noteq> REG_POS 0xE1421380 16"
    and z: "R (setR 0 0 sample_cpu) (REG_POS 0xE1421380 0) = 0" by simp_all
  from smlal_halfword_high_word [OF d z] show ?thesis
    unfolding Let_def r by simp
qed

end
