(* ===== verification/Emufile.thy ===== *)
theory Emufile
  imports Prelude
begin

text \<open>
  Memory files and the save-state codec: the class \<open>EMUFILE_MEMORY\<close> of
  src/source/emufile.h and src/source/emufile.cpp and the little-endian readers and writers of
  src/source/readwrite.cpp.  A file is the record of the class's members; \<open>len\<close> and
  \<open>pos\<close> are the source's s32, here the same 32 bits, read with \<open>sint\<close> where the
  source compares them as signed.  An operation returns \<open>None\<close> where the source
  reads or writes outside the vector, which C++ leaves undefined.

  The contract of the codec is the locale \<open>codec\<close>: what a writer appends, the reader
  of the same type takes off again, and a reader at the end of the file fails without moving.
  The save-state lemmas are proved from it.
\<close>

section \<open>EMUFILE\_MEMORY\<close>

record emufile =
  em_vec :: "u8 list"
  em_pos :: u32
  em_len :: u32
  failbit :: bool

text \<open>\<open>reserve\<close>: \<open>resize\<close> fills with zeros.\<close>

definition em_reserve :: "u32 \<Rightarrow> emufile \<Rightarrow> emufile" where
  "em_reserve amt f =
     (if of_nat (length (em_vec f)) < amt
      then f\<lparr>em_vec := em_vec f @ replicate (unat amt - length (em_vec f)) 0\<rparr> else f)"

definition emufile_preallocate :: "u32 \<Rightarrow> emufile" where
  "emufile_preallocate n =
     \<lparr>em_vec = replicate (unat n) 0, em_pos = 0, em_len = n, failbit = False\<rparr>"

definition emufile_empty :: emufile where
  "emufile_empty = \<lparr>em_vec = [], em_pos = 0, em_len = 0, failbit = False\<rparr>"

definition emufile_of_vector :: "u8 list \<Rightarrow> emufile" where
  "emufile_of_vector v = \<lparr>em_vec = v, em_pos = 0, em_len = of_nat (length v), failbit = False\<rparr>"

definition em_truncate :: "u32 \<Rightarrow> emufile \<Rightarrow> emufile" where
  "em_truncate n f =
     (let f = f\<lparr>em_vec := take (unat n) (em_vec f) @ replicate (unat n - length (em_vec f)) 0, em_len := n\<rparr>
      in if sint (em_pos f) > sint n then f\<lparr>em_pos := n\<rparr> else f)"

definition em_fail :: "bool \<Rightarrow> emufile \<Rightarrow> bool \<times> emufile" where
  "em_fail unset f = (failbit f, if unset then f\<lparr>failbit := False\<rparr> else f)"

definition em_eof :: "emufile \<Rightarrow> bool" where
  "em_eof f \<longleftrightarrow> em_len f = em_pos f"

text \<open>\<open>buf()\<close> reserves one byte when the size is 0.\<close>

definition em_buf :: "emufile \<Rightarrow> emufile" where
  "em_buf f = (if em_len f = 0 then em_reserve 1 f else f)"

text \<open>The result of a read is the bytes copied; their number is what the function returns.\<close>

definition em_fread :: "u32 \<Rightarrow> emufile \<Rightarrow> (u8 list \<times> emufile) option" where
  "em_fread bytes f =
     (let remain = em_len f - em_pos f; todo = min remain bytes in
      if em_len f = 0 then Some ([], f\<lparr>failbit := True\<rparr>)
      else if unat (em_pos f) + unat todo > length (em_vec f) then None
      else
        (let dst = take (unat todo) (drop (unat (em_pos f)) (em_vec f));
             f = f\<lparr>em_pos := em_pos f + todo\<rparr>;
             f = (if todo < bytes then f\<lparr>failbit := True\<rparr> else f)
         in Some (dst, f)))"

definition em_fwrite :: "u8 list \<Rightarrow> emufile \<Rightarrow> emufile option" where
  "em_fwrite src f =
     (let bytes = of_nat (length src);
          f = em_buf (em_reserve (em_pos f + bytes) f)
      in if unat (em_pos f) + length src > length (em_vec f) then None
         else
           (let f = f\<lparr>em_vec := take (unat (em_pos f)) (em_vec f) @ src @
                        drop (unat (em_pos f) + length src) (em_vec f)\<rparr>;
                f = f\<lparr>em_pos := em_pos f + bytes\<rparr>
            in Some (f\<lparr>em_len := (if sint (em_pos f) < sint (em_len f) then em_len f else em_pos f)\<rparr>)))"

datatype seek_origin = SEEK_SET | SEEK_CUR | SEEK_END

definition em_fseek :: "u32 \<Rightarrow> seek_origin \<Rightarrow> emufile \<Rightarrow> emufile" where
  "em_fseek offset origin f =
     (let f = f\<lparr>em_pos := (case origin of SEEK_SET \<Rightarrow> offset | SEEK_CUR \<Rightarrow> em_pos f + offset
                         | SEEK_END \<Rightarrow> em_len f + offset)\<rparr>
      in em_reserve (em_pos f) f)"

definition em_fgetc :: "emufile \<Rightarrow> (u32 \<times> emufile) option" where
  "em_fgetc f =
     (let remain = em_len f - em_pos f in
      if remain < 1 then Some (- 1, f\<lparr>failbit := True\<rparr>)
      else if unat (em_pos f) \<ge> length (em_vec f) then None
      else Some (ucast (em_vec f ! unat (em_pos f)), f\<lparr>em_pos := em_pos f + 1\<rparr>))"

definition em_fputc :: "u32 \<Rightarrow> emufile \<Rightarrow> (u32 \<times> emufile) option" where
  "em_fputc c f = map_option (Pair 0) (em_fwrite [ucast c] f)"

section \<open>readwrite.cpp\<close>

definition write8le :: "u8 \<Rightarrow> emufile \<Rightarrow> emufile option" where
  "write8le b f = em_fwrite [b] f"

definition bytes16 :: "u16 \<Rightarrow> u8 list" where
  "bytes16 b = [ucast b, ucast (drop_bit 8 b)]"

definition write16le :: "u16 \<Rightarrow> emufile \<Rightarrow> emufile option" where
  "write16le b f = em_fwrite (bytes16 b) f"

definition bytes32 :: "u32 \<Rightarrow> u8 list" where
  "bytes32 b = [ucast b, ucast (drop_bit 8 b), ucast (drop_bit 16 b), ucast (drop_bit 24 b)]"

definition write32le :: "u32 \<Rightarrow> emufile \<Rightarrow> emufile option" where
  "write32le b f = em_fwrite (bytes32 b) f"

definition bytes64 :: "u64 \<Rightarrow> u8 list" where
  "bytes64 b = [ucast b, ucast (drop_bit 8 b), ucast (drop_bit 16 b), ucast (drop_bit 24 b),
     ucast (drop_bit 32 b), ucast (drop_bit 40 b), ucast (drop_bit 48 b), ucast (drop_bit 56 b)]"

definition write64le :: "u64 \<Rightarrow> emufile \<Rightarrow> emufile option" where
  "write64le b f = em_fwrite (bytes64 b) f"

definition writebool :: "bool \<Rightarrow> emufile \<Rightarrow> emufile option" where
  "writebool b f = write32le (if b then 1 else 0) f"

text \<open>
  The readers copy into a local buffer of the host's little-endian layout.  Their result is the
  value to store, \<open>None\<close> where they return 0 and leave the destination alone.
\<close>

fun le_value :: "u8 list \<Rightarrow> 'a::len word" where
  "le_value [] = 0" |
  "le_value (b # bs) = ucast b OR push_bit 8 (le_value bs)"

definition read_le :: "u32 \<Rightarrow> emufile \<Rightarrow> ('a::len word option \<times> emufile) option" where
  "read_le n f =
     (case em_fread n f of None \<Rightarrow> None
      | Some (bs, f) \<Rightarrow> Some (if of_nat (length bs) \<noteq> n then None else Some (le_value bs), f))"

definition read8le :: "emufile \<Rightarrow> (u8 option \<times> emufile) option" where
  "read8le f = read_le 1 f"

definition read16le :: "emufile \<Rightarrow> (u16 option \<times> emufile) option" where
  "read16le f = read_le 2 f"

definition read32le :: "emufile \<Rightarrow> (u32 option \<times> emufile) option" where
  "read32le f = read_le 4 f"

definition read64le :: "emufile \<Rightarrow> (u64 option \<times> emufile) option" where
  "read64le f = read_le 8 f"


definition readbool :: "emufile \<Rightarrow> (bool option \<times> emufile) option" where
  "readbool f =
     (case read32le f of None \<Rightarrow> None
      | Some (t, f) \<Rightarrow> Some (map_option (\<lambda>temp. temp \<noteq> 0) t, f))"

definition writebuffer :: "u8 list \<Rightarrow> emufile \<Rightarrow> emufile option" where
  "writebuffer v f =
     (let sz = of_nat (length v) in
      case write32le sz f of None \<Rightarrow> None
      | Some f \<Rightarrow> if sz > 0 then em_fwrite v f else Some f)"

text \<open>
  \<open>resize\<close> keeps the vector's old bytes, and the result of the \<open>fread\<close> is
  ignored: after a short read the rest of the buffer is what it was.
\<close>

definition readbuffer :: "u8 list \<Rightarrow> emufile \<Rightarrow> (u8 list option \<times> emufile) option" where
  "readbuffer old f =
     (case read32le f of None \<Rightarrow> None
      | Some (None, f) \<Rightarrow> Some (None, f)
      | Some (Some sz, f) \<Rightarrow>
          (let v = take (unat sz) old @ replicate (unat sz - length old) 0 in
           if sz > 0 then map_option (\<lambda>(bs, f). (Some (bs @ drop (length bs) v), f)) (em_fread sz f)
           else Some (Some v, f)))"

section \<open>A file as contents and position\<close>

definition em_ok :: "emufile \<Rightarrow> bool" where
  "em_ok f \<longleftrightarrow> em_pos f \<le> em_len f \<and> unat (em_len f) \<le> length (em_vec f) \<and>
     unat (em_len f) < 2 ^ 31 \<and> length (em_vec f) < 2 ^ 32"

definition em_data :: "emufile \<Rightarrow> u8 list" where
  "em_data f = take (unat (em_len f)) (em_vec f)"

definition em_rest :: "emufile \<Rightarrow> u8 list" where
  "em_rest f = drop (unat (em_pos f)) (em_data f)"

lemma em_lengths:
  assumes "em_ok f"
  shows "length (em_data f) = unat (em_len f)" "length (em_rest f) = unat (em_len f) - unat (em_pos f)"
  using assms by (simp_all add: em_ok_def em_data_def em_rest_def)

lemma em_empty [simp]:
  "em_ok emufile_empty" "em_data emufile_empty = []" "em_rest emufile_empty = []"
  by (simp_all add: emufile_empty_def em_ok_def em_data_def em_rest_def)

lemma em_fread_rest:
  assumes "em_ok f"
  shows "\<exists>f'. em_fread n f = Some (take (unat n) (em_rest f), f') \<and> em_ok f' \<and>
    em_data f' = em_data f \<and> em_rest f' = drop (unat n) (em_rest f)"
proof -
  have le: "unat (em_pos f) \<le> unat (em_len f)" and v: "unat (em_len f) \<le> length (em_vec f)"
    using assms by (simp_all add: em_ok_def word_le_nat_alt)
  have rem: "unat (em_len f - em_pos f) = unat (em_len f) - unat (em_pos f)"
    using assms by (simp add: em_ok_def unat_sub)
  let ?todo = "min (em_len f - em_pos f) n"
  have todo: "unat ?todo = min (unat (em_len f) - unat (em_pos f)) (unat n)"
    by (simp add: min_def word_le_nat_alt rem)
  have pos: "unat (em_pos f + ?todo) = unat (em_pos f) + unat ?todo"
    by (rule unat_add_lem [THEN iffD1]) (use le todo u32_bound [of "em_len f"] in simp)
  have in_vec: "\<not> unat (em_pos f) + unat ?todo > length (em_vec f)"
    using le v todo by simp
  have dst: "take (unat ?todo) (drop (unat (em_pos f)) (em_vec f)) = take (unat n) (em_rest f)"
    unfolding todo using le v by (simp add: em_rest_def em_data_def drop_take min.commute)
  show ?thesis
  proof (cases "em_len f = 0")
    case True
    then show ?thesis using assms by (simp add: em_fread_def em_rest_def em_data_def em_ok_def)
  next
    case False
    have ok: "em_pos f + ?todo \<le> em_len f"
      using le todo by (simp add: word_le_nat_alt pos)
    have r: "drop (unat (em_pos f + ?todo)) (em_data f) = drop (unat n) (em_rest f)"
      using le v todo by (cases "unat n \<le> unat (em_len f) - unat (em_pos f)")
        (simp_all add: em_rest_def pos em_data_def add.commute)
    show ?thesis
      using False in_vec dst ok r assms by (simp add: em_fread_def Let_def em_rest_def em_data_def em_ok_def)
  qed
qed

lemma sint_small: "unat x < 2 ^ 31 \<Longrightarrow> sint x = int (unat x)" for x :: u32
proof -
  assume "unat x < 2 ^ 31"
  then have "int (unat x) < int (2 ^ 31)" by (simp only: of_nat_less_iff)
  then have "uint x < 2 ^ 31" by simp
  then have "signed_take_bit 31 (uint x) = uint x"
    by (intro signed_take_bit_int_eq_self) (use uint_ge_0 [of x] in linarith, simp)
  then show ?thesis by (simp add: sint_uint)
qed

lemma em_reserve_vec:
  assumes "length (em_vec f) < 2 ^ 32"
  shows "em_reserve a f = f\<lparr>em_vec := em_vec f @ replicate (unat a - length (em_vec f)) 0\<rparr>"
  using assms by (simp add: em_reserve_def word_less_nat_alt unat_of_nat)

lemma em_fwrite_reserved:
  assumes "length (em_vec f) < 2 ^ 32" "unat (em_pos f) + n < 2 ^ 31"
  obtains X where "em_buf (em_reserve (em_pos f + of_nat n) f) = f\<lparr>em_vec := em_vec f @ X\<rparr>"
    "unat (em_pos f) + n \<le> length (em_vec f @ X)" "length (em_vec f @ X) < 2 ^ 32"
proof -
  have amt: "unat (em_pos f + of_nat n) = unat (em_pos f) + n"
    by (subst unat_add_lem [THEN iffD1]) (use assms in \<open>simp_all add: unat_of_nat\<close>)
  let ?g = "f\<lparr>em_vec := em_vec f @ replicate (unat (em_pos f) + n - length (em_vec f)) 0\<rparr>"
  have g: "em_reserve (em_pos f + of_nat n) f = ?g"
    using em_reserve_vec [OF assms(1), of "em_pos f + of_nat n"] by (simp add: amt)
  have lg: "length (em_vec ?g) < 2 ^ 32" "unat (em_pos f) + n \<le> length (em_vec ?g)"
    using assms by simp_all
  show thesis
  proof (cases "em_len f = 0")
    case True
    let ?X = "replicate (unat (em_pos f) + n - length (em_vec f)) 0 @ replicate (1 - length (em_vec ?g)) (0 :: u8)"
    have "em_buf ?g = f\<lparr>em_vec := em_vec f @ ?X\<rparr>"
      using True em_reserve_vec [OF lg(1), of 1] by (simp add: em_buf_def)
    then show ?thesis
      by (intro that [of ?X]) (use g lg assms(1) in auto)
  next
    case False
    then show ?thesis
      by (intro that [of "replicate (unat (em_pos f) + n - length (em_vec f)) 0"])
        (use g lg in \<open>auto simp: em_buf_def\<close>)
  qed
qed

lemma em_fwrite_data:
  assumes "em_ok f" "unat (em_pos f) + length bs < 2 ^ 31"
  shows "\<exists>f'. em_fwrite bs f = Some f' \<and> em_ok f' \<and>
    em_data f' = take (unat (em_pos f)) (em_data f) @ bs @ drop (unat (em_pos f) + length bs) (em_data f) \<and>
    em_rest f' = drop (length bs) (em_rest f)"
proof -
  let ?p = "unat (em_pos f)" and ?L = "unat (em_len f)" and ?n = "length bs"
  have len: "length (em_vec f) < 2 ^ 32" and le: "?p \<le> ?L" "?L \<le> length (em_vec f)" "?L < 2 ^ 31"
    using assms(1) by (simp_all add: em_ok_def word_le_nat_alt)
  obtain X where X: "em_buf (em_reserve (em_pos f + of_nat ?n) f) = f\<lparr>em_vec := em_vec f @ X\<rparr>"
    "?p + ?n \<le> length (em_vec f @ X)" "length (em_vec f @ X) < 2 ^ 32"
    using em_fwrite_reserved [OF len assms(2)] .
  let ?V = "em_vec f @ X"
  let ?W = "take ?p ?V @ bs @ drop (?p + ?n) ?V"
  have pos: "unat (em_pos f + of_nat ?n) = ?p + ?n"
    by (subst unat_add_lem [THEN iffD1]) (use assms in \<open>simp_all add: unat_of_nat\<close>)
  let ?len = "if ?p + ?n < ?L then em_len f else em_pos f + of_nat ?n"
  have lens: "unat ?len = max ?L (?p + ?n)"
    by (simp add: pos)
  have cmp: "sint (em_pos f + of_nat ?n) < sint (em_len f) \<longleftrightarrow> ?p + ?n < ?L"
    using le(3) assms(2) pos
    by (subst (1 2) sint_small) (simp_all del: of_nat_unat, presburger)
  let ?f' = "f\<lparr>em_vec := ?W, em_pos := em_pos f + of_nat ?n, em_len := ?len\<rparr>"
  have w: "em_fwrite bs f = Some ?f'"
    using X(2) by (simp add: em_fwrite_def Let_def X(1) cmp)
  have lW: "length ?W = length ?V"
    using X(2) by simp
  have ok: "em_ok ?f'"
    using X lW le lens assms(2) by (simp add: em_ok_def word_le_nat_alt pos)
  have data: "em_data ?f' = take ?p (em_data f) @ bs @ drop (?p + ?n) (em_data f)"
  proof (cases "?p + ?n < ?L")
    case True
    then show ?thesis using le X by (simp add: em_data_def drop_take min_def)
  next
    case False
    then show ?thesis using le X by (auto simp: em_data_def pos min_def)
  qed
  have "em_pos ?f' = em_pos f + of_nat ?n" by simp
  then have "em_rest ?f' = drop (?p + ?n) (take ?p (em_data f) @ bs @ drop (?p + ?n) (em_data f))"
    by (simp only: em_rest_def data pos)
  also have "\<dots> = drop (?p + ?n) (em_data f)"
    using le by (simp add: em_data_def)
  finally have "em_rest ?f' = drop (?p + ?n) (em_data f)" .
  then show ?thesis
    using w ok data by (simp add: em_rest_def add.commute)
qed


lemma em_fseek_set:
  assumes "em_ok f" "n \<le> em_len f"
  shows "em_ok (em_fseek n SEEK_SET f) \<and> em_data (em_fseek n SEEK_SET f) = em_data f \<and>
    em_rest (em_fseek n SEEK_SET f) = drop (unat n) (em_data f)"
proof -
  have "unat n \<le> length (em_vec f)"
    using assms by (simp add: em_ok_def word_le_nat_alt)
  then have "em_fseek n SEEK_SET f = f\<lparr>em_pos := n\<rparr>"
    using assms(1) by (simp add: em_fseek_def em_reserve_vec em_ok_def)
  then show ?thesis
    using assms by (simp add: em_ok_def em_data_def em_rest_def)
qed

section \<open>The codec contract\<close>

locale codec =
  fixes put :: "'a \<Rightarrow> emufile \<Rightarrow> emufile option"
    and get :: "emufile \<Rightarrow> ('a option \<times> emufile) option"
    and enc :: "'a \<Rightarrow> u8 list"
    and sz :: nat
  assumes put_enc: "put v f = em_fwrite (enc v) f"
    and enc_size: "length (enc v) = sz"
    and get_enc: "\<lbrakk>em_ok f; em_rest f = enc v @ r\<rbrakk> \<Longrightarrow>
      \<exists>f'. get f = Some (Some v, f') \<and> em_ok f' \<and> em_data f' = em_data f \<and> em_rest f' = r"
    and get_full: "\<lbrakk>em_ok f; sz \<le> length (em_rest f)\<rbrakk> \<Longrightarrow>
      \<exists>v f'. get f = Some (Some v, f') \<and> em_ok f' \<and> em_rest f' = drop sz (em_rest f)"
    and get_short: "\<lbrakk>em_ok f; length (em_rest f) < sz\<rbrakk> \<Longrightarrow> \<exists>f'. get f = Some (None, f')"

fun write_all :: "('a \<Rightarrow> emufile \<Rightarrow> emufile option) \<Rightarrow> 'a list \<Rightarrow> emufile \<Rightarrow> emufile option" where
  "write_all put [] f = Some f" |
  "write_all put (v # vs) f = (case put v f of None \<Rightarrow> None | Some f \<Rightarrow> write_all put vs f)"

text \<open>
  A chain of \<open>if(!read(&field, is)) return false;\<close> over an object: each reader's value is
  stored by the field's setter; the first failure ends it with what was stored so far.
\<close>

fun load_fields :: "(emufile \<Rightarrow> ('a option \<times> emufile) option) \<Rightarrow> ('a \<Rightarrow> 'o \<Rightarrow> 'o) list \<Rightarrow> 'o \<Rightarrow> emufile \<Rightarrow>
    (bool \<times> 'o \<times> emufile) option" where
  "load_fields get [] ob f = Some (True, ob, f)" |
  "load_fields get (store # fs) ob f =
     (case get f of None \<Rightarrow> None
      | Some (None, f) \<Rightarrow> Some (False, ob, f)
      | Some (Some v, f) \<Rightarrow> load_fields get fs (store v ob) f)"

fun store_fields :: "('a \<Rightarrow> 'o \<Rightarrow> 'o) list \<Rightarrow> 'a list \<Rightarrow> 'o \<Rightarrow> 'o" where
  "store_fields (store # fs) (v # vs) ob = store_fields fs vs (store v ob)" |
  "store_fields fs vs ob = ob"

context codec
begin

lemma write_all_data:
  assumes "em_ok f" "em_rest f = []" "length (em_data f) + sz * length vs < 2 ^ 31"
  shows "\<exists>f'. write_all put vs f = Some f' \<and> em_ok f' \<and> em_rest f' = [] \<and>
    em_data f' = em_data f @ concat (map enc vs)"
  using assms
proof (induction vs arbitrary: f)
  case (Cons v vs)
  have pos: "unat (em_pos f) = length (em_data f)"
    using Cons.prems(1,2) em_lengths [OF Cons.prems(1)] by (simp add: em_ok_def word_le_nat_alt)
  obtain g where g: "put v f = Some g" "em_ok g" "em_data g = em_data f @ enc v" "em_rest g = []"
    using em_fwrite_data [OF Cons.prems(1), of "enc v"] Cons.prems
    by (auto simp: put_enc pos enc_size)
  then show ?case
    using Cons.IH [OF g(2,4)] Cons.prems(3) by (auto simp: enc_size)
qed simp

lemma load_fields_written:
  assumes "em_ok f" "em_rest f = concat (map enc vs) @ r" "length fs = length vs"
  shows "\<exists>f'. load_fields get fs ob f = Some (True, store_fields fs vs ob, f') \<and> em_ok f' \<and>
    em_data f' = em_data f \<and> em_rest f' = r"
  using assms
proof (induction vs arbitrary: f fs ob)
  case (Cons v vs)
  obtain s fs' where fs: "fs = s # fs'" using Cons.prems(3) by (cases fs) auto
  obtain g where "get f = Some (Some v, g)" "em_ok g" "em_data g = em_data f"
    "em_rest g = concat (map enc vs) @ r"
    using get_enc [OF Cons.prems(1), of v] Cons.prems(2) by auto
  then show ?case
    using Cons.IH [of g fs' "s v ob"] Cons.prems(3) fs by simp
qed simp

lemma load_fields_length:
  assumes "em_ok f"
  shows "\<exists>ob' f'. load_fields get fs ob f = Some (sz * length fs \<le> length (em_rest f), ob', f')"
  using assms
proof (induction fs arbitrary: f ob)
  case (Cons store fs)
  show ?case
  proof (cases "sz \<le> length (em_rest f)")
    case True
    then obtain v g where g: "get f = Some (Some v, g)" "em_ok g" "em_rest g = drop sz (em_rest f)"
      using get_full [OF Cons.prems] by blast
    have "sz * length fs \<le> length (em_rest f) - sz \<longleftrightarrow> sz + sz * length fs \<le> length (em_rest f)"
      using True by linarith
    then show ?thesis
      using Cons.IH [OF g(2), of "store v ob"] g by simp
  next
    case False
    then have "\<not> sz * length (store # fs) \<le> length (em_rest f)" by simp
    then show ?thesis using get_short [OF Cons.prems] False by auto
  qed
qed simp

end

section \<open>The codecs of the integer types\<close>

lemma bit_le_value:
  "bit (le_value bs :: 'a::len word) n \<longleftrightarrow> n < LENGTH('a) \<and> n div 8 < length bs \<and> bit (bs ! (n div 8)) (n mod 8)"
proof (induction bs arbitrary: n)
  case (Cons b bs)
  show ?case
  proof (cases "n < 8")
    case True
    then show ?thesis
      by (simp add: bit_or_iff bit_push_bit_iff bit_ucast_iff)
  next
    case False
    then have d: "n div 8 = Suc ((n - 8) div 8)" "n mod 8 = (n - 8) mod 8"
      by (simp_all add: le_div_geq le_mod_geq)
    have "\<not> bit b n" using False bit_imp_le_length [of b n] by auto
    then show ?thesis
      using False Cons.IH [of "n - 8"] by (simp add: bit_or_iff bit_push_bit_iff bit_ucast_iff d) auto
  qed
qed simp

lemma le_value_enc:
  "le_value [b] = b"
  "le_value (bytes16 h) = h" "le_value (bytes32 w) = w" "le_value (bytes64 q) = q"
  for b :: u8 and h :: u16 and w :: u32 and q :: u64
proof -
  show "le_value [b] = b" by simp
  show "le_value (bytes16 h) = h"
  proof (rule bit_word_eqI)
    fix n assume "n < LENGTH(16)"
    then consider "n < 8" | "8 \<le> n" "n < 16" by (simp) linarith
    then show "bit (le_value (bytes16 h) :: u16) n = bit h n"
      by cases (auto simp: bit_le_value bytes16_def bit_ucast_iff bit_drop_bit_eq le_div_geq le_mod_geq
          simp del: le_value.simps)
  qed
  show "le_value (bytes32 w) = w"
  proof (rule bit_word_eqI)
    fix n assume "n < LENGTH(32)"
    then have "n div 8 = 0 \<or> n div 8 = 1 \<or> n div 8 = 2 \<or> n div 8 = 3" "n < 32" by auto
    moreover have "8 * (n div 8) \<le> n" by simp
    ultimately show "bit (le_value (bytes32 w) :: u32) n = bit w n"
      by (auto simp: bit_le_value bytes32_def bit_ucast_iff bit_drop_bit_eq
          minus_mult_div_eq_mod [symmetric, of n 8] simp del: le_value.simps)
  qed
  show "le_value (bytes64 q) = q"
  proof (rule bit_word_eqI)
    fix n assume "n < LENGTH(64)"
    then have "n div 8 \<in> {0, 1, 2, 3, 4, 5, 6, 7}" "n < 64" by auto
    moreover have "8 * (n div 8) \<le> n" by simp
    ultimately show "bit (le_value (bytes64 q) :: u64) n = bit q n"
      by (auto simp: bit_le_value bytes64_def bit_ucast_iff bit_drop_bit_eq
          minus_mult_div_eq_mod [symmetric, of n 8] simp del: le_value.simps)
  qed
qed

lemma read_le_enc:
  assumes "em_ok f" "em_rest f = bs @ r" "length bs = unat n"
  shows "\<exists>f'. read_le n f = Some (Some (le_value bs), f') \<and> em_ok f' \<and> em_data f' = em_data f \<and> em_rest f' = r"
proof -
  obtain f' where "em_fread n f = Some (take (unat n) (em_rest f), f')" "em_ok f'" "em_data f' = em_data f"
    "em_rest f' = drop (unat n) (em_rest f)"
    using em_fread_rest [OF assms(1)] by blast
  then show ?thesis using assms(2,3) by (simp add: read_le_def)
qed

lemma read_le_short:
  assumes "em_ok f" "length (em_rest f) < unat n"
  shows "\<exists>f'. read_le n f = Some (None, f')"
proof -
  obtain f' where "em_fread n f = Some (em_rest f, f')"
    using em_fread_rest [OF assms(1), of n] assms(2) by auto
  moreover have "of_nat (length (em_rest f)) \<noteq> n"
    using assms(2) u32_bound [of n] by (auto simp: unat_of_nat)
  ultimately show ?thesis by (simp add: read_le_def)
qed

lemma read_le_full:
  assumes "em_ok f" "unat n \<le> length (em_rest f)"
  shows "\<exists>v f'. read_le n f = Some (Some v, f') \<and> em_ok f' \<and> em_rest f' = drop (unat n) (em_rest f)"
  using read_le_enc [OF assms(1), of "take (unat n) (em_rest f)" "drop (unat n) (em_rest f)" n] assms(2)
  by auto

lemma read_le_codec:
  assumes "\<And>v. put v = em_fwrite (enc v)" "\<And>v. length (enc v) = unat n" "\<And>v. le_value (enc v) = v"
  shows "codec put (read_le n) enc (unat n)"
proof
  show "\<exists>f'. read_le n f = Some (Some v, f') \<and> em_ok f' \<and> em_data f' = em_data f \<and> em_rest f' = r"
    if "em_ok f" "em_rest f = enc v @ r" for f v r
    by (subst (1) assms(3) [symmetric]) (rule read_le_enc [OF that assms(2)])
qed (simp_all add: assms(1,2) read_le_short read_le_full)

interpretation le8: codec write8le read8le "\<lambda>b. [b]" 1
  using read_le_codec [of write8le "\<lambda>b. [b]" 1, OF ext _ le_value_enc(1)]
  by (simp add: write8le_def read8le_def [abs_def])

interpretation le16: codec write16le read16le bytes16 2
  using read_le_codec [of write16le bytes16 2, OF ext _ le_value_enc(2)]
  by (simp add: write16le_def read16le_def [abs_def] bytes16_def)

interpretation le32: codec write32le read32le bytes32 4
  using read_le_codec [of write32le bytes32 4, OF ext _ le_value_enc(3)]
  by (simp add: write32le_def read32le_def [abs_def] bytes32_def)

interpretation le64: codec write64le read64le bytes64 8
  using read_le_codec [of write64le bytes64 8, OF ext _ le_value_enc(4)]
  by (simp add: write64le_def read64le_def [abs_def] bytes64_def)

lemma writebool_codec: "codec writebool readbool (\<lambda>b. bytes32 (if b then 1 else 0)) 4"
proof
  show "writebool v f = em_fwrite (bytes32 (if v then 1 else 0)) f" for v f
    by (simp add: writebool_def write32le_def)
  show "length (bytes32 (if v then 1 else 0)) = 4" for v
    by (simp add: bytes32_def)
  show "\<exists>f'. readbool f = Some (Some v, f') \<and> em_ok f' \<and> em_data f' = em_data f \<and> em_rest f' = r"
    if "em_ok f" "em_rest f = bytes32 (if v then 1 else 0) @ r" for f v r
    using le32.get_enc [OF that] by (auto simp: readbool_def)
  show "\<exists>v f'. readbool f = Some (Some v, f') \<and> em_ok f' \<and> em_rest f' = drop 4 (em_rest f)"
    if "em_ok f" "4 \<le> length (em_rest f)" for f
    using le32.get_full [OF that] by (auto simp: readbool_def)
  show "\<exists>f'. readbool f = Some (None, f')" if "em_ok f" "length (em_rest f) < 4" for f
    using le32.get_short [OF that] by (auto simp: readbool_def)
qed

interpretation le_bool: codec writebool readbool "\<lambda>b. bytes32 (if b then 1 else 0)" 4
  by (rule writebool_codec)

end
