(* ===== verification/Cp15.thy ===== *)
theory Cp15
  imports Arm_Cpu Emufile
begin

text \<open>
  src/source/cp15.h and src/source/cp15.cpp: the system control coprocessor of the ARM9.
  \<open>moveARM2CP\<close> and \<open>moveCP2ARM\<close> are the register transfers of MCR and MRC,
  \<open>maskPrecalc\<close> computes for each of the eight protection regions a mask and a value
  per kind of access, \<open>isAccessAllowed\<close> tests an address against them, and
  \<open>saveone\<close> and \<open>loadone\<close> are the save-state codec.  An array \<open>u32 a[8]\<close>
  is a function of the index.

  The lemmas show that the masks decide an access as the architecture's region and permission
  registers say, that a register reads back as written, and that a saved coprocessor loads back,
  the latter from the contract \<open>codec\<close> of the save-state integers.
\<close>

section \<open>The macros of cp15.h\<close>

definition CP15_ACCESS_WRITEUSR :: u32 where "CP15_ACCESS_WRITEUSR = 0"
definition CP15_ACCESS_WRITESYS :: u32 where "CP15_ACCESS_WRITESYS = 1"
definition CP15_ACCESS_READUSR :: u32 where "CP15_ACCESS_READUSR = 2"
definition CP15_ACCESS_READSYS :: u32 where "CP15_ACCESS_READSYS = 3"
definition CP15_ACCESS_EXECUSR :: u32 where "CP15_ACCESS_EXECUSR = 4"
definition CP15_ACCESS_EXECSYS :: u32 where "CP15_ACCESS_EXECSYS = 5"

lemmas access_defs = CP15_ACCESS_WRITEUSR_def CP15_ACCESS_WRITESYS_def CP15_ACCESS_READUSR_def
  CP15_ACCESS_READSYS_def CP15_ACCESS_EXECUSR_def CP15_ACCESS_EXECSYS_def

definition CP15_SIZEIDENTIFIER :: "u32 \<Rightarrow> u32" where
  "CP15_SIZEIDENTIFIER val = drop_bit 1 val AND 0x1F"

text \<open>For the identifier 31 the C shift is by 32; the only user replaces the result.\<close>

definition CP15_SIZEBINARY :: "u32 \<Rightarrow> u32" where
  "CP15_SIZEBINARY val = c_shl 1 (CP15_SIZEIDENTIFIER val + 1)"

definition CP15_MASKFROMREG :: "u32 \<Rightarrow> u32" where
  "CP15_MASKFROMREG val = NOT ((CP15_SIZEBINARY val - 1) OR 0x3F)"

definition CP15_SETFROMREG :: "u32 \<Rightarrow> u32" where
  "CP15_SETFROMREG val = val AND CP15_MASKFROMREG val"

definition CP15_ACCESSTYPE :: "u32 \<Rightarrow> nat \<Rightarrow> u32" where
  "CP15_ACCESSTYPE val n = drop_bit (4 * n) val AND 0x0F"

text \<open>The constructor.\<close>

definition armcp15_init :: armcp15_t where
  "armcp15_init = \<lparr>cp_IDCode = 0x41059461, cp_cacheType = 0x0F0D2112, cp_TCMSize = 0x00140180,
     cp_ctrl = 0x00012078, cp_DCConfig = 0, cp_ICConfig = 0, cp_writeBuffCtrl = 0, cp_und = 0,
     cp_DaccessPerm = 0x22222222, cp_IaccessPerm = 0x22222222, cp_protectBaseSize = (\<lambda>_. 0),
     cp_cacheOp = 0, cp_DcacheLock = 0, cp_IcacheLock = 0, cp_ITCMRegion = 0x0C,
     cp_DTCMRegion = 0x0080000A, cp_processID = 0, cp_RAM_TAG = 0, cp_testState = 0, cp_cacheDbg = 0,
     regionWriteMask_USR = (\<lambda>_. 0), regionWriteMask_SYS = (\<lambda>_. 0),
     regionReadMask_USR = (\<lambda>_. 0), regionReadMask_SYS = (\<lambda>_. 0),
     regionExecuteMask_USR = (\<lambda>_. 0), regionExecuteMask_SYS = (\<lambda>_. 0),
     regionWriteSet_USR = (\<lambda>_. 0), regionWriteSet_SYS = (\<lambda>_. 0),
     regionReadSet_USR = (\<lambda>_. 0), regionReadSet_SYS = (\<lambda>_. 0),
     regionExecuteSet_USR = (\<lambda>_. 0), regionExecuteSet_SYS = (\<lambda>_. 0)\<rparr>"

section \<open>Protection regions\<close>

text \<open>The pair of assignments of a mask and a value, for each kind of access.\<close>

definition set_WriteUSR :: "nat \<Rightarrow> u32 \<times> u32 \<Rightarrow> armcp15_t \<Rightarrow> armcp15_t" where
  "set_WriteUSR n ms c = c\<lparr>regionWriteMask_USR := (regionWriteMask_USR c)(n := fst ms),
     regionWriteSet_USR := (regionWriteSet_USR c)(n := snd ms)\<rparr>"

definition set_ReadUSR :: "nat \<Rightarrow> u32 \<times> u32 \<Rightarrow> armcp15_t \<Rightarrow> armcp15_t" where
  "set_ReadUSR n ms c = c\<lparr>regionReadMask_USR := (regionReadMask_USR c)(n := fst ms),
     regionReadSet_USR := (regionReadSet_USR c)(n := snd ms)\<rparr>"

definition set_WriteSYS :: "nat \<Rightarrow> u32 \<times> u32 \<Rightarrow> armcp15_t \<Rightarrow> armcp15_t" where
  "set_WriteSYS n ms c = c\<lparr>regionWriteMask_SYS := (regionWriteMask_SYS c)(n := fst ms),
     regionWriteSet_SYS := (regionWriteSet_SYS c)(n := snd ms)\<rparr>"

definition set_ReadSYS :: "nat \<Rightarrow> u32 \<times> u32 \<Rightarrow> armcp15_t \<Rightarrow> armcp15_t" where
  "set_ReadSYS n ms c = c\<lparr>regionReadMask_SYS := (regionReadMask_SYS c)(n := fst ms),
     regionReadSet_SYS := (regionReadSet_SYS c)(n := snd ms)\<rparr>"

definition set_ExecUSR :: "nat \<Rightarrow> u32 \<times> u32 \<Rightarrow> armcp15_t \<Rightarrow> armcp15_t" where
  "set_ExecUSR n ms c = c\<lparr>regionExecuteMask_USR := (regionExecuteMask_USR c)(n := fst ms),
     regionExecuteSet_USR := (regionExecuteSet_USR c)(n := snd ms)\<rparr>"

definition set_ExecSYS :: "nat \<Rightarrow> u32 \<times> u32 \<Rightarrow> armcp15_t \<Rightarrow> armcp15_t" where
  "set_ExecSYS n ms c = c\<lparr>regionExecuteMask_SYS := (regionExecuteMask_SYS c)(n := fst ms),
     regionExecuteSet_SYS := (regionExecuteSet_SYS c)(n := snd ms)\<rparr>"

lemmas set_region_defs = set_WriteUSR_def set_ReadUSR_def set_WriteSYS_def set_ReadSYS_def
  set_ExecUSR_def set_ExecSYS_def

text \<open>
  \<open>setSingleRegionAccess\<close>: two switches over the four permission bits.  The second has no
  case for 5, which leaves the masks as they were.
\<close>

definition set_data_access :: "nat \<Rightarrow> u32 \<Rightarrow> u32 \<Rightarrow> armcp15_t \<Rightarrow> armcp15_t" where
  "set_data_access num m st c =
     (let t = CP15_ACCESSTYPE (cp_DaccessPerm c) num; no = (0, 0xFFFFFFFF); yes = (m, st) in
      if t \<in> {0, 4, 7, 8, 9, 10, 11, 12, 13, 14, 15} then
        set_ReadSYS num no (set_WriteSYS num no (set_ReadUSR num no (set_WriteUSR num no c)))
      else if t = 1 then
        set_ReadSYS num yes (set_WriteSYS num yes (set_ReadUSR num no (set_WriteUSR num no c)))
      else if t = 2 then
        set_ReadSYS num yes (set_WriteSYS num yes (set_ReadUSR num yes (set_WriteUSR num no c)))
      else if t = 3 then
        set_ReadSYS num yes (set_WriteSYS num yes (set_ReadUSR num yes (set_WriteUSR num yes c)))
      else if t = 5 then
        set_ReadSYS num yes (set_WriteSYS num no (set_ReadUSR num no (set_WriteUSR num no c)))
      else if t = 6 then
        set_ReadSYS num yes (set_WriteSYS num no (set_ReadUSR num yes (set_WriteUSR num no c)))
      else c)"

definition set_code_access :: "nat \<Rightarrow> u32 \<Rightarrow> u32 \<Rightarrow> armcp15_t \<Rightarrow> armcp15_t" where
  "set_code_access num m st c =
     (let t = CP15_ACCESSTYPE (cp_IaccessPerm c) num; no = (0, 0xFFFFFFFF); yes = (m, st) in
      if t \<in> {0, 4, 7, 8, 9, 10, 11, 12, 13, 14, 15} then set_ExecSYS num no (set_ExecUSR num no c)
      else if t = 1 then set_ExecSYS num yes (set_ExecUSR num no c)
      else if t \<in> {2, 3, 6} then set_ExecSYS num yes (set_ExecUSR num yes c)
      else c)"

definition setSingleRegionAccess :: "nat \<Rightarrow> u32 \<Rightarrow> u32 \<Rightarrow> armcp15_t \<Rightarrow> armcp15_t" where
  "setSingleRegionAccess num m st c = set_code_access num m st (set_data_access num m st c)"

definition precalc :: "nat \<Rightarrow> armcp15_t \<Rightarrow> armcp15_t" where
  "precalc num c =
     (let v = cp_protectBaseSize c num;
          (m, st) = (if BIT_N v 0 = 0 then (0, 0xFFFFFFFF)
            else if CP15_SIZEIDENTIFIER v = 0x1F then (0, 0)
            else (CP15_MASKFROMREG v, CP15_SETFROMREG v))
      in setSingleRegionAccess num m st c)"

definition maskPrecalc :: "armcp15_t \<Rightarrow> armcp15_t" where
  "maskPrecalc c = fold precalc [0..<8] c"

definition region_hit :: "u32 \<Rightarrow> nat \<Rightarrow> u32 \<Rightarrow> armcp15_t \<Rightarrow> bool" where
  "region_hit access i address c \<longleftrightarrow>
     (if access = CP15_ACCESS_WRITEUSR then address AND regionWriteMask_USR c i = regionWriteSet_USR c i
      else if access = CP15_ACCESS_WRITESYS then address AND regionWriteMask_SYS c i = regionWriteSet_SYS c i
      else if access = CP15_ACCESS_READUSR then address AND regionReadMask_USR c i = regionReadSet_USR c i
      else if access = CP15_ACCESS_READSYS then address AND regionReadMask_SYS c i = regionReadSet_SYS c i
      else if access = CP15_ACCESS_EXECUSR then address AND regionExecuteMask_USR c i = regionExecuteSet_USR c i
      else if access = CP15_ACCESS_EXECSYS then address AND regionExecuteMask_SYS c i = regionExecuteSet_SYS c i
      else False)"

definition isAccessAllowed :: "u32 \<Rightarrow> u32 \<Rightarrow> armcp15_t \<Rightarrow> bool" where
  "isAccessAllowed address access c =
     (if cp_ctrl c AND 1 = 0 then True
      else list_ex (\<lambda>i. region_hit access i address c) [0..<8])"

section \<open>What the region registers mean\<close>

text \<open>
  A region register holds an enable bit, the size identifier \<open>s\<close> for a size of
  \<open>2^(s+1)\<close> bytes, of which the code honours no fewer than 64, and the base address.
\<close>

definition region_enabled :: "armcp15_t \<Rightarrow> nat \<Rightarrow> bool" where
  "region_enabled c n \<longleftrightarrow> bit (cp_protectBaseSize c n) 0"

definition region_bits :: "u32 \<Rightarrow> nat" where
  "region_bits v = max 6 (unat v div 2 mod 32 + 1)"

definition in_region :: "armcp15_t \<Rightarrow> nat \<Rightarrow> u32 \<Rightarrow> bool" where
  "in_region c n a \<longleftrightarrow>
     (let v = cp_protectBaseSize c n; k = region_bits v in unat a div 2 ^ k = unat v div 2 ^ k)"

definition access_permitted :: "armcp15_t \<Rightarrow> nat \<Rightarrow> u32 \<Rightarrow> bool" where
  "access_permitted c n access \<longleftrightarrow>
     (let d = CP15_ACCESSTYPE (cp_DaccessPerm c) n; i = CP15_ACCESSTYPE (cp_IaccessPerm c) n in
      access = CP15_ACCESS_WRITEUSR \<and> d = 3 \<or>
      access = CP15_ACCESS_WRITESYS \<and> d \<in> {1, 2, 3} \<or>
      access = CP15_ACCESS_READUSR \<and> d \<in> {2, 3, 6} \<or>
      access = CP15_ACCESS_READSYS \<and> d \<in> {1, 2, 3, 5, 6} \<or>
      access = CP15_ACCESS_EXECUSR \<and> i \<in> {2, 3, 6} \<or>
      access = CP15_ACCESS_EXECSYS \<and> i \<in> {1, 2, 3, 6})"

lemma unat_take_bit32: "take_bit 32 (unat a) = unat a" for a :: u32
  using u32_bound [of a] by (simp add: take_bit_nat_eq_self)

lemma unat_SIZEIDENTIFIER: "unat (CP15_SIZEIDENTIFIER v) = unat v div 2 mod 32"
proof -
  have "CP15_SIZEIDENTIFIER v = take_bit 5 (drop_bit 1 v)"
    by (simp add: CP15_SIZEIDENTIFIER_def take_bit_eq_mask mask_eq_exp_minus_1)
  then have "unat (CP15_SIZEIDENTIFIER v) = take_bit 5 (drop_bit 1 (unat v))"
    by (simp only: unsigned_take_bit_eq unsigned_drop_bit_eq) (simp add: unat_take_bit32)
  then show ?thesis
    by (simp add: take_bit_eq_mod drop_bit_eq_div)
qed

lemma mask_region:
  assumes "CP15_SIZEIDENTIFIER v \<noteq> 0x1F"
  shows "CP15_MASKFROMREG v = NOT (mask (region_bits v))"
proof -
  let ?s = "unat v div 2 mod 32"
  note id = unat_SIZEIDENTIFIER [of v]
  have "?s \<noteq> 31"
    using assms id by (auto simp: word_unat_eq_iff)
  moreover have "?s < 32" by simp
  ultimately have s: "?s + 1 < 32" by linarith
  have "unat (CP15_SIZEIDENTIFIER v + 1) = ?s + 1"
    by (subst unat_add_lem [THEN iffD1]) (use id s in simp_all)
  then have "CP15_SIZEBINARY v - 1 = mask (?s + 1)"
    by (simp add: CP15_SIZEBINARY_def c_shl_def mask_eq_exp_minus_1)
  moreover have "(0x3F :: u32) = mask 6"
    by (simp add: mask_eq_exp_minus_1)
  moreover have "mask (?s + 1) OR mask 6 = (mask (region_bits v) :: u32)"
    unfolding region_bits_def by (rule bit_word_eqI) (auto simp: bit_simps)
  ultimately show ?thesis
    by (simp add: CP15_MASKFROMREG_def)
qed

lemma region_match:
  "(a AND NOT (mask k) = v AND NOT (mask k)) \<longleftrightarrow> unat a div 2 ^ k = unat v div 2 ^ k" for a :: u32
proof -
  have "(a AND NOT (mask k) = v AND NOT (mask k)) \<longleftrightarrow> drop_bit k a = drop_bit k v"
  proof
    assume eq: "a AND NOT (mask k) = v AND NOT (mask k)"
    show "drop_bit k a = drop_bit k v"
    proof (rule bit_word_eqI)
      fix n
      have "bit (a AND NOT (mask k)) (k + n) = bit (v AND NOT (mask k)) (k + n)" by (simp only: eq)
      then show "bit (drop_bit k a) n = bit (drop_bit k v) n"
        using bit_imp_le_length [of a "k + n"] bit_imp_le_length [of v "k + n"]
        by (auto simp: bit_simps)
    qed
  next
    assume eq: "drop_bit k a = drop_bit k v"
    show "a AND NOT (mask k) = v AND NOT (mask k)"
    proof (rule bit_word_eqI)
      fix n
      have "bit (drop_bit k a) (n - k) = bit (drop_bit k v) (n - k)" by (simp only: eq)
      then show "bit (a AND NOT (mask k)) n = bit (v AND NOT (mask k)) n"
        by (auto simp: bit_simps)
    qed
  qed
  also have "\<dots> \<longleftrightarrow> unat (drop_bit k a) = unat (drop_bit k v)"
    by (simp add: word_unat_eq_iff)
  also have "\<dots> \<longleftrightarrow> unat a div 2 ^ k = unat v div 2 ^ k"
    by (simp only: unsigned_drop_bit_eq) (simp add: unat_take_bit32 drop_bit_eq_div)
  finally show ?thesis .
qed

text \<open>The mask and the value of region \<open>n\<close>, and what they match.\<close>

definition region_pair :: "u32 \<Rightarrow> u32 \<times> u32" where
  "region_pair v = (if BIT_N v 0 = 0 then (0, 0xFFFFFFFF)
     else if CP15_SIZEIDENTIFIER v = 0x1F then (0, 0)
     else (CP15_MASKFROMREG v, CP15_SETFROMREG v))"

lemma region_pair_match:
  "a AND fst (region_pair (cp_protectBaseSize c n)) = snd (region_pair (cp_protectBaseSize c n)) \<longleftrightarrow>
     region_enabled c n \<and> in_region c n a"
proof -
  let ?v = "cp_protectBaseSize c n"
  consider "\<not> bit ?v 0" | "bit ?v 0" "CP15_SIZEIDENTIFIER ?v = 0x1F" | "bit ?v 0" "CP15_SIZEIDENTIFIER ?v \<noteq> 0x1F"
    by blast
  then show ?thesis
  proof cases
    case 1
    then show ?thesis by (simp add: region_pair_def region_enabled_def BIT_N_of_bool)
  next
    case 2
    have "unat ?v div 2 mod 32 = 31"
      using unat_SIZEIDENTIFIER [of ?v] 2 by simp
    then have "region_bits ?v = 32" using 2 by (simp add: region_bits_def)
    then have "in_region c n a"
      using u32_bound [of a] u32_bound [of ?v] by (simp add: in_region_def Let_def)
    then show ?thesis using 2 by (simp add: region_pair_def region_enabled_def BIT_N_of_bool)
  next
    case 3
    then show ?thesis
      by (simp add: region_pair_def region_enabled_def in_region_def BIT_N_of_bool Let_def
          CP15_SETFROMREG_def mask_region region_match)
  qed
qed


section \<open>The masks after the precalculation\<close>

definition access_pair :: "u32 \<Rightarrow> nat \<Rightarrow> armcp15_t \<Rightarrow> u32 \<times> u32" where
  "access_pair access i c =
     (if access = CP15_ACCESS_WRITEUSR then (regionWriteMask_USR c i, regionWriteSet_USR c i)
      else if access = CP15_ACCESS_WRITESYS then (regionWriteMask_SYS c i, regionWriteSet_SYS c i)
      else if access = CP15_ACCESS_READUSR then (regionReadMask_USR c i, regionReadSet_USR c i)
      else if access = CP15_ACCESS_READSYS then (regionReadMask_SYS c i, regionReadSet_SYS c i)
      else if access = CP15_ACCESS_EXECUSR then (regionExecuteMask_USR c i, regionExecuteSet_USR c i)
      else (regionExecuteMask_SYS c i, regionExecuteSet_SYS c i))"

definition accesses :: "u32 list" where
  "accesses = [CP15_ACCESS_WRITEUSR, CP15_ACCESS_WRITESYS, CP15_ACCESS_READUSR, CP15_ACCESS_READSYS,
     CP15_ACCESS_EXECUSR, CP15_ACCESS_EXECSYS]"

lemma region_hit_pair:
  "access \<in> set accesses \<Longrightarrow>
    region_hit access i a c \<longleftrightarrow> a AND fst (access_pair access i c) = snd (access_pair access i c)"
  by (auto simp: accesses_def region_hit_def access_pair_def access_defs)

lemma precalc_pair_def:
  "precalc num c = setSingleRegionAccess num (fst (region_pair (cp_protectBaseSize c num)))
     (snd (region_pair (cp_protectBaseSize c num))) c"
  by (simp add: precalc_def region_pair_def Let_def)

lemma CP15_ACCESSTYPE_cases:
  "CP15_ACCESSTYPE v n \<in> {0, 1, 2, 3, 4, 5, 6, 7, 8, 9, 10, 11, 12, 13, 14, 15}"
proof -
  have "CP15_ACCESSTYPE v n \<le> 15" unfolding CP15_ACCESSTYPE_def by (rule word_and_le1)
  then have "unat (CP15_ACCESSTYPE v n) < 16" by (simp add: word_le_nat_alt)
  moreover have "CP15_ACCESSTYPE v n = of_nat (unat (CP15_ACCESSTYPE v n))" by simp
  ultimately show ?thesis by (elim less16_cases) auto
qed

text \<open>What the assignments of a permission leave alone, the switch leaves alone.\<close>

lemma set_data_access_frame:
  assumes "\<And>c n x. f (set_WriteUSR n x c) = f c" "\<And>c n x. f (set_ReadUSR n x c) = f c"
    and "\<And>c n x. f (set_WriteSYS n x c) = f c" "\<And>c n x. f (set_ReadSYS n x c) = f c"
  shows "f (set_data_access k m st c) = f c"
  unfolding set_data_access_def Let_def by (simp add: assms if_distrib [of f] cong: if_weak_cong)

lemma set_code_access_frame:
  assumes "\<And>c n x. f (set_ExecUSR n x c) = f c" "\<And>c n x. f (set_ExecSYS n x c) = f c"
  shows "f (set_code_access k m st c) = f c"
  unfolding set_code_access_def Let_def by (simp add: assms if_distrib [of f] cong: if_weak_cong)

lemma set_data_access_regs [simp]:
  "cp_IDCode (set_data_access k m st c) = cp_IDCode c"
  "cp_cacheType (set_data_access k m st c) = cp_cacheType c"
  "cp_TCMSize (set_data_access k m st c) = cp_TCMSize c"
  "cp_DCConfig (set_data_access k m st c) = cp_DCConfig c"
  "cp_ICConfig (set_data_access k m st c) = cp_ICConfig c"
  "cp_writeBuffCtrl (set_data_access k m st c) = cp_writeBuffCtrl c"
  "cp_DcacheLock (set_data_access k m st c) = cp_DcacheLock c"
  "cp_IcacheLock (set_data_access k m st c) = cp_IcacheLock c"
  "cp_ITCMRegion (set_data_access k m st c) = cp_ITCMRegion c"
  "cp_DTCMRegion (set_data_access k m st c) = cp_DTCMRegion c"
  "cp_ctrl (set_data_access k m st c) = cp_ctrl c"
  "cp_DaccessPerm (set_data_access k m st c) = cp_DaccessPerm c"
  "cp_IaccessPerm (set_data_access k m st c) = cp_IaccessPerm c"
  "cp_protectBaseSize (set_data_access k m st c) = cp_protectBaseSize c"
  "regionExecuteMask_USR (set_data_access k m st c) = regionExecuteMask_USR c"
  "regionExecuteMask_SYS (set_data_access k m st c) = regionExecuteMask_SYS c"
  "regionExecuteSet_USR (set_data_access k m st c) = regionExecuteSet_USR c"
  "regionExecuteSet_SYS (set_data_access k m st c) = regionExecuteSet_SYS c"
  by (rule set_data_access_frame; simp add: set_region_defs)+

lemma set_code_access_regs [simp]:
  "cp_IDCode (set_code_access k m st c) = cp_IDCode c"
  "cp_cacheType (set_code_access k m st c) = cp_cacheType c"
  "cp_TCMSize (set_code_access k m st c) = cp_TCMSize c"
  "cp_DCConfig (set_code_access k m st c) = cp_DCConfig c"
  "cp_ICConfig (set_code_access k m st c) = cp_ICConfig c"
  "cp_writeBuffCtrl (set_code_access k m st c) = cp_writeBuffCtrl c"
  "cp_DcacheLock (set_code_access k m st c) = cp_DcacheLock c"
  "cp_IcacheLock (set_code_access k m st c) = cp_IcacheLock c"
  "cp_ITCMRegion (set_code_access k m st c) = cp_ITCMRegion c"
  "cp_DTCMRegion (set_code_access k m st c) = cp_DTCMRegion c"
  "cp_ctrl (set_code_access k m st c) = cp_ctrl c"
  "cp_DaccessPerm (set_code_access k m st c) = cp_DaccessPerm c"
  "cp_IaccessPerm (set_code_access k m st c) = cp_IaccessPerm c"
  "cp_protectBaseSize (set_code_access k m st c) = cp_protectBaseSize c"
  "regionWriteMask_USR (set_code_access k m st c) = regionWriteMask_USR c"
  "regionWriteMask_SYS (set_code_access k m st c) = regionWriteMask_SYS c"
  "regionWriteSet_USR (set_code_access k m st c) = regionWriteSet_USR c"
  "regionWriteSet_SYS (set_code_access k m st c) = regionWriteSet_SYS c"
  "regionReadMask_USR (set_code_access k m st c) = regionReadMask_USR c"
  "regionReadMask_SYS (set_code_access k m st c) = regionReadMask_SYS c"
  "regionReadSet_USR (set_code_access k m st c) = regionReadSet_USR c"
  "regionReadSet_SYS (set_code_access k m st c) = regionReadSet_SYS c"
  by (rule set_code_access_frame; simp add: set_region_defs)+

lemma precalc_regs [simp]:
  "cp_ctrl (precalc k c) = cp_ctrl c" "cp_DaccessPerm (precalc k c) = cp_DaccessPerm c"
  "cp_IaccessPerm (precalc k c) = cp_IaccessPerm c"
  "cp_protectBaseSize (precalc k c) = cp_protectBaseSize c"
  by (simp_all add: precalc_pair_def setSingleRegionAccess_def)

lemma data_pair:
  assumes "access \<in> {CP15_ACCESS_WRITEUSR, CP15_ACCESS_WRITESYS, CP15_ACCESS_READUSR, CP15_ACCESS_READSYS}"
  shows "access_pair access n (set_data_access k m st c) =
    (if n = k then (if access_permitted c k access then (m, st) else (0, 0xFFFFFFFF))
     else access_pair access n c)"
  using CP15_ACCESSTYPE_cases [of "cp_DaccessPerm c" k] assms
  by (elim insertE emptyE)
    (simp_all add: set_data_access_def access_pair_def access_permitted_def access_defs set_region_defs Let_def)

lemma code_pair:
  assumes "access \<in> {CP15_ACCESS_EXECUSR, CP15_ACCESS_EXECSYS}" "CP15_ACCESSTYPE (cp_IaccessPerm c) k \<noteq> 5"
  shows "access_pair access n (set_code_access k m st c) =
    (if n = k then (if access_permitted c k access then (m, st) else (0, 0xFFFFFFFF))
     else access_pair access n c)"
  using CP15_ACCESSTYPE_cases [of "cp_IaccessPerm c" k] assms
  by (elim insertE emptyE)
    (simp_all add: set_code_access_def access_pair_def access_permitted_def access_defs set_region_defs Let_def)

lemma precalc_pair:
  assumes "access \<in> set accesses" "access \<ge> CP15_ACCESS_EXECUSR \<longrightarrow> CP15_ACCESSTYPE (cp_IaccessPerm c) k \<noteq> 5"
  shows "access_pair access n (precalc k c) =
    (if n = k then (if access_permitted c k access then region_pair (cp_protectBaseSize c k) else (0, 0xFFFFFFFF))
     else access_pair access n c)"
proof (cases "access \<in> {CP15_ACCESS_EXECUSR, CP15_ACCESS_EXECSYS}")
  case True
  then have 5: "CP15_ACCESSTYPE (cp_IaccessPerm c) k \<noteq> 5"
    using assms(2) by (auto simp: access_defs)
  then have "access_pair access n (set_data_access k m st c) = access_pair access n c"
    "access_permitted (set_data_access k m st c) k access = access_permitted c k access" for m st
    using True by (auto simp: access_pair_def access_defs access_permitted_def)
  then show ?thesis
    using code_pair [OF True] 5 by (simp add: precalc_pair_def setSingleRegionAccess_def)
next
  case False
  then have d: "access \<in> {CP15_ACCESS_WRITEUSR, CP15_ACCESS_WRITESYS, CP15_ACCESS_READUSR, CP15_ACCESS_READSYS}"
    using assms(1) by (auto simp: accesses_def)
  then have "access_pair access n (set_code_access k m st c) = access_pair access n c" for m st c
    by (auto simp: access_pair_def access_defs)
  then show ?thesis
    using data_pair [OF d] by (simp add: precalc_pair_def setSingleRegionAccess_def)
qed

lemma fold_precalc_pair:
  assumes "access \<in> set accesses"
    and "access \<ge> CP15_ACCESS_EXECUSR \<longrightarrow> (\<forall>k \<in> set ks. CP15_ACCESSTYPE (cp_IaccessPerm c) k \<noteq> 5)"
  shows "access_pair access n (fold precalc ks c) =
    (if n \<in> set ks then (if access_permitted c n access then region_pair (cp_protectBaseSize c n) else (0, 0xFFFFFFFF))
     else access_pair access n c)"
  using assms(2)
proof (induction ks arbitrary: c)
  case (Cons k ks)
  have "access_permitted (precalc k c) n access = access_permitted c n access"
    by (simp add: access_permitted_def)
  then show ?case
    using Cons precalc_pair [OF assms(1), of c k n] by auto
qed simp

lemma maskPrecalc_ctrl [simp]: "cp_ctrl (maskPrecalc c) = cp_ctrl c"
proof -
  have "cp_ctrl (fold precalc ks c) = cp_ctrl c" for ks
    by (induction ks arbitrary: c) simp_all
  then show ?thesis by (simp add: maskPrecalc_def)
qed

text \<open>C35: After the masks have been precalculated, isAccessAllowed grants an access exactly when
  protection is off or some enabled region that contains the address permits it by its
  access-permission nibble, for each of the six kinds of access (for code accesses, when no
  nibble is 5, the value the second switch forgets).\<close>

theorem access_allowed_by_regions:
  assumes "access \<in> set accesses"
    and "access \<ge> CP15_ACCESS_EXECUSR \<longrightarrow> list_all (\<lambda>k. CP15_ACCESSTYPE (cp_IaccessPerm c) k \<noteq> 5) [0..<8]"
  shows "isAccessAllowed a access (maskPrecalc c) \<longleftrightarrow>
    \<not> bit (cp_ctrl c) 0 \<or>
    list_ex (\<lambda>n. region_enabled c n \<and> in_region c n a \<and> access_permitted c n access) [0..<8]"
proof -
  have b: "cp_ctrl c AND 1 = 0 \<longleftrightarrow> \<not> bit (cp_ctrl c) 0"
    using BIT0_of_bool [of "cp_ctrl c"] by (simp add: BIT0_def)
  have "region_hit access n a (maskPrecalc c) \<longleftrightarrow>
      region_enabled c n \<and> in_region c n a \<and> access_permitted c n access" if "n < 8" for n
    using that fold_precalc_pair [OF assms(1), of "[0..<8]" c n] assms(2) region_pair_match [of a c n]
    by (simp add: region_hit_pair [OF assms(1)] maskPrecalc_def list_all_iff)
  then show ?thesis
    by (auto simp: isAccessAllowed_def b list_ex_iff)
qed


text \<open>Main memory as the only region, readable and writable by all, not executable by user code.\<close>

definition main_memory_region :: armcp15_t where
  "main_memory_region = armcp15_init\<lparr>cp_ctrl := 0x0001207D, cp_DaccessPerm := 0x3, cp_IaccessPerm := 0x1,
     cp_protectBaseSize := (\<lambda>_. 0)(0 := 0x0200002B)\<rparr>"

theorem access_allowed_by_regions_witness:
  "isAccessAllowed 0x02345678 CP15_ACCESS_EXECSYS (maskPrecalc main_memory_region) \<and>
   \<not> isAccessAllowed 0x02345678 CP15_ACCESS_EXECUSR (maskPrecalc main_memory_region) \<and>
   isAccessAllowed 0x02345678 CP15_ACCESS_WRITEUSR (maskPrecalc main_memory_region) \<and>
   \<not> isAccessAllowed 0x04000000 CP15_ACCESS_WRITESYS (maskPrecalc main_memory_region)"
proof -
  let ?c = main_memory_region
  have I: "cp_IaccessPerm ?c = 1" "cp_DaccessPerm ?c = 3" "bit (cp_ctrl ?c) 0"
    "cp_protectBaseSize ?c = (\<lambda>_. 0)(0 := 0x0200002B)"
    by (simp_all add: main_memory_region_def bit_simps)
  have up: "[0..<8] = [0, 1, 2, 3, 4, 5, 6, 7]" by (simp add: upt_rec)
  have r: "access \<in> set accesses \<Longrightarrow> isAccessAllowed a access (maskPrecalc ?c) \<longleftrightarrow>
      list_ex (\<lambda>n. region_enabled ?c n \<and> in_region ?c n a \<and> access_permitted ?c n access) [0..<8]" for a access
    using access_allowed_by_regions [of access ?c a] by (simp add: I up CP15_ACCESSTYPE_def)
  have bits: "region_bits 0x0200002B = 22" by (simp add: region_bits_def)
  have e: "region_enabled ?c n = (n = 0)" for n
    by (simp add: region_enabled_def I bit_simps)
  show ?thesis
    by (simp add: r accesses_def up e) 
      (simp add: in_region_def access_permitted_def I CP15_ACCESSTYPE_def access_defs bits)
qed


section \<open>Register transfers\<close>

text \<open>
  \<open>dataProcess\<close>, \<open>load\<close> and \<open>store\<close> log and fail.  \<open>moveCP2ARM\<close> returns the value
  it stores through its pointer, \<open>None\<close> for \<open>FALSE\<close>, when it stores nothing.
\<close>

definition cp15_dataProcess :: "u8 \<Rightarrow> u8 \<Rightarrow> u8 \<Rightarrow> u8 \<Rightarrow> u8 \<Rightarrow> bool" where
  "cp15_dataProcess CRd CRn CRm opcode1 opcode2 = False"

definition cp15_load :: "u8 \<Rightarrow> u8 \<Rightarrow> bool" where
  "cp15_load CRd adr = False"

definition cp15_store :: "u8 \<Rightarrow> u8 \<Rightarrow> bool" where
  "cp15_store CRd adr = False"

definition moveCP2ARM :: "u8 \<Rightarrow> u8 \<Rightarrow> u8 \<Rightarrow> u8 \<Rightarrow> 'io nds \<Rightarrow> u32 option" where
  "moveCP2ARM CRn CRm opcode1 opcode2 s =
     (let c = cp15 s in
      if psr_mode (CPSR (NDS_ARM9 s)) = USR then None
      else if CRn = 0 then
        (if opcode1 = 0 \<and> CRm = 0 then
           (if opcode2 = 1 then Some (cp_cacheType c)
            else if opcode2 = 2 then Some (cp_TCMSize c)
            else Some (cp_IDCode c))
         else None)
      else if CRn = 1 then
        (if opcode1 = 0 \<and> opcode2 = 0 \<and> CRm = 0 then Some (cp_ctrl c) else None)
      else if CRn = 2 then
        (if opcode1 = 0 \<and> CRm = 0 then
           (if opcode2 = 0 then Some (cp_DCConfig c)
            else if opcode2 = 1 then Some (cp_ICConfig c)
            else None)
         else None)
      else if CRn = 3 then
        (if opcode1 = 0 \<and> opcode2 = 0 \<and> CRm = 0 then Some (cp_writeBuffCtrl c) else None)
      else if CRn = 5 then
        (if opcode1 = 0 \<and> CRm = 0 then
           (if opcode2 = 2 then Some (cp_DaccessPerm c)
            else if opcode2 = 3 then Some (cp_IaccessPerm c)
            else None)
         else None)
      else if CRn = 6 then
        (if opcode1 = 0 \<and> opcode2 = 0 then
           (if CRm < 8 then Some (cp_protectBaseSize c (unat CRm)) else None)
         else None)
      else if CRn = 9 then
        (if opcode1 = 0 then
           (if CRm = 0 then
              (if opcode2 = 0 then Some (cp_DcacheLock c)
               else if opcode2 = 1 then Some (cp_IcacheLock c)
               else None)
            else if CRm = 1 then
              (if opcode2 = 0 then Some (cp_DTCMRegion c)
               else if opcode2 = 1 then Some (cp_ITCMRegion c)
               else None)
            else None)
         else None)
      else None)"

definition upd_cp15 :: "(armcp15_t \<Rightarrow> armcp15_t) \<Rightarrow> 'io nds \<Rightarrow> 'io nds" where
  "upd_cp15 f s = s\<lparr>cp15 := f (cp15 s)\<rparr>"

definition moveARM2CP :: "u32 \<Rightarrow> u8 \<Rightarrow> u8 \<Rightarrow> u8 \<Rightarrow> u8 \<Rightarrow> 'io nds \<Rightarrow> bool \<times> 'io nds" where
  "moveARM2CP val CRn CRm opcode1 opcode2 s =
     (if psr_mode (CPSR (NDS_ARM9 s)) = USR then (False, s)
      else if CRn = 1 then
        (if opcode1 = 0 \<and> opcode2 = 0 \<and> CRm = 0 then
           (let s = upd_cp15 (\<lambda>c. c\<lparr>cp_ctrl := (val AND 0x000FF085) OR 0x00000078\<rparr>) s;
                s = s\<lparr>mmu := (mmu s)\<lparr>ARM9_RW_MODE := ucast (BIT_N val 7)\<rparr>\<rparr>;
                s = s\<lparr>NDS_ARM9 := (NDS_ARM9 s)\<lparr>intVector := 0xFFFF0000 * BIT_N val 13\<rparr>\<rparr>;
                s = s\<lparr>NDS_ARM9 := (NDS_ARM9 s)\<lparr>LDTBit := of_bool (BIT_N val 15 = 0)\<rparr>\<rparr>
            in (True, s))
         else (False, s))
      else if CRn = 2 then
        (if opcode1 = 0 \<and> CRm = 0 then
           (if opcode2 = 0 then (True, upd_cp15 (\<lambda>c. c\<lparr>cp_DCConfig := val\<rparr>) s)
            else if opcode2 = 1 then (True, upd_cp15 (\<lambda>c. c\<lparr>cp_ICConfig := val\<rparr>) s)
            else (False, s))
         else (False, s))
      else if CRn = 3 then
        (if opcode1 = 0 \<and> opcode2 = 0 \<and> CRm = 0
         then (True, upd_cp15 (\<lambda>c. c\<lparr>cp_writeBuffCtrl := val\<rparr>) s) else (False, s))
      else if CRn = 5 then
        (if opcode1 = 0 \<and> CRm = 0 then
           (if opcode2 = 2 then (True, upd_cp15 (\<lambda>c. maskPrecalc (c\<lparr>cp_DaccessPerm := val\<rparr>)) s)
            else if opcode2 = 3 then (True, upd_cp15 (\<lambda>c. maskPrecalc (c\<lparr>cp_IaccessPerm := val\<rparr>)) s)
            else (False, s))
         else (False, s))
      else if CRn = 6 then
        (if opcode1 = 0 \<and> opcode2 = 0 then
           (if CRm < 8
            then (True, upd_cp15 (\<lambda>c. maskPrecalc (c\<lparr>cp_protectBaseSize :=
                    (cp_protectBaseSize c)(unat CRm := val)\<rparr>)) s)
            else (False, s))
         else (False, s))
      else if CRn = 7 then
        (if CRm = 0 \<and> opcode1 = 0 \<and> opcode2 = 4
         then (True, s\<lparr>NDS_ARM9 := (NDS_ARM9 s)\<lparr>waitIRQ := True, halt_IE_and_IF := True\<rparr>\<rparr>)
         else (False, s))
      else if CRn = 9 then
        (if opcode1 = 0 then
           (if CRm = 0 then
              (if opcode2 = 0 then (True, upd_cp15 (\<lambda>c. c\<lparr>cp_DcacheLock := val\<rparr>) s)
               else if opcode2 = 1 then (True, upd_cp15 (\<lambda>c. c\<lparr>cp_IcacheLock := val\<rparr>) s)
               else (False, s))
            else if CRm = 1 then
              (if opcode2 = 0 then
                 (let s = upd_cp15 (\<lambda>c. c\<lparr>cp_DTCMRegion := val AND 0x0FFFF000\<rparr>) s
                  in (True, s\<lparr>mmu := (mmu s)\<lparr>Nds.DTCMRegion := val AND 0x0FFFF000\<rparr>\<rparr>))
               else if opcode2 = 1 then
                 (let s = upd_cp15 (\<lambda>c. c\<lparr>cp_ITCMRegion := val\<rparr>) s
                  in (True, s\<lparr>mmu := (mmu s)\<lparr>Nds.ITCMRegion := 0\<rparr>\<rparr>))
               else (False, s))
            else (False, s))
         else (False, s))
      else (False, s))"

section \<open>Save states\<close>

text \<open>The words \<open>saveone\<close> writes, in its order; an array is a loop over its eight elements.\<close>

definition arr8 :: "(nat \<Rightarrow> u32) \<Rightarrow> u32 list" where
  "arr8 a = map a [0..<8]"

definition cp15_words :: "armcp15_t \<Rightarrow> u32 list" where
  "cp15_words c =
     [cp_IDCode c, cp_cacheType c, cp_TCMSize c, cp_ctrl c, cp_DCConfig c, cp_ICConfig c,
      cp_writeBuffCtrl c, cp_und c, cp_DaccessPerm c, cp_IaccessPerm c] @
     arr8 (cp_protectBaseSize c) @
     [cp_cacheOp c, cp_DcacheLock c, cp_IcacheLock c, cp_ITCMRegion c, cp_DTCMRegion c,
      cp_processID c, cp_RAM_TAG c, cp_testState c, cp_cacheDbg c] @
     arr8 (regionWriteMask_USR c) @ arr8 (regionWriteMask_SYS c) @
     arr8 (regionReadMask_USR c) @ arr8 (regionReadMask_SYS c) @
     arr8 (regionExecuteMask_USR c) @ arr8 (regionExecuteMask_SYS c) @
     arr8 (regionWriteSet_USR c) @ arr8 (regionWriteSet_SYS c) @
     arr8 (regionReadSet_USR c) @ arr8 (regionReadSet_SYS c) @
     arr8 (regionExecuteSet_USR c) @ arr8 (regionExecuteSet_SYS c)"

definition cp15_saveone :: "armcp15_t \<Rightarrow> emufile \<Rightarrow> emufile option" where
  "cp15_saveone c f = write_all write32le (cp15_words c) f"

text \<open>The destinations of \<open>loadone\<close>, in its order.\<close>

definition fill8 :: "(((nat \<Rightarrow> u32) \<Rightarrow> nat \<Rightarrow> u32) \<Rightarrow> armcp15_t \<Rightarrow> armcp15_t) \<Rightarrow> (u32 \<Rightarrow> armcp15_t \<Rightarrow> armcp15_t) list" where
  "fill8 upd = map (\<lambda>i v. upd (\<lambda>a. a(i := v))) [0..<8]"

definition cp15_fields :: "(u32 \<Rightarrow> armcp15_t \<Rightarrow> armcp15_t) list" where
  "cp15_fields =
     [\<lambda>v c. c\<lparr>cp_IDCode := v\<rparr>,
      \<lambda>v c. c\<lparr>cp_cacheType := v\<rparr>,
      \<lambda>v c. c\<lparr>cp_TCMSize := v\<rparr>,
      \<lambda>v c. c\<lparr>cp_ctrl := v\<rparr>,
      \<lambda>v c. c\<lparr>cp_DCConfig := v\<rparr>,
      \<lambda>v c. c\<lparr>cp_ICConfig := v\<rparr>,
      \<lambda>v c. c\<lparr>cp_writeBuffCtrl := v\<rparr>,
      \<lambda>v c. c\<lparr>cp_und := v\<rparr>,
      \<lambda>v c. c\<lparr>cp_DaccessPerm := v\<rparr>,
      \<lambda>v c. c\<lparr>cp_IaccessPerm := v\<rparr>] @
     fill8 cp_protectBaseSize_update @
     [\<lambda>v c. c\<lparr>cp_cacheOp := v\<rparr>,
      \<lambda>v c. c\<lparr>cp_DcacheLock := v\<rparr>,
      \<lambda>v c. c\<lparr>cp_IcacheLock := v\<rparr>,
      \<lambda>v c. c\<lparr>cp_ITCMRegion := v\<rparr>,
      \<lambda>v c. c\<lparr>cp_DTCMRegion := v\<rparr>,
      \<lambda>v c. c\<lparr>cp_processID := v\<rparr>,
      \<lambda>v c. c\<lparr>cp_RAM_TAG := v\<rparr>,
      \<lambda>v c. c\<lparr>cp_testState := v\<rparr>,
      \<lambda>v c. c\<lparr>cp_cacheDbg := v\<rparr>] @
     fill8 regionWriteMask_USR_update @
     fill8 regionWriteMask_SYS_update @
     fill8 regionReadMask_USR_update @
     fill8 regionReadMask_SYS_update @
     fill8 regionExecuteMask_USR_update @
     fill8 regionExecuteMask_SYS_update @
     fill8 regionWriteSet_USR_update @
     fill8 regionWriteSet_SYS_update @
     fill8 regionReadSet_USR_update @
     fill8 regionReadSet_SYS_update @
     fill8 regionExecuteSet_USR_update @
     fill8 regionExecuteSet_SYS_update"

definition cp15_loadone :: "armcp15_t \<Rightarrow> emufile \<Rightarrow> (bool \<times> armcp15_t \<times> emufile) option" where
  "cp15_loadone c f = load_fields read32le cp15_fields c f"

lemma store_fields_append:
  "length fs = length vs \<Longrightarrow> store_fields (fs @ gs) (vs @ ws) ob = store_fields gs ws (store_fields fs vs ob)"
  by (induction fs vs ob rule: store_fields.induct) simp_all

lemma length_arr8 [simp]: "length (arr8 a) = 8" "length (fill8 upd) = 8"
  by (simp_all add: arr8_def fill8_def)

definition copy8 :: "(nat \<Rightarrow> u32) \<Rightarrow> (nat \<Rightarrow> u32) \<Rightarrow> nat \<Rightarrow> u32" where
  "copy8 a b = (\<lambda>i. if i < 8 then a i else b i)"

lemma copy8_upds: "b(0 := a 0, 1 := a 1, 2 := a 2, 3 := a 3, 4 := a 4, 5 := a 5, 6 := a 6, 7 := a 7) = copy8 a b"
proof
  fix i :: nat
  have "i < 8 \<longleftrightarrow> i \<in> {0, 1, 2, 3, 4, 5, 6, 7}" by auto
  then show "(b(0 := a 0, 1 := a 1, 2 := a 2, 3 := a 3, 4 := a 4, 5 := a 5, 6 := a 6, 7 := a 7)) i = copy8 a b i"
    by (auto simp: copy8_def)
qed

lemma store_fill8:
  assumes "\<And>f g c. upd f (upd g c) = upd (f \<circ> g) c"
  shows "store_fields (fill8 upd) (arr8 a) c = upd (copy8 a) c"
proof -
  have "[0..<8] = [0, 1, 2, 3, 4, 5, 6, 7]" by (simp add: upt_rec)
  then have "store_fields (fill8 upd) (arr8 a) c =
      upd (\<lambda>b. b(0 := a 0, 1 := a 1, 2 := a 2, 3 := a 3, 4 := a 4, 5 := a 5, 6 := a 6, 7 := a 7)) c"
    by (simp add: fill8_def arr8_def assms comp_def)
  then show ?thesis by (simp only: copy8_upds)
qed

lemma arr8_copy8 [simp]: "arr8 (copy8 a b) = arr8 a"
  by (simp add: arr8_def copy8_def)

lemma length_cp15: "length cp15_fields = 123" "length (cp15_words c) = 123"
  by (simp_all add: cp15_fields_def cp15_words_def)

lemma cp15_store_words: "cp15_words (store_fields cp15_fields (cp15_words c) ob) = cp15_words c"
  unfolding cp15_fields_def cp15_words_def [of c]
  by (simp add: store_fields_append store_fill8 comp_def) (simp add: cp15_words_def)

theorem cp15_save_load:
  assumes "em_ok f" "em_rest f = []" "length (em_data f) + 492 < 2 ^ 31"
  shows "\<exists>f' c' f''. cp15_saveone c f = Some f' \<and> em_data f' = em_data f @ concat (map bytes32 (cp15_words c)) \<and>
    cp15_loadone c0 (em_fseek (em_len f) SEEK_SET f') = Some (True, c', f'') \<and>
    cp15_words c' = cp15_words c \<and> em_eof f''"
proof -
  let ?bs = "concat (map bytes32 (cp15_words c))"
  obtain f' where f': "cp15_saveone c f = Some f'" "em_ok f'" "em_data f' = em_data f @ ?bs"
    using le32.write_all_data [OF assms(1,2), of "cp15_words c"] assms(3)
    by (auto simp: cp15_saveone_def length_cp15)
  let ?g = "em_fseek (em_len f) SEEK_SET f'"
  have "em_len f \<le> em_len f'"
    using f'(3) em_lengths(1) [OF assms(1)] em_lengths(1) [OF f'(2)] by (simp add: word_le_nat_alt)
  then have g: "em_ok ?g" "em_rest ?g = ?bs @ []"
    using em_fseek_set [OF f'(2)] f'(3) em_lengths(1) [OF assms(1)] by simp_all
  obtain c' f'' where "cp15_loadone c0 ?g = Some (True, c', f'')" "cp15_words c' = cp15_words c"
    "em_ok f''" "em_rest f'' = []"
    using le32.load_fields_written [OF g, of cp15_fields c0] cp15_store_words
    by (auto simp: cp15_loadone_def length_cp15)
  moreover have "em_eof f''"
    using em_lengths(2) [OF \<open>em_ok f''\<close>] \<open>em_rest f'' = []\<close> \<open>em_ok f''\<close>
    by (simp add: em_eof_def em_ok_def word_le_nat_alt word_unat_eq_iff)
  ultimately show ?thesis using f' by blast
qed

theorem cp15_save_load_witness:
  "\<exists>f' c' f''. cp15_saveone armcp15_init emufile_empty = Some f' \<and> length (em_data f') = 492 \<and>
     cp15_loadone zero_cp15 (em_fseek 0 SEEK_SET f') = Some (True, c', f'') \<and> cp_IDCode c' = 0x41059461"
proof -
  obtain f' c' f'' where x: "cp15_saveone armcp15_init emufile_empty = Some f'"
    "em_data f' = concat (map bytes32 (cp15_words armcp15_init))"
    "cp15_loadone zero_cp15 (em_fseek 0 SEEK_SET f') = Some (True, c', f'')"
    "cp15_words c' = cp15_words armcp15_init"
    using cp15_save_load [of emufile_empty armcp15_init zero_cp15] by (auto simp: emufile_empty_def [THEN arg_cong [where f = em_len]])
  have "length (concat (map bytes32 ws)) = 4 * length ws" for ws
    by (induction ws) (simp_all add: bytes32_def)
  then have "length (em_data f') = 492"
    by (simp add: x(2) length_cp15)
  moreover have "cp_IDCode c' = 0x41059461"
    using arg_cong [OF x(4), of hd] by (simp add: cp15_words_def armcp15_init_def)
  ultimately show ?thesis using x by blast
qed

theorem cp15_load_complete:
  assumes "em_ok f"
  shows "\<exists>c' f'. cp15_loadone c f = Some (492 \<le> length (em_rest f), c', f')"
  using le32.load_fields_length [OF assms, of cp15_fields c] by (simp add: cp15_loadone_def length_cp15)


theorem cp15_load_complete_witness:
  "\<exists>c' f'. cp15_loadone zero_cp15 emufile_empty = Some (False, c', f')"
  using cp15_load_complete [of emufile_empty zero_cp15] by simp

section \<open>The coprocessor as a register file\<close>

lemma region_regs:
  "cp_IDCode (precalc k c) = cp_IDCode c" "cp_cacheType (precalc k c) = cp_cacheType c"
  "cp_TCMSize (precalc k c) = cp_TCMSize c" "cp_DCConfig (precalc k c) = cp_DCConfig c"
  "cp_ICConfig (precalc k c) = cp_ICConfig c" "cp_writeBuffCtrl (precalc k c) = cp_writeBuffCtrl c"
  "cp_DcacheLock (precalc k c) = cp_DcacheLock c" "cp_IcacheLock (precalc k c) = cp_IcacheLock c"
  "cp_ITCMRegion (precalc k c) = cp_ITCMRegion c" "cp_DTCMRegion (precalc k c) = cp_DTCMRegion c"
  by (simp_all add: precalc_pair_def setSingleRegionAccess_def)

lemma fold_precalc_same:
  "(\<And>k c. f (precalc k c) = f c) \<Longrightarrow> f (maskPrecalc c) = f c"
proof -
  assume f: "\<And>k c. f (precalc k c) = f c"
  have "f (fold precalc ks c) = f c" for ks
    by (induction ks arbitrary: c) (simp_all add: f)
  then show ?thesis by (simp add: maskPrecalc_def)
qed

lemmas maskPrecalc_regs [simp] = region_regs [THEN fold_precalc_same] precalc_regs(2-) [THEN fold_precalc_same]

definition cp15_written :: "u32 \<Rightarrow> u8 \<Rightarrow> u8 \<Rightarrow> u8 \<Rightarrow> u32" where
  "cp15_written val CRn CRm opcode2 =
     (if CRn = 1 then val AND 0x000FF085 OR 0x78
      else if CRn = 9 \<and> CRm = 1 \<and> opcode2 = 0 then val AND 0x0FFFF000 else val)"

datatype cp_register = Id | Cache_Type | TCM_Size | Ctrl | DC_Config | IC_Config | Write_Buffer
  | D_Access | I_Access | Region nat | D_Lock | I_Lock | DTCM | ITCM

fun cp_reg :: "cp_register \<Rightarrow> armcp15_t \<Rightarrow> u32" where
  "cp_reg Id c = cp_IDCode c" | "cp_reg Cache_Type c = cp_cacheType c" | "cp_reg TCM_Size c = cp_TCMSize c" |
  "cp_reg Ctrl c = cp_ctrl c" | "cp_reg DC_Config c = cp_DCConfig c" | "cp_reg IC_Config c = cp_ICConfig c" |
  "cp_reg Write_Buffer c = cp_writeBuffCtrl c" | "cp_reg D_Access c = cp_DaccessPerm c" |
  "cp_reg I_Access c = cp_IaccessPerm c" | "cp_reg (Region n) c = cp_protectBaseSize c n" |
  "cp_reg D_Lock c = cp_DcacheLock c" | "cp_reg I_Lock c = cp_IcacheLock c" |
  "cp_reg DTCM c = cp_DTCMRegion c" | "cp_reg ITCM c = cp_ITCMRegion c"

definition cp_select :: "u8 \<Rightarrow> u8 \<Rightarrow> u8 \<Rightarrow> u8 \<Rightarrow> cp_register option" where
  "cp_select n m p q =
     (if p \<noteq> 0 then None
      else if n = 0 \<and> m = 0 then Some (if q = 1 then Cache_Type else if q = 2 then TCM_Size else Id)
      else if n = 6 \<and> m < 8 \<and> q = 0 then Some (Region (unat m))
      else map_of [((1, 0, 0), Ctrl), ((2, 0, 0), DC_Config), ((2, 0, 1), IC_Config), ((3, 0, 0), Write_Buffer),
        ((5, 0, 2), D_Access), ((5, 0, 3), I_Access), ((9, 0, 0), D_Lock), ((9, 0, 1), I_Lock),
        ((9, 1, 0), DTCM), ((9, 1, 1), ITCM)] (n, m, q))"

lemma moveCP2ARM_select:
  "moveCP2ARM n m p q s = (if psr_mode (CPSR (NDS_ARM9 s)) = USR then None
     else map_option (\<lambda>r. cp_reg r (cp15 s)) (cp_select n m p q))"
  by (simp add: moveCP2ARM_def cp_select_def Let_def)

lemma cp_select_iff:
  "cp_select n m p q = Some Ctrl \<longleftrightarrow> n = 1 \<and> m = 0 \<and> p = 0 \<and> q = 0"
  "cp_select n m p q = Some DC_Config \<longleftrightarrow> n = 2 \<and> m = 0 \<and> p = 0 \<and> q = 0"
  "cp_select n m p q = Some IC_Config \<longleftrightarrow> n = 2 \<and> m = 0 \<and> p = 0 \<and> q = 1"
  "cp_select n m p q = Some Write_Buffer \<longleftrightarrow> n = 3 \<and> m = 0 \<and> p = 0 \<and> q = 0"
  "cp_select n m p q = Some D_Access \<longleftrightarrow> n = 5 \<and> m = 0 \<and> p = 0 \<and> q = 2"
  "cp_select n m p q = Some I_Access \<longleftrightarrow> n = 5 \<and> m = 0 \<and> p = 0 \<and> q = 3"
  "cp_select n m p q = Some D_Lock \<longleftrightarrow> n = 9 \<and> m = 0 \<and> p = 0 \<and> q = 0"
  "cp_select n m p q = Some I_Lock \<longleftrightarrow> n = 9 \<and> m = 0 \<and> p = 0 \<and> q = 1"
  "cp_select n m p q = Some DTCM \<longleftrightarrow> n = 9 \<and> m = 1 \<and> p = 0 \<and> q = 0"
  "cp_select n m p q = Some ITCM \<longleftrightarrow> n = 9 \<and> m = 1 \<and> p = 0 \<and> q = 1"
  "k < 8 \<Longrightarrow> cp_select n m p q = Some (Region (unat k)) \<longleftrightarrow> n = 6 \<and> m = k \<and> p = 0 \<and> q = 0"
  by (auto simp: cp_select_def word_unat_eq_iff [symmetric])

text \<open>What a successful transfer to the coprocessor writes.\<close>

lemma moveARM2CP_reg:
  assumes "psr_mode (CPSR (NDS_ARM9 s)) \<noteq> USR"
  shows "cp_reg r (cp15 (snd (moveARM2CP v 1 0 0 0 s))) = (if r = Ctrl then cp15_written v 1 0 0 else cp_reg r (cp15 s))"
    "cp_reg r (cp15 (snd (moveARM2CP v 2 0 0 0 s))) = (if r = DC_Config then cp15_written v 2 0 0 else cp_reg r (cp15 s))"
    "cp_reg r (cp15 (snd (moveARM2CP v 2 0 0 1 s))) = (if r = IC_Config then cp15_written v 2 0 1 else cp_reg r (cp15 s))"
    "cp_reg r (cp15 (snd (moveARM2CP v 3 0 0 0 s))) = (if r = Write_Buffer then cp15_written v 3 0 0 else cp_reg r (cp15 s))"
    "cp_reg r (cp15 (snd (moveARM2CP v 5 0 0 2 s))) = (if r = D_Access then cp15_written v 5 0 2 else cp_reg r (cp15 s))"
    "cp_reg r (cp15 (snd (moveARM2CP v 5 0 0 3 s))) = (if r = I_Access then cp15_written v 5 0 3 else cp_reg r (cp15 s))"
    "cp_reg r (cp15 (snd (moveARM2CP v 9 0 0 0 s))) = (if r = D_Lock then cp15_written v 9 0 0 else cp_reg r (cp15 s))"
    "cp_reg r (cp15 (snd (moveARM2CP v 9 0 0 1 s))) = (if r = I_Lock then cp15_written v 9 0 1 else cp_reg r (cp15 s))"
    "cp_reg r (cp15 (snd (moveARM2CP v 9 1 0 0 s))) = (if r = DTCM then cp15_written v 9 1 0 else cp_reg r (cp15 s))"
    "cp_reg r (cp15 (snd (moveARM2CP v 9 1 0 1 s))) = (if r = ITCM then cp15_written v 9 1 1 else cp_reg r (cp15 s))"
    "m < 8 \<Longrightarrow> cp_reg r (cp15 (snd (moveARM2CP v 6 m 0 0 s))) =
      (if r = Region (unat m) then cp15_written v 6 m 0 else cp_reg r (cp15 s))"
  using assms by (cases r; simp add: moveARM2CP_def upd_cp15_def cp15_written_def Let_def)+

lemma moveARM2CP_CPSR: "CPSR (NDS_ARM9 (snd (moveARM2CP v n m p q s))) = CPSR (NDS_ARM9 s)"
proof -
  define kept where "kept t \<longleftrightarrow> CPSR (NDS_ARM9 (snd t)) = CPSR (NDS_ARM9 s)" for t :: "bool \<times> 'a nds"
  have if_kept: "kept x \<Longrightarrow> kept y \<Longrightarrow> kept (if b then x else y)" for b x y by simp
  have "kept (moveARM2CP v n m p q s)"
    unfolding moveARM2CP_def Let_def upd_cp15_def by (intro if_kept) (simp_all add: kept_def)
  then show ?thesis by (simp add: kept_def)
qed

lemma moveARM2CP_writes:
  assumes "moveARM2CP val CRn CRm o1 o2 s = (True, s')" "CRn \<noteq> 7"
  shows "\<exists>r. (\<forall>n m p q. cp_select n m p q = Some r \<longleftrightarrow> n = CRn \<and> m = CRm \<and> p = o1 \<and> q = o2) \<and>
    (\<forall>r'. cp_reg r' (cp15 s') = (if r' = r then cp15_written val CRn CRm o2 else cp_reg r' (cp15 s)))"
proof -
  have priv: "psr_mode (CPSR (NDS_ARM9 s)) \<noteq> USR"
    using assms(1) by (auto simp: moveARM2CP_def)
  have s': "s' = snd (moveARM2CP val CRn CRm o1 o2 s)" by (simp add: assms(1))
  have o1: "o1 = 0"
    using assms by (auto simp: moveARM2CP_def Let_def split: if_splits)
  consider "CRn = 1" "CRm = 0" "o2 = 0" | "CRn = 2" "CRm = 0" "o2 = 0" | "CRn = 2" "CRm = 0" "o2 = 1"
    | "CRn = 3" "CRm = 0" "o2 = 0" | "CRn = 5" "CRm = 0" "o2 = 2" | "CRn = 5" "CRm = 0" "o2 = 3"
    | "CRn = 6" "CRm < 8" "o2 = 0" | "CRn = 9" "CRm = 0" "o2 = 0" | "CRn = 9" "CRm = 0" "o2 = 1"
    | "CRn = 9" "CRm = 1" "o2 = 0" | "CRn = 9" "CRm = 1" "o2 = 1"
    using assms by (auto simp: moveARM2CP_def Let_def split: if_splits)
  then show ?thesis
  proof cases
    case 1
    then show ?thesis
      unfolding s' o1 by (intro exI [of _ Ctrl]) (simp add: cp_select_iff moveARM2CP_reg [OF priv])
  next
    case 2
    then show ?thesis
      unfolding s' o1 by (intro exI [of _ DC_Config]) (simp add: cp_select_iff moveARM2CP_reg [OF priv])
  next
    case 3
    then show ?thesis
      unfolding s' o1 by (intro exI [of _ IC_Config]) (simp add: cp_select_iff moveARM2CP_reg [OF priv])
  next
    case 4
    then show ?thesis
      unfolding s' o1 by (intro exI [of _ Write_Buffer]) (simp add: cp_select_iff moveARM2CP_reg [OF priv])
  next
    case 5
    then show ?thesis
      unfolding s' o1 by (intro exI [of _ D_Access]) (simp add: cp_select_iff moveARM2CP_reg [OF priv])
  next
    case 6
    then show ?thesis
      unfolding s' o1 by (intro exI [of _ I_Access]) (simp add: cp_select_iff moveARM2CP_reg [OF priv])
  next
    case 7
    then show ?thesis
      unfolding s' o1 by (intro exI [of _ "Region (unat CRm)"]) (simp add: cp_select_iff moveARM2CP_reg [OF priv])
  next
    case 8
    then show ?thesis
      unfolding s' o1 by (intro exI [of _ D_Lock]) (simp add: cp_select_iff moveARM2CP_reg [OF priv])
  next
    case 9
    then show ?thesis
      unfolding s' o1 by (intro exI [of _ I_Lock]) (simp add: cp_select_iff moveARM2CP_reg [OF priv])
  next
    case 10
    then show ?thesis
      unfolding s' o1 by (intro exI [of _ DTCM]) (simp add: cp_select_iff moveARM2CP_reg [OF priv])
  next
    case 11
    then show ?thesis
      unfolding s' o1 by (intro exI [of _ ITCM]) (simp add: cp_select_iff moveARM2CP_reg [OF priv])
  qed
qed

text \<open>C36: The system control coprocessor is a register file under its transfers: after an
  accepted MCR (outside the cache operations of c7) an MRC of the same register returns the
  written value with the fixed bits of that register applied, and an MRC of any other register
  returns what it returned before.\<close>

theorem cp15_register_file:
  assumes "moveARM2CP val CRn CRm o1 o2 s = (True, s')" "CRn \<noteq> 7"
  shows "moveCP2ARM n m p q s' =
    (if n = CRn \<and> m = CRm \<and> p = o1 \<and> q = o2 then Some (cp15_written val CRn CRm o2)
     else moveCP2ARM n m p q s)"
proof -
  have priv: "psr_mode (CPSR (NDS_ARM9 s)) \<noteq> USR"
    using assms(1) by (auto simp: moveARM2CP_def)
  obtain r where r: "\<And>n m p q. cp_select n m p q = Some r \<longleftrightarrow> n = CRn \<and> m = CRm \<and> p = o1 \<and> q = o2"
    "\<And>r'. cp_reg r' (cp15 s') = (if r' = r then cp15_written val CRn CRm o2 else cp_reg r' (cp15 s))"
    using moveARM2CP_writes [OF assms] by blast
  have "CPSR (NDS_ARM9 s') = CPSR (NDS_ARM9 s)"
    using moveARM2CP_CPSR [of val CRn CRm o1 o2 s] by (simp add: assms(1))
  then show ?thesis
    using r(1) [of n m p q] priv
    by (cases "cp_select n m p q") (simp_all add: moveCP2ARM_select r(2))
qed

theorem cp15_register_file_witness:
  "moveCP2ARM 9 1 0 0 (snd (moveARM2CP 0x027C0005 9 1 0 0 sample_nds)) = Some 0x027C0000 \<and>
   moveCP2ARM 0 0 0 0 (snd (moveARM2CP 0x027C0005 9 1 0 0 sample_nds)) = Some 0"
proof -
  have m: "psr_mode (CPSR (NDS_ARM9 sample_nds)) \<noteq> USR"
    using sample_mode by (simp add: sample_nds_def USR_def SYS_def)
  have w: "moveARM2CP 0x027C0005 9 1 0 0 sample_nds = (True, snd (moveARM2CP 0x027C0005 9 1 0 0 sample_nds))"
    using m by (simp add: moveARM2CP_def Let_def)
  have "moveCP2ARM 0 0 0 0 sample_nds = Some 0"
    using m by (simp add: moveCP2ARM_def) (simp add: sample_nds_def zero_nds_def zero_cp15_def)
  then show ?thesis
    by (simp add: cp15_register_file [OF w] cp15_written_def)
qed

end
