(* ===== verification/Arm_Ctrl.thy ===== *)
theory Arm_Ctrl
  imports Arm_Mul Cp15
begin

text \<open>
  The remaining ARM instructions of src/source/arm_instructions.cpp: the undefined instruction
  (line 255), MRS and MSR (2967 to 3079), branches (3081 to 3155), and the coprocessor, software
  interrupt and breakpoint instructions (6026 to 6290).  \<open>swi_tab\<close>, the table of BIOS
  functions a processor carries, is an argument of \<open>OP_SWI\<close>.

  The lemmas show that MSR changes exactly the selected bytes, that user code cannot reach the
  mode, the interrupt bits or a banked register through it, and that a call returns.
\<close>

definition OP_UND :: "nat \<Rightarrow> u32 \<Rightarrow> 'io nds \<Rightarrow> u32 \<times> 'io nds" where
  "OP_UND p i s = (let s = snd (TRAPUNDEF p s) in (1, s))"

section \<open>Status register transfers\<close>

definition OP_MRS_CPSR :: "u32 \<Rightarrow> armcpu \<Rightarrow> u32 \<times> armcpu" where
  "OP_MRS_CPSR i c = (1, setR (REG_POS i 12) (psr_val (CPSR c)) c)"

definition OP_MRS_SPSR :: "u32 \<Rightarrow> armcpu \<Rightarrow> u32 \<times> armcpu" where
  "OP_MRS_SPSR i c = (1, setR (REG_POS i 12) (psr_val (SPSR c)) c)"

text \<open>The macros \<open>OP_MSR_CPSR_\<close> and \<open>OP_MSR_SPSR_\<close>.\<close>

definition field_mask :: "u32 \<Rightarrow> u32" where
  "field_mask i = (if bit i 16 then 0x000000FF else 0) OR (if bit i 17 then 0x0000FF00 else 0) OR
     (if bit i 18 then 0x00FF0000 else 0) OR (if bit i 19 then 0xFF000000 else 0)"

definition OP_MSR_CPSR_macro :: "u32 \<Rightarrow> nat \<Rightarrow> u32 \<Rightarrow> 'io nds \<Rightarrow> 'io nds" where
  "OP_MSR_CPSR_macro operand p i s =
     (let usr = (psr_mode (CPSR (ARMPROC p s)) = USR);
          byte_mask = (if usr then (if bit i 19 then 0xFF000000 else 0) else field_mask i);
          s = (if \<not> usr \<and> bit i 16 then snd (armcpu_switchMode p (ucast (operand AND 0x1F)) s) else s);
          s = upd_cpu p (\<lambda>c. c\<lparr>CPSR := psr_of_val ((psr_val (CPSR c) AND NOT byte_mask) OR
                (operand AND byte_mask))\<rparr>) s
      in changeCPSR s)"

text \<open>The macro returns from the handler in user and system mode.\<close>

definition OP_MSR_SPSR_macro :: "u32 \<Rightarrow> nat \<Rightarrow> u32 \<Rightarrow> 'io nds \<Rightarrow> 'io nds" where
  "OP_MSR_SPSR_macro operand p i s =
     (if psr_mode (CPSR (ARMPROC p s)) = USR \<or> psr_mode (CPSR (ARMPROC p s)) = SYS then s
      else
        (let byte_mask = field_mask i;
             s = upd_cpu p (\<lambda>c. c\<lparr>SPSR := psr_of_val ((psr_val (SPSR c) AND NOT byte_mask) OR
                   (operand AND byte_mask))\<rparr>) s
         in changeCPSR s))"

definition OP_MSR_CPSR :: "nat \<Rightarrow> u32 \<Rightarrow> 'io nds \<Rightarrow> u32 \<times> 'io nds" where
  "OP_MSR_CPSR p i s =
     (let operand = R (ARMPROC p s) (REG_POS i 0) in (1, OP_MSR_CPSR_macro operand p i s))"

definition OP_MSR_SPSR :: "nat \<Rightarrow> u32 \<Rightarrow> 'io nds \<Rightarrow> u32 \<times> 'io nds" where
  "OP_MSR_SPSR p i s =
     (let operand = R (ARMPROC p s) (REG_POS i 0) in (1, OP_MSR_SPSR_macro operand p i s))"

definition OP_MSR_CPSR_IMM_VAL :: "nat \<Rightarrow> u32 \<Rightarrow> 'io nds \<Rightarrow> u32 \<times> 'io nds" where
  "OP_MSR_CPSR_IMM_VAL p i s =
     (let shift_op = IMM_VALUE i (ARMPROC p s) in (1, OP_MSR_CPSR_macro shift_op p i s))"

definition OP_MSR_SPSR_IMM_VAL :: "nat \<Rightarrow> u32 \<Rightarrow> 'io nds \<Rightarrow> u32 \<times> 'io nds" where
  "OP_MSR_SPSR_IMM_VAL p i s =
     (let shift_op = IMM_VALUE i (ARMPROC p s) in (1, OP_MSR_SPSR_macro shift_op p i s))"

section \<open>Branches\<close>

text \<open>\<open>0xFFFFFFFC|(cpu->CPSR.bits.T<<1)\<close>\<close>

definition pc_mask :: "armcpu \<Rightarrow> u32" where
  "pc_mask c = 0xFFFFFFFC OR push_bit 1 (of_bool (psr_T (CPSR c)))"

definition OP_BX :: "u32 \<Rightarrow> armcpu \<Rightarrow> u32 \<times> armcpu" where
  "OP_BX i c =
     (let tmp = R c (REG_POS i 0);
          c = setT (u1 (BIT0 tmp)) c;
          c = setR 15 (tmp AND pc_mask c) c
      in (3, c\<lparr>next_instruction := R c 15\<rparr>))"

definition OP_BLX_REG :: "u32 \<Rightarrow> armcpu \<Rightarrow> u32 \<times> armcpu" where
  "OP_BLX_REG i c =
     (let tmp = R c (REG_POS i 0);
          c = setR 14 (next_instruction c) c;
          c = setT (u1 (BIT0 tmp)) c;
          c = setR 15 (tmp AND pc_mask c) c
      in (3, c\<lparr>next_instruction := R c 15\<rparr>))"

definition SIGNEXTEND_24 :: "u32 \<Rightarrow> u32" where
  "SIGNEXTEND_24 i = signed_drop_bit 8 (push_bit 8 i)"

definition OP_B :: "u32 \<Rightarrow> armcpu \<Rightarrow> u32 \<times> armcpu" where
  "OP_B i c =
     (let off = SIGNEXTEND_24 i;
          c = (if CONDITION i = 0xF then setT True (setR 14 (next_instruction c) c) else c);
          c = setR 15 (R c 15 + push_bit 2 off) c;
          c = setR 15 (R c 15 AND pc_mask c) c
      in (3, c\<lparr>next_instruction := R c 15\<rparr>))"

definition OP_BL :: "u32 \<Rightarrow> armcpu \<Rightarrow> u32 \<times> armcpu" where
  "OP_BL i c =
     (let off = SIGNEXTEND_24 i;
          c = (if CONDITION i = 0xF then (let c = setT True c in setR 15 (R c 15 + 2) c) else c);
          c = setR 14 (next_instruction c) c;
          c = setR 15 (R c 15 + push_bit 2 off) c;
          c = setR 15 (R c 15 AND pc_mask c) c
      in (3, c\<lparr>next_instruction := R c 15\<rparr>))"

section \<open>Coprocessor instructions\<close>

definition OP_STC_P_IMM_OFF :: "nat \<Rightarrow> u32 \<Rightarrow> 'io nds \<Rightarrow> u32 \<times> 'io nds" where
  "OP_STC_P_IMM_OFF p i s = TRAPUNDEF p s"

definition OP_STC_M_IMM_OFF :: "nat \<Rightarrow> u32 \<Rightarrow> 'io nds \<Rightarrow> u32 \<times> 'io nds" where
  "OP_STC_M_IMM_OFF p i s = TRAPUNDEF p s"

definition OP_STC_P_PREIND :: "nat \<Rightarrow> u32 \<Rightarrow> 'io nds \<Rightarrow> u32 \<times> 'io nds" where
  "OP_STC_P_PREIND p i s = TRAPUNDEF p s"

definition OP_STC_M_PREIND :: "nat \<Rightarrow> u32 \<Rightarrow> 'io nds \<Rightarrow> u32 \<times> 'io nds" where
  "OP_STC_M_PREIND p i s = TRAPUNDEF p s"

definition OP_STC_P_POSTIND :: "nat \<Rightarrow> u32 \<Rightarrow> 'io nds \<Rightarrow> u32 \<times> 'io nds" where
  "OP_STC_P_POSTIND p i s = TRAPUNDEF p s"

definition OP_STC_M_POSTIND :: "nat \<Rightarrow> u32 \<Rightarrow> 'io nds \<Rightarrow> u32 \<times> 'io nds" where
  "OP_STC_M_POSTIND p i s = TRAPUNDEF p s"

definition OP_STC_OPTION :: "nat \<Rightarrow> u32 \<Rightarrow> 'io nds \<Rightarrow> u32 \<times> 'io nds" where
  "OP_STC_OPTION p i s = TRAPUNDEF p s"

definition OP_LDC_P_IMM_OFF :: "nat \<Rightarrow> u32 \<Rightarrow> 'io nds \<Rightarrow> u32 \<times> 'io nds" where
  "OP_LDC_P_IMM_OFF p i s = TRAPUNDEF p s"

definition OP_LDC_M_IMM_OFF :: "nat \<Rightarrow> u32 \<Rightarrow> 'io nds \<Rightarrow> u32 \<times> 'io nds" where
  "OP_LDC_M_IMM_OFF p i s = TRAPUNDEF p s"

definition OP_LDC_P_PREIND :: "nat \<Rightarrow> u32 \<Rightarrow> 'io nds \<Rightarrow> u32 \<times> 'io nds" where
  "OP_LDC_P_PREIND p i s = TRAPUNDEF p s"

definition OP_LDC_M_PREIND :: "nat \<Rightarrow> u32 \<Rightarrow> 'io nds \<Rightarrow> u32 \<times> 'io nds" where
  "OP_LDC_M_PREIND p i s = TRAPUNDEF p s"

definition OP_LDC_P_POSTIND :: "nat \<Rightarrow> u32 \<Rightarrow> 'io nds \<Rightarrow> u32 \<times> 'io nds" where
  "OP_LDC_P_POSTIND p i s = TRAPUNDEF p s"

definition OP_LDC_M_POSTIND :: "nat \<Rightarrow> u32 \<Rightarrow> 'io nds \<Rightarrow> u32 \<times> 'io nds" where
  "OP_LDC_M_POSTIND p i s = TRAPUNDEF p s"

definition OP_LDC_OPTION :: "nat \<Rightarrow> u32 \<Rightarrow> 'io nds \<Rightarrow> u32 \<times> 'io nds" where
  "OP_LDC_OPTION p i s = TRAPUNDEF p s"

definition OP_CDP :: "nat \<Rightarrow> u32 \<Rightarrow> 'io nds \<Rightarrow> u32 \<times> 'io nds" where
  "OP_CDP p i s = TRAPUNDEF p s"

text \<open>MCR ignores whether the transfer succeeded; a failed MRC reads 0.\<close>

definition OP_MCR :: "nat \<Rightarrow> u32 \<Rightarrow> 'io nds \<Rightarrow> u32 \<times> 'io nds" where
  "OP_MCR p i s =
     (let cpnum = REG_POS i 8 in
      if cpnum \<noteq> 15 then (2, s)
      else
        (let s = snd (moveARM2CP (R (ARMPROC p s) (REG_POS i 12)) (ucast (REG_POS i 16)) (ucast (REG_POS i 0))
                   (ucast (drop_bit 21 i AND 0x7)) (ucast (drop_bit 5 i AND 0x7)) s)
         in (2, s)))"

definition OP_MRC :: "nat \<Rightarrow> u32 \<Rightarrow> 'io nds \<Rightarrow> u32 \<times> 'io nds" where
  "OP_MRC p i s =
     (let cpnum = REG_POS i 8 in
      if cpnum \<noteq> 15 then (2, s)
      else
        (let data = (case moveCP2ARM (ucast (REG_POS i 16)) (ucast (REG_POS i 0))
                       (ucast (drop_bit 21 i AND 0x7)) (ucast (drop_bit 5 i AND 0x7)) s
                     of None \<Rightarrow> 0 | Some v \<Rightarrow> v);
             s = (if REG_POS i 12 = 15 then
                    upd_cpu p (\<lambda>c. setV (bit data 28) (setC (bit data 29) (setZ (bit data 30) (setN (bit data 31) c)))) s
                  else upd_cpu p (setR (REG_POS i 12) data) s)
         in (4, s)))"

section \<open>Software interrupts and breakpoints\<close>

definition OP_SWI :: "(nat \<Rightarrow> 'io swi_table) \<Rightarrow> nat \<Rightarrow> u32 \<Rightarrow> 'io nds \<Rightarrow> u32 \<times> 'io nds" where
  "OP_SWI swi_tab p i s =
     (let swinum = drop_bit 16 i AND 0xFF;
          swinum = swinum AND 0x1F;
          (r, s) = swi_tab p swinum s
      in (r + 3, s))"

definition OP_BKPT :: "nat \<Rightarrow> u32 \<Rightarrow> 'io nds \<Rightarrow> u32 \<times> 'io nds" where
  "OP_BKPT p i s =
     (let tmp = CPSR (ARMPROC p s);
          s = snd (armcpu_switchMode p (ucast ABT) s);
          s = upd_cpu p (\<lambda>c. setR 14 (instruct_adr c + 4) c) s;
          s = upd_cpu p (\<lambda>c. c\<lparr>SPSR := tmp\<rparr>) s;
          s = upd_cpu p (\<lambda>c. c\<lparr>CPSR := (CPSR c)\<lparr>psr_T := False, psr_I := True\<rparr>\<rparr>) s;
          s = changeCPSR s;
          s = upd_cpu p (\<lambda>c. setR 15 (intVector c + 0x0C) c) s;
          s = upd_cpu p (\<lambda>c. c\<lparr>next_instruction := R c 15\<rparr>) s
      in (4, s))"

section \<open>Properties\<close>

text \<open>The bits of a byte mask.\<close>

lemma bit_field_mask:
  "bit (field_mask i) n \<longleftrightarrow> n < 32 \<and> bit i (16 + n div 8)"
proof -
  have m: "(0xFF :: u32) = mask 8" "(0xFF00 :: u32) = push_bit 8 (mask 8)"
    "(0xFF0000 :: u32) = push_bit 16 (mask 8)" "(0xFF000000 :: u32) = push_bit 24 (mask 8)"
    by (simp_all add: mask_eq_exp_minus_1 push_bit_eq_mult)
  have d: "n div 8 = 0 \<longleftrightarrow> n < 8" "n div 8 = 1 \<longleftrightarrow> 8 \<le> n \<and> n < 16"
    "n div 8 = 2 \<longleftrightarrow> 16 \<le> n \<and> n < 24" "n div 8 = 3 \<longleftrightarrow> 24 \<le> n \<and> n < 32" "n < 32 \<longleftrightarrow> n div 8 \<in> {0, 1, 2, 3}"
    by auto
  show ?thesis
  proof (cases "n < 32")
    case False
    then show ?thesis using bit_imp_le_length [of "field_mask i" n] by auto
  next
    case True
    then consider "n < 8" "n div 8 = 0" | "8 \<le> n" "n < 16" "n div 8 = 1" | "16 \<le> n" "n < 24" "n div 8 = 2"
      | "24 \<le> n" "n < 32" "n div 8 = 3"
      by linarith
    then show ?thesis
      by cases (auto simp: field_mask_def m bit_simps)
  qed
qed


text \<open>The bits of a status register that MSR can change.\<close>

definition msr_mask :: "u32 \<Rightarrow> armcpu \<Rightarrow> u32" where
  "msr_mask i c = (if psr_mode (CPSR c) = USR then field_mask i AND 0xFF000000 else field_mask i)"

lemma bit_msr_mask:
  "bit (msr_mask i c) n \<longleftrightarrow> n < 32 \<and> bit i (16 + n div 8) \<and> (psr_mode (CPSR c) = USR \<longrightarrow> 24 \<le> n)"
proof -
  have "(0xFF000000 :: u32) = NOT (mask 24)" by (simp add: mask_eq_exp_minus_1)
  then show ?thesis unfolding msr_mask_def by (auto simp only: bit_simps bit_field_mask split: if_splits) simp_all
qed

lemma msr_mask_flags:
  "psr_mode (CPSR c) = USR \<Longrightarrow> msr_mask i c = (if bit i 19 then 0xFF000000 else 0)"
proof (rule bit_word_eqI)
  fix n assume usr: "psr_mode (CPSR c) = USR" and "n < LENGTH(32)"
  have ff: "(0xFF000000 :: u32) = push_bit 24 (mask 8)"
    by (simp add: mask_eq_exp_minus_1 push_bit_eq_mult)
  have "24 \<le> n \<Longrightarrow> n < 32 \<Longrightarrow> n div 8 = 3" by linarith
  then show "bit (msr_mask i c) n = bit (if bit i 19 then 0xFF000000 else 0 :: u32) n"
    unfolding bit_msr_mask ff using usr \<open>n < LENGTH(32)\<close> by (auto simp: bit_simps)
qed

lemma msr_cpu:
  "ARMPROC p (OP_MSR_CPSR_macro operand p i s) =
    (let c = ARMPROC p s;
         d = (if psr_mode (CPSR c) \<noteq> USR \<and> bit i 16 then switch_banks (ucast (ucast operand :: 5 word)) c else c)
     in d\<lparr>CPSR := psr_of_val ((psr_val (CPSR d) AND NOT (msr_mask i c)) OR (operand AND msr_mask i c))\<rparr>)"
proof -
  have "ucast (operand AND 0x1F) = (ucast (ucast operand :: 5 word) :: u8)"
  proof (rule bit_word_eqI)
    fix n
    have "(0x1F :: u32) = mask 5" by (simp add: mask_eq_exp_minus_1)
    then show "bit (ucast (operand AND 0x1F) :: u8) n = bit (ucast (ucast operand :: 5 word) :: u8) n"
      by (simp only: bit_ucast_iff bit_and_iff bit_mask_iff) auto
  qed
  then show ?thesis
    by (simp add: OP_MSR_CPSR_macro_def Let_def cpu_of_switch msr_mask_flags)
      (simp add: msr_mask_def)
qed

lemma bit_psr_mode_update:
  "5 \<le> n \<Longrightarrow> bit (psr_val (p\<lparr>psr_mode := m\<rparr>)) n = bit (psr_val p) n"
  by (simp add: bit_psr_val)

lemma arch_regs_CPSR:
  "psr_mode q = psr_mode (CPSR c) \<Longrightarrow> arch_reg (c\<lparr>CPSR := q\<rparr>) b n = arch_reg c b n"
  "psr_mode q = psr_mode (CPSR c) \<Longrightarrow> arch_spsr (c\<lparr>CPSR := q\<rparr>) b = arch_spsr c b"
  by (simp, (cases b; simp add: arch_spsr_def cur_bank_def))

text \<open>C37: MSR to CPSR writes exactly the bytes its field mask selects, in user mode only the
  flags byte, and a change of mode it makes loses no register of any bank and no saved status
  register, when the current mode, and the new one if the mode byte is written, are among the
  seven valid ones.\<close>

theorem msr_cpsr_fields:
  fixes s :: "'io nds"
  assumes "valid_mode (psr_mode (CPSR (ARMPROC p s)))"
    and "bit (msr_mask i (ARMPROC p s)) 0 \<Longrightarrow> valid_mode (ucast operand)"
  shows "let c = ARMPROC p s; c' = ARMPROC p (OP_MSR_CPSR_macro operand p i s) in
    (\<forall>n. bit (psr_val (CPSR c')) n =
       (if n < 32 \<and> bit i (16 + n div 8) \<and> (psr_mode (CPSR c) = USR \<longrightarrow> 24 \<le> n) then bit operand n
        else bit (psr_val (CPSR c)) n)) \<and>
    (\<forall>b n. arch_reg c' b n = arch_reg c b n) \<and>
    arch_spsr c' Bfiq = arch_spsr c Bfiq \<and> arch_spsr c' Birq = arch_spsr c Birq \<and>
    arch_spsr c' Bsvc = arch_spsr c Bsvc \<and> arch_spsr c' Babt = arch_spsr c Babt \<and>
    arch_spsr c' Bund = arch_spsr c Bund"
proof -
  let ?c = "ARMPROC p s" and ?c' = "ARMPROC p (OP_MSR_CPSR_macro operand p i s)"
  let ?m = "msr_mask i ?c"
  let ?sw = "psr_mode (CPSR ?c) \<noteq> USR \<and> bit i 16"
  let ?d = "if ?sw then switch_banks (ucast (ucast operand :: 5 word)) ?c else ?c"
  let ?X = "(psr_val (CPSR ?d) AND NOT ?m) OR (operand AND ?m)"
  have c': "?c' = ?d\<lparr>CPSR := psr_of_val ?X\<rparr>" by (simp add: msr_cpu Let_def)
  have sw: "?sw \<longleftrightarrow> bit ?m 0" by (auto simp: bit_msr_mask)
  have low: "bit ?m n \<longleftrightarrow> ?sw" if "n < 8" for n
  proof -
    have "n div 8 = 0" using that by simp
    then show ?thesis using that by (auto simp: bit_msr_mask)
  qed
  have d_val: "bit (psr_val (CPSR ?d)) n = bit (psr_val (CPSR ?c)) n" if "\<not> bit ?m n" for n
    using that low [of n] by (cases "n < 8") (auto simp: switch_banks_CPSR bit_psr_mode_update not_less)
  have mode: "psr_mode (psr_of_val ?X) = psr_mode (CPSR ?d)"
  proof (rule bit_word_eqI)
    fix n assume "n < LENGTH(5)"
    then have n: "n < 5" by simp
    have "bit (psr_mode (psr_of_val ?X)) n = bit (psr_val (psr_of_val ?X)) n"
      "bit (psr_mode (CPSR ?d)) n = bit (psr_val (CPSR ?d)) n"
      using n by (simp_all add: bit_psr_val del: psr_val_of_val)
    moreover have "bit (psr_val (CPSR ?d)) n = bit operand n" if ?sw
      using that n by (simp add: bit_psr_val switch_banks_CPSR bit_ucast_iff)
    ultimately show "bit (psr_mode (psr_of_val ?X)) n = bit (psr_mode (CPSR ?d)) n"
      using low [of n] n by (auto simp: bit_simps)
  qed
  have regs: "arch_reg ?d b n = arch_reg ?c b n" "b \<noteq> Busr \<Longrightarrow> arch_spsr ?d b = arch_spsr ?c b" for b n
    using assms sw by (auto simp: arch_reg_switch arch_spsr_switch)
  have "bit (psr_val (CPSR ?c')) n = (if bit ?m n then bit operand n else bit (psr_val (CPSR ?c)) n)" for n
    using d_val [of n] by (auto simp: c' bit_simps dest: bit_imp_le_length)
  then show ?thesis
    by (simp add: Let_def bit_msr_mask c' arch_regs_CPSR [OF mode] regs del: psr_val_of_val)
qed

theorem msr_user_mode:
  assumes "psr_mode (CPSR (ARMPROC p s)) = USR"
  shows "list_all (\<lambda>h. let c = ARMPROC p s; c' = ARMPROC p (snd (h p i s)) in
      c' = c\<lparr>CPSR := CPSR c'\<rparr> \<and> psr_mode (CPSR c') = USR \<and> take_bit 24 (psr_val (CPSR c')) = take_bit 24 (psr_val (CPSR c)))
    [OP_MSR_CPSR, OP_MSR_CPSR_IMM_VAL, OP_MSR_SPSR, OP_MSR_SPSR_IMM_VAL]"
proof -
  let ?c = "ARMPROC p s"
  have u: "let c' = ARMPROC p (OP_MSR_CPSR_macro operand p i s) in
    c' = ?c\<lparr>CPSR := CPSR c'\<rparr> \<and> psr_mode (CPSR c') = USR \<and>
    take_bit 24 (psr_val (CPSR c')) = take_bit 24 (psr_val (CPSR ?c))" for operand
  proof -
    let ?m = "msr_mask i ?c"
    let ?X = "(psr_val (CPSR ?c) AND NOT ?m) OR (operand AND ?m)"
    have c': "ARMPROC p (OP_MSR_CPSR_macro operand p i s) = ?c\<lparr>CPSR := psr_of_val ?X\<rparr>"
      using assms by (simp add: msr_cpu Let_def)
    have t: "take_bit 24 ?X = take_bit 24 (psr_val (CPSR ?c))"
      using assms by (intro bit_word_eqI) (auto simp: bit_simps bit_msr_mask)
    have "ucast ?X = (ucast (psr_val (CPSR ?c)) :: 5 word)"
      using assms by (intro bit_word_eqI) (auto simp: bit_simps bit_msr_mask)
    then have "psr_mode (psr_of_val ?X) = psr_mode (psr_of_val (psr_val (CPSR ?c)))"
      by (simp add: psr_of_val_def)
    then show ?thesis using assms t by (simp add: c')
  qed
  show ?thesis
    using assms u [of "R ?c (REG_POS i 0)"] u [of "IMM_VALUE i ?c"]
    by (simp add: OP_MSR_CPSR_def OP_MSR_CPSR_IMM_VAL_def OP_MSR_SPSR_def OP_MSR_SPSR_IMM_VAL_def
        OP_MSR_SPSR_macro_def Let_def)
qed


theorem msr_cpsr_fields_witness:
  "arch_reg (ARMPROC 0 (OP_MSR_CPSR_macro 0x12 0 0xE121F000 sample_nds)) Busr 13 = 0x02001D00 \<and>
   bit (psr_val (CPSR (ARMPROC 0 (OP_MSR_CPSR_macro 0x12 0 0xE121F000 sample_nds)))) 1 \<and>
   bit (psr_val (CPSR (ARMPROC 0 (OP_MSR_CPSR_macro 0x12 0 0xE121F000 sample_nds)))) 30"
proof -
  let ?c' = "ARMPROC 0 (OP_MSR_CPSR_macro 0x12 0 0xE121F000 sample_nds)"
  have v: "valid_mode (ucast (0x12 :: u32))"
    by (simp add: valid_mode_def bank_of_def mode_defs)
  have m: "valid_mode (psr_mode (CPSR (ARMPROC 0 sample_nds)))" "psr_mode (CPSR sample_cpu) \<noteq> USR"
    by (simp_all add: mode_neq)
  note f = msr_cpsr_fields [OF m(1) v, of "0xE121F000", unfolded Let_def]
  have "arch_reg ?c' Busr 13 = arch_reg (ARMPROC 0 sample_nds) Busr 13"
    using f by blast
  moreover have "bit (psr_val (CPSR ?c')) n = (if n < 32 \<and> bit (0xE121F000 :: u32) (16 + n div 8) \<and>
      (psr_mode (CPSR (ARMPROC 0 sample_nds)) = USR \<longrightarrow> 24 \<le> n) then bit (0x12 :: u32) n
      else bit (psr_val (CPSR (ARMPROC 0 sample_nds))) n)" for n
    using f by blast
  note this [of 1] this [of 30]
  ultimately show ?thesis
    using m(2) by (simp add: arch_reg_def cur_bank_def) (simp add: sample_cpu_def bit_simps)
qed

theorem msr_user_mode_witness:
  "let s = sample_nds\<lparr>NDS_ARM9 := sample_cpu\<lparr>CPSR := psr_of_val 0x10\<rparr>\<rparr>
   in R (ARMPROC 0 (snd (OP_MSR_CPSR 0 0xE12FF000 s))) 13 = 0x02001D00"
proof -
  let ?s = "sample_nds\<lparr>NDS_ARM9 := sample_cpu\<lparr>CPSR := psr_of_val 0x10\<rparr>\<rparr>"
  have "psr_mode (CPSR (ARMPROC 0 ?s)) = USR"
    by (simp add: ARMPROC_def psr_of_val_def USR_def)
  then have "R (ARMPROC 0 (snd (OP_MSR_CPSR 0 0xE12FF000 ?s))) = R (ARMPROC 0 ?s)"
  proof -
    let ?c' = "ARMPROC 0 (snd (OP_MSR_CPSR 0 0xE12FF000 ?s))"
    assume "psr_mode (CPSR (ARMPROC 0 ?s)) = USR"
    then have "?c' = (ARMPROC 0 ?s)\<lparr>CPSR := CPSR ?c'\<rparr>"
      using msr_user_mode [of 0 ?s "0xE12FF000"] by (simp only: Let_def list.pred_inject(2))
    then have "R ?c' = R ((ARMPROC 0 ?s)\<lparr>CPSR := CPSR ?c'\<rparr>)" by (rule arg_cong)
    then show ?thesis by simp
  qed
  then show ?thesis by (simp add: ARMPROC_def)
qed

text \<open>
  Calls: BL stores the address of the next instruction and branches; BX LR goes back to it.
\<close>

lemma SIGNEXTEND_24_scast: "SIGNEXTEND_24 i = scast (ucast i :: 24 word)"
proof (rule bit_word_eqI)
  fix n assume "n < LENGTH(32)"
  then show "bit (SIGNEXTEND_24 i) n = bit (scast (ucast i :: 24 word) :: u32) n"
    by (cases "n = 23") (auto simp: SIGNEXTEND_24_def bit_simps min_def)
qed

text \<open>C38: BL leaves the address of the next instruction in R14 and continues at the sign-extended
  target; BX to that value, whatever the called code did to the other registers, continues
  after the call in ARM state.\<close>

theorem call_returns:
  assumes "psr_T (CPSR c) = False" "next_instruction c AND 3 = 0" "CONDITION i \<noteq> 0xF"
    and "R d 14 = R (snd (OP_BL i c)) 14" "REG_POS j 0 = 14"
  shows "R (snd (OP_BL i c)) 14 = next_instruction c \<and>
    next_instruction (snd (OP_BL i c)) = (R c 15 + of_int (4 * sint (ucast i :: 24 word))) AND 0xFFFFFFFC \<and>
    next_instruction (snd (OP_BX j d)) = next_instruction c \<and> \<not> psr_T (CPSR (snd (OP_BX j d)))"
proof -
  let ?c = "snd (OP_BL i c)"
  have link: "R ?c 14 = next_instruction c"
    using assms(3) by (simp add: OP_BL_def setR_def Let_def)
  have mask: "pc_mask e = (if psr_T (CPSR e) then 0xFFFFFFFE else 0xFFFFFFFC)" for e
    by (simp add: pc_mask_def)
  have off: "push_bit 2 (SIGNEXTEND_24 i) = of_int (4 * sint (ucast i :: 24 word))"
    unfolding SIGNEXTEND_24_scast push_bit_eq_mult scast_eq by simp
  have target: "next_instruction ?c = (R c 15 + push_bit 2 (SIGNEXTEND_24 i)) AND 0xFFFFFFFC"
    using assms(1,3) by (simp add: OP_BL_def mask setR_def Let_def)
  have T: "\<not> bit (next_instruction c) 0"
    using assms(2) by (simp add: and_3_eq_0)
  have "next_instruction c AND 0xFFFFFFFC = next_instruction c"
  proof -
    have "(- 4 :: u32) = 0xFFFFFFFC" by simp
    then show ?thesis using aligned4_clear' [OF assms(2)] by (simp only:)
  qed
  moreover have "R d (REG_POS j 0) = next_instruction c"
    using assms(4,5) link by simp
  ultimately have "next_instruction (snd (OP_BX j d)) = next_instruction c \<and> \<not> psr_T (CPSR (snd (OP_BX j d)))"
    using T by (simp add: OP_BX_def mask setR_def setT_def u1_BIT0 Let_def)
  then show ?thesis using link target off by simp
qed


theorem call_returns_witness:
  "next_instruction (snd (OP_BX 0xE12FFF1E (snd (OP_BL 0xEBFFFFFE sample_cpu)))) = 0x02000104"
  using call_returns [of sample_cpu "0xEBFFFFFE" "snd (OP_BL 0xEBFFFFFE sample_cpu)" "0xE12FFF1E"]
  by (simp add: CONDITION_def REG_POS_def) (simp add: sample_cpu_def psr_of_val_def bit_simps)

end
