(* ===== verification/Arm_Decode.thy ===== *)
theory Arm_Decode
  imports Block_Laws Arm_Ctrl
begin

text \<open>
  Instruction decoding: src/source/instruction_tabdef.inc, the table of 4096 handlers that
  src/source/arm_instructions.cpp includes as \<open>arm_instructions_set\<close>, indexed by bits 27 to
  20 and 7 to 4 of the instruction.  A table entry is a value of \<open>arm_op\<close>, whose
  constructors carry what the handler's name spells out (\<open>Data DP_ADD True Lsl_imm\<close> is
  \<open>OP_ADD_S_LSL_IMM\<close>), and \<open>arm_handler\<close> gives the handler.  The table is written out
  in 32 pieces of 128 entries, as the source lists it; \<open>arm_decode\<close> is the architecture's
  decoder, by bit fields, and the pieces are proved equal to it.
\<close>

section \<open>Table entries\<close>

datatype (plugins only: size) dp_code = DP_AND | DP_EOR | DP_SUB | DP_RSB | DP_ADD | DP_ADC | DP_SBC | DP_RSC
  | DP_TST | DP_TEQ | DP_CMP | DP_CMN | DP_ORR | DP_MOV | DP_BIC | DP_MVN

datatype cop_mode = Cop_Option | Cop index_kind bool

datatype (plugins only: size) arm_op = Data dp_code bool operand2
  | Multiply bool bool | Multiply_Long bool bool bool
  | Smul bool bool | Smla bool bool | Smlal bool bool | Smulw bool | Smlaw bool
  | Saturate bool bool | Clz | Swap bool | Ldrex | Strex
  | Ldr bool addr_mode | Str bool addr_mode
  | Ldrh addr_mode | Ldrsh addr_mode | Ldrsb addr_mode | Strh addr_mode | Ldrd_Strd bool
  | Ldm block_kind bool bool | Stm block_kind bool bool
  | Branch | Branch_Link | Bx | Blx_Reg | Mrs bool | Msr bool bool
  | Cdp | Mcr | Mrc | Stc cop_mode | Ldc cop_mode | Swi | Bkpt | Undefined

section \<open>Handlers\<close>

type_synonym 'io handler = "nat \<Rightarrow> u32 \<Rightarrow> 'io nds \<Rightarrow> u32 \<times> 'io nds"

text \<open>A handler that touches the processor alone.\<close>

definition cpu_handler :: "(u32 \<Rightarrow> armcpu \<Rightarrow> u32 \<times> armcpu) \<Rightarrow> 'io handler" where
  "cpu_handler f p i s = on_cpu p (f i) s"

fun data_handler :: "dp_code \<Rightarrow> bool \<Rightarrow> operand2 \<Rightarrow> 'io handler" where
  "data_handler DP_AND False k = cpu_handler (OP_AND_fn k)"
| "data_handler DP_AND True k = (\<lambda>p i s. OP_AND_S_fn k i p s)"
| "data_handler DP_EOR False k = cpu_handler (OP_EOR_fn k)"
| "data_handler DP_EOR True k = (\<lambda>p i s. OP_EOR_S_fn k i p s)"
| "data_handler DP_SUB False k = cpu_handler (OP_SUB_fn k)"
| "data_handler DP_SUB True k = (\<lambda>p i s. OP_SUB_S_fn k i p s)"
| "data_handler DP_RSB False k = cpu_handler (OP_RSB_fn k)"
| "data_handler DP_RSB True k = (\<lambda>p i s. OP_RSB_S_fn k i p s)"
| "data_handler DP_ADD False k = cpu_handler (OP_ADD_fn k)"
| "data_handler DP_ADD True k = (\<lambda>p i s. OP_ADD_S_fn k i p s)"
| "data_handler DP_ADC False k = cpu_handler (OP_ADC_fn k)"
| "data_handler DP_ADC True k = (\<lambda>p i s. OP_ADC_S_fn k i p s)"
| "data_handler DP_SBC False k = cpu_handler (OP_SBC_fn k)"
| "data_handler DP_SBC True k = (\<lambda>p i s. OP_SBC_S_fn k i p s)"
| "data_handler DP_RSC False k = cpu_handler (OP_RSC_fn k)"
| "data_handler DP_RSC True k = (\<lambda>p i s. OP_RSC_S_fn k i p s)"
| "data_handler DP_TST _ k = cpu_handler (OP_TST_fn k)"
| "data_handler DP_TEQ _ k = cpu_handler (OP_TEQ_fn k)"
| "data_handler DP_CMP _ k = cpu_handler (OP_CMP_fn k)"
| "data_handler DP_CMN _ k = cpu_handler (OP_CMN_fn k)"
| "data_handler DP_ORR False k = cpu_handler (OP_ORR_fn k)"
| "data_handler DP_ORR True k = (\<lambda>p i s. OP_ORR_S_fn k i p s)"
| "data_handler DP_MOV False k = cpu_handler (OP_MOV_fn k)"
| "data_handler DP_MOV True k = (\<lambda>p i s. OP_MOV_S_fn k i p s)"
| "data_handler DP_BIC False k = cpu_handler (OP_BIC_fn k)"
| "data_handler DP_BIC True k = (\<lambda>p i s. OP_BIC_S_fn k i p s)"
| "data_handler DP_MVN False k = cpu_handler (OP_MVN_fn k)"
| "data_handler DP_MVN True k = (\<lambda>p i s. OP_MVN_S_fn k i p s)"

text \<open>The handler lists of the addressing modes, looked up by the mode.\<close>

definition mode_handler :: "addr_mode list \<Rightarrow> 'io handler list \<Rightarrow> addr_mode \<Rightarrow> 'io handler" where
  "mode_handler forms hs m = (case map_of (zip forms hs) m of None \<Rightarrow> OP_UND | Some h \<Rightarrow> h)"

fun ldm_handler :: "'io bus \<Rightarrow> block_kind \<Rightarrow> bool \<Rightarrow> bool \<Rightarrow> 'io handler" where
  "ldm_handler B IA False False = OP_LDMIA B"
| "ldm_handler B IA False True = OP_LDMIA_W B"
| "ldm_handler B IA True False = OP_LDMIA2 B"
| "ldm_handler B IA True True = OP_LDMIA2_W B"
| "ldm_handler B IB False False = OP_LDMIB B"
| "ldm_handler B IB False True = OP_LDMIB_W B"
| "ldm_handler B IB True False = OP_LDMIB2 B"
| "ldm_handler B IB True True = OP_LDMIB2_W B"
| "ldm_handler B DA False False = OP_LDMDA B"
| "ldm_handler B DA False True = OP_LDMDA_W B"
| "ldm_handler B DA True False = OP_LDMDA2 B"
| "ldm_handler B DA True True = OP_LDMDA2_W B"
| "ldm_handler B DB False False = OP_LDMDB B"
| "ldm_handler B DB False True = OP_LDMDB_W B"
| "ldm_handler B DB True False = OP_LDMDB2 B"
| "ldm_handler B DB True True = OP_LDMDB2_W B"

fun stm_handler :: "'io bus \<Rightarrow> block_kind \<Rightarrow> bool \<Rightarrow> bool \<Rightarrow> 'io handler" where
  "stm_handler B IA False False = OP_STMIA B"
| "stm_handler B IA False True = OP_STMIA_W B"
| "stm_handler B IA True False = OP_STMIA2 B"
| "stm_handler B IA True True = OP_STMIA2_W B"
| "stm_handler B IB False False = OP_STMIB B"
| "stm_handler B IB False True = OP_STMIB_W B"
| "stm_handler B IB True False = OP_STMIB2 B"
| "stm_handler B IB True True = OP_STMIB2_W B"
| "stm_handler B DA False False = OP_STMDA B"
| "stm_handler B DA False True = OP_STMDA_W B"
| "stm_handler B DA True False = OP_STMDA2 B"
| "stm_handler B DA True True = OP_STMDA2_W B"
| "stm_handler B DB False False = OP_STMDB B"
| "stm_handler B DB False True = OP_STMDB_W B"
| "stm_handler B DB True False = OP_STMDB2 B"
| "stm_handler B DB True True = OP_STMDB2_W B"

fun stc_handler :: "cop_mode \<Rightarrow> 'io handler" where
  "stc_handler Cop_Option = OP_STC_OPTION"
| "stc_handler (Cop Offset True) = OP_STC_P_IMM_OFF"
| "stc_handler (Cop Offset False) = OP_STC_M_IMM_OFF"
| "stc_handler (Cop Pre True) = OP_STC_P_PREIND"
| "stc_handler (Cop Pre False) = OP_STC_M_PREIND"
| "stc_handler (Cop Post True) = OP_STC_P_POSTIND"
| "stc_handler (Cop Post False) = OP_STC_M_POSTIND"

fun ldc_handler :: "cop_mode \<Rightarrow> 'io handler" where
  "ldc_handler Cop_Option = OP_LDC_OPTION"
| "ldc_handler (Cop Offset True) = OP_LDC_P_IMM_OFF"
| "ldc_handler (Cop Offset False) = OP_LDC_M_IMM_OFF"
| "ldc_handler (Cop Pre True) = OP_LDC_P_PREIND"
| "ldc_handler (Cop Pre False) = OP_LDC_M_PREIND"
| "ldc_handler (Cop Post True) = OP_LDC_P_POSTIND"
| "ldc_handler (Cop Post False) = OP_LDC_M_POSTIND"

fun arm_handler :: "'io bus \<Rightarrow> (nat \<Rightarrow> 'io swi_table) \<Rightarrow> arm_op \<Rightarrow> 'io handler" where
  "arm_handler B swi (Data d s k) = data_handler d s k"
| "arm_handler B swi (Multiply False False) = cpu_handler OP_MUL"
| "arm_handler B swi (Multiply False True) = cpu_handler OP_MUL_S"
| "arm_handler B swi (Multiply True False) = cpu_handler OP_MLA"
| "arm_handler B swi (Multiply True True) = cpu_handler OP_MLA_S"
| "arm_handler B swi (Multiply_Long False False False) = cpu_handler OP_UMULL"
| "arm_handler B swi (Multiply_Long False False True) = cpu_handler OP_UMULL_S"
| "arm_handler B swi (Multiply_Long False True False) = cpu_handler OP_UMLAL"
| "arm_handler B swi (Multiply_Long False True True) = cpu_handler OP_UMLAL_S"
| "arm_handler B swi (Multiply_Long True False False) = cpu_handler OP_SMULL"
| "arm_handler B swi (Multiply_Long True False True) = cpu_handler OP_SMULL_S"
| "arm_handler B swi (Multiply_Long True True False) = cpu_handler OP_SMLAL"
| "arm_handler B swi (Multiply_Long True True True) = cpu_handler OP_SMLAL_S"
| "arm_handler B swi (Smul False False) = cpu_handler OP_SMUL_B_B"
| "arm_handler B swi (Smul False True) = cpu_handler OP_SMUL_B_T"
| "arm_handler B swi (Smul True False) = cpu_handler OP_SMUL_T_B"
| "arm_handler B swi (Smul True True) = cpu_handler OP_SMUL_T_T"
| "arm_handler B swi (Smla False False) = cpu_handler OP_SMLA_B_B"
| "arm_handler B swi (Smla False True) = cpu_handler OP_SMLA_B_T"
| "arm_handler B swi (Smla True False) = cpu_handler OP_SMLA_T_B"
| "arm_handler B swi (Smla True True) = cpu_handler OP_SMLA_T_T"
| "arm_handler B swi (Smlal False False) = cpu_handler OP_SMLAL_B_B"
| "arm_handler B swi (Smlal False True) = cpu_handler OP_SMLAL_B_T"
| "arm_handler B swi (Smlal True False) = cpu_handler OP_SMLAL_T_B"
| "arm_handler B swi (Smlal True True) = cpu_handler OP_SMLAL_T_T"
| "arm_handler B swi (Smulw False) = cpu_handler OP_SMULW_B"
| "arm_handler B swi (Smulw True) = cpu_handler OP_SMULW_T"
| "arm_handler B swi (Smlaw False) = cpu_handler OP_SMLAW_B"
| "arm_handler B swi (Smlaw True) = cpu_handler OP_SMLAW_T"
| "arm_handler B swi (Saturate False False) = cpu_handler OP_QADD"
| "arm_handler B swi (Saturate False True) = cpu_handler OP_QSUB"
| "arm_handler B swi (Saturate True False) = cpu_handler OP_QDADD"
| "arm_handler B swi (Saturate True True) = cpu_handler OP_QDSUB"
| "arm_handler B swi Clz = cpu_handler OP_CLZ"
| "arm_handler B swi (Swap False) = OP_SWP B"
| "arm_handler B swi (Swap True) = OP_SWPB B"
| "arm_handler B swi Ldrex = OP_LDREX B"
| "arm_handler B swi Strex = OP_STREX B"
| "arm_handler B swi (Ldr False m) = mode_handler word_forms (LDR_handlers B) m"
| "arm_handler B swi (Ldr True m) = mode_handler word_forms (LDRB_handlers B) m"
| "arm_handler B swi (Str False m) = mode_handler word_forms (STR_handlers B) m"
| "arm_handler B swi (Str True m) = mode_handler word_forms (STRB_handlers B) m"
| "arm_handler B swi (Ldrh m) = mode_handler half_forms (LDRH_handlers B) m"
| "arm_handler B swi (Ldrsh m) = mode_handler half_forms (LDRSH_handlers B) m"
| "arm_handler B swi (Ldrsb m) = mode_handler half_forms (LDRSB_handlers B) m"
| "arm_handler B swi (Strh m) = mode_handler half_forms (STRH_handlers B) m"
| "arm_handler B swi (Ldrd_Strd True) = OP_LDRD_STRD_POST_INDEX B"
| "arm_handler B swi (Ldrd_Strd False) = OP_LDRD_STRD_OFFSET_PRE_INDEX B"
| "arm_handler B swi (Ldm k u w) = ldm_handler B k u w"
| "arm_handler B swi (Stm k u w) = stm_handler B k u w"
| "arm_handler B swi Branch = cpu_handler OP_B"
| "arm_handler B swi Branch_Link = cpu_handler OP_BL"
| "arm_handler B swi Bx = cpu_handler OP_BX"
| "arm_handler B swi Blx_Reg = cpu_handler OP_BLX_REG"
| "arm_handler B swi (Mrs False) = cpu_handler OP_MRS_CPSR"
| "arm_handler B swi (Mrs True) = cpu_handler OP_MRS_SPSR"
| "arm_handler B swi (Msr False False) = OP_MSR_CPSR"
| "arm_handler B swi (Msr False True) = OP_MSR_CPSR_IMM_VAL"
| "arm_handler B swi (Msr True False) = OP_MSR_SPSR"
| "arm_handler B swi (Msr True True) = OP_MSR_SPSR_IMM_VAL"
| "arm_handler B swi Cdp = OP_CDP"
| "arm_handler B swi Mcr = OP_MCR"
| "arm_handler B swi Mrc = OP_MRC"
| "arm_handler B swi (Stc m) = stc_handler m"
| "arm_handler B swi (Ldc m) = ldc_handler m"
| "arm_handler B swi Swi = OP_SWI swi"
| "arm_handler B swi Bkpt = OP_BKPT"
| "arm_handler B swi Undefined = OP_UND"

section \<open>The table\<close>

definition arm_table_00 :: "arm_op list" where
    "arm_table_00 = [Data DP_AND False Lsl_imm, Data DP_AND False Lsl_reg, Data DP_AND False
     Lsr_imm, Data DP_AND False Lsr_reg, Data DP_AND False Asr_imm, Data DP_AND False Asr_reg, Data
     DP_AND False Ror_imm, Data DP_AND False Ror_reg, Data DP_AND False Lsl_imm, Multiply False
     False, Data DP_AND False Lsr_imm, Strh (Post, Reg_off, False), Data DP_AND False Asr_imm,
     Ldrd_Strd True, Data DP_AND False Ror_imm, Ldrd_Strd True] @ [Data DP_AND True Lsl_imm, Data
     DP_AND True Lsl_reg, Data DP_AND True Lsr_imm, Data DP_AND True Lsr_reg, Data DP_AND True
     Asr_imm, Data DP_AND True Asr_reg, Data DP_AND True Ror_imm, Data DP_AND True Ror_reg, Data
     DP_AND True Lsl_imm, Multiply False True, Data DP_AND True Lsr_imm, Ldrh (Post, Reg_off,
     False), Data DP_AND True Asr_imm, Ldrsb (Post, Reg_off, False), Data DP_AND True Ror_imm, Ldrsh
     (Post, Reg_off, False)] @ [Data DP_EOR False Lsl_imm, Data DP_EOR False Lsl_reg, Data DP_EOR
     False Lsr_imm, Data DP_EOR False Lsr_reg, Data DP_EOR False Asr_imm, Data DP_EOR False Asr_reg,
     Data DP_EOR False Ror_imm, Data DP_EOR False Ror_reg, Data DP_EOR False Lsl_imm, Multiply True
     False, Data DP_EOR False Lsr_imm, Undefined, Data DP_EOR False Asr_imm, Undefined, Data DP_EOR
     False Ror_imm, Undefined] @ [Data DP_EOR True Lsl_imm, Data DP_EOR True Lsl_reg, Data DP_EOR
     True Lsr_imm, Data DP_EOR True Lsr_reg, Data DP_EOR True Asr_imm, Data DP_EOR True Asr_reg,
     Data DP_EOR True Ror_imm, Data DP_EOR True Ror_reg, Data DP_EOR True Lsl_imm, Multiply True
     True, Data DP_EOR True Lsr_imm, Undefined, Data DP_EOR True Asr_imm, Undefined, Data DP_EOR
     True Ror_imm, Undefined] @ [Data DP_SUB False Lsl_imm, Data DP_SUB False Lsl_reg, Data DP_SUB
     False Lsr_imm, Data DP_SUB False Lsr_reg, Data DP_SUB False Asr_imm, Data DP_SUB False Asr_reg,
     Data DP_SUB False Ror_imm, Data DP_SUB False Ror_reg, Data DP_SUB False Lsl_imm, Undefined,
     Data DP_SUB False Lsr_imm, Strh (Post, Imm8, False), Data DP_SUB False Asr_imm, Ldrd_Strd True,
     Data DP_SUB False Ror_imm, Ldrd_Strd True] @ [Data DP_SUB True Lsl_imm, Data DP_SUB True
     Lsl_reg, Data DP_SUB True Lsr_imm, Data DP_SUB True Lsr_reg, Data DP_SUB True Asr_imm, Data
     DP_SUB True Asr_reg, Data DP_SUB True Ror_imm, Data DP_SUB True Ror_reg, Data DP_SUB True
     Lsl_imm, Undefined, Data DP_SUB True Lsr_imm, Ldrh (Post, Imm8, False), Data DP_SUB True
     Asr_imm, Ldrsb (Post, Imm8, False), Data DP_SUB True Ror_imm, Ldrsh (Post, Imm8, False)] @
     [Data DP_RSB False Lsl_imm, Data DP_RSB False Lsl_reg, Data DP_RSB False Lsr_imm, Data DP_RSB
     False Lsr_reg, Data DP_RSB False Asr_imm, Data DP_RSB False Asr_reg, Data DP_RSB False Ror_imm,
     Data DP_RSB False Ror_reg, Data DP_RSB False Lsl_imm, Undefined, Data DP_RSB False Lsr_imm,
     Undefined, Data DP_RSB False Asr_imm, Undefined, Data DP_RSB False Ror_imm, Undefined] @ [Data
     DP_RSB True Lsl_imm, Data DP_RSB True Lsl_reg, Data DP_RSB True Lsr_imm, Data DP_RSB True
     Lsr_reg, Data DP_RSB True Asr_imm, Data DP_RSB True Asr_reg, Data DP_RSB True Ror_imm, Data
     DP_RSB True Ror_reg, Data DP_RSB True Lsl_imm, Undefined, Data DP_RSB True Lsr_imm, Undefined,
     Data DP_RSB True Asr_imm, Undefined, Data DP_RSB True Ror_imm, Undefined]"

definition arm_table_01 :: "arm_op list" where
    "arm_table_01 = [Data DP_ADD False Lsl_imm, Data DP_ADD False Lsl_reg, Data DP_ADD False
     Lsr_imm, Data DP_ADD False Lsr_reg, Data DP_ADD False Asr_imm, Data DP_ADD False Asr_reg, Data
     DP_ADD False Ror_imm, Data DP_ADD False Ror_reg, Data DP_ADD False Lsl_imm, Multiply_Long False
     False False, Data DP_ADD False Lsr_imm, Strh (Post, Reg_off, True), Data DP_ADD False Asr_imm,
     Ldrd_Strd True, Data DP_ADD False Ror_imm, Ldrd_Strd True] @ [Data DP_ADD True Lsl_imm, Data
     DP_ADD True Lsl_reg, Data DP_ADD True Lsr_imm, Data DP_ADD True Lsr_reg, Data DP_ADD True
     Asr_imm, Data DP_ADD True Asr_reg, Data DP_ADD True Ror_imm, Data DP_ADD True Ror_reg, Data
     DP_ADD True Lsl_imm, Multiply_Long False False True, Data DP_ADD True Lsr_imm, Ldrh (Post,
     Reg_off, True), Data DP_ADD True Asr_imm, Ldrsb (Post, Reg_off, True), Data DP_ADD True
     Ror_imm, Ldrsh (Post, Reg_off, True)] @ [Data DP_ADC False Lsl_imm, Data DP_ADC False Lsl_reg,
     Data DP_ADC False Lsr_imm, Data DP_ADC False Lsr_reg, Data DP_ADC False Asr_imm, Data DP_ADC
     False Asr_reg, Data DP_ADC False Ror_imm, Data DP_ADC False Ror_reg, Data DP_ADC False Lsl_imm,
     Multiply_Long False True False, Data DP_ADC False Lsr_imm, Undefined, Data DP_ADC False
     Asr_imm, Undefined, Data DP_ADC False Ror_imm, Undefined] @ [Data DP_ADC True Lsl_imm, Data
     DP_ADC True Lsl_reg, Data DP_ADC True Lsr_imm, Data DP_ADC True Lsr_reg, Data DP_ADC True
     Asr_imm, Data DP_ADC True Asr_reg, Data DP_ADC True Ror_imm, Data DP_ADC True Ror_reg, Data
     DP_ADC True Lsl_imm, Multiply_Long False True True, Data DP_ADC True Lsr_imm, Undefined, Data
     DP_ADC True Asr_imm, Undefined, Data DP_ADC True Ror_imm, Undefined] @ [Data DP_SBC False
     Lsl_imm, Data DP_SBC False Lsl_reg, Data DP_SBC False Lsr_imm, Data DP_SBC False Lsr_reg, Data
     DP_SBC False Asr_imm, Data DP_SBC False Asr_reg, Data DP_SBC False Ror_imm, Data DP_SBC False
     Ror_reg, Data DP_SBC False Lsl_imm, Multiply_Long True False False, Data DP_SBC False Lsr_imm,
     Strh (Post, Imm8, True), Data DP_SBC False Asr_imm, Ldrd_Strd True, Data DP_SBC False Ror_imm,
     Ldrd_Strd True] @ [Data DP_SBC True Lsl_imm, Data DP_SBC True Lsl_reg, Data DP_SBC True
     Lsr_imm, Data DP_SBC True Lsr_reg, Data DP_SBC True Asr_imm, Data DP_SBC True Asr_reg, Data
     DP_SBC True Ror_imm, Data DP_SBC True Ror_reg, Data DP_SBC True Lsl_imm, Multiply_Long True
     False True, Data DP_SBC True Lsr_imm, Ldrh (Post, Imm8, True), Data DP_SBC True Asr_imm, Ldrsb
     (Post, Imm8, True), Data DP_SBC True Ror_imm, Ldrsh (Post, Imm8, True)] @ [Data DP_RSC False
     Lsl_imm, Data DP_RSC False Lsl_reg, Data DP_RSC False Lsr_imm, Data DP_RSC False Lsr_reg, Data
     DP_RSC False Asr_imm, Data DP_RSC False Asr_reg, Data DP_RSC False Ror_imm, Data DP_RSC False
     Ror_reg, Data DP_RSC False Lsl_imm, Multiply_Long True True False, Data DP_RSC False Lsr_imm,
     Undefined, Data DP_RSC False Asr_imm, Undefined, Data DP_RSC False Ror_imm, Undefined] @ [Data
     DP_RSC True Lsl_imm, Data DP_RSC True Lsl_reg, Data DP_RSC True Lsr_imm, Data DP_RSC True
     Lsr_reg, Data DP_RSC True Asr_imm, Data DP_RSC True Asr_reg, Data DP_RSC True Ror_imm, Data
     DP_RSC True Ror_reg, Data DP_RSC True Lsl_imm, Multiply_Long True True True, Data DP_RSC True
     Lsr_imm, Undefined, Data DP_RSC True Asr_imm, Undefined, Data DP_RSC True Ror_imm, Undefined]"

definition arm_table_02 :: "arm_op list" where
    "arm_table_02 = [Mrs False, Undefined, Undefined, Undefined, Undefined, Saturate False False,
     Undefined, Undefined, Smla False False, Swap False, Smla True False, Strh (Offset, Reg_off,
     False), Smla False True, Ldrd_Strd False, Smla True True, Ldrd_Strd False] @ [Data DP_TST False
     Lsl_imm, Data DP_TST False Lsl_reg, Data DP_TST False Lsr_imm, Data DP_TST False Lsr_reg, Data
     DP_TST False Asr_imm, Data DP_TST False Asr_reg, Data DP_TST False Ror_imm, Data DP_TST False
     Ror_reg, Data DP_TST False Lsl_imm, Undefined, Data DP_TST False Lsr_imm, Ldrh (Offset,
     Reg_off, False), Data DP_TST False Asr_imm, Ldrsb (Offset, Reg_off, False), Data DP_TST False
     Ror_imm, Ldrsh (Offset, Reg_off, False)] @ [Msr False False, Bx, Undefined, Blx_Reg, Undefined,
     Saturate False True, Undefined, Bkpt, Smlaw False, Undefined, Smulw False, Strh (Pre, Reg_off,
     False), Smlaw True, Ldrd_Strd False, Smulw True, Ldrd_Strd False] @ [Data DP_TEQ False Lsl_imm,
     Data DP_TEQ False Lsl_reg, Data DP_TEQ False Lsr_imm, Data DP_TEQ False Lsr_reg, Data DP_TEQ
     False Asr_imm, Data DP_TEQ False Asr_reg, Data DP_TEQ False Ror_imm, Data DP_TEQ False Ror_reg,
     Data DP_TEQ False Lsl_imm, Undefined, Data DP_TEQ False Lsr_imm, Ldrh (Pre, Reg_off, False),
     Data DP_TEQ False Asr_imm, Ldrsb (Pre, Reg_off, False), Data DP_TEQ False Ror_imm, Ldrsh (Pre,
     Reg_off, False)] @ [Mrs True, Undefined, Undefined, Undefined, Undefined, Saturate True False,
     Undefined, Undefined, Smlal False False, Swap True, Smlal True False, Strh (Offset, Imm8,
     False), Smlal False True, Ldrd_Strd False, Smlal True True, Ldrd_Strd False] @ [Data DP_CMP
     False Lsl_imm, Data DP_CMP False Lsl_reg, Data DP_CMP False Lsr_imm, Data DP_CMP False Lsr_reg,
     Data DP_CMP False Asr_imm, Data DP_CMP False Asr_reg, Data DP_CMP False Ror_imm, Data DP_CMP
     False Ror_reg, Data DP_CMP False Lsl_imm, Undefined, Data DP_CMP False Lsr_imm, Ldrh (Offset,
     Imm8, False), Data DP_CMP False Asr_imm, Ldrsb (Offset, Imm8, False), Data DP_CMP False
     Ror_imm, Ldrsh (Offset, Imm8, False)] @ [Msr True False, Clz, Undefined, Undefined, Undefined,
     Saturate True True, Undefined, Undefined, Smul False False, Undefined, Smul True False, Strh
     (Pre, Imm8, False), Smul False True, Ldrd_Strd False, Smul True True, Ldrd_Strd False] @ [Data
     DP_CMN False Lsl_imm, Data DP_CMN False Lsl_reg, Data DP_CMN False Lsr_imm, Data DP_CMN False
     Lsr_reg, Data DP_CMN False Asr_imm, Data DP_CMN False Asr_reg, Data DP_CMN False Ror_imm, Data
     DP_CMN False Ror_reg, Data DP_CMN False Lsl_imm, Undefined, Data DP_CMN False Lsr_imm, Ldrh
     (Pre, Imm8, False), Data DP_CMN False Asr_imm, Ldrsb (Pre, Imm8, False), Data DP_CMN False
     Ror_imm, Ldrsh (Pre, Imm8, False)]"

definition arm_table_03 :: "arm_op list" where
    "arm_table_03 = [Data DP_ORR False Lsl_imm, Data DP_ORR False Lsl_reg, Data DP_ORR False
     Lsr_imm, Data DP_ORR False Lsr_reg, Data DP_ORR False Asr_imm, Data DP_ORR False Asr_reg, Data
     DP_ORR False Ror_imm, Data DP_ORR False Ror_reg, Data DP_ORR False Lsl_imm, Strex, Data DP_ORR
     False Lsr_imm, Strh (Offset, Reg_off, True), Data DP_ORR False Asr_imm, Ldrd_Strd False, Data
     DP_ORR False Ror_imm, Ldrd_Strd False] @ [Data DP_ORR True Lsl_imm, Data DP_ORR True Lsl_reg,
     Data DP_ORR True Lsr_imm, Data DP_ORR True Lsr_reg, Data DP_ORR True Asr_imm, Data DP_ORR True
     Asr_reg, Data DP_ORR True Ror_imm, Data DP_ORR True Ror_reg, Data DP_ORR True Lsl_imm, Ldrex,
     Data DP_ORR True Lsr_imm, Ldrh (Offset, Reg_off, True), Data DP_ORR True Asr_imm, Ldrsb
     (Offset, Reg_off, True), Data DP_ORR True Ror_imm, Ldrsh (Offset, Reg_off, True)] @ [Data
     DP_MOV False Lsl_imm, Data DP_MOV False Lsl_reg, Data DP_MOV False Lsr_imm, Data DP_MOV False
     Lsr_reg, Data DP_MOV False Asr_imm, Data DP_MOV False Asr_reg, Data DP_MOV False Ror_imm, Data
     DP_MOV False Ror_reg, Data DP_MOV False Lsl_imm, Undefined, Data DP_MOV False Lsr_imm, Strh
     (Pre, Reg_off, True), Data DP_MOV False Asr_imm, Ldrd_Strd False, Data DP_MOV False Ror_imm,
     Ldrd_Strd False] @ [Data DP_MOV True Lsl_imm, Data DP_MOV True Lsl_reg, Data DP_MOV True
     Lsr_imm, Data DP_MOV True Lsr_reg, Data DP_MOV True Asr_imm, Data DP_MOV True Asr_reg, Data
     DP_MOV True Ror_imm, Data DP_MOV True Ror_reg, Data DP_MOV True Lsl_imm, Undefined, Data DP_MOV
     True Lsr_imm, Ldrh (Pre, Reg_off, True), Data DP_MOV True Asr_imm, Ldrsb (Pre, Reg_off, True),
     Data DP_MOV True Ror_imm, Ldrsh (Pre, Reg_off, True)] @ [Data DP_BIC False Lsl_imm, Data DP_BIC
     False Lsl_reg, Data DP_BIC False Lsr_imm, Data DP_BIC False Lsr_reg, Data DP_BIC False Asr_imm,
     Data DP_BIC False Asr_reg, Data DP_BIC False Ror_imm, Data DP_BIC False Ror_reg, Data DP_BIC
     False Lsl_imm, Undefined, Data DP_BIC False Lsr_imm, Strh (Offset, Imm8, True), Data DP_BIC
     False Asr_imm, Ldrd_Strd False, Data DP_BIC False Ror_imm, Ldrd_Strd False] @ [Data DP_BIC True
     Lsl_imm, Data DP_BIC True Lsl_reg, Data DP_BIC True Lsr_imm, Data DP_BIC True Lsr_reg, Data
     DP_BIC True Asr_imm, Data DP_BIC True Asr_reg, Data DP_BIC True Ror_imm, Data DP_BIC True
     Ror_reg, Data DP_BIC True Lsl_imm, Undefined, Data DP_BIC True Lsr_imm, Ldrh (Offset, Imm8,
     True), Data DP_BIC True Asr_imm, Ldrsb (Offset, Imm8, True), Data DP_BIC True Ror_imm, Ldrsh
     (Offset, Imm8, True)] @ [Data DP_MVN False Lsl_imm, Data DP_MVN False Lsl_reg, Data DP_MVN
     False Lsr_imm, Data DP_MVN False Lsr_reg, Data DP_MVN False Asr_imm, Data DP_MVN False Asr_reg,
     Data DP_MVN False Ror_imm, Data DP_MVN False Ror_reg, Data DP_MVN False Lsl_imm, Undefined,
     Data DP_MVN False Lsr_imm, Strh (Pre, Imm8, True), Data DP_MVN False Asr_imm, Ldrd_Strd False,
     Data DP_MVN False Ror_imm, Ldrd_Strd False] @ [Data DP_MVN True Lsl_imm, Data DP_MVN True
     Lsl_reg, Data DP_MVN True Lsr_imm, Data DP_MVN True Lsr_reg, Data DP_MVN True Asr_imm, Data
     DP_MVN True Asr_reg, Data DP_MVN True Ror_imm, Data DP_MVN True Ror_reg, Data DP_MVN True
     Lsl_imm, Undefined, Data DP_MVN True Lsr_imm, Ldrh (Pre, Imm8, True), Data DP_MVN True Asr_imm,
     Ldrsb (Pre, Imm8, True), Data DP_MVN True Ror_imm, Ldrsh (Pre, Imm8, True)]"

definition arm_table_04 :: "arm_op list" where
    "arm_table_04 = replicate 16 (Data DP_AND False Imm_val) @ replicate 16 (Data DP_AND True
     Imm_val) @ replicate 16 (Data DP_EOR False Imm_val) @ replicate 16 (Data DP_EOR True Imm_val) @
     replicate 16 (Data DP_SUB False Imm_val) @ replicate 16 (Data DP_SUB True Imm_val) @ replicate
     16 (Data DP_RSB False Imm_val) @ replicate 16 (Data DP_RSB True Imm_val)"

definition arm_table_05 :: "arm_op list" where
    "arm_table_05 = replicate 16 (Data DP_ADD False Imm_val) @ replicate 16 (Data DP_ADD True
     Imm_val) @ replicate 16 (Data DP_ADC False Imm_val) @ replicate 16 (Data DP_ADC True Imm_val) @
     replicate 16 (Data DP_SBC False Imm_val) @ replicate 16 (Data DP_SBC True Imm_val) @ replicate
     16 (Data DP_RSC False Imm_val) @ replicate 16 (Data DP_RSC True Imm_val)"

definition arm_table_06 :: "arm_op list" where
    "arm_table_06 = replicate 16 (Undefined) @ replicate 16 (Data DP_TST False Imm_val) @ replicate
     16 (Msr False True) @ replicate 16 (Data DP_TEQ False Imm_val) @ replicate 16 (Undefined) @
     replicate 16 (Data DP_CMP False Imm_val) @ replicate 16 (Msr True True) @ replicate 16 (Data
     DP_CMN False Imm_val)"

definition arm_table_07 :: "arm_op list" where
    "arm_table_07 = replicate 16 (Data DP_ORR False Imm_val) @ replicate 16 (Data DP_ORR True
     Imm_val) @ replicate 16 (Data DP_MOV False Imm_val) @ replicate 16 (Data DP_MOV True Imm_val) @
     replicate 16 (Data DP_BIC False Imm_val) @ replicate 16 (Data DP_BIC True Imm_val) @ replicate
     16 (Data DP_MVN False Imm_val) @ replicate 16 (Data DP_MVN True Imm_val)"

definition arm_table_08 :: "arm_op list" where
    "arm_table_08 = replicate 16 (Str False (Post, Imm12, False)) @ replicate 16 (Ldr False (Post,
     Imm12, False)) @ replicate 16 (Str False (Post, Imm12, False)) @ replicate 16 (Ldr False (Post,
     Imm12, False)) @ replicate 16 (Str True (Post, Imm12, False)) @ replicate 16 (Ldr True (Post,
     Imm12, False)) @ replicate 16 (Str True (Post, Imm12, False)) @ replicate 16 (Ldr True (Post,
     Imm12, False))"

definition arm_table_09 :: "arm_op list" where
    "arm_table_09 = replicate 16 (Str False (Post, Imm12, True)) @ replicate 16 (Ldr False (Post,
     Imm12, True)) @ replicate 16 (Str False (Post, Imm12, True)) @ replicate 16 (Ldr False (Post,
     Imm12, True)) @ replicate 16 (Str True (Post, Imm12, True)) @ replicate 16 (Ldr True (Post,
     Imm12, True)) @ replicate 16 (Str True (Post, Imm12, True)) @ replicate 16 (Ldr True (Post,
     Imm12, True))"

definition arm_table_10 :: "arm_op list" where
    "arm_table_10 = replicate 16 (Str False (Offset, Imm12, False)) @ replicate 16 (Ldr False
     (Offset, Imm12, False)) @ replicate 16 (Str False (Pre, Imm12, False)) @ replicate 16 (Ldr
     False (Pre, Imm12, False)) @ replicate 16 (Str True (Offset, Imm12, False)) @ replicate 16 (Ldr
     True (Offset, Imm12, False)) @ replicate 16 (Str True (Pre, Imm12, False)) @ replicate 16 (Ldr
     True (Pre, Imm12, False))"

definition arm_table_11 :: "arm_op list" where
    "arm_table_11 = replicate 16 (Str False (Offset, Imm12, True)) @ replicate 16 (Ldr False
     (Offset, Imm12, True)) @ replicate 16 (Str False (Pre, Imm12, True)) @ replicate 16 (Ldr False
     (Pre, Imm12, True)) @ replicate 16 (Str True (Offset, Imm12, True)) @ replicate 16 (Ldr True
     (Offset, Imm12, True)) @ replicate 16 (Str True (Pre, Imm12, True)) @ replicate 16 (Ldr True
     (Pre, Imm12, True))"

definition arm_table_12 :: "arm_op list" where
    "arm_table_12 = concat (replicate 2 [Str False (Post, Shifted Lsl_imm, False), Undefined, Str
     False (Post, Shifted Lsr_imm, False), Undefined, Str False (Post, Shifted Asr_imm, False),
     Undefined, Str False (Post, Shifted Ror_imm, False), Undefined]) @ concat (replicate 2 [Ldr
     False (Post, Shifted Lsl_imm, False), Undefined, Ldr False (Post, Shifted Lsr_imm, False),
     Undefined, Ldr False (Post, Shifted Asr_imm, False), Undefined, Ldr False (Post, Shifted
     Ror_imm, False), Undefined]) @ concat (replicate 2 [Str False (Post, Shifted Lsl_imm, False),
     Undefined, Str False (Post, Shifted Lsr_imm, False), Undefined, Str False (Post, Shifted
     Asr_imm, False), Undefined, Str False (Post, Shifted Ror_imm, False), Undefined]) @ concat
     (replicate 2 [Ldr False (Post, Shifted Lsl_imm, False), Undefined, Ldr False (Post, Shifted
     Lsr_imm, False), Undefined, Ldr False (Post, Shifted Asr_imm, False), Undefined, Ldr False
     (Post, Shifted Ror_imm, False), Undefined]) @ concat (replicate 2 [Str True (Post, Shifted
     Lsl_imm, False), Undefined, Str True (Post, Shifted Lsr_imm, False), Undefined, Str True (Post,
     Shifted Asr_imm, False), Undefined, Str True (Post, Shifted Ror_imm, False), Undefined]) @
     concat (replicate 2 [Ldr True (Post, Shifted Lsl_imm, False), Undefined, Ldr True (Post,
     Shifted Lsr_imm, False), Undefined, Ldr True (Post, Shifted Asr_imm, False), Undefined, Ldr
     True (Post, Shifted Ror_imm, False), Undefined]) @ concat (replicate 2 [Str True (Post, Shifted
     Lsl_imm, False), Undefined, Str True (Post, Shifted Lsr_imm, False), Undefined, Str True (Post,
     Shifted Asr_imm, False), Undefined, Str True (Post, Shifted Ror_imm, False), Undefined]) @
     concat (replicate 2 [Ldr True (Post, Shifted Lsl_imm, False), Undefined, Ldr True (Post,
     Shifted Lsr_imm, False), Undefined, Ldr True (Post, Shifted Asr_imm, False), Undefined, Ldr
     True (Post, Shifted Ror_imm, False), Undefined])"

definition arm_table_13 :: "arm_op list" where
    "arm_table_13 = concat (replicate 2 [Str False (Post, Shifted Lsl_imm, True), Undefined, Str
     False (Post, Shifted Lsr_imm, True), Undefined, Str False (Post, Shifted Asr_imm, True),
     Undefined, Str False (Post, Shifted Ror_imm, True), Undefined]) @ concat (replicate 2 [Ldr
     False (Post, Shifted Lsl_imm, True), Undefined, Ldr False (Post, Shifted Lsr_imm, True),
     Undefined, Ldr False (Post, Shifted Asr_imm, True), Undefined, Ldr False (Post, Shifted
     Ror_imm, True), Undefined]) @ concat (replicate 2 [Str False (Post, Shifted Lsl_imm, True),
     Undefined, Str False (Post, Shifted Lsr_imm, True), Undefined, Str False (Post, Shifted
     Asr_imm, True), Undefined, Str False (Post, Shifted Ror_imm, True), Undefined]) @ concat
     (replicate 2 [Ldr False (Post, Shifted Lsl_imm, True), Undefined, Ldr False (Post, Shifted
     Lsr_imm, True), Undefined, Ldr False (Post, Shifted Asr_imm, True), Undefined, Ldr False (Post,
     Shifted Ror_imm, True), Undefined]) @ concat (replicate 2 [Str True (Post, Shifted Lsl_imm,
     True), Undefined, Str True (Post, Shifted Lsr_imm, True), Undefined, Str True (Post, Shifted
     Asr_imm, True), Undefined, Str True (Post, Shifted Ror_imm, True), Undefined]) @ concat
     (replicate 2 [Ldr True (Post, Shifted Lsl_imm, True), Undefined, Ldr True (Post, Shifted
     Lsr_imm, True), Undefined, Ldr True (Post, Shifted Asr_imm, True), Undefined, Ldr True (Post,
     Shifted Ror_imm, True), Undefined]) @ concat (replicate 2 [Str True (Post, Shifted Lsl_imm,
     True), Undefined, Str True (Post, Shifted Lsr_imm, True), Undefined, Str True (Post, Shifted
     Asr_imm, True), Undefined, Str True (Post, Shifted Ror_imm, True), Undefined]) @ concat
     (replicate 2 [Ldr True (Post, Shifted Lsl_imm, True), Undefined, Ldr True (Post, Shifted
     Lsr_imm, True), Undefined, Ldr True (Post, Shifted Asr_imm, True), Undefined, Ldr True (Post,
     Shifted Ror_imm, True), Undefined])"

definition arm_table_14 :: "arm_op list" where
    "arm_table_14 = concat (replicate 2 [Str False (Offset, Shifted Lsl_imm, False), Undefined, Str
     False (Offset, Shifted Lsr_imm, False), Undefined, Str False (Offset, Shifted Asr_imm, False),
     Undefined, Str False (Offset, Shifted Ror_imm, False), Undefined]) @ concat (replicate 2 [Ldr
     False (Offset, Shifted Lsl_imm, False), Undefined, Ldr False (Offset, Shifted Lsr_imm, False),
     Undefined, Ldr False (Offset, Shifted Asr_imm, False), Undefined, Ldr False (Offset, Shifted
     Ror_imm, False), Undefined]) @ concat (replicate 2 [Str False (Pre, Shifted Lsl_imm, False),
     Undefined, Str False (Pre, Shifted Lsr_imm, False), Undefined, Str False (Pre, Shifted Asr_imm,
     False), Undefined, Str False (Pre, Shifted Ror_imm, False), Undefined]) @ concat (replicate 2
     [Ldr False (Pre, Shifted Lsl_imm, False), Undefined, Ldr False (Pre, Shifted Lsr_imm, False),
     Undefined, Ldr False (Pre, Shifted Asr_imm, False), Undefined, Ldr False (Pre, Shifted Ror_imm,
     False), Undefined]) @ concat (replicate 2 [Str True (Offset, Shifted Lsl_imm, False),
     Undefined, Str True (Offset, Shifted Lsr_imm, False), Undefined, Str True (Offset, Shifted
     Asr_imm, False), Undefined, Str True (Offset, Shifted Ror_imm, False), Undefined]) @ concat
     (replicate 2 [Ldr True (Offset, Shifted Lsl_imm, False), Undefined, Ldr True (Offset, Shifted
     Lsr_imm, False), Undefined, Ldr True (Offset, Shifted Asr_imm, False), Undefined, Ldr True
     (Offset, Shifted Ror_imm, False), Undefined]) @ concat (replicate 2 [Str True (Pre, Shifted
     Lsl_imm, False), Undefined, Str True (Pre, Shifted Lsr_imm, False), Undefined, Str True (Pre,
     Shifted Asr_imm, False), Undefined, Str True (Pre, Shifted Ror_imm, False), Undefined]) @
     concat (replicate 2 [Ldr True (Pre, Shifted Lsl_imm, False), Undefined, Ldr True (Pre, Shifted
     Lsr_imm, False), Undefined, Ldr True (Pre, Shifted Asr_imm, False), Undefined, Ldr True (Pre,
     Shifted Ror_imm, False), Undefined])"

definition arm_table_15 :: "arm_op list" where
    "arm_table_15 = concat (replicate 2 [Str False (Offset, Shifted Lsl_imm, True), Undefined, Str
     False (Offset, Shifted Lsr_imm, True), Undefined, Str False (Offset, Shifted Asr_imm, True),
     Undefined, Str False (Offset, Shifted Ror_imm, True), Undefined]) @ concat (replicate 2 [Ldr
     False (Offset, Shifted Lsl_imm, True), Undefined, Ldr False (Offset, Shifted Lsr_imm, True),
     Undefined, Ldr False (Offset, Shifted Asr_imm, True), Undefined, Ldr False (Offset, Shifted
     Ror_imm, True), Undefined]) @ concat (replicate 2 [Str False (Pre, Shifted Lsl_imm, True),
     Undefined, Str False (Pre, Shifted Lsr_imm, True), Undefined, Str False (Pre, Shifted Asr_imm,
     True), Undefined, Str False (Pre, Shifted Ror_imm, True), Undefined]) @ concat (replicate 2
     [Ldr False (Pre, Shifted Lsl_imm, True), Undefined, Ldr False (Pre, Shifted Lsr_imm, True),
     Undefined, Ldr False (Pre, Shifted Asr_imm, True), Undefined, Ldr False (Pre, Shifted Ror_imm,
     True), Undefined]) @ concat (replicate 2 [Str True (Offset, Shifted Lsl_imm, True), Undefined,
     Str True (Offset, Shifted Lsr_imm, True), Undefined, Str True (Offset, Shifted Asr_imm, True),
     Undefined, Str True (Offset, Shifted Ror_imm, True), Undefined]) @ concat (replicate 2 [Ldr
     True (Offset, Shifted Lsl_imm, True), Undefined, Ldr True (Offset, Shifted Lsr_imm, True),
     Undefined, Ldr True (Offset, Shifted Asr_imm, True), Undefined, Ldr True (Offset, Shifted
     Ror_imm, True), Undefined]) @ concat (replicate 2 [Str True (Pre, Shifted Lsl_imm, True),
     Undefined, Str True (Pre, Shifted Lsr_imm, True), Undefined, Str True (Pre, Shifted Asr_imm,
     True), Undefined, Str True (Pre, Shifted Ror_imm, True), Undefined]) @ concat (replicate 2 [Ldr
     True (Pre, Shifted Lsl_imm, True), Undefined, Ldr True (Pre, Shifted Lsr_imm, True), Undefined,
     Ldr True (Pre, Shifted Asr_imm, True), Undefined, Ldr True (Pre, Shifted Ror_imm, True),
     Undefined])"

definition arm_table_16 :: "arm_op list" where
    "arm_table_16 = replicate 16 (Stm DA False False) @ replicate 16 (Ldm DA False False) @
     replicate 16 (Stm DA False True) @ replicate 16 (Ldm DA False True) @ replicate 16 (Stm DA True
     False) @ replicate 16 (Ldm DA True False) @ replicate 16 (Stm DA True True) @ replicate 16 (Ldm
     DA True True)"

definition arm_table_17 :: "arm_op list" where
    "arm_table_17 = replicate 16 (Stm IA False False) @ replicate 16 (Ldm IA False False) @
     replicate 16 (Stm IA False True) @ replicate 16 (Ldm IA False True) @ replicate 16 (Stm IA True
     False) @ replicate 16 (Ldm IA True False) @ replicate 16 (Stm IA True True) @ replicate 16 (Ldm
     IA True True)"

definition arm_table_18 :: "arm_op list" where
    "arm_table_18 = replicate 16 (Stm DB False False) @ replicate 16 (Ldm DB False False) @
     replicate 16 (Stm DB False True) @ replicate 16 (Ldm DB False True) @ replicate 16 (Stm DB True
     False) @ replicate 16 (Ldm DB True False) @ replicate 16 (Stm DB True True) @ replicate 16 (Ldm
     DB True True)"

definition arm_table_19 :: "arm_op list" where
    "arm_table_19 = replicate 16 (Stm IB False False) @ replicate 16 (Ldm IB False False) @
     replicate 16 (Stm IB False True) @ replicate 16 (Ldm IB False True) @ replicate 16 (Stm IB True
     False) @ replicate 16 (Ldm IB True False) @ replicate 16 (Stm IB True True) @ replicate 16 (Ldm
     IB True True)"

definition arm_table_20 :: "arm_op list" where
    "arm_table_20 = replicate 16 (Branch) @ replicate 16 (Branch) @ replicate 16 (Branch) @
     replicate 16 (Branch) @ replicate 16 (Branch) @ replicate 16 (Branch) @ replicate 16 (Branch) @
     replicate 16 (Branch)"

definition arm_table_21 :: "arm_op list" where
    "arm_table_21 = replicate 16 (Branch) @ replicate 16 (Branch) @ replicate 16 (Branch) @
     replicate 16 (Branch) @ replicate 16 (Branch) @ replicate 16 (Branch) @ replicate 16 (Branch) @
     replicate 16 (Branch)"

definition arm_table_22 :: "arm_op list" where
    "arm_table_22 = replicate 16 (Branch_Link) @ replicate 16 (Branch_Link) @ replicate 16
     (Branch_Link) @ replicate 16 (Branch_Link) @ replicate 16 (Branch_Link) @ replicate 16
     (Branch_Link) @ replicate 16 (Branch_Link) @ replicate 16 (Branch_Link)"

definition arm_table_23 :: "arm_op list" where
    "arm_table_23 = replicate 16 (Branch_Link) @ replicate 16 (Branch_Link) @ replicate 16
     (Branch_Link) @ replicate 16 (Branch_Link) @ replicate 16 (Branch_Link) @ replicate 16
     (Branch_Link) @ replicate 16 (Branch_Link) @ replicate 16 (Branch_Link)"

definition arm_table_24 :: "arm_op list" where
    "arm_table_24 = replicate 16 (Stc Cop_Option) @ replicate 16 (Ldc Cop_Option) @ replicate 16
     (Stc (Cop Post False)) @ replicate 16 (Ldc (Cop Post False)) @ replicate 16 (Stc Cop_Option) @
     replicate 16 (Ldc Cop_Option) @ replicate 16 (Stc (Cop Post False)) @ replicate 16 (Ldc (Cop
     Post False))"

definition arm_table_25 :: "arm_op list" where
    "arm_table_25 = replicate 16 (Stc Cop_Option) @ replicate 16 (Ldc Cop_Option) @ replicate 16
     (Stc (Cop Post True)) @ replicate 16 (Ldc (Cop Post True)) @ replicate 16 (Stc Cop_Option) @
     replicate 16 (Ldc Cop_Option) @ replicate 16 (Stc (Cop Post True)) @ replicate 16 (Ldc (Cop
     Post True))"

definition arm_table_26 :: "arm_op list" where
    "arm_table_26 = replicate 16 (Stc (Cop Offset False)) @ replicate 16 (Ldc (Cop Offset False)) @
     replicate 16 (Stc (Cop Pre False)) @ replicate 16 (Ldc (Cop Pre False)) @ replicate 16 (Stc
     (Cop Offset False)) @ replicate 16 (Ldc (Cop Offset False)) @ replicate 16 (Stc (Cop Pre
     False)) @ replicate 16 (Ldc (Cop Pre False))"

definition arm_table_27 :: "arm_op list" where
    "arm_table_27 = replicate 16 (Stc (Cop Offset True)) @ replicate 16 (Ldc (Cop Offset True)) @
     replicate 16 (Stc (Cop Pre True)) @ replicate 16 (Ldc (Cop Pre True)) @ replicate 16 (Stc (Cop
     Offset True)) @ replicate 16 (Ldc (Cop Offset True)) @ replicate 16 (Stc (Cop Pre True)) @
     replicate 16 (Ldc (Cop Pre True))"

definition arm_table_28 :: "arm_op list" where
    "arm_table_28 = concat (replicate 8 [Cdp, Mcr]) @ concat (replicate 8 [Cdp, Mrc]) @ concat
     (replicate 8 [Cdp, Mcr]) @ concat (replicate 8 [Cdp, Mrc]) @ concat (replicate 8 [Cdp, Mcr]) @
     concat (replicate 8 [Cdp, Mrc]) @ concat (replicate 8 [Cdp, Mcr]) @ concat (replicate 8 [Cdp,
     Mrc])"

definition arm_table_29 :: "arm_op list" where
    "arm_table_29 = concat (replicate 8 [Cdp, Mcr]) @ concat (replicate 8 [Cdp, Mrc]) @ concat
     (replicate 8 [Cdp, Mcr]) @ concat (replicate 8 [Cdp, Mrc]) @ concat (replicate 8 [Cdp, Mcr]) @
     concat (replicate 8 [Cdp, Mrc]) @ concat (replicate 8 [Cdp, Mcr]) @ concat (replicate 8 [Cdp,
     Mrc])"

definition arm_table_30 :: "arm_op list" where
    "arm_table_30 = replicate 16 (Swi) @ replicate 16 (Swi) @ replicate 16 (Swi) @ replicate 16
     (Swi) @ replicate 16 (Swi) @ replicate 16 (Swi) @ replicate 16 (Swi) @ replicate 16 (Swi)"

definition arm_table_31 :: "arm_op list" where
    "arm_table_31 = replicate 16 (Swi) @ replicate 16 (Swi) @ replicate 16 (Swi) @ replicate 16
     (Swi) @ replicate 16 (Swi) @ replicate 16 (Swi) @ replicate 16 (Swi) @ replicate 16 (Swi)"

definition arm_instructions_set :: "arm_op list" where
  "arm_instructions_set = concat [arm_table_00, arm_table_01, arm_table_02, arm_table_03,
     arm_table_04, arm_table_05, arm_table_06, arm_table_07, arm_table_08, arm_table_09,
     arm_table_10, arm_table_11, arm_table_12, arm_table_13, arm_table_14, arm_table_15,
     arm_table_16, arm_table_17, arm_table_18, arm_table_19, arm_table_20, arm_table_21,
     arm_table_22, arm_table_23, arm_table_24, arm_table_25, arm_table_26, arm_table_27,
     arm_table_28, arm_table_29, arm_table_30, arm_table_31]"

section \<open>The architecture's decoder\<close>

text \<open>\<open>r\<close> is bits 27 to 20 of the instruction, \<open>c\<close> bits 7 to 4.\<close>

definition nbit :: "nat \<Rightarrow> nat \<Rightarrow> bool" where
  "nbit k r = odd (r div 2 ^ k)"

definition decode_shift :: "nat \<Rightarrow> operand2" where
  "decode_shift c = [Lsl_imm, Lsl_reg, Lsr_imm, Lsr_reg, Asr_imm, Asr_reg, Ror_imm, Ror_reg] ! (c mod 8)"

definition decode_index :: "nat \<Rightarrow> index_kind" where
  "decode_index r = (if \<not> nbit 4 r then Post else if nbit 1 r then Pre else Offset)"

definition decode_multiply :: "nat \<Rightarrow> arm_op" where
  "decode_multiply r =
     (if \<not> nbit 4 r then
        (if nbit 3 r then Multiply_Long (nbit 2 r) (nbit 1 r) (nbit 0 r)
         else if nbit 2 r then Undefined else Multiply (nbit 1 r) (nbit 0 r))
      else if r = 16 then Swap False else if r = 20 then Swap True
      else if r = 24 then Strex else if r = 25 then Ldrex else Undefined)"

definition decode_extra :: "nat \<Rightarrow> nat \<Rightarrow> arm_op" where
  "decode_extra r c =
     (let m = (decode_index r, if nbit 2 r then Imm8 else Reg_off, nbit 3 r) in
      if \<not> nbit 4 r \<and> nbit 1 r then Undefined
      else if c = 11 then (if nbit 0 r then Ldrh m else Strh m)
      else if \<not> nbit 0 r then Ldrd_Strd (\<not> nbit 4 r)
      else if c = 13 then Ldrsb m else Ldrsh m)"

text \<open>The space of the comparisons without S: status registers, branches by register, saturation
  and halfword multiplication; \<open>k\<close> is bits 22 and 21.\<close>

definition decode_misc :: "nat \<Rightarrow> nat \<Rightarrow> arm_op" where
  "decode_misc k c =
     (if c = 0 then [Mrs False, Msr False False, Mrs True, Msr True False] ! k
      else if c = 1 \<and> k = 1 then Bx else if c = 1 \<and> k = 3 then Clz
      else if c = 3 \<and> k = 1 then Blx_Reg
      else if c = 5 then Saturate (k \<ge> 2) (odd k)
      else if c = 7 \<and> k = 1 then Bkpt
      else if c \<ge> 8 then
        (let x = nbit 1 c; y = nbit 2 c in
         if k = 1 then (if x then Smulw y else Smlaw y)
         else [Smla x y, Undefined, Smlal x y, Smul x y] ! k)
      else Undefined)"

definition dp_codes :: "dp_code list" where
  "dp_codes = [DP_AND, DP_EOR, DP_SUB, DP_RSB, DP_ADD, DP_ADC, DP_SBC, DP_RSC,
     DP_TST, DP_TEQ, DP_CMP, DP_CMN, DP_ORR, DP_MOV, DP_BIC, DP_MVN]"

definition decode_data :: "nat \<Rightarrow> operand2 \<Rightarrow> arm_op" where
  "decode_data r k =
     (let d = r div 2 mod 16 in Data (dp_codes ! d) (nbit 0 r \<and> \<not> (8 \<le> d \<and> d < 12)) k)"

definition decode_word :: "nat \<Rightarrow> offset_kind \<Rightarrow> arm_op" where
  "decode_word r f =
     (let m = (decode_index r, f, nbit 3 r) in if nbit 0 r then Ldr (nbit 2 r) m else Str (nbit 2 r) m)"

definition decode_block :: "nat \<Rightarrow> arm_op" where
  "decode_block r =
     (let k = (if nbit 3 r then (if nbit 4 r then IB else IA) else (if nbit 4 r then DB else DA)) in
      if nbit 0 r then Ldm k (nbit 2 r) (nbit 1 r) else Stm k (nbit 2 r) (nbit 1 r))"

definition decode_coprocessor :: "nat \<Rightarrow> arm_op" where
  "decode_coprocessor r =
     (let m = (if \<not> nbit 4 r \<and> \<not> nbit 1 r then Cop_Option else Cop (decode_index r) (nbit 3 r)) in
      if nbit 0 r then Ldc m else Stc m)"

definition arm_decode :: "nat \<Rightarrow> nat \<Rightarrow> arm_op" where
  "arm_decode r c =
     (if r < 0x20 then
        (if odd c \<and> 8 \<le> c then (if c = 9 then decode_multiply r else decode_extra r c)
         else if 0x10 \<le> r \<and> r < 0x18 \<and> even r then decode_misc (r div 2 mod 4) c
         else decode_data r (decode_shift c))
      else if r < 0x40 then
        (if 0x30 \<le> r \<and> r < 0x38 \<and> even r then (if nbit 1 r then Msr (nbit 2 r) True else Undefined)
         else decode_data r Imm_val)
      else if r < 0x60 then decode_word r Imm12
      else if r < 0x80 then (if odd c then Undefined else decode_word r (Shifted (decode_shift c)))
      else if r < 0xA0 then decode_block r
      else if r < 0xB0 then Branch
      else if r < 0xC0 then Branch_Link
      else if r < 0xE0 then decode_coprocessor r
      else if r < 0xF0 then (if even c then Cdp else if nbit 0 r then Mrc else Mcr)
      else Swi)"

lemmas arm_decode_defs = arm_decode_def decode_multiply_def decode_extra_def decode_misc_def
  decode_data_def decode_word_def decode_block_def decode_coprocessor_def decode_shift_def
  decode_index_def nbit_def dp_codes_def Let_def

definition decoded_row :: "nat \<Rightarrow> arm_op list" where
  "decoded_row r = map (arm_decode r) [0..<16]"

section \<open>The table is the decoder\<close>

lemma replicate_unfold:
  "replicate 16 x = [x, x, x, x, x, x, x, x, x, x, x, x, x, x, x, x]"
  "replicate 8 x = [x, x, x, x, x, x, x, x]" "replicate 2 x = [x, x]"
  by (simp_all add: numeral_eq_Suc)

lemma upt16: "[0..<16] = [0, 1, 2, 3, 4, 5, 6, 7, 8, 9, 10, 11, 12, 13, 14, 15 :: nat]"
  by (simp add: upt_rec)

lemmas decoded_row_unfold = decoded_row_def upt16 arm_decode_defs replicate_unfold

lemma arm_rows_00: "arm_table_00 = concat (map decoded_row [0, 1, 2, 3, 4, 5, 6, 7])"
  by (simp add: arm_table_00_def decoded_row_unfold)

lemma arm_rows_01: "arm_table_01 = concat (map decoded_row [8, 9, 10, 11, 12, 13, 14, 15])"
  by (simp add: arm_table_01_def decoded_row_unfold)

lemma arm_rows_02: "arm_table_02 = concat (map decoded_row [16, 17, 18, 19, 20, 21, 22, 23])"
  by (simp add: arm_table_02_def decoded_row_unfold)

lemma arm_rows_03: "arm_table_03 = concat (map decoded_row [24, 25, 26, 27, 28, 29, 30, 31])"
  by (simp add: arm_table_03_def decoded_row_unfold)

lemma arm_rows_04: "arm_table_04 = concat (map decoded_row [32, 33, 34, 35, 36, 37, 38, 39])"
  by (simp add: arm_table_04_def decoded_row_unfold)

lemma arm_rows_05: "arm_table_05 = concat (map decoded_row [40, 41, 42, 43, 44, 45, 46, 47])"
  by (simp add: arm_table_05_def decoded_row_unfold)

lemma arm_rows_06: "arm_table_06 = concat (map decoded_row [48, 49, 50, 51, 52, 53, 54, 55])"
  by (simp add: arm_table_06_def decoded_row_unfold)

lemma arm_rows_07: "arm_table_07 = concat (map decoded_row [56, 57, 58, 59, 60, 61, 62, 63])"
  by (simp add: arm_table_07_def decoded_row_unfold)

lemma arm_rows_08: "arm_table_08 = concat (map decoded_row [64, 65, 66, 67, 68, 69, 70, 71])"
  by (simp add: arm_table_08_def decoded_row_unfold)

lemma arm_rows_09: "arm_table_09 = concat (map decoded_row [72, 73, 74, 75, 76, 77, 78, 79])"
  by (simp add: arm_table_09_def decoded_row_unfold)

lemma arm_rows_10: "arm_table_10 = concat (map decoded_row [80, 81, 82, 83, 84, 85, 86, 87])"
  by (simp add: arm_table_10_def decoded_row_unfold)

lemma arm_rows_11: "arm_table_11 = concat (map decoded_row [88, 89, 90, 91, 92, 93, 94, 95])"
  by (simp add: arm_table_11_def decoded_row_unfold)

lemma arm_rows_12: "arm_table_12 = concat (map decoded_row [96, 97, 98, 99, 100, 101, 102, 103])"
  by (simp add: arm_table_12_def decoded_row_unfold)

lemma arm_rows_13: "arm_table_13 = concat (map decoded_row [104, 105, 106, 107, 108, 109, 110, 111])"
  by (simp add: arm_table_13_def decoded_row_unfold)

lemma arm_rows_14: "arm_table_14 = concat (map decoded_row [112, 113, 114, 115, 116, 117, 118, 119])"
  by (simp add: arm_table_14_def decoded_row_unfold)

lemma arm_rows_15: "arm_table_15 = concat (map decoded_row [120, 121, 122, 123, 124, 125, 126, 127])"
  by (simp add: arm_table_15_def decoded_row_unfold)

lemma arm_rows_16: "arm_table_16 = concat (map decoded_row [128, 129, 130, 131, 132, 133, 134, 135])"
  by (simp add: arm_table_16_def decoded_row_unfold)

lemma arm_rows_17: "arm_table_17 = concat (map decoded_row [136, 137, 138, 139, 140, 141, 142, 143])"
  by (simp add: arm_table_17_def decoded_row_unfold)

lemma arm_rows_18: "arm_table_18 = concat (map decoded_row [144, 145, 146, 147, 148, 149, 150, 151])"
  by (simp add: arm_table_18_def decoded_row_unfold)

lemma arm_rows_19: "arm_table_19 = concat (map decoded_row [152, 153, 154, 155, 156, 157, 158, 159])"
  by (simp add: arm_table_19_def decoded_row_unfold)

lemma arm_rows_20: "arm_table_20 = concat (map decoded_row [160, 161, 162, 163, 164, 165, 166, 167])"
  by (simp add: arm_table_20_def decoded_row_unfold)

lemma arm_rows_21: "arm_table_21 = concat (map decoded_row [168, 169, 170, 171, 172, 173, 174, 175])"
  by (simp add: arm_table_21_def decoded_row_unfold)

lemma arm_rows_22: "arm_table_22 = concat (map decoded_row [176, 177, 178, 179, 180, 181, 182, 183])"
  by (simp add: arm_table_22_def decoded_row_unfold)

lemma arm_rows_23: "arm_table_23 = concat (map decoded_row [184, 185, 186, 187, 188, 189, 190, 191])"
  by (simp add: arm_table_23_def decoded_row_unfold)

lemma arm_rows_24: "arm_table_24 = concat (map decoded_row [192, 193, 194, 195, 196, 197, 198, 199])"
  by (simp add: arm_table_24_def decoded_row_unfold)

lemma arm_rows_25: "arm_table_25 = concat (map decoded_row [200, 201, 202, 203, 204, 205, 206, 207])"
  by (simp add: arm_table_25_def decoded_row_unfold)

lemma arm_rows_26: "arm_table_26 = concat (map decoded_row [208, 209, 210, 211, 212, 213, 214, 215])"
  by (simp add: arm_table_26_def decoded_row_unfold)

lemma arm_rows_27: "arm_table_27 = concat (map decoded_row [216, 217, 218, 219, 220, 221, 222, 223])"
  by (simp add: arm_table_27_def decoded_row_unfold)

lemma arm_rows_28: "arm_table_28 = concat (map decoded_row [224, 225, 226, 227, 228, 229, 230, 231])"
  by (simp add: arm_table_28_def decoded_row_unfold)

lemma arm_rows_29: "arm_table_29 = concat (map decoded_row [232, 233, 234, 235, 236, 237, 238, 239])"
  by (simp add: arm_table_29_def decoded_row_unfold)

lemma arm_rows_30: "arm_table_30 = concat (map decoded_row [240, 241, 242, 243, 244, 245, 246, 247])"
  by (simp add: arm_table_30_def decoded_row_unfold)

lemma arm_rows_31: "arm_table_31 = concat (map decoded_row [248, 249, 250, 251, 252, 253, 254, 255])"
  by (simp add: arm_table_31_def decoded_row_unfold)

lemmas arm_rows = arm_rows_00 arm_rows_01 arm_rows_02 arm_rows_03 arm_rows_04 arm_rows_05 arm_rows_06 arm_rows_07
  arm_rows_08 arm_rows_09 arm_rows_10 arm_rows_11 arm_rows_12 arm_rows_13 arm_rows_14 arm_rows_15
  arm_rows_16 arm_rows_17 arm_rows_18 arm_rows_19 arm_rows_20 arm_rows_21 arm_rows_22 arm_rows_23
  arm_rows_24 arm_rows_25 arm_rows_26 arm_rows_27 arm_rows_28 arm_rows_29 arm_rows_30 arm_rows_31

lemma concat_row_nth:
  "\<lbrakk>\<forall>x\<in>set xs. length (f x) = n; k < length xs; j < n\<rbrakk> \<Longrightarrow> concat (map f xs) ! (n * k + j) = f (xs ! k) ! j"
proof (induction xs arbitrary: k)
  case (Cons x xs)
  then show ?case
    by (cases k) (simp_all add: nth_append add.assoc)
qed simp

lemma concat_map_concat: "concat (map (\<lambda>k. concat (map f (g k))) ks) = concat (map f (concat (map g ks)))"
  by (induction ks) simp_all

text \<open>Eight rows of sixteen entries each.\<close>

definition eight :: "nat \<Rightarrow> nat list" where
  "eight k = [8 * k, 8 * k + 1, 8 * k + 2, 8 * k + 3, 8 * k + 4, 8 * k + 5, 8 * k + 6, 8 * k + 7]"

lemma eight_blocks: "[0..<256] = concat (map eight [0..<32])" "[0..<64] = concat (map eight [0..<8])"
  by (simp_all add: upt_rec eight_def)

lemma arm_table: "arm_instructions_set = concat (map decoded_row [0..<256])"
proof -
  have "arm_instructions_set = concat (map (\<lambda>k. concat (map decoded_row (eight k))) [0..<32])"
    by (simp add: arm_instructions_set_def arm_rows upt_rec eight_def numeral_2_eq_2 del: append_assoc)
  then show ?thesis
    by (simp only: concat_map_concat eight_blocks)
qed

section \<open>Indexing the table\<close>

definition INSTRUCTION_INDEX :: "u32 \<Rightarrow> nat" where
  "INSTRUCTION_INDEX i = unat ((drop_bit 16 i AND 0xFF0) OR (drop_bit 4 i AND 0xF))"

lemma INSTRUCTION_INDEX_fields:
  "INSTRUCTION_INDEX i = 16 * unat (drop_bit 20 i AND 0xFF) + unat (drop_bit 4 i AND 0xF)"
proof -
  let ?h = "drop_bit 20 i AND 0xFF" and ?l = "drop_bit 4 i AND 0xF"
  have le: "unat ?h \<le> 255" "unat ?l \<le> 15"
    using word_and_le1 [of "drop_bit 20 i" "0xFF"] word_and_le1 [of "drop_bit 4 i" "0xF"]
    by (simp_all add: word_le_nat_alt)
  have m: "(0xFF :: u32) = mask 8" "(0xF :: u32) = mask 4" "(0xFF0 :: u32) = push_bit 4 (mask 8)"
    by (simp_all add: mask_eq_exp_minus_1 push_bit_eq_mult)
  have h: "drop_bit 16 i AND 0xFF0 = push_bit 4 ?h"
    unfolding m by (rule bit_word_eqI) (auto simp: bit_simps)
  have "push_bit 4 ?h AND ?l = 0"
    unfolding m by (rule bit_word_eqI) (auto simp: bit_simps)
  then have "push_bit 4 ?h OR ?l = push_bit 4 ?h + ?l"
    by (rule disjunctive_add_eq_or [symmetric])
  also have "\<dots> = of_nat (16 * unat ?h + unat ?l)"
    by (simp add: push_bit_eq_mult)
  finally have "drop_bit 16 i AND 0xFF0 OR ?l = of_nat (16 * unat ?h + unat ?l)"
    by (simp only: h)
  then show ?thesis
    unfolding INSTRUCTION_INDEX_def using le by (simp only: unat_of_nat) simp
qed

lemma table_nth:
  "\<lbrakk>r < 256; c < 16\<rbrakk> \<Longrightarrow> arm_instructions_set ! (16 * r + c) = arm_decode r c"
  unfolding arm_table by (subst concat_row_nth [where n = 16]) (simp_all add: decoded_row_def)

lemma arm_table_entry:
  "arm_instructions_set ! INSTRUCTION_INDEX i =
     arm_decode (unat (drop_bit 20 i AND 0xFF)) (unat (drop_bit 4 i AND 0xF))"
proof -
  have "unat (drop_bit 20 i AND 0xFF) < 256" "unat (drop_bit 4 i AND 0xF) < 16"
    using word_and_le1 [of "drop_bit 20 i" "0xFF"] word_and_le1 [of "drop_bit 4 i" "0xF"]
    by (simp_all add: word_le_nat_alt)
  then show ?thesis
    by (simp add: INSTRUCTION_INDEX_fields table_nth)
qed

text \<open>C33: The decode table has 4096 entries, and the entry the dispatch selects for any
  instruction word (index from bits 27 to 20 and 7 to 4) is the handler the architecture's
  field-by-field decoder gives for those bits.\<close>

theorem arm_table_decodes:
  "length arm_instructions_set = 4096 \<and>
   arm_instructions_set ! INSTRUCTION_INDEX i =
     arm_decode (unat (drop_bit 20 i AND 0xFF)) (unat (drop_bit 4 i AND 0xF))"
proof -
  have "length arm_instructions_set = (\<Sum>r\<leftarrow>[0..<256]. 16)"
    by (simp add: arm_table length_concat comp_def decoded_row_def)
  then show ?thesis
    by (simp add: arm_table_entry sum_list_triv)
qed

end
