(* ===== verification/Thumb_Decode.thy ===== *)
theory Thumb_Decode
  imports Arm_Decode
begin

text \<open>
  Decoding of Thumb instructions: src/source/thumb_tabdef.inc, the 1024 entries of
  \<open>thumb_instructions_set\<close>, indexed by bits 15 to 6 of the instruction.  The constructors of
  \<open>thumb_op\<close> are the names of the handlers; runs of equal entries are written
  \<open>replicate\<close>.  \<open>thumb_decode\<close> is the decoder of the architecture's nineteen formats.
\<close>

datatype (plugins only: size) thumb_op = T_LSL_0 | T_LSL | T_LSR_0 | T_LSR | T_ASR_0 | T_ASR | T_ADD_REG | T_SUB_REG | T_ADD_IMM3 |
  T_SUB_IMM3 | T_MOV_IMM8 | T_CMP_IMM8 | T_ADD_IMM8 | T_SUB_IMM8 | T_AND | T_EOR | T_LSL_REG
  | T_LSR_REG | T_ASR_REG | T_ADC_REG | T_SBC_REG | T_ROR_REG | T_TST | T_NEG | T_CMP |
  T_CMN | T_ORR | T_MUL_REG | T_BIC | T_MVN | T_ADD_SPE | T_CMP_SPE | T_MOV_SPE | T_BX |
  T_BLX_REGISTER | T_LDR_PCREL | T_STR_REG_OFF | T_STRH_REG_OFF | T_STRB_REG_OFF |
  T_LDRSB_REG_OFF | T_LDR_REG_OFF | T_LDRH_REG_OFF | T_LDRB_REG_OFF | T_LDRSH_REG_OFF |
  T_STR_IMM_OFF | T_LDR_IMM_OFF | T_STRB_IMM_OFF | T_LDRB_IMM_OFF | T_STRH_IMM_OFF |
  T_LDRH_IMM_OFF | T_STR_SPREL | T_LDR_SPREL | T_ADD_2PC | T_ADD_2SP | T_ADJUST_P_SP |
  T_ADJUST_M_SP | T_UND | T_PUSH | T_PUSH_LR | T_POP | T_POP_PC | T_BKPT | T_STMIA | T_LDMIA
  | T_B_COND | T_SWI | T_B_UNCOND | T_BLX | T_BL_10 | T_BL_11

primrec thumb_handler :: "'io bus \<Rightarrow> (nat \<Rightarrow> 'io swi_table) \<Rightarrow> thumb_op \<Rightarrow> 'io handler" where
  "thumb_handler B swi T_LSL_0 = cpu_handler OP_LSL_0"
| "thumb_handler B swi T_LSL = cpu_handler OP_LSL"
| "thumb_handler B swi T_LSR_0 = cpu_handler OP_LSR_0"
| "thumb_handler B swi T_LSR = cpu_handler OP_LSR"
| "thumb_handler B swi T_ASR_0 = cpu_handler OP_ASR_0"
| "thumb_handler B swi T_ASR = cpu_handler OP_ASR"
| "thumb_handler B swi T_ADD_REG = cpu_handler OP_ADD_REG"
| "thumb_handler B swi T_SUB_REG = cpu_handler OP_SUB_REG"
| "thumb_handler B swi T_ADD_IMM3 = cpu_handler OP_ADD_IMM3"
| "thumb_handler B swi T_SUB_IMM3 = cpu_handler OP_SUB_IMM3"
| "thumb_handler B swi T_MOV_IMM8 = cpu_handler OP_MOV_IMM8"
| "thumb_handler B swi T_CMP_IMM8 = cpu_handler OP_CMP_IMM8"
| "thumb_handler B swi T_ADD_IMM8 = cpu_handler OP_ADD_IMM8"
| "thumb_handler B swi T_SUB_IMM8 = cpu_handler OP_SUB_IMM8"
| "thumb_handler B swi T_AND = cpu_handler OP_AND"
| "thumb_handler B swi T_EOR = cpu_handler OP_EOR"
| "thumb_handler B swi T_LSL_REG = cpu_handler OP_LSL_REG"
| "thumb_handler B swi T_LSR_REG = cpu_handler OP_LSR_REG"
| "thumb_handler B swi T_ASR_REG = cpu_handler OP_ASR_REG"
| "thumb_handler B swi T_ADC_REG = cpu_handler OP_ADC_REG"
| "thumb_handler B swi T_SBC_REG = cpu_handler OP_SBC_REG"
| "thumb_handler B swi T_ROR_REG = cpu_handler OP_ROR_REG"
| "thumb_handler B swi T_TST = cpu_handler OP_TST"
| "thumb_handler B swi T_NEG = cpu_handler OP_NEG"
| "thumb_handler B swi T_CMP = cpu_handler OP_CMP"
| "thumb_handler B swi T_CMN = cpu_handler OP_CMN"
| "thumb_handler B swi T_ORR = cpu_handler OP_ORR"
| "thumb_handler B swi T_MUL_REG = (\<lambda>p i s. on_cpu p (OP_MUL_REG p i) s)"
| "thumb_handler B swi T_BIC = cpu_handler OP_BIC"
| "thumb_handler B swi T_MVN = cpu_handler OP_MVN"
| "thumb_handler B swi T_ADD_SPE = cpu_handler OP_ADD_SPE"
| "thumb_handler B swi T_CMP_SPE = cpu_handler OP_CMP_SPE"
| "thumb_handler B swi T_MOV_SPE = cpu_handler OP_MOV_SPE"
| "thumb_handler B swi T_BX = cpu_handler OP_BX_THUMB"
| "thumb_handler B swi T_BLX_REGISTER = cpu_handler OP_BLX_THUMB"
| "thumb_handler B swi T_LDR_PCREL = OP_LDR_PCREL B"
| "thumb_handler B swi T_STR_REG_OFF = OP_STR_REG_OFF B"
| "thumb_handler B swi T_STRH_REG_OFF = OP_STRH_REG_OFF B"
| "thumb_handler B swi T_STRB_REG_OFF = OP_STRB_REG_OFF B"
| "thumb_handler B swi T_LDRSB_REG_OFF = OP_LDRSB_REG_OFF B"
| "thumb_handler B swi T_LDR_REG_OFF = OP_LDR_REG_OFF B"
| "thumb_handler B swi T_LDRH_REG_OFF = OP_LDRH_REG_OFF B"
| "thumb_handler B swi T_LDRB_REG_OFF = OP_LDRB_REG_OFF B"
| "thumb_handler B swi T_LDRSH_REG_OFF = OP_LDRSH_REG_OFF B"
| "thumb_handler B swi T_STR_IMM_OFF = OP_STR_IMM_OFF B"
| "thumb_handler B swi T_LDR_IMM_OFF = OP_LDR_IMM_OFF B"
| "thumb_handler B swi T_STRB_IMM_OFF = OP_STRB_IMM_OFF B"
| "thumb_handler B swi T_LDRB_IMM_OFF = OP_LDRB_IMM_OFF B"
| "thumb_handler B swi T_STRH_IMM_OFF = OP_STRH_IMM_OFF B"
| "thumb_handler B swi T_LDRH_IMM_OFF = OP_LDRH_IMM_OFF B"
| "thumb_handler B swi T_STR_SPREL = OP_STR_SPREL B"
| "thumb_handler B swi T_LDR_SPREL = OP_LDR_SPREL B"
| "thumb_handler B swi T_ADD_2PC = cpu_handler OP_ADD_2PC"
| "thumb_handler B swi T_ADD_2SP = cpu_handler OP_ADD_2SP"
| "thumb_handler B swi T_ADJUST_P_SP = cpu_handler OP_ADJUST_P_SP"
| "thumb_handler B swi T_ADJUST_M_SP = cpu_handler OP_ADJUST_M_SP"
| "thumb_handler B swi T_UND = OP_UND_THUMB"
| "thumb_handler B swi T_PUSH = OP_PUSH B"
| "thumb_handler B swi T_PUSH_LR = OP_PUSH_LR B"
| "thumb_handler B swi T_POP = OP_POP B"
| "thumb_handler B swi T_POP_PC = OP_POP_PC B"
| "thumb_handler B swi T_BKPT = OP_BKPT_THUMB"
| "thumb_handler B swi T_STMIA = OP_STMIA_THUMB B"
| "thumb_handler B swi T_LDMIA = OP_LDMIA_THUMB B"
| "thumb_handler B swi T_B_COND = cpu_handler OP_B_COND"
| "thumb_handler B swi T_SWI = OP_SWI_THUMB swi"
| "thumb_handler B swi T_B_UNCOND = cpu_handler OP_B_UNCOND"
| "thumb_handler B swi T_BLX = cpu_handler OP_BLX"
| "thumb_handler B swi T_BL_10 = cpu_handler OP_BL_10"
| "thumb_handler B swi T_BL_11 = cpu_handler OP_BL_11"

definition thumb_table_0 :: "thumb_op list" where
  "thumb_table_0 = [T_LSL_0] @ replicate 31 T_LSL @ [T_LSR_0] @ replicate 31 T_LSR @ [T_ASR_0] @
     replicate 31 T_ASR @ replicate 8 T_ADD_REG @ replicate 8 T_SUB_REG @ replicate 8 T_ADD_IMM3
     @ replicate 8 T_SUB_IMM3"

definition thumb_table_1 :: "thumb_op list" where
  "thumb_table_1 = replicate 32 T_MOV_IMM8 @ replicate 32 T_CMP_IMM8 @ replicate 32 T_ADD_IMM8 @
     replicate 32 T_SUB_IMM8"

definition thumb_table_2 :: "thumb_op list" where
  "thumb_table_2 = [T_AND, T_EOR, T_LSL_REG, T_LSR_REG, T_ASR_REG, T_ADC_REG, T_SBC_REG,
     T_ROR_REG, T_TST, T_NEG, T_CMP, T_CMN, T_ORR, T_MUL_REG, T_BIC, T_MVN] @ replicate 4
     T_ADD_SPE @ replicate 4 T_CMP_SPE @ replicate 4 T_MOV_SPE @ replicate 2 T_BX @ replicate 2
     T_BLX_REGISTER @ replicate 32 T_LDR_PCREL @ replicate 8 T_STR_REG_OFF @ replicate 8
     T_STRH_REG_OFF @ replicate 8 T_STRB_REG_OFF @ replicate 8 T_LDRSB_REG_OFF @ replicate 8
     T_LDR_REG_OFF @ replicate 8 T_LDRH_REG_OFF @ replicate 8 T_LDRB_REG_OFF @ replicate 8
     T_LDRSH_REG_OFF"

definition thumb_table_3 :: "thumb_op list" where
  "thumb_table_3 = replicate 32 T_STR_IMM_OFF @ replicate 32 T_LDR_IMM_OFF @ replicate 32
     T_STRB_IMM_OFF @ replicate 32 T_LDRB_IMM_OFF"

definition thumb_table_4 :: "thumb_op list" where
  "thumb_table_4 = replicate 32 T_STRH_IMM_OFF @ replicate 32 T_LDRH_IMM_OFF @ replicate 32
     T_STR_SPREL @ replicate 32 T_LDR_SPREL"

definition thumb_table_5 :: "thumb_op list" where
  "thumb_table_5 = replicate 32 T_ADD_2PC @ replicate 32 T_ADD_2SP @ replicate 2 T_ADJUST_P_SP @
     replicate 2 T_ADJUST_M_SP @ replicate 12 T_UND @ replicate 4 T_PUSH @ replicate 4 T_PUSH_LR
     @ replicate 24 T_UND @ replicate 4 T_POP @ replicate 4 T_POP_PC @ replicate 4 T_BKPT @
     replicate 4 T_UND"

definition thumb_table_6 :: "thumb_op list" where
  "thumb_table_6 = replicate 32 T_STMIA @ replicate 32 T_LDMIA @ replicate 60 T_B_COND @
     replicate 4 T_SWI"

definition thumb_table_7 :: "thumb_op list" where
  "thumb_table_7 = replicate 32 T_B_UNCOND @ replicate 32 T_BLX @ replicate 32 T_BL_10 @
     replicate 32 T_BL_11"

definition thumb_instructions_set :: "thumb_op list" where
  "thumb_instructions_set = thumb_table_0 @ thumb_table_1 @ thumb_table_2 @ thumb_table_3 @ thumb_table_4 @ thumb_table_5 @ thumb_table_6 @ thumb_table_7"

section \<open>The architecture's decoder\<close>

text \<open>\<open>k\<close> is bits 15 to 6 of the instruction: \<open>t\<close> is bits 15 to 11, \<open>lo\<close> bits 10 to 6.\<close>

definition thumb_alu_ops :: "thumb_op list" where
  "thumb_alu_ops = [T_AND, T_EOR, T_LSL_REG, T_LSR_REG, T_ASR_REG, T_ADC_REG, T_SBC_REG, T_ROR_REG,
     T_TST, T_NEG, T_CMP, T_CMN, T_ORR, T_MUL_REG, T_BIC, T_MVN]"

definition thumb_register_transfers :: "thumb_op list" where
  "thumb_register_transfers = [T_STR_REG_OFF, T_STRH_REG_OFF, T_STRB_REG_OFF, T_LDRSB_REG_OFF,
     T_LDR_REG_OFF, T_LDRH_REG_OFF, T_LDRB_REG_OFF, T_LDRSH_REG_OFF]"

definition thumb_formats :: "thumb_op list" where
  "thumb_formats = [T_STR_IMM_OFF, T_LDR_IMM_OFF, T_STRB_IMM_OFF, T_LDRB_IMM_OFF, T_STRH_IMM_OFF,
     T_LDRH_IMM_OFF, T_STR_SPREL, T_LDR_SPREL, T_ADD_2PC, T_ADD_2SP]"

text \<open>The miscellaneous space 1011: \<open>m\<close> is bits 11 to 8.\<close>

definition thumb_misc :: "nat \<Rightarrow> nat \<Rightarrow> thumb_op" where
  "thumb_misc m lo =
     (if m = 0 then (if nbit 1 lo then T_ADJUST_M_SP else T_ADJUST_P_SP)
      else if m = 4 then T_PUSH else if m = 5 then T_PUSH_LR
      else if m = 12 then T_POP else if m = 13 then T_POP_PC
      else if m = 14 then T_BKPT else T_UND)"

definition thumb_decode :: "nat \<Rightarrow> thumb_op" where
  "thumb_decode k =
     (let t = k div 32; lo = k mod 32 in
      if t = 0 then (if lo = 0 then T_LSL_0 else T_LSL)
      else if t = 1 then (if lo = 0 then T_LSR_0 else T_LSR)
      else if t = 2 then (if lo = 0 then T_ASR_0 else T_ASR)
      else if t = 3 then [T_ADD_REG, T_SUB_REG, T_ADD_IMM3, T_SUB_IMM3] ! (lo div 8)
      else if t < 8 then [T_MOV_IMM8, T_CMP_IMM8, T_ADD_IMM8, T_SUB_IMM8] ! (t - 4)
      else if t = 8 then
        (if lo < 16 then thumb_alu_ops ! lo
         else if lo < 28 then [T_ADD_SPE, T_CMP_SPE, T_MOV_SPE] ! ((lo - 16) div 4)
         else if lo < 30 then T_BX else T_BLX_REGISTER)
      else if t = 9 then T_LDR_PCREL
      else if t < 12 then thumb_register_transfers ! (k div 8 mod 8)
      else if t < 22 then thumb_formats ! (t - 12)
      else if t < 24 then thumb_misc (k div 4 mod 16) lo
      else if t = 24 then T_STMIA else if t = 25 then T_LDMIA
      else if t < 28 then (if k div 4 mod 16 = 15 then T_SWI else T_B_COND)
      else [T_B_UNCOND, T_BLX, T_BL_10, T_BL_11] ! (t - 28))"

definition thumb_row :: "nat \<Rightarrow> thumb_op list" where
  "thumb_row r = map (\<lambda>c. thumb_decode (16 * r + c)) [0..<16]"

lemma thumb_runs:
  "replicate 4 x = [x, x, x, x]" "replicate 12 x = replicate 8 x @ replicate 4 x"
  "replicate 24 x = replicate 16 x @ replicate 8 x"
  "replicate 31 x = replicate 16 x @ replicate 8 x @ replicate 4 x @ [x, x, x]"
  "replicate 32 x = replicate 16 x @ replicate 16 x"
  "replicate 60 x = replicate 32 x @ replicate 24 x @ replicate 4 x"
  by (simp_all add: numeral_eq_Suc)

lemmas thumb_row_unfold = thumb_row_def thumb_decode_def thumb_misc_def thumb_formats_def
  thumb_register_transfers_def thumb_alu_ops_def nbit_def Let_def upt16 thumb_runs replicate_unfold

lemma thumb_rows_0: "thumb_table_0 = concat (map thumb_row [0, 1, 2, 3, 4, 5, 6, 7])"
  by (simp add: thumb_table_0_def thumb_row_unfold)

lemma thumb_rows_1: "thumb_table_1 = concat (map thumb_row [8, 9, 10, 11, 12, 13, 14, 15])"
  by (simp add: thumb_table_1_def thumb_row_unfold)

lemma thumb_rows_2: "thumb_table_2 = concat (map thumb_row [16, 17, 18, 19, 20, 21, 22, 23])"
  by (simp add: thumb_table_2_def thumb_row_unfold)

lemma thumb_rows_3: "thumb_table_3 = concat (map thumb_row [24, 25, 26, 27, 28, 29, 30, 31])"
  by (simp add: thumb_table_3_def thumb_row_unfold)

lemma thumb_rows_4: "thumb_table_4 = concat (map thumb_row [32, 33, 34, 35, 36, 37, 38, 39])"
  by (simp add: thumb_table_4_def thumb_row_unfold)

lemma thumb_rows_5: "thumb_table_5 = concat (map thumb_row [40, 41, 42, 43, 44, 45, 46, 47])"
  by (simp add: thumb_table_5_def thumb_row_unfold)

lemma thumb_rows_6: "thumb_table_6 = concat (map thumb_row [48, 49, 50, 51, 52, 53, 54, 55])"
  by (simp add: thumb_table_6_def thumb_row_unfold)

lemma thumb_rows_7: "thumb_table_7 = concat (map thumb_row [56, 57, 58, 59, 60, 61, 62, 63])"
  by (simp add: thumb_table_7_def thumb_row_unfold)

lemmas thumb_rows = thumb_rows_0 thumb_rows_1 thumb_rows_2 thumb_rows_3 thumb_rows_4 thumb_rows_5 thumb_rows_6 thumb_rows_7

lemma thumb_table: "thumb_instructions_set = concat (map thumb_row [0..<64])"
proof -
  have "thumb_instructions_set = concat (map (\<lambda>k. concat (map thumb_row (eight k))) [0..<8])"
    by (simp add: thumb_instructions_set_def thumb_rows upt_rec eight_def numeral_2_eq_2 del: append_assoc)
  then show ?thesis
    by (simp only: concat_map_concat eight_blocks)
qed

lemma thumb_table_entry:
  assumes "k < 1024"
  shows "thumb_instructions_set ! k = thumb_decode k"
proof -
  have r: "k div 16 < 64" "k mod 16 < 16" using assms by auto
  have "thumb_instructions_set ! (16 * (k div 16) + k mod 16) = thumb_decode k"
    unfolding thumb_table using r by (subst concat_row_nth [where n = 16]) (simp_all add: thumb_row_def)
  then show ?thesis by simp
qed

text \<open>C34: The Thumb decode table has 1024 entries, and the entry selected by bits 15 to 6 of any
  halfword is the handler the decoder of the architecture's nineteen formats gives, where the
  undefined condition 14 counts as the conditional branch of format 16, as the code has it.\<close>

theorem thumb_table_decodes:
  "length thumb_instructions_set = 1024 \<and>
   thumb_instructions_set ! unat (drop_bit 6 (ucast (h :: u16) :: u32)) = thumb_decode (unat h div 64)"
proof -
  have h: "unat h < 65536" using unsigned_less [of h] by simp
  then have t: "take_bit 32 (unat h) = unat h" by (simp add: take_bit_nat_eq_self)
  have k: "unat (drop_bit 6 (ucast h :: u32)) = unat h div 64"
    by (simp only: unsigned_drop_bit_eq) (simp add: unsigned_ucast_eq t drop_bit_eq_div)
  have "length thumb_instructions_set = (\<Sum>r\<leftarrow>[0..<64]. 16)"
    by (simp add: thumb_table length_concat comp_def thumb_row_def)
  then show ?thesis
    using h by (simp add: k sum_list_triv thumb_table_entry)
qed

end
