(* ===== verification/Arm_Exec.thy ===== *)
theory Arm_Exec
  imports Thumb_Decode
begin

text \<open>
  The execution step: \<open>armcpu_exec\<close> of src/source/armcpu.cpp and its variants.  A step runs
  the handler the table holds for the prefetched instruction, an ARM one only when its condition
  holds, and refills the prefetch stage.
\<close>

section \<open>The step\<close>

definition CODE :: "u32 \<Rightarrow> u32" where
  "CODE i = drop_bit 25 i AND 0x7"

definition armcpu_exec :: "'io bus \<Rightarrow> (nat \<Rightarrow> 'io swi_table) \<Rightarrow> nat \<Rightarrow> 'io nds \<Rightarrow> u32 \<times> 'io nds" where
  "armcpu_exec B swi p s =
     (let i = instruction (ARMPROC p s) in
      if \<not> psr_T (CPSR (ARMPROC p s)) then
        (let (cExecute, s) =
               (if CONDITION i = 0x0E \<or> TEST_COND (CONDITION i) (unat (CODE i)) (CPSR (ARMPROC p s))
                then arm_handler B swi (arm_instructions_set ! INSTRUCTION_INDEX i) p i s
                else (1, s));
             (cFetch, s) = armcpu_prefetch B p s
         in (MMU_fetchExecuteCycles p cExecute cFetch, s))
      else
        (let (cExecute, s) = thumb_handler B swi (thumb_instructions_set ! unat (drop_bit 6 i)) p i s;
             (cFetch, s) = armcpu_prefetch B p s
         in (MMU_fetchExecuteCycles p cExecute cFetch, s)))"

text \<open>\<open>ARM7_ME\<close> is the same code with \<open>PROCNUM\<close> 1, run on the second processor of the PSP.\<close>

definition ARM7_ME :: "'io bus \<Rightarrow> (nat \<Rightarrow> 'io swi_table) \<Rightarrow> 'io nds \<Rightarrow> u32 \<times> 'io nds" where
  "ARM7_ME B swi s =
     (let PROCNUM = 1; i = instruction (ARMPROC PROCNUM s) in
      if \<not> psr_T (CPSR (ARMPROC PROCNUM s)) then
        (let (cExecute, s) =
               (if CONDITION i = 0x0E \<or>
                   TEST_COND (CONDITION i) (unat (CODE i)) (CPSR (ARMPROC PROCNUM s))
                then arm_handler B swi (arm_instructions_set ! INSTRUCTION_INDEX i) PROCNUM i s
                else (1, s));
             (cFetch, s) = armcpu_prefetch B PROCNUM s
         in (MMU_fetchExecuteCycles PROCNUM cExecute cFetch, s))
      else
        (let (cExecute, s) =
               thumb_handler B swi (thumb_instructions_set ! unat (drop_bit 6 i)) PROCNUM i s;
             (cFetch, s) = armcpu_prefetch B PROCNUM s
         in (MMU_fetchExecuteCycles PROCNUM cExecute cFetch, s)))"

definition armcpu_execTFast :: "'io bus \<Rightarrow> (nat \<Rightarrow> 'io swi_table) \<Rightarrow> nat \<Rightarrow> 'io nds \<Rightarrow> u32 \<times> 'io nds" where
  "armcpu_execTFast B swi p s =
     (let i = instruction (ARMPROC p s);
          (cExecute, s) = thumb_handler B swi (thumb_instructions_set ! unat (drop_bit 6 i)) p i s;
          (cFetch, s) = armcpu_prefetch B p s
      in (MMU_fetchExecuteCycles p cExecute cFetch, s))"

definition armcpu_execAFast :: "'io bus \<Rightarrow> (nat \<Rightarrow> 'io swi_table) \<Rightarrow> nat \<Rightarrow> 'io nds \<Rightarrow> u32 \<times> 'io nds" where
  "armcpu_execAFast B swi p s =
     (let i = instruction (ARMPROC p s);
          (cExecute, s) = arm_handler B swi (arm_instructions_set ! INSTRUCTION_INDEX i) p i s;
          (cFetch, s) = armcpu_prefetch B p s
      in (MMU_fetchExecuteCycles p cExecute cFetch, s))"

definition FastArmcpu_exec :: "'io bus \<Rightarrow> (nat \<Rightarrow> 'io swi_table) \<Rightarrow> nat \<Rightarrow> u32 \<Rightarrow> 'io nds \<Rightarrow> u32 \<times> 'io nds" where
  "FastArmcpu_exec B swi p opcode s =
     (if TEST_COND (CONDITION opcode) (unat (CODE opcode)) (CPSR (ARMPROC p s))
      then arm_handler B swi (arm_instructions_set ! INSTRUCTION_INDEX opcode) p opcode s
      else (1, s))"

lemma ARM7_ME_exec: "ARM7_ME B swi s = armcpu_exec B swi 1 s"
  by (simp add: ARM7_ME_def armcpu_exec_def Let_def)

lemma fast_exec:
  "psr_T (CPSR (ARMPROC p s)) \<Longrightarrow> armcpu_execTFast B swi p s = armcpu_exec B swi p s"
  "\<not> psr_T (CPSR (ARMPROC p s)) \<Longrightarrow> CONDITION (instruction (ARMPROC p s)) = 0x0E \<Longrightarrow>
     armcpu_execAFast B swi p s = armcpu_exec B swi p s"
  by (simp_all add: armcpu_execTFast_def armcpu_execAFast_def armcpu_exec_def Let_def)

section \<open>The architecture's step\<close>

text \<open>
  Whether an ARM instruction executes: condition 15 is the unconditional space, of which only
  the code 5 (BLX with an immediate) is accepted.
\<close>

definition arm_executes :: "u32 \<Rightarrow> status_reg \<Rightarrow> bool" where
  "arm_executes i p = (if CONDITION i = 15 then CODE i = 5 else cond_passed (CONDITION i) p)"

definition decoded :: "'io bus \<Rightarrow> (nat \<Rightarrow> 'io swi_table) \<Rightarrow> nat \<Rightarrow> 'io nds \<Rightarrow> u32 \<times> 'io nds" where
  "decoded B swi p s =
     (let i = instruction (ARMPROC p s) in
      if psr_T (CPSR (ARMPROC p s)) then thumb_handler B swi (thumb_decode (unat i div 64)) p i s
      else if arm_executes i (CPSR (ARMPROC p s))
      then arm_handler B swi
             (arm_decode (unat (drop_bit 20 i AND 0xFF)) (unat (drop_bit 4 i AND 0xF))) p i s
      else (1, s))"

lemma unat_drop_bit32: "unat (drop_bit n a) = unat a div 2 ^ n" for a :: u32
proof -
  have "take_bit 32 (unat a) = unat a" using u32_bound [of a] by (simp add: take_bit_nat_eq_self)
  then show ?thesis by (simp only: unsigned_drop_bit_eq) (simp add: drop_bit_eq_div)
qed

lemma CONDITION_less: "CONDITION i < 16"
proof -
  have "unat (drop_bit 28 i) < 16"
    unfolding unat_drop_bit32 using u32_bound [of i] by simp
  then show ?thesis
    by (simp add: CONDITION_def word_less_nat_alt)
qed

lemma CODE_less: "unat (CODE i) < 8"
  using word_and_le1 [of "drop_bit 25 i" "0x7"] by (simp add: CODE_def word_le_nat_alt)

lemma TEST_COND_executes:
  "(CONDITION i = 0x0E \<or> TEST_COND (CONDITION i) (unat (CODE i)) p) = arm_executes i p"
proof (cases "CONDITION i = 15")
  case True
  have "unat (CODE i) = 5 \<longleftrightarrow> CODE i = 5" by (simp add: word_unat_eq_iff)
  then show ?thesis by (simp add: True arm_executes_def TEST_COND_code)
next
  case False
  have "CONDITION i = 0x0E \<Longrightarrow> cond_passed (CONDITION i) p"
    by (simp add: cond_passed_def cond_code_def)
  then show ?thesis
    using False by (auto simp add: arm_executes_def TEST_COND_code CONDITION_less CODE_less cond_passed_def)
qed

lemma decoded_arm:
  "\<not> psr_T (CPSR (ARMPROC p s)) \<Longrightarrow>
   (if CONDITION (instruction (ARMPROC p s)) = 0x0E \<or>
       TEST_COND (CONDITION (instruction (ARMPROC p s))) (unat (CODE (instruction (ARMPROC p s)))) (CPSR (ARMPROC p s))
    then arm_handler B swi (arm_instructions_set ! INSTRUCTION_INDEX (instruction (ARMPROC p s))) p (instruction (ARMPROC p s)) s
    else (1, s)) = decoded B swi p s"
  by (simp add: TEST_COND_executes decoded_def Let_def arm_table_entry)

lemma thumb_entry:
  fixes i :: u32
  assumes "i < 0x10000"
  shows "thumb_instructions_set ! unat (drop_bit 6 i) = thumb_decode (unat i div 64)"
proof -
  have u: "unat i < 65536" using assms by (simp add: word_less_nat_alt)
  have "unat (drop_bit 6 i) = unat i div 64"
    unfolding unat_drop_bit32 by simp
  then show ?thesis using u by (simp add: thumb_table_entry)
qed

section \<open>The prefetch stage\<close>

text \<open>What the prefetch stage holds between two steps.\<close>

definition pipeline_ok :: "armcpu \<Rightarrow> bool" where
  "pipeline_ok c \<longleftrightarrow>
     (if psr_T (CPSR c)
      then instruct_adr c AND 1 = 0 \<and> next_instruction c = instruct_adr c + 2 \<and>
        R c 15 = instruct_adr c + 4 \<and> instruction c < 0x10000
      else instruct_adr c AND 3 = 0 \<and> next_instruction c = instruct_adr c + 4 \<and>
        R c 15 = instruct_adr c + 8)"

text \<open>A read of the bus that leaves the processor alone.\<close>

definition quiet_reads :: "'io bus \<Rightarrow> bool" where
  "quiet_reads B \<longleftrightarrow> (\<forall>p a s. ARMPROC p (snd (ARM9_read32 B a s)) = ARMPROC p s \<and>
     ARMPROC p (snd (ARM9_read16 B a s)) = ARMPROC p s \<and>
     ARMPROC p (snd (ARM7_read32 B a s)) = ARMPROC p s \<and>
     ARMPROC p (snd (ARM7_read16 B a s)) = ARMPROC p s)"

lemma quiet_mmu_read:
  assumes "quiet_reads B"
  shows "ARMPROC p (snd (mmu_read32 B q AT a s)) = ARMPROC p s"
    "ARMPROC p (snd (mmu_read16 B q AT a s)) = ARMPROC p s"
proof -
  have if_kept: "f (snd x) = c \<Longrightarrow> f (snd y) = c \<Longrightarrow> f (snd (if b then x else y)) = c" for f b c x y
    by simp
  show "ARMPROC p (snd (mmu_read32 B q AT a s)) = ARMPROC p s"
    unfolding mmu_read32_def Let_def
    by (intro if_kept [of "ARMPROC p"]) (use assms in \<open>simp_all add: quiet_reads_def\<close>)
  show "ARMPROC p (snd (mmu_read16 B q AT a s)) = ARMPROC p s"
    unfolding mmu_read16_def Let_def
    by (intro if_kept [of "ARMPROC p"]) (use assms in \<open>simp_all add: quiet_reads_def\<close>)
qed

lemma prefetch_pipeline:
  assumes "quiet_reads B"
  shows "pipeline_ok (ARMPROC p (snd (armcpu_prefetch B p s)))"
proof -
  have a3: "(x AND 0xFFFFFFFC) AND 3 = 0" and a1: "(x AND 0xFFFFFFFE) AND 1 = 0" for x :: u32
    by (simp_all add: and.assoc)
  have h: "(ucast (h :: u16) :: u32) < 0x10000" for h
  proof -
    have "unat h < 65536" using unsigned_less [of h] by simp
    then show ?thesis by (simp add: word_less_nat_alt unsigned_ucast_eq take_bit_nat_eq_self)
  qed
  show ?thesis
    using quiet_mmu_read [OF assms] a3 a1 h
    by (simp add: armcpu_prefetch_def pipeline_ok_def Let_def case_prod_beta)
qed

lemma prefetch_of_pipeline:
  assumes "quiet_reads B" "(proc_ID (ARMPROC p s) = 0) = (p = 0)" "p < 2"
  shows "pipeline_ok (ARMPROC p (snd (armcpu_prefetch_of B p s)))"
proof -
  have "armcpu_prefetch_of B p s = armcpu_prefetch B p s"
    using assms(2,3) by (auto simp: armcpu_prefetch_of_def less_2_cases_iff)
  then show ?thesis by (simp add: prefetch_pipeline [OF assms(1)])
qed

text \<open>One step: the decoded instruction, then the prefetch.\<close>

definition spec_exec :: "'io bus \<Rightarrow> (nat \<Rightarrow> 'io swi_table) \<Rightarrow> nat \<Rightarrow> 'io nds \<Rightarrow> u32 \<times> 'io nds" where
  "spec_exec B swi p s =
     (let (cExecute, s) = decoded B swi p s; (cFetch, s) = armcpu_prefetch B p s
      in (MMU_fetchExecuteCycles p cExecute cFetch, s))"

lemma armcpu_exec_spec:
  assumes "psr_T (CPSR (ARMPROC p s)) \<Longrightarrow> instruction (ARMPROC p s) < 0x10000"
  shows "armcpu_exec B swi p s = spec_exec B swi p s"
proof (cases "psr_T (CPSR (ARMPROC p s))")
  case True
  then show ?thesis
    using thumb_entry [OF assms] by (simp add: armcpu_exec_def spec_exec_def decoded_def Let_def)
next
  case False
  then show ?thesis
    using decoded_arm [OF False, of B swi] by (simp add: armcpu_exec_def spec_exec_def Let_def)
qed

lemma exec_pipeline:
  assumes "quiet_reads B"
  shows "pipeline_ok (ARMPROC p (snd (armcpu_exec B swi p s)))"
  using prefetch_pipeline [OF assms] by (simp add: armcpu_exec_def Let_def case_prod_beta)

section \<open>Reachable states\<close>

text \<open>
  What happens to a processor: it is reset, executes a step, enters an interrupt, or something
  else (the other processor, a DMA transfer, an event) changes the machine and not the processor.
\<close>

inductive running :: "'io bus \<Rightarrow> (nat \<Rightarrow> 'io swi_table) \<Rightarrow> nat \<Rightarrow> 'io nds \<Rightarrow> bool" for B swi p where
  reset: "(proc_ID (ARMPROC p s) = 0) = (p = 0) \<Longrightarrow> running B swi p (armcpu_init B p adr s)"
| step: "running B swi p s \<Longrightarrow> running B swi p (snd (armcpu_exec B swi p s))"
| irq: "running B swi p s \<Longrightarrow> (proc_ID (ARMPROC p s) = 0) = (p = 0) \<Longrightarrow>
    running B swi p (snd (armcpu_irqException B p s))"
| other: "running B swi p s \<Longrightarrow> ARMPROC p s' = ARMPROC p s \<Longrightarrow> running B swi p s'"

lemma proc_ID_switch [simp]: "proc_ID (switch_banks m c) = proc_ID c"
  by (simp add: switch_banks_def bank_out_def bank_in_def swap_fiq_def Let_def)

lemma proc_ID_irq_entry: "proc_ID (ARMPROC p (irq_entry p s)) = proc_ID (ARMPROC p s)"
  by (simp add: irq_entry_def armcpu_switchMode_def Let_def setR_def)

lemma running_pipeline:
  assumes "quiet_reads B" "p < 2" "running B swi p s"
  shows "pipeline_ok (ARMPROC p s)"
  using assms(3)
proof (induction rule: running.induct)
  case (reset s adr)
  then show ?case
    unfolding armcpu_init_def Let_def
    by (intro prefetch_of_pipeline assms(1,2)) (simp add: setT_def)
next
  case (irq s)
  then show ?case
    unfolding armcpu_irqException_def snd_conv
    by (intro prefetch_of_pipeline assms(1,2)) (simp add: proc_ID_irq_entry)
qed (simp_all add: exec_pipeline [OF assms(1)])

text \<open>C11: In every state a processor can reach from a reset by steps, interrupts and changes that
  leave the processor alone, when reads of the bus do too, armcpu_exec executes the
  instruction of the pipeline as the architecture's decoders (ARM by fields and condition,
  Thumb by format) select its handler, then prefetches the next one.  (As in the code, the
  undefined condition 14 of the Thumb conditional branch is decoded as that branch.)\<close>

theorem exec_decodes:
  assumes "quiet_reads B" "p < 2" "running B swi p s"
  shows "armcpu_exec B swi p s = spec_exec B swi p s"
  using running_pipeline [OF assms] by (intro armcpu_exec_spec) (simp add: pipeline_ok_def)

text \<open>C12: In every such state the address of the pipelined instruction is aligned for the
  processor's ARM or Thumb state, the next instruction is one width and R15 two widths ahead
  of it, and the index into the dispatch table is inside the table.\<close>

theorem pipeline_invariant:
  assumes "quiet_reads B" "p < 2" "running B swi p s"
  shows "let c = ARMPROC p s; w = (if psr_T (CPSR c) then 2 else 4) in
    instruct_adr c AND (w - 1) = 0 \<and> next_instruction c = instruct_adr c + w \<and>
    R c 15 = instruct_adr c + 2 * w \<and> (psr_T (CPSR c) \<longrightarrow> unat (drop_bit 6 (instruction c)) < 1024) \<and>
    INSTRUCTION_INDEX (instruction c) < 4096"
proof -
  let ?i = "instruction (ARMPROC p s)"
  have ok: "pipeline_ok (ARMPROC p s)" by (rule running_pipeline [OF assms])
  have "unat (drop_bit 20 ?i AND 0xFF) \<le> 255" "unat (drop_bit 4 ?i AND 0xF) \<le> 15"
    using word_and_le1 [of "drop_bit 20 ?i" "0xFF"] word_and_le1 [of "drop_bit 4 ?i" "0xF"]
    by (simp_all add: word_le_nat_alt)
  then have "INSTRUCTION_INDEX ?i < 4096" by (simp add: INSTRUCTION_INDEX_fields)
  moreover have "?i < 0x10000 \<Longrightarrow> unat (drop_bit 6 ?i) < 1024"
    unfolding unat_drop_bit32 by (simp add: word_less_nat_alt)
  ultimately show ?thesis using ok by (simp add: pipeline_ok_def)
qed

text \<open>A processor just reset at the start of main memory, with nothing behind the bus.\<close>

definition just_reset :: "unit nds" where
  "just_reset = armcpu_init null_bus 0 0x02000000 zero_nds"

lemma null_bus_quiet: "quiet_reads null_bus"
  by (simp add: quiet_reads_def null_bus_def)

lemma just_reset_running: "running null_bus (\<lambda>_ _ s. (3, s)) 0 just_reset"
  unfolding just_reset_def by (rule running.reset) (simp add: ARMPROC_def zero_nds_def zero_cpu_def)

theorem exec_decodes_witness:
  "armcpu_exec null_bus (\<lambda>_ _ s. (3, s)) 0 just_reset = spec_exec null_bus (\<lambda>_ _ s. (3, s)) 0 just_reset"
  using exec_decodes [OF null_bus_quiet _ just_reset_running] by simp

theorem pipeline_invariant_witness:
  "let c = ARMPROC 0 just_reset; w = (if psr_T (CPSR c) then 2 else 4) in
    next_instruction c = instruct_adr c + w \<and> R c 15 = instruct_adr c + 2 * w"
  using pipeline_invariant [OF null_bus_quiet _ just_reset_running] by (simp add: Let_def)

end
