(* ===== verification/Math_Unit.thy ===== *)
theory Math_Unit
  imports Mem_Laws Emufile "HOL-Library.Signed_Division"
begin

text \<open>
  The divider and the square root unit of the ARM9: \<open>DivController\<close> and
  \<open>SqrtController\<close> of src/source/MMU.h, \<open>execdiv\<close>, \<open>execsqrt\<close> and
  \<open>isqrt\<close> of src/source/MMU.cpp, and the events \<open>TSequenceItem_divider\<close> and
  \<open>TSequenceItem_sqrtunit\<close> of src/source/NDSSystem.cpp that publish a result.  An
  operation computes at once, clears the result registers and publishes some cycles later.

  The square root of a 32-bit value is computed in the PSP's floating-point unit, the C expression
  \<open>(int)sceFpuSqrt((float)v)\<close>; it is the parameter \<open>fpu_sqrt\<close>.
\<close>

section \<open>The control registers\<close>

definition div_read16 :: "mmu_math \<Rightarrow> u16" where
  "div_read16 m = ucast (div_mode m) OR push_bit 15 (ucast (div_busy m)) OR push_bit 14 (ucast (div_div0 m))"

definition div_write16 :: "u16 \<Rightarrow> mmu_math \<Rightarrow> mmu_math" where
  "div_write16 val m = m\<lparr>div_mode := ucast (val AND 3)\<rparr>"

definition sqrt_read16 :: "mmu_math \<Rightarrow> u16" where
  "sqrt_read16 m = ucast (sqrt_mode m) OR push_bit 15 (ucast (sqrt_busy m))"

definition sqrt_write16 :: "u16 \<Rightarrow> mmu_math \<Rightarrow> mmu_math" where
  "sqrt_write16 val m = m\<lparr>sqrt_mode := ucast (val AND 1)\<rparr>"

definition upd_math :: "(mmu_math \<Rightarrow> mmu_math) \<Rightarrow> 'io nds \<Rightarrow> 'io nds" where
  "upd_math f s = s\<lparr>math := f (math s)\<rparr>"

definition ARM9_write_reg :: "u32 \<Rightarrow> u32 \<Rightarrow> 'io nds \<Rightarrow> 'io nds" where
  "ARM9_write_reg adr val s = s\<lparr>mmu := (mmu s)\<lparr>ARM9_REG := T1WriteLong (ARM9_REG (mmu s)) adr val\<rparr>\<rparr>"

section \<open>The divider\<close>

text \<open>
  Division of C on \<open>s64\<close>, which truncates.  The quotient of the least value by -1, which C
  leaves undefined, wraps here.
\<close>

definition s64_div :: "u64 \<Rightarrow> u64 \<Rightarrow> u64" where
  "s64_div num den = word_of_int (sint num sdiv sint den)"

definition s64_mod :: "u64 \<Rightarrow> u64 \<Rightarrow> u64" where
  "s64_mod num den = word_of_int (sint num smod sint den)"

definition div_operands :: "u8 \<Rightarrow> bytes \<Rightarrow> u64 \<times> u64 \<times> u64" where
  "div_operands mode reg =
     (if mode = 0 then (scast (T1ReadLong reg 0x290), scast (T1ReadLong reg 0x298), 36)
      else if mode = 1 \<or> mode = 3 then (T1ReadQuad reg 0x290, scast (T1ReadLong reg 0x298), 68)
      else (T1ReadQuad reg 0x290, T1ReadQuad reg 0x298, 68))"

definition execdiv :: "'io nds \<Rightarrow> 'io nds" where
  "execdiv s =
     (let mode = div_mode (math s);
          s = upd_math (\<lambda>m. m\<lparr>div_busy := 1, div_div0 := 0\<rparr>) s;
          (num, den, cycles) = div_operands mode (ARM9_REG (mmu s));
          s = upd_math (\<lambda>m. m\<lparr>divCycles := nds_timer s + cycles\<rparr>) s;
          (res, md) = (if den = 0 then (if num <s 0 then 1 else - 1, num)
                       else (s64_div num den, s64_mod num den));
          s = (if den = 0 \<and> T1ReadQuad (ARM9_REG (mmu s)) 0x298 = 0
               then upd_math (\<lambda>m. m\<lparr>div_div0 := 1\<rparr>) s else s);
          s = ARM9_write_reg 0x2A0 0 s;
          s = ARM9_write_reg 0x2A4 0 s;
          s = ARM9_write_reg 0x2A8 0 s;
          s = ARM9_write_reg 0x2AC 0 s;
          s = upd_math (\<lambda>m. m\<lparr>divResult := res, divMod := md, divRunning := True\<rparr>) s
      in NDS_Reschedule s)"

text \<open>\<open>TSequenceItem_divider\<close>\<close>

definition divider_isTriggered :: "'io nds \<Rightarrow> bool" where
  "divider_isTriggered s \<longleftrightarrow> divRunning (math s) \<and> nds_timer s \<ge> divCycles (math s)"

definition divider_exec :: "'io nds \<Rightarrow> 'io nds" where
  "divider_exec s =
     (let s = upd_math (\<lambda>m. m\<lparr>div_busy := 0\<rparr>) s;
          s = ARM9_write_reg 0x2A0 (ucast (divResult (math s))) s;
          s = ARM9_write_reg 0x2A4 (ucast (drop_bit 32 (divResult (math s)))) s;
          s = ARM9_write_reg 0x2A8 (ucast (divMod (math s))) s;
          s = ARM9_write_reg 0x2AC (ucast (drop_bit 32 (divMod (math s)))) s
      in upd_math (\<lambda>m. m\<lparr>divRunning := False\<rparr>) s)"

section \<open>The square root unit\<close>

lemma u64_bound: "unat (a :: u64) < 2 ^ 64"
  using unsigned_less [of a] by simp

lemma unat_drop_bit64: "unat (drop_bit n a) = unat a div 2 ^ n" for a :: u64
proof -
  have "take_bit 64 (unat a) = unat a" using u64_bound [of a] by (simp add: take_bit_nat_eq_self)
  then show ?thesis by (simp only: unsigned_drop_bit_eq) (simp add: drop_bit_eq_div)
qed

function isqrt_loop :: "u64 \<Rightarrow> u64 \<Rightarrow> u64 \<Rightarrow> u64" where
  "isqrt_loop squaredbit remainder root =
     (if squaredbit > 0 then
        (if remainder \<ge> (squaredbit OR root)
         then isqrt_loop (drop_bit 2 squaredbit) (remainder - (squaredbit OR root)) (drop_bit 1 root OR squaredbit)
         else isqrt_loop (drop_bit 2 squaredbit) remainder (drop_bit 1 root))
      else root)"
  by auto
termination
  by (relation "measure (\<lambda>(b, _, _). unat b)")
    (auto simp only: in_measure case_prod_conv unat_drop_bit64 word_less_nat_alt, simp_all)

declare isqrt_loop.simps [simp del]

definition isqrt :: "u64 \<Rightarrow> u32" where
  "isqrt x = (if x < 1 then 0
     else ucast (isqrt_loop (drop_bit 1 (NOT 0) AND NOT (drop_bit 2 (NOT 0))) x 0))"

definition execsqrt :: "(u32 \<Rightarrow> u32) \<Rightarrow> 'io nds \<Rightarrow> 'io nds" where
  "execsqrt fpu_sqrt s =
     (let mode = sqrt_mode (math s);
          s = upd_math (\<lambda>m. m\<lparr>sqrt_busy := 1\<rparr>) s;
          reg = ARM9_REG (mmu s);
          v = (if mode \<noteq> 0 then T1ReadQuad reg 0x2B8 else ucast (T1ReadLong reg 0x2B8));
          ret = cached_sqrt (math s) v;
          (ret, s) = (if ret = 0 \<and> v \<noteq> 0
            then (let ret = (if mode \<noteq> 0 then isqrt v else fpu_sqrt (T1ReadLong reg 0x2B8))
                  in (ret, upd_math (\<lambda>m. m\<lparr>cached_sqrt := (cached_sqrt m)(v := ret)\<rparr>) s))
            else (ret, s));
          s = ARM9_write_reg 0x2B4 0 s;
          s = upd_math (\<lambda>m. m\<lparr>sqrtCycles := nds_timer s + 26, sqrtResult := ret, sqrtRunning := True\<rparr>) s
      in NDS_Reschedule s)"

text \<open>\<open>TSequenceItem_sqrtunit\<close>\<close>

definition sqrtunit_isTriggered :: "'io nds \<Rightarrow> bool" where
  "sqrtunit_isTriggered s \<longleftrightarrow> sqrtRunning (math s) \<and> nds_timer s \<ge> sqrtCycles (math s)"

definition sqrtunit_exec :: "'io nds \<Rightarrow> 'io nds" where
  "sqrtunit_exec s =
     (let s = upd_math (\<lambda>m. m\<lparr>sqrt_busy := 0\<rparr>) s;
          s = ARM9_write_reg 0x2B4 (sqrtResult (math s)) s
      in upd_math (\<lambda>m. m\<lparr>sqrtRunning := False\<rparr>) s)"

section \<open>The square root loop\<close>

text \<open>The digit recurrence on natural numbers.\<close>

fun isqrt_nat :: "nat \<Rightarrow> nat \<Rightarrow> nat \<Rightarrow> nat" where
  "isqrt_nat 0 remainder root = root"
| "isqrt_nat (Suc k) remainder root =
     (if remainder \<ge> 4 ^ k + root then isqrt_nat k (remainder - (4 ^ k + root)) (root div 2 + 4 ^ k)
      else isqrt_nat k remainder (root div 2))"

lemma isqrt_nat_correct:
  assumes "p ^ 2 \<le> x" "x < (p + 2 ^ k) ^ 2"
  shows "let r = isqrt_nat k (x - p ^ 2) (p * 2 ^ k) in r ^ 2 \<le> x \<and> x < (r + 1) ^ 2"
  using assms
proof (induction k arbitrary: p)
  case (Suc k)
  let ?b = "(4 :: nat) ^ k"
  have b: "?b = 2 ^ k * 2 ^ k" by (simp add: power_mult_distrib [symmetric])
  have sq: "(p + 2 ^ k) ^ 2 = p ^ 2 + (?b + p * 2 ^ Suc k)"
    by (simp add: b power2_eq_square algebra_simps)
  have half: "p * 2 ^ Suc k div 2 = p * 2 ^ k" by simp
  show ?case
  proof (cases "x - p ^ 2 \<ge> ?b + p * 2 ^ Suc k")
    case True
    then have le: "(p + 2 ^ k) ^ 2 \<le> x" using Suc.prems(1) by (simp add: sq)
    moreover have "x < (p + 2 ^ k + 2 ^ k) ^ 2" using Suc.prems(2) by (simp add: mult_2 add.assoc)
    moreover have "x - p ^ 2 - (?b + p * 2 ^ Suc k) = x - (p + 2 ^ k) ^ 2" by (simp add: sq)
    moreover have "p * 2 ^ k + ?b = (p + 2 ^ k) * 2 ^ k" by (simp add: b algebra_simps)
    ultimately show ?thesis
      using Suc.IH [of "p + 2 ^ k"] True by (simp add: half)
  next
    case False
    then have "x < (p + 2 ^ k) ^ 2" using Suc.prems(1) by (simp add: sq)
    then show ?thesis
      using Suc.IH [OF Suc.prems(1)] False by (simp add: half)
  qed
qed simp

lemma or_power:
  fixes a :: u64
  assumes "2 ^ Suc n dvd unat a" "n < 64"
  shows "a OR 2 ^ n = a + 2 ^ n"
proof -
  obtain c where "unat a = 2 ^ Suc n * c" using assms(1) by (elim dvdE)
  then have "even (unat a div 2 ^ n)" by simp
  then have "\<not> bit (unat a) n" by (simp add: bit_iff_odd)
  then have "\<not> bit a n" by (simp add: bit_unsigned_iff)
  then have "a AND 2 ^ n = 0"
    by (auto intro!: bit_word_eqI simp: bit_and_iff bit_exp_iff)
  then show ?thesis by (simp only: disjunctive_add_eq_or)
qed

lemma unat_add_small: "unat a + unat b < 2 ^ 64 \<Longrightarrow> unat (a + b) = unat a + unat b" for a b :: u64
  using unat_add_lem [of a b] by simp

lemma unat_power: "n < 64 \<Longrightarrow> unat (2 ^ n :: u64) = 2 ^ n"
proof -
  assume "n < 64"
  then have "(2 :: nat) ^ n < 2 ^ 64" by (intro power_strict_increasing) simp_all
  then have "take_bit 64 ((2 :: nat) ^ n) = 2 ^ n" by (rule take_bit_nat_eq_self)
  then show ?thesis
    using unat_of_nat [where 'a = 64, of "2 ^ n"] by (simp add: take_bit_eq_mod)
qed

lemma unat_half: "unat (drop_bit 1 a) = unat a div 2" "unat (drop_bit (Suc 0) a) = unat a div 2" for a :: u64
  using unat_drop_bit64 [of 1 a] by simp_all

definition isqrt_bit :: "nat \<Rightarrow> u64" where
  "isqrt_bit k = (if k = 0 then 0 else 2 ^ (2 * (k - 1)))"

lemma isqrt_bit_shift: "k < 32 \<Longrightarrow> drop_bit 2 (2 ^ (2 * k)) = isqrt_bit k"
proof (cases k)
  case 0
  have "drop_bit 2 (1 :: u64) = 0" by (rule bit_word_eqI) (simp add: bit_drop_bit_eq bit_1_iff)
  then show ?thesis using 0 by (simp add: isqrt_bit_def)
next
  case (Suc j)
  assume "k < 32"
  then have "unat (drop_bit 2 (2 ^ (2 * k)) :: u64) = unat (2 ^ (2 * j) :: u64)"
    unfolding unat_drop_bit64 using Suc \<open>k < 32\<close> by (subst (1 2) unat_power) (simp_all add: power_add)
  then show ?thesis by (simp add: Suc isqrt_bit_def word_unat_eq_iff)
qed

lemma isqrt_loop_nat:
  assumes "k \<le> 32" "unat root = p * 2 ^ k" "2 ^ k dvd p" "p ^ 2 \<le> x" "x < 2 ^ 64" "unat remainder = x - p ^ 2"
  shows "unat (isqrt_loop (isqrt_bit k) remainder root) = isqrt_nat k (unat remainder) (unat root)"
  using assms
proof (induction k arbitrary: p remainder root)
  case 0
  then show ?case by (subst isqrt_loop.simps) (simp add: isqrt_bit_def)
next
  case (Suc k)
  have k: "2 * k < 64" "k < 32" using Suc.prems(1) by simp_all
  have p4: "(4 :: nat) ^ k = 2 ^ (2 * k)" "(2 :: nat) ^ (2 * k) = 2 ^ k * 2 ^ k"
    by (simp_all add: power_mult_distrib [symmetric] power_mult mult_2 power_add)
  obtain q where q: "p = 2 ^ Suc k * q" using Suc.prems(3) by (elim dvdE)
  have root: "unat root = 2 ^ (2 * k + 2) * q"
    using Suc.prems(2) by (simp add: q p4(2) power_add)
  have half: "unat (drop_bit 1 root) = 2 ^ (2 * k + 1) * q" "unat (drop_bit 1 root) = p * 2 ^ k"
    by (simp_all only: unat_half(1) root) (simp_all add: q p4(2))
  have le: "2 ^ (2 * k + 2) * q \<le> x"
  proof (cases "q = 0")
    case False
    then have "2 ^ (2 * k + 2) * q \<le> p ^ 2" by (simp add: q p4(2) power2_eq_square power_add)
    then show ?thesis using Suc.prems(4) by simp
  qed simp
  have lt: "2 ^ (2 * k + 2) * q + 2 ^ (2 * k) < 2 ^ 64"
  proof -
    have e: "(2 :: nat) ^ 64 = 2 ^ (2 * k + 2) * 2 ^ (62 - 2 * k)"
      using k by (simp only: power_add [symmetric]) simp
    have "2 ^ (2 * k + 2) * q < 2 ^ (2 * k + 2) * 2 ^ (62 - 2 * k)"
      using le Suc.prems(5) e by linarith
    then have "Suc q \<le> 2 ^ (62 - 2 * k)" by simp
    then have "2 ^ (2 * k + 2) * Suc q \<le> 2 ^ 64" unfolding e by (rule mult_le_mono2)
    moreover have "(2 :: nat) ^ (2 * k) < 2 ^ (2 * k + 2)" by simp
    ultimately show ?thesis unfolding mult_Suc_right by linarith
  qed
  have sb: "isqrt_bit (Suc k) = 2 ^ (2 * k)" by (simp add: isqrt_bit_def)
  have or1: "2 ^ (2 * k) OR root = root + 2 ^ (2 * k)"
    using or_power [of "2 * k" root] k by (simp add: root or.commute)
  have or2: "drop_bit 1 root OR 2 ^ (2 * k) = drop_bit 1 root + 2 ^ (2 * k)"
    using half(1) k by (intro or_power) (simp_all add: power_add)
  have sum: "unat (root + 2 ^ (2 * k)) = 4 ^ k + unat root"
    using lt k by (subst unat_add_small) (simp_all add: root unat_power p4(1))
  have "2 ^ (2 * k + 1) * q \<le> 2 ^ (2 * k + 2) * q" by simp
  then have lt2: "unat (drop_bit 1 root) + 2 ^ (2 * k) < 2 ^ 64"
    unfolding half(1) using lt by linarith
  have sum2: "unat (drop_bit 1 root + 2 ^ (2 * k)) = unat root div 2 + 4 ^ k"
    using unat_add_small [of "drop_bit 1 root" "2 ^ (2 * k)"] lt2 k by (simp only: unat_power unat_half p4(1))
  have pos: "(0 :: u64) < 2 ^ (2 * k)"
    using k by (simp add: word_less_nat_alt unat_power)
  show ?case
  proof (cases "4 ^ k + unat root \<le> unat remainder")
    case True
    then have ge: "root + 2 ^ (2 * k) \<le> remainder" by (simp add: word_le_nat_alt sum)
    have rem: "unat (remainder - (root + 2 ^ (2 * k))) = unat remainder - (4 ^ k + unat root)"
      using ge by (simp add: unat_sub sum)
    have sq: "(p + 2 ^ k) ^ 2 = p ^ 2 + (4 ^ k + unat root)" unfolding Suc.prems(2) p4(1) p4(2)
      by (simp add: power2_eq_square algebra_simps)
    have "unat root div 2 = p * 2 ^ k" using half(2) by (simp only: unat_half)
    then have r2: "unat (drop_bit 1 root + 2 ^ (2 * k)) = (p + 2 ^ k) * 2 ^ k"
      by (simp only: sum2 p4 add_mult_distrib)
    have d2: "2 ^ k dvd p + 2 ^ k" by (simp add: q)
    have l2: "(p + 2 ^ k) ^ 2 \<le> x" "unat (remainder - (root + 2 ^ (2 * k))) = x - (p + 2 ^ k) ^ 2"
      using True Suc.prems(4,6) by (simp_all only: sq rem)
    have "unat (isqrt_loop (isqrt_bit k) (remainder - (root + 2 ^ (2 * k))) (drop_bit 1 root + 2 ^ (2 * k))) =
        isqrt_nat k (unat remainder - (4 ^ k + unat root)) (unat root div 2 + 4 ^ k)"
      using Suc.IH [OF _ r2 d2 l2(1) Suc.prems(5) l2(2)] k by (simp only: rem sum2)
    then show ?thesis
      using True ge pos k
      by (subst isqrt_loop.simps) (simp add: sb or1 or2 [unfolded One_nat_def] isqrt_bit_shift)
  next
    case False
    then have ge: "\<not> root + 2 ^ (2 * k) \<le> remainder" by (simp add: word_le_nat_alt sum)
    have d2: "2 ^ k dvd p" by (simp add: q)
    have "unat (isqrt_loop (isqrt_bit k) remainder (drop_bit 1 root)) =
        isqrt_nat k (unat remainder) (unat root div 2)"
      using Suc.IH [OF _ half(2) d2 Suc.prems(4-6)] k by (simp only: unat_half)
    then show ?thesis
      using False ge pos k
      by (subst isqrt_loop.simps) (simp add: sb or1 or2 isqrt_bit_shift)
  qed
qed

lemma isqrt_correct: "unat (isqrt x) ^ 2 \<le> unat x \<and> unat x < (unat (isqrt x) + 1) ^ 2"
proof (cases "x = 0")
  case True
  then show ?thesis by (simp add: isqrt_def)
next
  case False
  then have x: "\<not> x < 1" by (simp add: word_less_nat_alt unat_eq_0)
  have b: "drop_bit 1 (NOT 0) AND NOT (drop_bit 2 (NOT 0)) = isqrt_bit 32"
  proof -
    have p: "isqrt_bit 32 = 2 ^ 62" by (simp only: isqrt_bit_def) simp
    show ?thesis
      unfolding p by (rule bit_word_eqI) (auto simp only: bit_and_iff bit_not_iff bit_drop_bit_eq bit_exp_iff
          comp_def exp_eq_0_imp_not_bit possible_bit_word bit_0_eq bot_apply, auto)
  qed
  let ?r = "isqrt_nat 32 (unat x) 0"
  have x64: "unat x < 2 ^ 64" using unsigned_less [of x] by simp
  have r: "?r ^ 2 \<le> unat x \<and> unat x < (?r + 1) ^ 2"
    using isqrt_nat_correct [of 0 "unat x" 32] x64 by (simp add: Let_def)
  have l: "unat (isqrt_loop (isqrt_bit 32) x 0) = ?r"
    using isqrt_loop_nat [of 32 0 0 "unat x" x] x64 by simp
  have "?r ^ 2 < (2 ^ 32) ^ 2" using r x64 by simp
  then have "?r < 2 ^ 32" by (rule power_less_imp_less_base) simp
  then have "unat (isqrt x) = ?r"
    using x b l by (simp add: isqrt_def unsigned_ucast_eq take_bit_nat_eq_self)
  then show ?thesis using r by simp
qed

section \<open>The units as the hardware\<close>

lemma ucast_push_byte:
  "n \<le> 24 \<Longrightarrow> ucast (push_bit n (ucast (b :: u8)) :: u32) = (push_bit n (ucast b) :: u64)"
  by (rule bit_word_eqI) (auto simp: bit_ucast_iff bit_push_bit_iff dest: bit_imp_le_length)

lemma T1ReadQuad_longs:
  "T1ReadQuad m a = push_bit 32 (ucast (T1ReadLong_guaranteedAligned m (a + 4))) OR
    ucast (T1ReadLong_guaranteedAligned m a)"
  using ucast_push_byte [of 0]
  by (simp add: T1ReadQuad_def T1ReadLong_guaranteedAligned_def unsigned_or_eq ucast_push_byte
      push_bit_or or.assoc add.assoc)

lemma ucast64_zero: "(ucast x :: u64) = 0 \<longleftrightarrow> x = 0" for x :: u32
proof -
  have "(ucast (ucast x :: u64) :: u32) = x" by (rule bit_word_eqI) (simp add: bit_ucast_iff)
  then show ?thesis by auto
qed

lemma quad_zero:
  "T1ReadQuad m a = 0 \<Longrightarrow> T1ReadLong_guaranteedAligned m a = 0"
  by (simp add: T1ReadQuad_longs or_eq_0_iff ucast64_zero)

lemma split64: "push_bit 32 (ucast (ucast (drop_bit 32 x) :: u32)) OR ucast (ucast x :: u32) = x" for x :: u64
  by (rule bit_word_eqI) (auto simp: bit_or_iff bit_push_bit_iff bit_ucast_iff bit_drop_bit_eq not_le dest: bit_imp_le_length)

text \<open>The signed operands of a mode.\<close>

definition div_num :: "'io nds \<Rightarrow> int" where
  "div_num s = (if div_mode (math s) = 0 then sint (T1ReadLong (ARM9_REG (mmu s)) 0x290)
     else sint (T1ReadQuad (ARM9_REG (mmu s)) 0x290))"

definition div_den :: "'io nds \<Rightarrow> int" where
  "div_den s = (if div_mode (math s) \<in> {0, 1, 3} then sint (T1ReadLong (ARM9_REG (mmu s)) 0x298)
     else sint (T1ReadQuad (ARM9_REG (mmu s)) 0x298))"

definition DIV_RESULT :: "'io nds \<Rightarrow> int" where
  "DIV_RESULT s = sint (T1ReadQuad (ARM9_REG (mmu s)) 0x2A0)"

definition DIV_REMAIN :: "'io nds \<Rightarrow> int" where
  "DIV_REMAIN s = sint (T1ReadQuad (ARM9_REG (mmu s)) 0x2A8)"

lemma ARM9_write_reg_read [simp]:
  "ARM9_REG (mmu (ARM9_write_reg a v s)) = T1WriteLong (ARM9_REG (mmu s)) a v"
  by (simp add: ARM9_write_reg_def)

lemma math_frame [simp]:
  "math (ARM9_write_reg a v s) = math s" "nds_timer (ARM9_write_reg a v s) = nds_timer s"
  "math (upd_math f s) = f (math s)" "mmu (upd_math f s) = mmu s" "nds_timer (upd_math f s) = nds_timer s"
  "math (NDS_Reschedule s) = math s" "mmu (NDS_Reschedule s) = mmu s"
  by (simp_all add: ARM9_write_reg_def upd_math_def NDS_Reschedule_def)

lemma published:
  "T1ReadQuad (T1WriteLong (T1WriteLong (T1WriteLong (T1WriteLong m 0x2A0 a) 0x2A4 b) 0x2A8 c) 0x2AC d) 0x2A0 =
     push_bit 32 (ucast b) OR ucast a"
  "T1ReadQuad (T1WriteLong (T1WriteLong (T1WriteLong (T1WriteLong m 0x2A0 a) 0x2A4 b) 0x2A8 c) 0x2AC d) 0x2A8 =
     push_bit 32 (ucast d) OR ucast c"
  by (simp_all add: T1ReadQuad_longs mem_simps)

lemma sint64_range: "-(2 ^ 63) \<le> sint a" "sint a < 2 ^ 63" for a :: u64
  using sint_ge [of a] sint_lt [of a] by simp_all

lemma sint_word_of_int64: "-(2 ^ 63) \<le> k \<Longrightarrow> k < 2 ^ 63 \<Longrightarrow> sint (word_of_int k :: u64) = k"
  by (simp only: sint_sbintrunc') (simp add: signed_take_bit_int_eq_self)

lemma sint_scast64: "sint (scast (x :: u32) :: u64) = sint x"
proof -
  have "signed_take_bit 63 (sint x) = sint x"
    by (rule signed_take_bit_int_eq_self) (use sint_ge [of x] sint_lt [of x] in simp_all)
  then show ?thesis by (simp add: signed_scast_eq)
qed

lemma truncated_division:
  fixes n d :: int
  assumes "-(2 ^ 63) \<le> n" "n < 2 ^ 63" "d \<noteq> 0" "\<not> (n = -(2 ^ 63) \<and> d = -1)"
  shows "-(2 ^ 63) \<le> n sdiv d" "n sdiv d < 2 ^ 63" "\<bar>n smod d\<bar> < \<bar>d\<bar>" "\<bar>n smod d\<bar> \<le> \<bar>n\<bar>"
    "n smod d = 0 \<or> sgn (n smod d) = sgn n"
proof -
  let ?q = "n sdiv d"
  have a: "\<bar>n\<bar> \<le> 2 ^ 63" using assms(1,2) by linarith
  have r: "- \<bar>n\<bar> \<le> ?q" "?q \<le> \<bar>n\<bar>" using sdiv_int_range [of n d] by simp_all
  then show "-(2 ^ 63) \<le> ?q" using a by linarith
  show "?q < 2 ^ 63"
  proof (rule ccontr)
    assume "\<not> ?q < 2 ^ 63"
    then have "n = -(2 ^ 63)" "?q = - n" using r a assms(2) by linarith+
    then show False using int_sdiv_negated_is_minus1 [of n d] assms(4) by simp
  qed
  show "\<bar>n smod d\<bar> < \<bar>d\<bar>" using smod_int_range [where a = n and b = d] assms(3) by auto
  show "\<bar>n smod d\<bar> \<le> \<bar>n\<bar>"
    using zmod_le_nonneg_dividend [of "\<bar>n\<bar>" "\<bar>d\<bar>"] assms(3) by (simp add: smod_int_alt_def abs_mult)
  show "n smod d = 0 \<or> sgn (n smod d) = sgn n"
  proof (cases "\<bar>n\<bar> mod \<bar>d\<bar> = 0")
    case False
    moreover have "0 \<le> \<bar>n\<bar> mod \<bar>d\<bar>" using assms(3) by simp
    ultimately have "sgn (\<bar>n\<bar> mod \<bar>d\<bar>) = 1" by (simp add: sgn_if)
    then show ?thesis by (simp add: smod_int_alt_def sgn_mult)
  qed (simp add: smod_int_alt_def)
qed

lemma div_operands_signed:
  assumes "div_operands (div_mode (math s)) (ARM9_REG (mmu s)) = (num, den, cycles)"
  shows "sint num = div_num s" "sint den = div_den s" "cycles = (if div_mode (math s) = 0 then 36 else 68)"
  using assms by (auto simp: div_operands_def div_num_def div_den_def sint_scast64 split: if_splits)

text \<open>What the two steps of a division leave in the state.\<close>

lemma divider_steps:
  fixes s :: "'io nds"
  assumes "div_operands (div_mode (math s)) (ARM9_REG (mmu s)) = (num, den, cycles)"
  defines "s1 \<equiv> execdiv s" and "s2 \<equiv> divider_exec (execdiv s)"
    and "r \<equiv> (if den = 0 then (if num <s 0 then 1 else - 1, num) else (s64_div num den, s64_mod num den))"
  shows "divRunning (math s1)" "div_busy (math s1) = 1" "divCycles (math s1) = nds_timer s + cycles"
    "T1ReadQuad (ARM9_REG (mmu s1)) 0x2A0 = 0" "T1ReadQuad (ARM9_REG (mmu s1)) 0x2A8 = 0"
    "\<not> divRunning (math s2)" "div_busy (math s2) = 0"
    "div_div0 (math s2) = of_bool (den = 0 \<and> T1ReadQuad (ARM9_REG (mmu s)) 0x298 = 0)"
    "T1ReadQuad (ARM9_REG (mmu s2)) 0x2A0 = fst r" "T1ReadQuad (ARM9_REG (mmu s2)) 0x2A8 = snd r"
  unfolding s1_def s2_def r_def execdiv_def divider_exec_def Let_def assms(1)
  by (simp_all add: assms(1) published split64)

text \<open>C14: A division started by execdiv and completed by its event shows a busy unit and a
  zeroed result and remainder for 36 or 68 cycles and then the truncated signed quotient and remainder of the
  operands its mode selects, plus or minus one and the numerator for a zero divisor, and the
  division-by-zero flag exactly when the 64-bit divisor is zero (except for the one quotient
  that overflows).\<close>

theorem divider_result:
  fixes s :: "'io nds"
  assumes "\<not> (div_num s = -(2 ^ 63) \<and> div_den s = -1)"
  shows "let n = div_num s; d = div_den s; s1 = execdiv s; s2 = divider_exec s1;
      q = DIV_RESULT s2; r = DIV_REMAIN s2 in
    divRunning (math s1) \<and> div_busy (math s1) = 1 \<and> DIV_RESULT s1 = 0 \<and> DIV_REMAIN s1 = 0 \<and>
    divCycles (math s1) = nds_timer s + (if div_mode (math s) = 0 then 36 else 68) \<and>
    \<not> divRunning (math s2) \<and> div_busy (math s2) = 0 \<and>
    div_div0 (math s2) = of_bool (T1ReadQuad (ARM9_REG (mmu s)) 0x298 = 0) \<and>
    (if d = 0 then q = (if n < 0 then 1 else -1) \<and> r = n
     else n = q * d + r \<and> \<bar>r\<bar> < \<bar>d\<bar> \<and> (r = 0 \<or> sgn r = sgn n))"
proof -
  obtain num den cycles where ops: "div_operands (div_mode (math s)) (ARM9_REG (mmu s)) = (num, den, cycles)"
    by (cases "div_operands (div_mode (math s)) (ARM9_REG (mmu s))")
  note v = div_operands_signed [OF ops] and st = divider_steps [OF ops]
  have z: "den = 0 \<longleftrightarrow> div_den s = 0" using v(2) by (metis signed_0 signed_eq_0_iff)
  have n0: "num <s 0 \<longleftrightarrow> div_num s < 0" using v(1) by (simp add: word_sless_alt)
  have div0: "T1ReadQuad (ARM9_REG (mmu s)) 0x298 = 0 \<Longrightarrow> den = 0"
    using ops quad_zero [of "ARM9_REG (mmu s)" "0x298"]
    by (auto simp: div_operands_def T1ReadLong_aligned split: if_splits)
  then have div0': "den \<noteq> 0 \<Longrightarrow> T1ReadQuad (ARM9_REG (mmu s)) 0x298 \<noteq> 0" by blast
  show ?thesis
  proof (cases "den = 0")
    case True
    then show ?thesis
      using v z st by (simp add: Let_def DIV_RESULT_def DIV_REMAIN_def n0)
  next
    case False
    have rng: "-(2 ^ 63) \<le> div_num s" "div_num s < 2 ^ 63" using sint64_range [of num] v(1) by simp_all
    note t = truncated_division [OF rng _ assms] and d0 = False [unfolded z]
    have "sint (s64_div num den) = div_num s sdiv div_den s"
      unfolding s64_div_def v by (rule sint_word_of_int64) (use t [OF d0] in simp_all)
    moreover have "sint (s64_mod num den) = div_num s smod div_den s"
      unfolding s64_mod_def v by (rule sint_word_of_int64) (use t(4) [OF d0] rng t(3,5) [OF d0] in \<open>auto simp: sgn_if split: if_splits\<close>)
    ultimately show ?thesis
      using False d0 v st div0' t(3,5) [OF d0]
      by (simp add: Let_def DIV_RESULT_def DIV_REMAIN_def sdiv_mult_smod_eq)
  qed
qed

text \<open>C15: A 64-bit square root started by execsqrt and completed by its event leaves the largest
  integer whose square does not exceed the operand, for every operand the cache shared with the
  32-bit mode has no root for.\<close>

theorem sqrt_result:
  fixes s :: "'io nds"
  assumes "sqrt_mode (math s) \<noteq> 0"
  defines "v \<equiv> T1ReadQuad (ARM9_REG (mmu s)) 0x2B8"
  assumes "cached_sqrt (math s) v = 0"
  shows "let s1 = execsqrt fpu s; s2 = sqrtunit_exec s1; r = unat (T1ReadLong (ARM9_REG (mmu s2)) 0x2B4) in
    sqrtRunning (math s1) \<and> sqrtCycles (math s1) = nds_timer s + 26 \<and> T1ReadLong (ARM9_REG (mmu s1)) 0x2B4 = 0 \<and>
    \<not> sqrtRunning (math s2) \<and> sqrt_busy (math s2) = 0 \<and> r ^ 2 \<le> unat v \<and> unat v < (r + 1) ^ 2"
proof -
  have a: "T1ReadLong (T1WriteLong m 0x2B4 x) 0x2B4 = x" for m x
    by (simp add: T1ReadLong_aligned mem_simps)
  have r: "sqrtResult (math (execsqrt fpu s)) = isqrt v"
    using assms by (auto simp: execsqrt_def Let_def isqrt_def)
  show ?thesis
    using isqrt_correct [of v] assms
    by (simp add: Let_def sqrtunit_exec_def a r) (simp add: execsqrt_def Let_def a)
qed

lemma sqrtResult_cached:
  "\<lbrakk>sqrt_mode (math s) \<noteq> 0; cached_sqrt (math s) (T1ReadQuad (ARM9_REG (mmu s)) 0x2B8) = w; w \<noteq> 0\<rbrakk> \<Longrightarrow>
   sqrtResult (math (execsqrt fpu s)) = w"
  by (simp add: execsqrt_def Let_def)

theorem sqrt_cache_shared:
  fixes s :: "'io nds"
  assumes "sqrt_mode (math s) = 0" "cached_sqrt (math s) (ucast v) = 0"
    and "T1ReadLong (ARM9_REG (mmu s)) 0x2B8 = v" "T1ReadLong (ARM9_REG (mmu s)) 0x2BC = 0" "v \<noteq> 0" "fpu v \<noteq> 0"
  shows "let s1 = execsqrt fpu s; s2 = execsqrt fpu (upd_math (sqrt_write16 1) s1) in
    T1ReadQuad (ARM9_REG (mmu s1)) 0x2B8 = ucast v \<and> sqrt_mode (math (upd_math (sqrt_write16 1) s1)) = 1 \<and>
    sqrtResult (math s2) = fpu v"
proof -
  have q: "T1ReadQuad (T1WriteLong (ARM9_REG (mmu s)) 0x2B4 x) 0x2B8 = ucast v" for x
    using assms(3,4) by (simp add: T1ReadQuad_longs mem_simps T1ReadLong_aligned)
  have v: "(ucast v :: u64) \<noteq> 0" using assms(5) by (simp add: ucast64_zero)
  let ?s1 = "execsqrt fpu s"
  have m1: "ARM9_REG (mmu ?s1) = T1WriteLong (ARM9_REG (mmu s)) 0x2B4 0"
    "cached_sqrt (math ?s1) (ucast v) = fpu v"
    using assms v by (simp_all add: execsqrt_def Let_def)
  let ?s2 = "upd_math (sqrt_write16 1) ?s1"
  have s2: "sqrt_mode (math ?s2) = 1" "ARM9_REG (mmu ?s2) = T1WriteLong (ARM9_REG (mmu s)) 0x2B4 0"
    "cached_sqrt (math ?s2) (ucast v) = fpu v"
    by (simp_all add: sqrt_write16_def m1)
  then have "sqrtResult (math (execsqrt fpu ?s2)) = fpu v"
    using assms(6) by (intro sqrtResult_cached) (simp_all add: q)
  then show ?thesis using s2(1) by (simp only: Let_def m1(1) q)
qed

text \<open>7 divided by 2 and the root of 10, in the registers of an otherwise empty machine.\<close>

definition math_sample :: "u32 \<Rightarrow> u8 \<Rightarrow> u8 \<Rightarrow> unit nds" where
  "math_sample a x y = zero_nds\<lparr>mmu := zero_mmu\<lparr>ARM9_REG := (\<lambda>_. 0)(a := x, a + 8 := y)\<rparr>\<rparr>"

theorem divider_result_witness:
  "DIV_RESULT (divider_exec (execdiv (math_sample 0x290 7 2))) = 3 \<and>
   DIV_REMAIN (divider_exec (execdiv (math_sample 0x290 7 2))) = 1"
proof -
  have v: "div_num (math_sample 0x290 7 2) = 7" "div_den (math_sample 0x290 7 2) = 2"
    by (simp_all add: div_num_def div_den_def math_sample_def zero_nds_def zero_math_def T1ReadLong_def)
  show ?thesis
    using divider_result [of "math_sample 0x290 7 2"] unfolding v Let_def by (auto simp: sgn_if split: if_splits) presburger+
qed

theorem sqrt_result_witness:
  "let s = upd_math (sqrt_write16 1) (math_sample 0x2B8 10 0);
     r = unat (T1ReadLong (ARM9_REG (mmu (sqrtunit_exec (execsqrt (\<lambda>_. 0) s)))) 0x2B4) in
   r ^ 2 \<le> 10 \<and> 10 < (r + 1) ^ 2"
proof -
  let ?s = "upd_math (sqrt_write16 1) (math_sample 0x2B8 10 0)"
  have "T1ReadQuad (ARM9_REG (mmu ?s)) 0x2B8 = 10" "sqrt_mode (math ?s) \<noteq> 0" "cached_sqrt (math ?s) 10 = 0"
    by (simp_all add: math_sample_def zero_nds_def zero_math_def sqrt_write16_def T1ReadQuad_def)
  then show ?thesis using sqrt_result [of ?s "\<lambda>_. 0"] by (simp add: Let_def)
qed

text \<open>
  The nearest \<open>float\<close> to 0xFFFFFFFF is 0x100000000, whose root is 65536; the 64-bit request
  for the same number then gets 65536, although 65535 is the integer root.
\<close>

definition sqrt_sample :: "unit nds" where
  "sqrt_sample = zero_nds\<lparr>mmu := zero_mmu\<lparr>ARM9_REG :=
     (\<lambda>_. 0)(0x2B8 := 0xFF, 0x2B9 := 0xFF, 0x2BA := 0xFF, 0x2BB := 0xFF)\<rparr>\<rparr>"

theorem sqrt_cache_shared_witness:
  "sqrtResult (math (execsqrt (\<lambda>_. 65536) (upd_math (sqrt_write16 1)
     (execsqrt (\<lambda>_. 65536) sqrt_sample)))) = 65536 \<and> isqrt 0xFFFFFFFF \<noteq> 65536"
proof -
  have "T1ReadLong (ARM9_REG (mmu sqrt_sample)) 0x2B8 = 0xFFFFFFFF" "T1ReadLong (ARM9_REG (mmu sqrt_sample)) 0x2BC = 0"
    by (simp_all add: sqrt_sample_def T1ReadLong_def push_bit_eq_mult)
  then have "sqrtResult (math (execsqrt (\<lambda>_. 65536) (upd_math (sqrt_write16 1)
     (execsqrt (\<lambda>_. 65536) sqrt_sample)))) = 65536"
    using sqrt_cache_shared [of sqrt_sample "0xFFFFFFFF" "\<lambda>_. 65536"]
    by (simp add: Let_def sqrt_sample_def zero_nds_def zero_math_def)
  moreover have "isqrt 0xFFFFFFFF \<noteq> 65536"
    using isqrt_correct [of "0xFFFFFFFF"] by auto
  ultimately show ?thesis ..
qed

end
