(* ===== verification/Timer.thy ===== *)
theory Timer
  imports Mem_Laws "HOL-Library.Signed_Division" "HOL-Library.Monad_Syntax"
begin

text \<open>
  The four timers of each processor: \<open>read_timer\<close> and \<open>write_timer\<close> of
  src/source/MMU.cpp, \<open>TSequenceItem_Timer\<close> and \<open>NDS_RescheduleTimers\<close> of
  src/source/NDSSystem.cpp.  A free-running timer is not counted: \<open>timerCycle\<close> is the time
  of its next overflow, and a read computes the count from it.  A chained timer (mode 0xFFFF)
  counts the overflows of the one before it.

  Clearing the overflow of a timer advances \<open>timerCycle\<close> in steps until it lies in the
  future.  Near the end of the 64-bit time the loop would not end, so it is a
  \<open>partial_function\<close>; \<open>catch_up_ends\<close> says when it returns, and with what.
\<close>

section \<open>Registers\<close>

definition upd_timers :: "(mmu_timers \<Rightarrow> mmu_timers) \<Rightarrow> 'io nds \<Rightarrow> 'io nds" where
  "upd_timers f s = s\<lparr>timers := f (timers s)\<rparr>"

definition upd_sysm :: "(nds_system \<Rightarrow> nds_system) \<Rightarrow> 'io nds \<Rightarrow> 'io nds" where
  "upd_sysm f s = s\<lparr>sysm := f (sysm s)\<rparr>"

definition upd2 :: "nat \<Rightarrow> nat \<Rightarrow> 'v \<Rightarrow> (nat \<Rightarrow> nat \<Rightarrow> 'v) \<Rightarrow> nat \<Rightarrow> nat \<Rightarrow> 'v" where
  "upd2 i j v f = f(i := (f i)(j := v))"

definition set_timer :: "nat \<Rightarrow> nat \<Rightarrow> u16 \<Rightarrow> 'io nds \<Rightarrow> 'io nds" where
  "set_timer p i v s = upd_timers (\<lambda>t. t\<lparr>timer := upd2 p i v (timer t)\<rparr>) s"

definition set_timerCycle :: "nat \<Rightarrow> nat \<Rightarrow> u64 \<Rightarrow> 'io nds \<Rightarrow> 'io nds" where
  "set_timerCycle p i v s = upd_sysm (\<lambda>n. n\<lparr>timerCycle := upd2 p i v (timerCycle n)\<rparr>) s"

text \<open>\<open>TSequenceItem_Timer::schedule\<close> for all eight, and the flag.\<close>

definition timer_schedule :: "nat \<Rightarrow> nat \<Rightarrow> 'io nds \<Rightarrow> 'io nds" where
  "timer_schedule p i s =
     (let e = (timerON (timers s) p i \<noteq> 0 \<and> timerMODE (timers s) p i \<noteq> 0xFFFF)
      in s\<lparr>sequencer := (sequencer s)\<lparr>seq_timer :=
           upd2 p i ((seq_timer (sequencer s) p i)\<lparr>ti_enabled := e\<rparr>) (seq_timer (sequencer s))\<rparr>\<rparr>)"

definition NDS_RescheduleTimers :: "'io nds \<Rightarrow> 'io nds" where
  "NDS_RescheduleTimers s =
     NDS_Reschedule (fold (\<lambda>(p, i). timer_schedule p i)
       [(0, 0), (0, 1), (0, 2), (0, 3), (1, 0), (1, 1), (1, 2), (1, 3)] s)"

definition read_timer :: "nat \<Rightarrow> nat \<Rightarrow> 'io nds \<Rightarrow> u16" where
  "read_timer p i s =
     (if timerMODE (timers s) p i = 0xFFFF then timer (timers s) p i
      else if timerON (timers s) p i = 0 then timer (timers s) p i
      else let diff = ucast (timerCycle (sysm s) p i - nds_timer s) :: u32;
               units = sint diff sdiv 2 ^ unat (timerMODE (timers s) p i)
           in if units = 65536 then 0 else if units > 65536 then 0
              else word_of_int (65535 - units))"

text \<open>
  \<open>remain << timerMODE\<close>: for a chained timer the amount is 65535, which C leaves undefined;
  \<open>c_shl\<close> gives 0, and the resulting time is not used.
\<close>

definition timer_period :: "u16 \<Rightarrow> u32 \<Rightarrow> u64" where
  "timer_period reload mode = scast (c_shl (65536 - ucast reload) mode)"

definition timer_prescaler :: "u16 \<Rightarrow> u32" where
  "timer_prescaler val =
     (let k = val AND 7 in if k = 0 then 0 + 1 else if k = 1 then 6 + 1 else if k = 2 then 8 + 1
      else if k = 3 then 10 + 1 else 0xFFFF)"

definition write_timer :: "nat \<Rightarrow> nat \<Rightarrow> u16 \<Rightarrow> 'io nds \<Rightarrow> 'io nds" where
  "write_timer p i val s =
     (let s = (if val AND 0x80 \<noteq> 0 then set_timer p i (timerReload (timers s) p i) s
               else if timerON (timers s) p i \<noteq> 0 then set_timer p i (read_timer p i s) s
               else s);
          s = upd_timers (\<lambda>t. t\<lparr>timerON := upd2 p i (ucast (val AND 0x80)) (timerON t)\<rparr>) s;
          s = upd_timers (\<lambda>t. t\<lparr>timerMODE := upd2 p i (timer_prescaler val) (timerMODE t)\<rparr>) s;
          s = set_timerCycle p i (nds_timer s +
                timer_period (timerReload (timers s) p i) (timerMODE (timers s) p i)) s;
          s = s\<lparr>mmu := upd_REG_PAGE p (\<lambda>m. T1WriteWord m (0x102 + of_nat i * 4) val) (mmu s)\<rparr>
      in NDS_RescheduleTimers s)"

section \<open>Overflow\<close>

definition timer_isTriggered :: "nat \<Rightarrow> nat \<Rightarrow> 'io nds \<Rightarrow> bool" where
  "timer_isTriggered p i s \<longleftrightarrow>
     ti_enabled (seq_timer (sequencer s) p i) \<and> nds_timer s \<ge> timerCycle (sysm s) p i"

partial_function (option) catch_up :: "u64 \<Rightarrow> u64 \<Rightarrow> u64 \<Rightarrow> u64 option" where
  "catch_up now period cycle =
     (if cycle \<le> now then catch_up now period (cycle + period) else Some cycle)"

definition IRQ_BIT_TIMER_0 :: nat where "IRQ_BIT_TIMER_0 = 3"

text \<open>The rest of the \<open>for\<close> loop from timer \<open>i\<close>; \<open>first\<close> is the local flag.\<close>

function timer_loop :: "nat \<Rightarrow> nat \<Rightarrow> bool \<Rightarrow> 'io nds \<Rightarrow> 'io nds option" where
  "timer_loop p i first s =
     (if i \<ge> 4 then Some s
      else if timerON (timers s) p i = 0 then Some s
      else do {
        r \<leftarrow> (if timerMODE (timers s) p i = 0xFFFF then
                (let s = set_timer p i (timer (timers s) p i + 1) s
                 in Some (Some (timer (timers s) p i = 0, first, s)))
              else if \<not> first then Some None
              else do {
                c \<leftarrow> catch_up (nds_timer s)
                      (timer_period (timerReload (timers s) p i) (timerMODE (timers s) p i))
                      (timerCycle (sysm s) p i);
                Some (Some (True, False, set_timerCycle p i c s)) });
        (case r of None \<Rightarrow> Some s
         | Some (over, first, s) \<Rightarrow>
             if over then
               (let s = set_timer p i (timerReload (timers s) p i) s;
                    s = (if T1ReadWord (REG_PAGE p (mmu s)) (0x102 + of_nat i * 4) AND 0x40 \<noteq> 0
                         then NDS_makeIrq p (IRQ_BIT_TIMER_0 + i) s else s)
                in timer_loop p (Suc i) first s)
             else Some s) })"
  by pat_completeness auto
termination by (relation "measure (\<lambda>(p, i, first, s). 4 - i)") auto

declare timer_loop.simps [simp del]

definition timer_exec :: "nat \<Rightarrow> nat \<Rightarrow> 'io nds \<Rightarrow> 'io nds option" where
  "timer_exec p num s = timer_loop p num True s"

section \<open>The next overflow\<close>

lemma catch_up_ends:
  assumes "0 < period" "unat now + unat period < 2 ^ 64"
  shows "\<exists>k. catch_up now period cycle = Some (cycle + of_nat k * period) \<and>
    unat (cycle + of_nat k * period) = unat cycle + k * unat period \<and>
    now < cycle + of_nat k * period \<and> (0 < k \<longrightarrow> cycle + of_nat k * period \<le> now + period)"
  using assms
proof (induction "2 ^ 64 - unat cycle" arbitrary: cycle rule: less_induct)
  case less
  show ?case
  proof (cases "cycle \<le> now")
    case False
    then show ?thesis
      by (intro exI [of _ 0]) (simp add: catch_up.simps)
  next
    case True
    have add: "unat (cycle + period) = unat cycle + unat period"
      using True less.prems by (intro unat_add_lem [THEN iffD1]) (simp add: word_le_nat_alt)
    have "0 < unat period" using less.prems(1) by (simp add: word_less_nat_alt)
    moreover have "unat cycle + unat period < 2 ^ 64" using True less.prems(2) by (simp add: word_le_nat_alt)
    ultimately have "\<exists>k. catch_up now period (cycle + period) = Some (cycle + period + of_nat k * period) \<and>
      unat (cycle + period + of_nat k * period) = unat (cycle + period) + k * unat period \<and>
      now < cycle + period + of_nat k * period \<and>
      (0 < k \<longrightarrow> cycle + period + of_nat k * period \<le> now + period)"
      using less.prems by (intro less.hyps) (simp_all add: add)
    then obtain k where k: "catch_up now period (cycle + period) = Some (cycle + period + of_nat k * period)"
      "unat (cycle + period + of_nat k * period) = unat (cycle + period) + k * unat period"
      "now < cycle + period + of_nat k * period"
      "0 < k \<longrightarrow> cycle + period + of_nat k * period \<le> now + period"
      by blast
    have e: "cycle + of_nat (Suc k) * period = cycle + period + of_nat k * period"
      by (simp add: algebra_simps)
    have le: "cycle + period \<le> now + period"
    proof -
      have "unat (now + period) = unat now + unat period"
        using less.prems(2) by (intro unat_add_lem [THEN iffD1]) simp
      then show ?thesis using True by (simp add: word_le_nat_alt add)
    qed
    show ?thesis
      by (rule exI [of _ "Suc k"], unfold e, subst catch_up.simps)
        (use True k add le in \<open>cases k; simp\<close>)
  qed
qed

section \<open>The cascade\<close>

definition timer_chained :: "nat \<Rightarrow> nat \<Rightarrow> 'io nds \<Rightarrow> bool" where
  "timer_chained p i s \<longleftrightarrow> timerON (timers s) p i \<noteq> 0 \<and> timerMODE (timers s) p i = 0xFFFF"

definition timer_irq :: "nat \<Rightarrow> nat \<Rightarrow> 'io nds \<Rightarrow> bool" where
  "timer_irq p i s \<longleftrightarrow> T1ReadWord (REG_PAGE p (mmu s)) (0x102 + of_nat i * 4) AND 0x40 \<noteq> 0"

text \<open>An overflow before timer \<open>j\<close> reaches timer \<open>k\<close>: the digits between are all at their end.\<close>

definition carry_reaches :: "nat \<Rightarrow> nat \<Rightarrow> nat \<Rightarrow> 'io nds \<Rightarrow> bool" where
  "carry_reaches p j k s \<longleftrightarrow> list_all (\<lambda>m. timer_chained p m s) [j..<Suc k] \<and>
     list_all (\<lambda>m. timer (timers s) p m = 0xFFFF) [j..<k]"

definition timer_tick :: "nat \<Rightarrow> nat \<Rightarrow> 'io nds \<Rightarrow> u16" where
  "timer_tick p k s = (if timer (timers s) p k = 0xFFFF then timerReload (timers s) p k
     else timer (timers s) p k + 1)"

text \<open>What neither the count nor an interrupt request touches.\<close>

definition timer_frame :: "'io nds \<Rightarrow> 'io nds \<Rightarrow> bool" where
  "timer_frame s s' \<longleftrightarrow> timerON (timers s') = timerON (timers s) \<and> timerMODE (timers s') = timerMODE (timers s) \<and>
     timerReload (timers s') = timerReload (timers s) \<and> nds_timer s' = nds_timer s \<and>
     (\<forall>p. REG_PAGE p (mmu s') = REG_PAGE p (mmu s)) \<and> sequencer s' = sequencer s"

lemma timer_step_simps [simp]:
  "timer (timers (set_timer p i v s)) = upd2 p i v (timer (timers s))"
  "sysm (set_timer p i v s) = sysm s" "mmu (set_timer p i v s) = mmu s"
  "nds_timer (set_timer p i v s) = nds_timer s"
  "timerON (timers (set_timer p i v s)) = timerON (timers s)"
  "timerMODE (timers (set_timer p i v s)) = timerMODE (timers s)"
  "timerReload (timers (set_timer p i v s)) = timerReload (timers s)"
  "timers (set_timerCycle p i c s) = timers s" "mmu (set_timerCycle p i c s) = mmu s"
  "nds_timer (set_timerCycle p i c s) = nds_timer s"
  "timerCycle (sysm (set_timerCycle p i c s)) = upd2 p i c (timerCycle (sysm s))"
  "timers (NDS_makeIrq p n s) = timers s" "sysm (NDS_makeIrq p n s) = sysm s"
  "nds_timer (NDS_makeIrq p n s) = nds_timer s"
  "REG_PAGE q (mmu (NDS_makeIrq p n s)) = REG_PAGE q (mmu s)"
  "sequencer (set_timer p i v s) = sequencer s" "sequencer (set_timerCycle p i c s) = sequencer s"
  "sequencer (NDS_makeIrq p n s) = sequencer s"
  by (simp_all add: set_timer_def set_timerCycle_def upd_timers_def upd_sysm_def NDS_makeIrq_def setIF_def
      NDS_Reschedule_def REG_PAGE_def)

lemma upd2_apply [simp]: "upd2 i j v f p q = (if p = i \<and> q = j then v else f p q)"
  by (simp add: upd2_def)

lemma bit_reg_IF [simp]:
  "bit (reg_IF_bits (mmu (NDS_makeIrq p n s)) q) m \<longleftrightarrow>
     bit (reg_IF_bits (mmu s) q) m \<or> q = p \<and> m = n \<and> n < 32"
  by (auto simp: NDS_makeIrq_def setIF_def NDS_Reschedule_def bit_or_iff bit_exp_iff)

text \<open>The state after a timer has wrapped: the reload value and the interrupt.\<close>

definition timer_wrap :: "nat \<Rightarrow> nat \<Rightarrow> 'io nds \<Rightarrow> 'io nds" where
  "timer_wrap p i s = (let s = set_timer p i (timerReload (timers s) p i) s in
     if timer_irq p i s then NDS_makeIrq p (IRQ_BIT_TIMER_0 + i) s else s)"

lemma timer_loop_chained:
  assumes "i < 4" "timer_chained p i s"
  shows "timer_loop p i first s =
    (if timer (timers s) p i = 0xFFFF then timer_loop p (Suc i) first (timer_wrap p i (set_timer p i (timer (timers s) p i + 1) s))
     else Some (set_timer p i (timer (timers s) p i + 1) s))"
proof -
  have w: "timer (timers s) p i + 1 = 0 \<longleftrightarrow> timer (timers s) p i = 0xFFFF"
  proof -
    have "(0xFFFF :: u16) = - 1" by simp
    then show ?thesis using eq_neg_iff_add_eq_0 [of "timer (timers s) p i" 1] by (simp only:)
  qed
  show ?thesis
    using assms w by (subst timer_loop.simps) (simp add: timer_chained_def timer_wrap_def timer_irq_def Let_def)
qed

lemma timer_loop_stops:
  "4 \<le> i \<or> \<not> timer_chained p i s \<Longrightarrow> timer_loop p i False s = Some s"
  by (subst timer_loop.simps) (auto simp: timer_chained_def)

lemma timer_wrap_simps:
  "timer (timers (timer_wrap p i s)) = upd2 p i (timerReload (timers s) p i) (timer (timers s))"
  "sysm (timer_wrap p i s) = sysm s" "timer_frame s (timer_wrap p i s)"
  "bit (reg_IF_bits (mmu (timer_wrap p i s)) q) m \<longleftrightarrow>
     bit (reg_IF_bits (mmu s) q) m \<or> q = p \<and> m = IRQ_BIT_TIMER_0 + i \<and> m < 32 \<and> timer_irq p i s"
  by (auto simp: timer_wrap_def Let_def timer_frame_def timer_irq_def)

lemma frame_views:
  assumes "timer_frame s s'"
  shows "timer_chained p i s' = timer_chained p i s" "timer_irq p i s' = timer_irq p i s"
    "timerReload (timers s') = timerReload (timers s)"
  using assms by (simp_all add: timer_frame_def timer_chained_def timer_irq_def)

lemma carry_reaches_start: "carry_reaches p j j s \<longleftrightarrow> timer_chained p j s"
  by (simp add: carry_reaches_def)

lemma carry_reaches_Suc:
  assumes "j < k"
  shows "carry_reaches p j k s \<longleftrightarrow>
    timer_chained p j s \<and> timer (timers s) p j = 0xFFFF \<and> carry_reaches p (Suc j) k s"
  using assms by (auto simp: carry_reaches_def upt_conv_Cons simp del: upt_Suc)

lemma carry_reaches_chained: "carry_reaches p j k s \<Longrightarrow> j \<le> k \<Longrightarrow> timer_chained p j s"
  by (simp add: carry_reaches_def upt_conv_Cons del: upt_Suc)

lemma carry_reaches_cong:
  assumes "\<And>m. j \<le> m \<Longrightarrow> timer (timers s') p m = timer (timers s) p m" "timer_frame s s'"
  shows "carry_reaches p j k s' = carry_reaches p j k s"
  using assms by (simp add: carry_reaches_def frame_views list_all_iff)

lemma timer_frame_trans: "timer_frame a b \<Longrightarrow> timer_frame b c \<Longrightarrow> timer_frame a c"
  by (simp add: timer_frame_def)

text \<open>The chain after a timer that has overflowed, as an odometer.\<close>

definition odometer :: "nat \<Rightarrow> nat \<Rightarrow> 'io nds \<Rightarrow> 'io nds \<Rightarrow> bool" where
  "odometer p j s s' \<longleftrightarrow>
     (\<forall>q k. timer (timers s') q k =
        (if q = p \<and> j \<le> k \<and> k < 4 \<and> carry_reaches p j k s then timer_tick p k s else timer (timers s) q k)) \<and>
     (\<forall>q n. bit (reg_IF_bits (mmu s') q) n \<longleftrightarrow> bit (reg_IF_bits (mmu s) q) n \<or>
        q = p \<and> (\<exists>k. j \<le> k \<and> k < 4 \<and> n = IRQ_BIT_TIMER_0 + k \<and> carry_reaches p j k s \<and>
          timer (timers s) p k = 0xFFFF \<and> timer_irq p k s))"

lemma odometer_wrap:
  assumes j: "j < 4" and ch: "timer_chained p j s" and wrap: "timer (timers s) p j = 0xFFFF"
    and fr: "timer_frame s s1"
    and t1: "timer (timers s1) = upd2 p j (timerReload (timers s) p j) (timer (timers s))"
    and irq1: "\<And>q n. bit (reg_IF_bits (mmu s1) q) n \<longleftrightarrow>
           bit (reg_IF_bits (mmu s) q) n \<or> q = p \<and> n = IRQ_BIT_TIMER_0 + j \<and> timer_irq p j s"
    and od: "odometer p (Suc j) s1 s'"
  shows "odometer p j s s'"
proof -
  have cs: "carry_reaches p (Suc j) k s1 \<longleftrightarrow> carry_reaches p j k s" if "Suc j \<le> k" for k
    using that ch wrap carry_reaches_Suc [of j k p s] carry_reaches_cong [OF _ fr, of "Suc j" p k]
    by (simp add: t1)
  have tk: "timer_tick p k s1 = timer_tick p k s" "timer (timers s1) p k = timer (timers s) p k" if "Suc j \<le> k" for k
    using that by (simp_all add: timer_tick_def t1 frame_views(3) [OF fr])
  have "timer (timers s') q k =
      (if q = p \<and> j \<le> k \<and> k < 4 \<and> carry_reaches p j k s then timer_tick p k s else timer (timers s) q k)" for q k
  proof (cases "Suc j \<le> k")
    case True
    then show ?thesis using od by (simp add: odometer_def cs tk) (simp add: t1)
  next
    case False
    then have "timer (timers s') q k = timer (timers s1) q k" using od by (simp add: odometer_def)
    then show ?thesis
      using False wrap ch j by (auto simp: t1 carry_reaches_start timer_tick_def)
  qed
  moreover have "bit (reg_IF_bits (mmu s') q) n \<longleftrightarrow> bit (reg_IF_bits (mmu s) q) n \<or>
    q = p \<and> (\<exists>k. j \<le> k \<and> k < 4 \<and> n = IRQ_BIT_TIMER_0 + k \<and> carry_reaches p j k s \<and>
      timer (timers s) p k = 0xFFFF \<and> timer_irq p k s)" (is "_ \<longleftrightarrow> _ \<or> q = p \<and> (\<exists>k. ?A k)") for q n
  proof -
    have "bit (reg_IF_bits (mmu s') q) n \<longleftrightarrow> bit (reg_IF_bits (mmu s1) q) n \<or>
        q = p \<and> (\<exists>k. Suc j \<le> k \<and> k < 4 \<and> n = IRQ_BIT_TIMER_0 + k \<and> carry_reaches p (Suc j) k s1 \<and>
          timer (timers s1) p k = 0xFFFF \<and> timer_irq p k s1)"
      using od by (simp only: odometer_def)
    also have "(\<exists>k. Suc j \<le> k \<and> k < 4 \<and> n = IRQ_BIT_TIMER_0 + k \<and> carry_reaches p (Suc j) k s1 \<and>
          timer (timers s1) p k = 0xFFFF \<and> timer_irq p k s1) \<longleftrightarrow> (\<exists>k. Suc j \<le> k \<and> ?A k)"
      using cs tk(2) frame_views(2) [OF fr] by (intro ex_cong1) auto
    finally show ?thesis
    proof (rule trans)
      have "(\<exists>k. ?A k) \<longleftrightarrow> n = IRQ_BIT_TIMER_0 + j \<and> timer_irq p j s \<or> (\<exists>k. Suc j \<le> k \<and> ?A k)"
      proof
        assume "\<exists>k. ?A k"
        then obtain k where "?A k" by blast
        then show "n = IRQ_BIT_TIMER_0 + j \<and> timer_irq p j s \<or> (\<exists>k. Suc j \<le> k \<and> ?A k)"
          by (cases "k = j") auto
      next
        assume "n = IRQ_BIT_TIMER_0 + j \<and> timer_irq p j s \<or> (\<exists>k. Suc j \<le> k \<and> ?A k)"
        then show "\<exists>k. ?A k"
          using j ch wrap carry_reaches_start [of p j s] by auto
      qed
      then show "bit (reg_IF_bits (mmu s1) q) n \<or> q = p \<and> (\<exists>k. Suc j \<le> k \<and> ?A k) \<longleftrightarrow>
          bit (reg_IF_bits (mmu s) q) n \<or> q = p \<and> (\<exists>k. ?A k)"
        unfolding irq1 by blast
    qed
  qed
  ultimately show ?thesis unfolding odometer_def by blast
qed

lemma timer_loop_odometer:
  "\<exists>s'. timer_loop p j False s = Some s' \<and> sysm s' = sysm s \<and> timer_frame s s' \<and> odometer p j s s'"
proof (induction "4 - j" arbitrary: j s)
  case 0
  then show ?case
    by (intro exI [of _ s]) (auto simp: timer_loop_stops timer_frame_def odometer_def)
next
  case (Suc d)
  then have j: "j < 4" "d = 4 - Suc j" by simp_all
  show ?case
  proof (cases "timer_chained p j s")
    case False
    then have "\<not> carry_reaches p j k s" if "j \<le> k" for k
      using that carry_reaches_chained by blast
    then show ?thesis using False
      by (intro exI [of _ s]) (auto simp: timer_loop_stops timer_frame_def odometer_def)
  next
    case True
    show ?thesis
    proof (cases "timer (timers s) p j = 0xFFFF")
      case False
      then have "carry_reaches p j k s \<longleftrightarrow> k = j" if "j \<le> k" for k
        using that True carry_reaches_start [of p j s] carry_reaches_Suc [of j k p s] by (cases "k = j") auto
      then show ?thesis using True False j
        by (intro exI [of _ "set_timer p j (timer (timers s) p j + 1) s"])
          (auto simp: timer_loop_chained timer_frame_def odometer_def timer_tick_def)
    next
      case wrap: True
      define s1 where "s1 = timer_wrap p j (set_timer p j (timer (timers s) p j + 1) s)"
      have fr: "timer_frame s s1"
        using timer_wrap_simps(3) [of "set_timer p j (timer (timers s) p j + 1) s" p j]
        by (simp add: s1_def timer_frame_def)
      have v1: "timer (timers s1) = upd2 p j (timerReload (timers s) p j) (timer (timers s))" "sysm s1 = sysm s"
        "bit (reg_IF_bits (mmu s1) q) n \<longleftrightarrow>
           bit (reg_IF_bits (mmu s) q) n \<or> q = p \<and> n = IRQ_BIT_TIMER_0 + j \<and> timer_irq p j s" for q n
        using j(1) by (auto simp: s1_def timer_wrap_simps upd2_def timer_irq_def IRQ_BIT_TIMER_0_def)
      obtain s' where s': "timer_loop p (Suc j) False s1 = Some s'" "sysm s' = sysm s1" "timer_frame s1 s'"
        "odometer p (Suc j) s1 s'"
        using Suc.hyps(1) [OF j(2), of s1] by blast
      have "odometer p j s s'" by (rule odometer_wrap [OF j(1) True wrap fr v1(1,3) s'(4)])
      moreover have "timer_loop p j False s = Some s'"
        using trans [OF timer_loop_chained [OF j(1) True, of False] if_P [OF wrap]] s'(1)
        by (simp only: s1_def)
      ultimately show ?thesis using s'(2,3) fr v1(2)
        by (intro exI [of _ s']) (auto intro: timer_frame_trans)
    qed
  qed
qed

section \<open>The timers as counters\<close>

text \<open>The modes \<open>write_timer\<close> leaves, and the 0 of a reset.\<close>

definition timer_modes_ok :: "'io nds \<Rightarrow> bool" where
  "timer_modes_ok s \<longleftrightarrow> (\<forall>p i. timerMODE (timers s) p i \<le> 11 \<or> timerMODE (timers s) p i = 0xFFFF)"

lemma unat_of_nat_small64: "n \<le> 2 ^ 27 \<Longrightarrow> unat (of_nat n :: u64) = n"
  by (simp add: unat_of_nat take_bit_nat_eq_self)

lemma timer_period_value:
  assumes "mode \<le> 11"
  shows "unat (timer_period reload mode) = (65536 - unat reload) * 2 ^ unat mode"
    "unat (timer_period reload mode) \<le> 2 ^ 27" "0 < timer_period reload mode"
proof -
  let ?A = "65536 - ucast reload :: u32" and ?n = "unat mode"
  have r: "unat reload < 65536" using unsigned_less [of reload] by simp
  have n: "?n \<le> 11" using assms by (simp add: word_le_nat_alt)
  have u: "unat (ucast reload :: u32) = unat reload"
    using r by (simp add: unsigned_ucast_eq take_bit_nat_eq_self)
  have A: "unat ?A = 65536 - unat reload"
    using r u by (subst unat_sub) (simp_all add: word_le_nat_alt)
  have "(2 :: nat) ^ ?n \<le> 2 ^ 11" using n by (intro power_increasing) simp_all
  then have "(65536 - unat reload) * 2 ^ ?n \<le> 65536 * 2 ^ 11" by (intro mult_le_mono) simp_all
  then have le: "(65536 - unat reload) * 2 ^ ?n \<le> 2 ^ 27" by simp
  have s: "unat (push_bit ?n ?A) = (65536 - unat reload) * 2 ^ ?n"
  proof -
    have "unat (push_bit ?n ?A) = take_bit 32 (push_bit ?n (unat ?A))"
      by (simp only: unsigned_push_bit_eq) simp
    also have "push_bit ?n (unat ?A) = (65536 - unat reload) * 2 ^ ?n"
      by (simp only: push_bit_eq_mult A)
    finally show ?thesis using le by (simp add: take_bit_nat_eq_self)
  qed
  let ?x = "push_bit ?n ?A"
  have "sint ?x = int (unat ?x)"
  proof -
    have "unat ?x < 2 ^ 31" using s le by simp
    then have "int (unat ?x) < int (2 ^ 31)" by (simp only: of_nat_less_iff)
    then have "uint ?x < 2 ^ 31" by simp
    then have "signed_take_bit 31 (uint ?x) = uint ?x"
      by (intro signed_take_bit_int_eq_self) (use uint_ge_0 [of ?x] in linarith, simp)
    then show ?thesis by (simp add: sint_uint)
  qed
  then have "timer_period reload mode = of_nat (unat ?x)"
    by (simp only: timer_period_def c_shl_def scast_eq) simp
  then have v: "unat (timer_period reload mode) = (65536 - unat reload) * 2 ^ ?n"
    using s le by (simp only: unat_of_nat_small64)
  then show "unat (timer_period reload mode) = (65536 - unat reload) * 2 ^ ?n"
    "unat (timer_period reload mode) \<le> 2 ^ 27" using le by simp_all
  have "0 < (65536 - unat reload) * 2 ^ ?n" using r by simp
  then show "0 < timer_period reload mode" using v by (simp add: word_less_nat_alt)
qed

text \<open>C13: The overflow event of a running, unchained timer terminates for any reload value and
  advances its next overflow by whole periods until it lies in the future (at most one period
  when the event was due); the timer restarts at its reload value, each chained timer after it
  counts once exactly when all between were at their end, wrapping to its own reload value,
  and exactly the timers that wrap with interrupts enabled request theirs.\<close>

theorem timer_overflow:
  fixes s :: "'io nds"
  assumes "i < 4" "timer_modes_ok s" "timerON (timers s) p i \<noteq> 0" "timerMODE (timers s) p i \<noteq> 0xFFFF"
    and "unat (nds_timer s) < 2 ^ 63"
  defines "w \<equiv> timer_period (timerReload (timers s) p i) (timerMODE (timers s) p i)"
  shows "\<exists>s' k. timer_exec p i s = Some s' \<and>
    (\<forall>q j. timerCycle (sysm s') q j = timerCycle (sysm s) q j + (if q = p \<and> j = i then of_nat k * w else 0)) \<and>
    nds_timer s < timerCycle (sysm s') p i \<and> (timer_isTriggered p i s \<longrightarrow> timerCycle (sysm s') p i \<le> nds_timer s + w) \<and>
    timer (timers s') p i = timerReload (timers s) p i \<and>
    (\<forall>j. i < j \<and> j < 4 \<longrightarrow> timer (timers s') p j =
       (if carry_reaches p (Suc i) j s then timer_tick p j s else timer (timers s) p j)) \<and>
    (\<forall>n. bit (reg_IF_bits (mmu s') p) n \<longleftrightarrow> bit (reg_IF_bits (mmu s) p) n \<or>
       n = IRQ_BIT_TIMER_0 + i \<and> timer_irq p i s \<or>
       (\<exists>j. i < j \<and> j < 4 \<and> n = IRQ_BIT_TIMER_0 + j \<and> carry_reaches p (Suc i) j s \<and>
          timer (timers s) p j = 0xFFFF \<and> timer_irq p j s))"
proof -
  have m: "timerMODE (timers s) p i \<le> 11" using assms(2,4) by (auto simp: timer_modes_ok_def)
  have w: "0 < w" "unat (nds_timer s) + unat w < 2 ^ 64"
    using timer_period_value [OF m, of "timerReload (timers s) p i"] assms(5) by (simp_all add: w_def)
  obtain k where k: "catch_up (nds_timer s) w (timerCycle (sysm s) p i) = Some (timerCycle (sysm s) p i + of_nat k * w)"
    "nds_timer s < timerCycle (sysm s) p i + of_nat k * w"
    "0 < k \<longrightarrow> timerCycle (sysm s) p i + of_nat k * w \<le> nds_timer s + w"
    using catch_up_ends [OF w, of "timerCycle (sysm s) p i"] by blast
  define s0 where "s0 = set_timerCycle p i (timerCycle (sysm s) p i + of_nat k * w) s"
  define s1 where "s1 = timer_wrap p i s0"
  have step: "timer_exec p i s = timer_loop p (Suc i) False s1"
    unfolding timer_exec_def
    by (subst timer_loop.simps)
      (use assms(1,3,4) k(1) in \<open>simp add: w_def [symmetric] s1_def s0_def timer_wrap_def timer_irq_def Let_def\<close>)
  have fr: "timer_frame s s1"
    using timer_wrap_simps(3) [of s0 p i] by (simp add: s1_def s0_def timer_frame_def)
  have v1: "timer (timers s1) = upd2 p i (timerReload (timers s) p i) (timer (timers s))"
    "timerCycle (sysm s1) = upd2 p i (timerCycle (sysm s) p i + of_nat k * w) (timerCycle (sysm s))"
    "bit (reg_IF_bits (mmu s1) p) n \<longleftrightarrow> bit (reg_IF_bits (mmu s) p) n \<or> n = IRQ_BIT_TIMER_0 + i \<and> timer_irq p i s" for n
    using assms(1) by (auto simp: s1_def s0_def timer_wrap_simps timer_irq_def IRQ_BIT_TIMER_0_def)
  obtain s' where s': "timer_loop p (Suc i) False s1 = Some s'" "sysm s' = sysm s1" "odometer p (Suc i) s1 s'"
    using timer_loop_odometer by blast
  have c: "carry_reaches p (Suc i) j s1 = carry_reaches p (Suc i) j s" for j
    by (rule carry_reaches_cong [OF _ fr]) (simp add: v1)
  have tk: "timer_tick p j s1 = timer_tick p j s" "timer (timers s1) p j = timer (timers s) p j" if "i < j" for j
    using that by (simp_all add: timer_tick_def v1 frame_views(3) [OF fr])
  have trig: "timer_isTriggered p i s \<Longrightarrow> 0 < k"
    using k(2) by (cases k) (auto simp: timer_isTriggered_def)
  have t: "timer (timers s') p j =
      (if i < j \<and> j < 4 \<and> carry_reaches p (Suc i) j s then timer_tick p j s else timer (timers s1) p j)" for j
    using s'(3) by (auto simp: odometer_def c tk Suc_le_eq)
  have b: "bit (reg_IF_bits (mmu s') p) n \<longleftrightarrow> bit (reg_IF_bits (mmu s1) p) n \<or>
      (\<exists>j. i < j \<and> j < 4 \<and> n = IRQ_BIT_TIMER_0 + j \<and> carry_reaches p (Suc i) j s \<and>
          timer (timers s) p j = 0xFFFF \<and> timer_irq p j s)" for n
    using s'(3) tk by (auto simp: odometer_def c Suc_le_eq frame_views(2) [OF fr])
  show ?thesis
    by (intro exI [of _ s'] exI [of _ k])
      (use step s'(1,2) k(2,3) trig t b in \<open>auto simp: v1\<close>)
qed

lemma timer_schedule_frame [simp]:
  "timers (timer_schedule p i s) = timers s" "sysm (timer_schedule p i s) = sysm s"
  "nds_timer (timer_schedule p i s) = nds_timer s" "mmu (timer_schedule p i s) = mmu s"
  by (simp_all add: timer_schedule_def Let_def)

lemma reschedule_timers_frame [simp]:
  "timers (NDS_RescheduleTimers s) = timers s" "sysm (NDS_RescheduleTimers s) = sysm s"
  "nds_timer (NDS_RescheduleTimers s) = nds_timer s" "mmu (NDS_RescheduleTimers s) = mmu s"
  by (simp_all add: NDS_RescheduleTimers_def NDS_Reschedule_def)

lemma div_from_end:
  assumes "0 < b" "d \<le> a * b"
  shows "(a * b - d) div b + d div b + of_bool (\<not> b dvd d) = (a :: nat)"
proof (cases "b dvd d")
  case True
  then obtain k where "d = b * k" by blast
  then show ?thesis using assms by (simp add: mult.commute [of a] diff_mult_distrib2 [symmetric])
next
  case False
  define q r where "q = d div b" and "r = d mod b"
  have d: "d = q * b + r" "r < b" "0 < r"
    using False assms(1) by (simp_all add: q_def r_def mod_greater_zero_iff_not_dvd)
  then have "q * b < a * b" using assms(2) by linarith
  then have "q < a" by simp
  then obtain c where c: "a = q + c + 1" by (metis less_natE Suc_eq_plus1)
  have "a * b - d = c * b + (b - r)" using d by (simp add: c add_mult_distrib)
  moreover have "(c * b + (b - r)) div b = c"
    by (rule div_nat_eqI) (use d assms(1) in \<open>simp_all add: mult.commute\<close>)
  ultimately show ?thesis using False c by (simp add: q_def [symmetric])
qed

lemma sdiv_int: "int n sdiv 2 ^ m = int (n div 2 ^ m)"
  by (simp add: signed_divide_int_def sgn_if zdiv_int)

lemma ucast_of_nat_small64: "n < 2 ^ 32 \<Longrightarrow> ucast (of_nat n :: u64) = (of_nat n :: u32)"
  by (simp add: word_unat_eq_iff unsigned_ucast_eq unat_of_nat take_bit_nat_eq_self)

lemma sint_of_nat_small: "n < 2 ^ 31 \<Longrightarrow> sint (of_nat n :: u32) = int n"
proof -
  assume "n < 2 ^ 31"
  then have "signed_take_bit 31 (int n) = int n" by (intro signed_take_bit_int_eq_self) simp_all
  then show ?thesis by (simp add: signed_of_nat)
qed

text \<open>C16: Within its first period a timer started with a reload value reads that value plus the
  elapsed cycles divided by its prescaler, except at the exact cycle of a tick, where it still
  reads one less.\<close>

theorem timer_counts:
  fixes s :: "'io nds" and p i :: nat
  assumes "val AND 0x80 \<noteq> 0" "unat (val AND 7) < 4"
  defines "r \<equiv> unat (timerReload (timers s) p i)" and "m \<equiv> [1, 7, 9, 11 :: nat] ! unat (val AND 7)"
  assumes "d \<le> (65536 - r) * 2 ^ m"
  shows "unat (read_timer p i ((write_timer p i val s)\<lparr>nds_timer := nds_timer s + of_nat d\<rparr>)) =
    r + d div 2 ^ m - of_bool (2 ^ m dvd d)"
proof -
  let ?s = "(write_timer p i val s)\<lparr>nds_timer := nds_timer s + of_nat d\<rparr>"
  let ?P = "(65536 - r) * 2 ^ m" and ?w = "timer_period (timerReload (timers s) p i) (timer_prescaler val)"
  have k: "unat (val AND 7) = 0 \<or> unat (val AND 7) = 1 \<or> unat (val AND 7) = 2 \<or> unat (val AND 7) = 3"
    using assms(2) by linarith
  have eq: "val AND 7 = x \<longleftrightarrow> unat (val AND 7) = unat x" for x by (simp add: word_unat_eq_iff)
  have mode: "unat (timer_prescaler val) = m" "timer_prescaler val \<le> 11" "timer_prescaler val \<noteq> 0xFFFF"
    using k by (auto simp: timer_prescaler_def Let_def eq m_def)
  have w: "unat ?w = ?P" "?P \<le> 2 ^ 27"
    using timer_period_value(1,2) [OF mode(2), of "timerReload (timers s) p i"] by (simp_all add: mode(1) r_def)
  have st: "timerMODE (timers ?s) p i = timer_prescaler val" "timerON (timers ?s) p i = ucast (val AND 0x80)"
    "timerCycle (sysm ?s) p i - nds_timer ?s = ?w - of_nat d"
    using assms(1) by (simp_all add: write_timer_def Let_def upd_timers_def upd_sysm_def set_timer_def set_timerCycle_def)
  have on: "(ucast (val AND 0x80) :: u32) \<noteq> 0"
  proof -
    have "(ucast (ucast (val AND 0x80) :: u32) :: u16) = val AND 0x80"
      by (rule bit_word_eqI) (simp add: bit_ucast_iff)
    then show ?thesis using assms(1) by auto
  qed
  have diff: "?w - of_nat d = of_nat (?P - d)"
    using w(1) assms(5) by (metis of_nat_diff of_nat_unat ucast_id)
  have lt: "?P - d < 2 ^ 31" using w(2) by simp
  have "ucast (?w - of_nat d) = (of_nat (?P - d) :: u32)"
    unfolding diff by (rule ucast_of_nat_small64) (use lt in simp)
  then have "sint (ucast (?w - of_nat d) :: u32) = int (?P - d)"
    using lt by (simp only: sint_of_nat_small)
  then have units: "sint (ucast (?w - of_nat d) :: u32) sdiv 2 ^ m = int ((?P - d) div 2 ^ m)"
    by (simp only: sdiv_int)
  have e: "(?P - d) div 2 ^ m + d div 2 ^ m + of_bool (\<not> 2 ^ m dvd d) = 65536 - r"
    using div_from_end [OF _ assms(5)] by simp
  define u where "u = (?P - d) div 2 ^ m"
  have e: "u + d div 2 ^ m + of_bool (\<not> 2 ^ m dvd d) = 65536 - r" using e by (simp only: u_def)
  have r: "r < 65536" using unsigned_less [of "timerReload (timers s) p i"] by (simp add: r_def)
  have rd: "read_timer p i ?s = (if u \<ge> 65536 then 0 else word_of_int (65535 - int u))"
    using e unfolding read_timer_def st Let_def mode(1) units u_def [symmetric] by (auto simp: on mode(3))
  show ?thesis
  proof (cases "u \<ge> 65536")
    case True
    then have "r = 0" "d div 2 ^ m = 0" "2 ^ m dvd d" using e r by (cases "2 ^ m dvd d"; simp)+
    then show ?thesis using True by (simp add: rd)
  next
    case False
    then have "65535 - int u = int (65535 - u)" by linarith
    then have "read_timer p i ?s = of_nat (65535 - u)"
      using False by (simp only: rd if_False of_int_of_nat_eq)
    moreover have "unat (of_nat (65535 - u) :: u16) = 65535 - u"
      by (simp add: unat_of_nat take_bit_nat_eq_self)
    ultimately have "unat (read_timer p i ?s) = 65535 - u" by (simp only:)
    moreover have "65535 - u = r + d div 2 ^ m - of_bool (2 ^ m dvd d)"
      using e r False by (cases "2 ^ m dvd d") simp_all
    ultimately show ?thesis by (simp only:)
  qed
qed

theorem timer_counts_witness:
  "unat (read_timer 0 1 ((write_timer 0 1 0x81 (zero_nds\<lparr>timers := zero_timers\<lparr>timerReload := (\<lambda>_ _. 0xFF00)\<rparr>\<rparr>))
     \<lparr>nds_timer := 1000\<rparr>)) = 0xFF07"
  using timer_counts [where val = "0x81" and s = "zero_nds\<lparr>timers := zero_timers\<lparr>timerReload := (\<lambda>_ _. 0xFF00)\<rparr>\<rparr>"
      and p = 0 and i = 1 and d = 1000]
  by (simp add: zero_nds_def)

text \<open>Timer 0 has just overflowed; timers 1 and 2 are chained, timer 1 at its end.\<close>

definition timer_sample :: "unit nds" where
  "timer_sample = zero_nds\<lparr>nds_timer := 5, timers := \<lparr>timer = (\<lambda>_ i. if i = 1 then 0xFFFF else 7),
     timerReload = (\<lambda>_ _. 0xFFFE), timerMODE = (\<lambda>_ i. if i = 0 then 1 else 0xFFFF), timerON = (\<lambda>_ _. 0x80)\<rparr>\<rparr>"

theorem timer_overflow_witness:
  "\<exists>s'. timer_exec 0 0 timer_sample = Some s' \<and> 5 < timerCycle (sysm s') 0 0 \<and>
    timer (timers s') 0 0 = 0xFFFE \<and> timer (timers s') 0 1 = 0xFFFE \<and> timer (timers s') 0 2 = 8 \<and> timer (timers s') 0 3 = 7"
proof -
  have v: "timer (timers timer_sample) 0 1 = 0xFFFF" "timer (timers timer_sample) 0 2 = 7"
    "timer (timers timer_sample) 0 3 = 7" "timerReload (timers timer_sample) 0 k = 0xFFFE"
    "timer_chained 0 (Suc k) timer_sample" "nds_timer timer_sample = 5"
    "timerON (timers timer_sample) 0 0 \<noteq> 0" "timerMODE (timers timer_sample) 0 0 \<noteq> 0xFFFF" for k
    by (simp_all add: timer_sample_def timer_chained_def)
  have ok: "timer_modes_ok timer_sample" by (simp add: timer_modes_ok_def timer_sample_def)
  have c: "carry_reaches 0 (Suc 0) 1 timer_sample" "carry_reaches 0 (Suc 0) 2 timer_sample" "\<not> carry_reaches 0 (Suc 0) 3 timer_sample"
    by (simp_all add: carry_reaches_def upt_rec timer_sample_def timer_chained_def)
  obtain s' where s': "timer_exec 0 0 timer_sample = Some s'" "nds_timer timer_sample < timerCycle (sysm s') 0 0"
    "timer (timers s') 0 0 = timerReload (timers timer_sample) 0 0"
    "\<And>j. 0 < j \<Longrightarrow> j < 4 \<Longrightarrow> timer (timers s') 0 j = (if carry_reaches 0 (Suc 0) j timer_sample
       then timer_tick 0 j timer_sample else timer (timers timer_sample) 0 j)"
    using timer_overflow [OF _ ok v(7,8)] v(6) by force
  show ?thesis
    using s'(1-3) s'(4) [of 1] s'(4) [of 2] s'(4) [of 3] c
    by (intro exI [of _ s']) (simp add: v(1) [unfolded One_nat_def] v(4,6) timer_tick_def v(2,3))
qed

end
