(* ===== verification/Dma.thy ===== *)
theory Dma
  imports Fifo
begin

text \<open>
  The DMA engine: \<open>DmaController\<close> of src/source/MMU.h and src/source/MMU.cpp, with the
  register access of \<open>TRegister_32\<close>.  A transfer copies all its data when it is triggered
  and schedules its own end, at which \<open>exec\<close> runs again and stops it.  The copy goes
  through the processor's bus, so it may reach any register.

  \<open>dma_startmode_bits\<close> is the field \<open>_startmode\<close>, the mode as written;
  \<open>dma_startmode\<close> is latched from it when a transfer begins.
\<close>

section \<open>Registers\<close>

text \<open>\<open>TRegister_32\<close>: the value a write of a given width puts in the register.\<close>

definition treg_write :: "nat \<Rightarrow> u32 \<Rightarrow> u32 \<Rightarrow> u32 \<Rightarrow> u32 option" where
  "treg_write bits adr val old =
     (if bits = 32 then Some val
      else let offset = adr AND 3 in
        if bits = 8 then (let m = c_shl 0xFF (c_shl offset 3) in Some ((old AND NOT m) OR c_shl val (c_shl offset 3)))
        else if bits = 16 then (let m = c_shl 0xFFFF (c_shl offset 3) in Some ((old AND NOT m) OR c_shl val (c_shl offset 3)))
        else None)"

definition treg_read :: "nat \<Rightarrow> u32 \<Rightarrow> u32 \<Rightarrow> u32" where
  "treg_read bits adr v =
     (if bits = 32 then v
      else let offset = adr AND 3 in
        if bits = 8 then c_shr v (c_shl offset 3) AND 0xFF else c_shr v (c_shl offset 3) AND 0xFFFF)"

definition EDMASourceUpdate_of :: "u32 \<Rightarrow> EDMASourceUpdate" where
  "EDMASourceUpdate_of k = (if k = 0 then EDMASourceUpdate_Increment else if k = 1 then EDMASourceUpdate_Decrement
     else if k = 2 then EDMASourceUpdate_Fixed else EDMASourceUpdate_Invalid)"

definition EDMADestinationUpdate_of :: "u32 \<Rightarrow> EDMADestinationUpdate" where
  "EDMADestinationUpdate_of k = (if k = 0 then EDMADestinationUpdate_Increment
     else if k = 1 then EDMADestinationUpdate_Decrement
     else if k = 2 then EDMADestinationUpdate_Fixed else EDMADestinationUpdate_IncrementReload)"

definition EDMABitWidth_of :: "u32 \<Rightarrow> EDMABitWidth" where
  "EDMABitWidth_of k = (if k = 0 then EDMABitWidth_16 else EDMABitWidth_32)"

definition EDMAMode_of :: "u8 \<Rightarrow> EDMAMode" where
  "EDMAMode_of k = (if k = 0 then EDMAMode_Immediate else if k = 1 then EDMAMode_VBlank
     else if k = 2 then EDMAMode_HBlank else if k = 3 then EDMAMode_HStart
     else if k = 4 then EDMAMode_MemDisplay else if k = 5 then EDMAMode_Card
     else if k = 6 then EDMAMode_GBASlot else EDMAMode_GXFifo)"

primrec EDMASourceUpdate_val :: "EDMASourceUpdate \<Rightarrow> u32" where
  "EDMASourceUpdate_val EDMASourceUpdate_Increment = 0"
| "EDMASourceUpdate_val EDMASourceUpdate_Decrement = 1"
| "EDMASourceUpdate_val EDMASourceUpdate_Fixed = 2"
| "EDMASourceUpdate_val EDMASourceUpdate_Invalid = 3"

primrec EDMADestinationUpdate_val :: "EDMADestinationUpdate \<Rightarrow> u32" where
  "EDMADestinationUpdate_val EDMADestinationUpdate_Increment = 0"
| "EDMADestinationUpdate_val EDMADestinationUpdate_Decrement = 1"
| "EDMADestinationUpdate_val EDMADestinationUpdate_Fixed = 2"
| "EDMADestinationUpdate_val EDMADestinationUpdate_IncrementReload = 3"

primrec EDMABitWidth_val :: "EDMABitWidth \<Rightarrow> u32" where
  "EDMABitWidth_val EDMABitWidth_16 = 0" | "EDMABitWidth_val EDMABitWidth_32 = 1"

definition dma_read32 :: "dma_controller \<Rightarrow> u32" where
  "dma_read32 d = push_bit 31 (ucast (dma_enable d)) OR push_bit 30 (ucast (dma_irq d)) OR
     push_bit 27 (ucast (dma_startmode_bits d)) OR push_bit 26 (EDMABitWidth_val (dma_bitWidth d)) OR
     push_bit 25 (ucast (dma_repeatMode d)) OR push_bit 23 (EDMASourceUpdate_val (dma_sar d)) OR
     push_bit 21 (EDMADestinationUpdate_val (dma_dar d)) OR dma_wordcount d"

definition dma_latch :: "nat \<Rightarrow> u32 \<Rightarrow> dma_controller \<Rightarrow> dma_controller" where
  "dma_latch p val d =
     (let valhi = drop_bit 16 val;
          wasEnable = dma_enable d;
          sm = ucast (drop_bit 11 valhi AND 7);
          d = d\<lparr>dma_wordcount := val AND 0x1FFFFF,
                dma_dar := EDMADestinationUpdate_of (drop_bit 5 valhi AND 3),
                dma_sar := EDMASourceUpdate_of (drop_bit 7 valhi AND 3),
                dma_repeatMode := ucast (BIT_N valhi 9),
                dma_bitWidth := EDMABitWidth_of (BIT_N valhi 10),
                dma_startmode_bits := (if p = ARMCPU_ARM7 then sm AND 6 else sm),
                dma_irq := ucast (BIT_N valhi 14), dma_enable := ucast (BIT_N valhi 15)\<rparr>;
          d = (if wasEnable = 0 \<and> dma_enable d \<noteq> 0 then d\<lparr>dma_triggered := False\<rparr> else d)
      in if dma_enable d \<noteq> 0 then d\<lparr>dma_saddr := dma_saddr_user d, dma_daddr := dma_daddr_user d\<rparr> else d)"

definition dma_write32 :: "nat \<Rightarrow> nat \<Rightarrow> u32 \<Rightarrow> 'io nds \<Rightarrow> 'io nds" where
  "dma_write32 p ch val s =
     (let wasEnable = dma_enable (dma s p ch);
          s = upd_dma p ch (dma_latch p val) s;
          startmode = dma_startmode (dma s p ch)
      in if startmode \<noteq> EDMAMode_Immediate \<and> startmode \<noteq> EDMAMode_GXFifo \<and> wasEnable \<noteq> 0 then s
         else dma_doSchedule p ch s)"

definition REG_DMA_CONTROL_MIN :: u32 where "REG_DMA_CONTROL_MIN = 0x040000B0"
definition REG_DMA_CONTROL_MAX :: u32 where "REG_DMA_CONTROL_MAX = 0x040000DF"

definition is_dma :: "u32 \<Rightarrow> bool" where
  "is_dma adr \<longleftrightarrow> adr \<ge> REG_DMA_CONTROL_MIN \<and> adr \<le> REG_DMA_CONTROL_MAX"

text \<open>\<open>sad\<close>, \<open>dad\<close> and \<open>ctrl\<close> are the registers 0, 1 and 2 of a channel.\<close>

definition write_dma :: "nat \<Rightarrow> nat \<Rightarrow> u32 \<Rightarrow> u32 \<Rightarrow> 'io nds \<Rightarrow> 'io nds" where
  "write_dma p bits ad val s =
     (let adr = ad - REG_DMA_CONTROL_MIN; chan = adr div 12; regnum = drop_bit 2 (adr - chan * 12);
          ch = unat chan; d = dma s p ch
      in if regnum = 0 then (case treg_write bits adr val (dma_saddr_user d) of None \<Rightarrow> s
           | Some v \<Rightarrow> upd_dma p ch (\<lambda>d. d\<lparr>dma_saddr_user := v\<rparr>) s)
         else if regnum = 1 then (case treg_write bits adr val (dma_daddr_user d) of None \<Rightarrow> s
           | Some v \<Rightarrow> upd_dma p ch (\<lambda>d. d\<lparr>dma_daddr_user := v\<rparr>) s)
         else (case treg_write bits adr val (dma_read32 d) of None \<Rightarrow> s | Some v \<Rightarrow> dma_write32 p ch v s))"

definition read_dma :: "nat \<Rightarrow> nat \<Rightarrow> u32 \<Rightarrow> 'io nds \<Rightarrow> u32" where
  "read_dma p bits ad s =
     (let adr = ad - REG_DMA_CONTROL_MIN; chan = adr div 12; regnum = drop_bit 2 (adr - chan * 12);
          d = dma s p (unat chan)
      in treg_read bits adr (if regnum = 0 then dma_saddr_user d else if regnum = 1 then dma_daddr_user d
           else dma_read32 d))"

section \<open>Transfers\<close>

fun dma_loop32 :: "'io bus \<Rightarrow> nat \<Rightarrow> nat \<Rightarrow> u32 \<Rightarrow> u32 \<Rightarrow> u32 \<Rightarrow> u32 \<Rightarrow> u32 \<Rightarrow> 'io nds \<Rightarrow>
    u32 \<times> u32 \<times> u32 \<times> 'io nds" where
  "dma_loop32 B p 0 src dst srcinc dstinc time s = (src, dst, time, s)"
| "dma_loop32 B p (Suc n) src dst srcinc dstinc time s =
     (let time = time + MMU_accesstime p MMU_AT_DMA 32 MMU_AD_READ src True;
          time = time + MMU_accesstime p MMU_AT_DMA 32 MMU_AD_WRITE dst True;
          (temp, s) = mmu_read32 B p MMU_AT_DMA src s;
          s = mmu_write32 B p MMU_AT_DMA dst temp s
      in dma_loop32 B p n (src + srcinc) (dst + dstinc) srcinc dstinc time s)"

fun dma_loop16 :: "'io bus \<Rightarrow> nat \<Rightarrow> nat \<Rightarrow> u32 \<Rightarrow> u32 \<Rightarrow> u32 \<Rightarrow> u32 \<Rightarrow> u32 \<Rightarrow> 'io nds \<Rightarrow>
    u32 \<times> u32 \<times> u32 \<times> 'io nds" where
  "dma_loop16 B p 0 src dst srcinc dstinc time s = (src, dst, time, s)"
| "dma_loop16 B p (Suc n) src dst srcinc dstinc time s =
     (let time = time + MMU_accesstime p MMU_AT_DMA 16 MMU_AD_READ src True;
          time = time + MMU_accesstime p MMU_AT_DMA 16 MMU_AD_WRITE dst True;
          (temp, s) = mmu_read16 B p MMU_AT_DMA src s;
          s = mmu_write16 B p MMU_AT_DMA dst temp s
      in dma_loop16 B p n (src + srcinc) (dst + dstinc) srcinc dstinc time s)"

definition dma_dstinc :: "EDMADestinationUpdate \<Rightarrow> u32 \<Rightarrow> u32" where
  "dma_dstinc dar sz = (case dar of EDMADestinationUpdate_Increment \<Rightarrow> sz | EDMADestinationUpdate_Decrement \<Rightarrow> - sz
     | EDMADestinationUpdate_Fixed \<Rightarrow> 0 | EDMADestinationUpdate_IncrementReload \<Rightarrow> sz)"

text \<open>The increment of an invalid source mode stays 0.\<close>

definition dma_srcinc :: "EDMASourceUpdate \<Rightarrow> u32 \<Rightarrow> u32" where
  "dma_srcinc sar sz = (case sar of EDMASourceUpdate_Increment \<Rightarrow> sz | EDMASourceUpdate_Decrement \<Rightarrow> - sz
     | EDMASourceUpdate_Fixed \<Rightarrow> 0 | EDMASourceUpdate_Invalid \<Rightarrow> 0)"

definition dma_todo :: "nat \<Rightarrow> nat \<Rightarrow> u32 \<Rightarrow> 'io nds \<Rightarrow> u32" where
  "dma_todo p ch sz s =
     (let d = dma s p ch;
          todo = dma_wordcount d;
          todo = (if p = ARMCPU_ARM9 \<and> todo = 0 then 0x200000 else todo);
          todo = (if dma_startmode d = EDMAMode_MemDisplay then 128 else todo);
          todo = (if dma_startmode d = EDMAMode_Card then card_transfer_count s p div sz else todo)
      in if dma_startmode d = EDMAMode_GXFifo then min todo 112 else todo)"

definition freeze_bus :: "(u32 \<Rightarrow> u32) \<Rightarrow> 'io nds \<Rightarrow> 'io nds" where
  "freeze_bus f s = s\<lparr>sysm := (sysm s)\<lparr>freezeBus := f (freezeBus (sysm s))\<rparr>\<rparr>"

text \<open>The end of \<open>doCopy\<close>, after the loop: the event, the frozen bus, the written-back registers.\<close>

definition dma_copied :: "nat \<Rightarrow> nat \<Rightarrow> u32 \<Rightarrow> u32 \<Rightarrow> u32 \<Rightarrow> u32 \<Rightarrow> 'io nds \<Rightarrow> 'io nds" where
  "dma_copied p ch todo src dst time s =
     (let s = dma_doSchedule p ch s;
          s = upd_dma p ch (\<lambda>d. d\<lparr>dma_nextEvent := dma_nextEvent d + scast time\<rparr>) s;
          s = (if p = ARMCPU_ARM9 then freeze_bus (\<lambda>f. f OR c_shl 1 (of_nat (ch + 1))) s else s);
          s = upd_dma p ch (\<lambda>d. d\<lparr>dma_saddr := src\<rparr>) s;
          s = upd_dma p ch (\<lambda>d. if dma_dar d \<noteq> EDMADestinationUpdate_IncrementReload then d\<lparr>dma_daddr := dst\<rparr> else d) s
      in upd_dma p ch (\<lambda>d. if dma_repeatMode d = 0 then
             (if dma_startmode d = EDMAMode_Card then d\<lparr>dma_wordcount := 0\<rparr>
              else d\<lparr>dma_wordcount := dma_wordcount d - todo\<rparr>) else d) s)"

definition dma_doCopy :: "'io bus \<Rightarrow> nat \<Rightarrow> nat \<Rightarrow> 'io nds \<Rightarrow> 'io nds" where
  "dma_doCopy B p ch s =
     (let sz = (if dma_bitWidth (dma s p ch) = EDMABitWidth_16 then 2 else 4);
          todo = dma_todo p ch sz s;
          s = (if dma_startmode (dma s p ch) = EDMAMode_MemDisplay \<and> VCount (sysm s) = 191
               then upd_dma p ch (\<lambda>d. d\<lparr>dma_enable := 0\<rparr>) s else s);
          d = dma s p ch;
          dstinc = dma_dstinc (dma_dar d) sz;
          srcinc = dma_srcinc (dma_sar d) sz;
          n = (if 0 <s todo then unat todo else 0);
          (src, dst, time, s) =
            (if sz = 4 then dma_loop32 B p n (dma_saddr d) (dma_daddr d) srcinc dstinc 0 s
             else dma_loop16 B p n (dma_saddr d) (dma_daddr d) srcinc dstinc 0 s)
      in dma_copied p ch todo src dst time s)"

definition dma_doPause :: "nat \<Rightarrow> nat \<Rightarrow> 'io nds \<Rightarrow> 'io nds" where
  "dma_doPause p ch s = upd_dma p ch (\<lambda>d. d\<lparr>dma_triggered := False, dma_paused := True\<rparr>) s"

definition IRQ_BIT_DMA_0 :: nat where "IRQ_BIT_DMA_0 = 8"

definition dma_doStop :: "nat \<Rightarrow> nat \<Rightarrow> 'io nds \<Rightarrow> 'io nds" where
  "dma_doStop p ch s =
     (let s = upd_dma p ch (\<lambda>d. d\<lparr>dma_running := False\<rparr>) s;
          s = (if dma_repeatMode (dma s p ch) = 0 then upd_dma p ch (\<lambda>d. d\<lparr>dma_enable := 0\<rparr>) s else s)
      in if dma_irq (dma s p ch) \<noteq> 0 then NDS_makeIrq p (IRQ_BIT_DMA_0 + ch) s else s)"

definition dma_latched_mode :: "nat \<Rightarrow> nat \<Rightarrow> u8 \<Rightarrow> EDMAMode" where
  "dma_latched_mode p ch bits =
     (if p = ARMCPU_ARM9 then EDMAMode_of bits
      else let m = [EDMAMode_Immediate, EDMAMode_VBlank, EDMAMode_Card, EDMAMode7_Wifi] ! unat (drop_bit 1 bits)
           in if m = EDMAMode7_Wifi \<and> (ch = 1 \<or> ch = 3) then EDMAMode7_GBASlot else m)"

text \<open>The start of a transfer, the part of \<open>exec\<close> under \<open>if(enable)\<close>.\<close>

definition dma_begin :: "'io bus \<Rightarrow> nat \<Rightarrow> nat \<Rightarrow> 'io nds \<Rightarrow> 'io nds" where
  "dma_begin B p ch s =
     (let s = upd_dma p ch (\<lambda>d. d\<lparr>dma_startmode := dma_latched_mode p ch (dma_startmode_bits d)\<rparr>) s;
          mode = dma_startmode (dma s p ch);
          s = (if mode = EDMAMode_Immediate \<or> mode = EDMAMode_GXFifo \<and> gx_size (gxFIFO s) \<le> 127
               then upd_dma p ch (\<lambda>d. d\<lparr>dma_triggered := True\<rparr>) s else s)
      in if dma_triggered (dma s p ch)
         then dma_doCopy B p ch (upd_dma p ch (\<lambda>d. d\<lparr>dma_running := True, dma_paused := False\<rparr>) s)
         else s)"

definition dma_exec :: "'io bus \<Rightarrow> nat \<Rightarrow> nat \<Rightarrow> 'io nds \<Rightarrow> 'io nds" where
  "dma_exec B p ch s =
     (let s = (if p = ARMCPU_ARM9 then freeze_bus (\<lambda>f. f AND NOT (c_shl 1 (of_nat (ch + 1)))) s else s);
          s = upd_dma p ch (\<lambda>d. d\<lparr>dmaCheck := False\<rparr>) s;
          gx = (dma_startmode (dma s p ch) = EDMAMode_GXFifo \<and> dma_wordcount (dma s p ch) > 0)
      in if dma_running (dma s p ch) \<and> \<not> gx then dma_doStop p ch s
         else let s = (if dma_running (dma s p ch) then dma_doPause p ch s else s)
              in if dma_enable (dma s p ch) \<noteq> 0 then dma_begin B p ch s else s)"

text \<open>\<open>TSequenceItem_DMA\<close>\<close>

definition dma_isTriggered :: "nat \<Rightarrow> nat \<Rightarrow> 'io nds \<Rightarrow> bool" where
  "dma_isTriggered p ch s \<longleftrightarrow> dmaCheck (dma s p ch) \<and> nds_timer s \<ge> dma_nextEvent (dma s p ch)"


section \<open>The control register\<close>

lemma update_val_of:
  "x \<le> 3 \<Longrightarrow> EDMASourceUpdate_val (EDMASourceUpdate_of x) = x"
  "x \<le> 3 \<Longrightarrow> EDMADestinationUpdate_val (EDMADestinationUpdate_of x) = x"
  "x \<le> 1 \<Longrightarrow> EDMABitWidth_val (EDMABitWidth_of x) = x"
proof -
  have c: "x = 0 \<or> x = 1 \<or> x = 2 \<or> x = 3" if "x \<le> 3" for x :: u32
  proof -
    from that have "unat x \<le> 3" by (simp add: word_le_nat_alt)
    then have "unat x = 0 \<or> unat x = 1 \<or> unat x = 2 \<or> unat x = 3" by arith
    then show ?thesis by (simp add: word_unat_eq_iff)
  qed
  show "EDMASourceUpdate_val (EDMASourceUpdate_of x) = x" if "x \<le> 3"
    using c [OF that] by (auto simp add: EDMASourceUpdate_of_def)
  show "EDMADestinationUpdate_val (EDMADestinationUpdate_of x) = x" if "x \<le> 3"
    using c [OF that] by (auto simp add: EDMADestinationUpdate_of_def)
  show "EDMABitWidth_val (EDMABitWidth_of x) = x" if "x \<le> 1"
    using that by (auto simp add: EDMABitWidth_of_def word_le_nat_alt word_unat_eq_iff le_Suc_eq)
qed

lemma bit_7_u32: "bit (7 :: u32) n \<longleftrightarrow> n < 3" and bit_6_u8: "bit (6 :: u8) n \<longleftrightarrow> n = 1 \<or> n = 2"
  and bit_6_u32: "bit (6 :: u32) n \<longleftrightarrow> n = 1 \<or> n = 2"
proof -
  have "(6 :: u32) = push_bit 1 (mask 2)" by (simp add: mask_eq_exp_minus_1)
  then show "bit (6 :: u32) n \<longleftrightarrow> n = 1 \<or> n = 2" by (simp only: bit_push_bit_iff bit_mask_iff) auto
  have "(7 :: u32) = mask 3" by (simp add: mask_eq_exp_minus_1)
  then show "bit (7 :: u32) n \<longleftrightarrow> n < 3" by (simp only: bit_mask_iff) auto
  have "(6 :: u8) = push_bit 1 (mask 2)" by (simp add: mask_eq_exp_minus_1)
  then show "bit (6 :: u8) n \<longleftrightarrow> n = 1 \<or> n = 2" by (simp only: bit_push_bit_iff bit_mask_iff) auto
qed

lemma bit_1FFFFF: "bit (0x1FFFFF :: u32) n \<longleftrightarrow> n < 21"
proof -
  have "(0x1FFFFF :: u32) = mask 21" by (simp add: mask_eq_exp_minus_1)
  then show ?thesis by (simp only: bit_mask_iff) auto
qed

lemma control_field:
  fixes v :: u32
  assumes "n + k \<le> 32"
  shows "push_bit n (take_bit k (drop_bit n v)) = v AND push_bit n (mask k)"
  by (rule bit_word_eqI) (use assms in \<open>auto simp add: bit_simps\<close>)

lemma control_fields:
  fixes v :: u32
  shows "push_bit 31 (ucast (ucast (BIT_N (drop_bit 16 v) 15) :: u8)) = v AND 0x80000000"
    "push_bit 30 (ucast (ucast (BIT_N (drop_bit 16 v) 14) :: u8)) = v AND 0x40000000"
    "push_bit 26 (BIT_N (drop_bit 16 v) 10) = v AND 0x04000000"
    "push_bit 25 (ucast (ucast (BIT_N (drop_bit 16 v) 9) :: u8)) = v AND 0x02000000"
    "push_bit 23 (drop_bit 7 (drop_bit 16 v) AND 3) = v AND 0x01800000"
    "push_bit 21 (drop_bit 5 (drop_bit 16 v) AND 3) = v AND 0x00600000"
    "push_bit 27 (ucast (ucast (drop_bit 11 (drop_bit 16 v) AND 7) :: u8)) = v AND 0x38000000"
    "push_bit 27 (ucast (ucast (drop_bit 11 (drop_bit 16 v) AND 7) AND 6 :: u8)) = v AND 0x30000000"
proof -
  have b: "BIT_N (drop_bit 16 v) n = take_bit 1 (drop_bit (16 + unat n) v)" for n
    by (rule bit_word_eqI) (auto simp add: BIT_N_of_bool bit_drop_bit_eq bit_take_bit_iff bit_1_iff simp flip: bit_0 split: if_splits)
  have m: "(3 :: u32) = mask 2" "(7 :: u32) = mask 3" by (simp_all add: mask_eq_exp_minus_1)
  have u: "ucast (ucast (take_bit k w) :: u8) = (take_bit k w :: u32)" if "k \<le> 8" for k w
    by (rule bit_word_eqI) (use that in \<open>auto simp add: bit_simps\<close>)
  have six: "ucast (ucast (take_bit 3 w) AND 6 :: u8) = (take_bit 3 w AND 6 :: u32)" for w :: u32
    by (rule bit_word_eqI) (auto simp add: bit_ucast_iff bit_and_iff bit_take_bit_iff bit_6_u8 bit_6_u32)
  show "push_bit 31 (ucast (ucast (BIT_N (drop_bit 16 v) 15) :: u8)) = v AND 0x80000000"
    "push_bit 30 (ucast (ucast (BIT_N (drop_bit 16 v) 14) :: u8)) = v AND 0x40000000"
    "push_bit 26 (BIT_N (drop_bit 16 v) 10) = v AND 0x04000000"
    "push_bit 25 (ucast (ucast (BIT_N (drop_bit 16 v) 9) :: u8)) = v AND 0x02000000"
    using control_field [of 31 1 v] control_field [of 30 1 v] control_field [of 26 1 v] control_field [of 25 1 v]
    by (simp_all only: b u) (simp_all add: mask_eq_exp_minus_1)
  show "push_bit 23 (drop_bit 7 (drop_bit 16 v) AND 3) = v AND 0x01800000"
    "push_bit 21 (drop_bit 5 (drop_bit 16 v) AND 3) = v AND 0x00600000"
    using control_field [of 23 2 v] control_field [of 21 2 v]
    unfolding m take_bit_eq_mask [symmetric] by (simp_all add: mask_eq_exp_minus_1)
  show s: "push_bit 27 (ucast (ucast (drop_bit 11 (drop_bit 16 v) AND 7) :: u8)) = v AND 0x38000000"
    using control_field [of 27 3 v] u [of 3 "drop_bit 27 v"]
    unfolding m take_bit_eq_mask [symmetric] by (simp add: mask_eq_exp_minus_1)
  show "push_bit 27 (ucast (ucast (drop_bit 11 (drop_bit 16 v) AND 7) AND 6 :: u8)) = v AND 0x30000000"
    unfolding m take_bit_eq_mask [symmetric] six push_bit_and
    using control_field [of 27 3 v] by (simp add: mask_eq_exp_minus_1 and.assoc)
qed

lemma dma_read32_latch:
  "dma_read32 (dma_latch p v d) =
     push_bit 31 (ucast (ucast (BIT_N (drop_bit 16 v) 15) :: u8)) OR
     push_bit 30 (ucast (ucast (BIT_N (drop_bit 16 v) 14) :: u8)) OR
     push_bit 27 (if p = ARMCPU_ARM7 then ucast (ucast (drop_bit 11 (drop_bit 16 v) AND 7) AND 6 :: u8)
       else ucast (ucast (drop_bit 11 (drop_bit 16 v) AND 7) :: u8)) OR
     push_bit 26 (BIT_N (drop_bit 16 v) 10) OR
     push_bit 25 (ucast (ucast (BIT_N (drop_bit 16 v) 9) :: u8)) OR
     push_bit 23 (drop_bit 7 (drop_bit 16 v) AND 3) OR push_bit 21 (drop_bit 5 (drop_bit 16 v) AND 3) OR
     (v AND 0x1FFFFF)"
proof -
  define sar where "sar = drop_bit 7 (drop_bit 16 v) AND 3"
  define dar where "dar = drop_bit 5 (drop_bit 16 v) AND 3"
  define w where "w = BIT_N (drop_bit 16 v) 10"
  have "sar \<le> 3" "dar \<le> 3" "w \<le> 1"
    by (simp_all add: sar_def dar_def w_def word_and_le1 BIT_N_of_bool)
  then show ?thesis
    unfolding dma_latch_def Let_def sar_def [symmetric] dar_def [symmetric] w_def [symmetric]
    by (simp add: dma_read32_def update_val_of)
qed

lemma ones: "(0xF7FFFFFF :: u32) = - 134217729" "(0xFFFFFFFF :: u32) = - 1"
  by simp_all

lemma dma_latch_fields:
  "dma_read32 (dma_latch p v d) = (if p = ARMCPU_ARM7 then v AND NOT 0x08000000 else v)"
  unfolding dma_read32_latch if_distrib [of "push_bit 27"] control_fields
  by (cases "p = ARMCPU_ARM7") (simp_all add: bit.conj_disj_distrib [symmetric] ones)

lemma dma_doSchedule_dma [simp]:
  "dma (dma_doSchedule p ch s) q c =
     (if q = p \<and> c = ch then (dma s p ch)\<lparr>dmaCheck := True, dma_nextEvent := nds_timer s\<rparr> else dma s q c)"
  by (simp add: dma_doSchedule_def upd_dma_def NDS_RescheduleDMA_def NDS_Reschedule_def)

lemma upd_dma_dma [simp]:
  "dma (upd_dma p ch f s) q c = (if q = p \<and> c = ch then f (dma s p ch) else dma s q c)"
  by (simp add: upd_dma_def)

text \<open>C19: The DMA control register reads back what was written to it: all 32 bits on the ARM9,
  and on the ARM7 all but bit 27, which its start modes do not have.\<close>

theorem dma_control_readback:
  "dma_read32 (dma (dma_write32 p ch val s) p ch) = (if p = ARMCPU_ARM7 then val AND NOT 0x08000000 else val)"
proof -
  have "dma_read32 (d\<lparr>dmaCheck := c, dma_nextEvent := t\<rparr>) = dma_read32 d" for d c t
    by (simp add: dma_read32_def)
  then show ?thesis
    by (simp add: dma_write32_def Let_def dma_latch_fields)
qed

section \<open>Copying\<close>

context word_store
begin

fun copy_all :: "'a list \<Rightarrow> 'a list \<Rightarrow> 's \<Rightarrow> 's" where
  "copy_all (a # as) (b # bs) s = copy_all as bs (wr b (rd a s) s)"
| "copy_all _ _ s = s"

lemma rds_wr:
  "oks as s \<Longrightarrow> ok b s \<Longrightarrow> cell b s \<notin> set (cells as s) \<Longrightarrow> map (\<lambda>a. rd a (wr b v s)) as = map (\<lambda>a. rd a s) as"
proof -
  assume a: "oks as s" "ok b s" "cell b s \<notin> set (cells as s)"
  have "rd x (wr b v s) = rd x s" if "x \<in> set as" for x
    by (rule rd_other) (use a that in \<open>auto simp add: oks_def cells_def image_iff dest: sym\<close>)
  then show ?thesis by simp
qed

lemma copy_all_wr_all:
  "oks as s \<Longrightarrow> oks bs s \<Longrightarrow> set (cells as s) \<inter> set (cells bs s) = {} \<Longrightarrow>
   copy_all as bs s = wr_all bs (map (\<lambda>a. rd a s) as) s"
proof (induction as bs s rule: copy_all.induct)
  case (1 a as b bs s)
  have n: "cell b s \<notin> set (cells as s)" using 1(4) by (auto simp add: cells_def)
  have "copy_all as bs (wr b (rd a s) s) = wr_all bs (map (\<lambda>x. rd x (wr b (rd a s) s)) as) (wr b (rd a s) s)"
    using 1(2,3,4) by (intro 1(1)) (auto simp add: cells_def cell_wr)
  moreover have "map (\<lambda>x. rd x (wr b (rd a s) s)) as = map (\<lambda>x. rd x s) as"
    using 1(2,3) n by (intro rds_wr) simp_all
  ultimately show ?case by (simp only: copy_all.simps list.map wr_all.simps)
qed simp_all

lemma copy_all_inv:
  assumes "\<And>b v t. ok b t \<Longrightarrow> P t \<Longrightarrow> P (wr b v t)"
  shows "oks bs s \<Longrightarrow> P s \<Longrightarrow> P (copy_all as bs s)"
  by (induction as bs s rule: copy_all.induct) (simp_all add: assms)

text \<open>What a copy between disjoint cells leaves.\<close>

lemma copy_all_rd:
  assumes "oks as s" "oks bs s" "set (cells as s) \<inter> set (cells bs s) = {}" "length as = length bs"
  shows "distinct (cells bs s) \<Longrightarrow> i < length bs \<Longrightarrow> rd (bs ! i) (copy_all as bs s) = rd (as ! i) s"
    and "ok c s \<Longrightarrow> cell c s \<notin> set (cells bs s) \<Longrightarrow> rd c (copy_all as bs s) = rd c s"
  using copy_all_wr_all [OF assms(1-3)] assms(2,4)
  by (simp_all add: rd_wr_all rd_wr_all_other)

end

text \<open>Main memory as the DMA engine reaches it: the data TCM of the ARM9 hides it.\<close>

definition dma_ram :: "nat \<Rightarrow> u32 \<Rightarrow> 'io nds \<Rightarrow> bool" where
  "dma_ram p a s \<longleftrightarrow> in_main a \<and> \<not> (p = ARMCPU_ARM9 \<and> in_dtcm a s) \<and> p < 2 \<and> masks_ok (mmu s)"

definition main_cell :: "u32 \<Rightarrow> 'io nds \<Rightarrow> u32" where
  "main_cell a s = a AND MAIN_MEM_MASK32 (mmu s)"

definition main_word :: "u32 \<Rightarrow> 'io nds \<Rightarrow> u32" where
  "main_word a s = T1ReadLong_guaranteedAligned (MAIN_MEM (mmu s)) (main_cell a s)"

lemma in_main_ge: "in_main a \<Longrightarrow> \<not> a < 0x02000000"
proof
  assume "in_main a" "a < 0x02000000"
  then have "a AND 0x0F000000 = 0x02000000" by (simp add: in_main_def)
  moreover have "a AND 0x0F000000 \<le> a" by (rule word_and_le2)
  ultimately show False using \<open>a < 0x02000000\<close> by simp
qed

lemma dma_ram_read:
  "dma_ram p a s \<Longrightarrow> mmu_read32 B p MMU_AT_DMA a s = (main_word a s, s)"
  using in_main_ge [of a]
  by (auto simp add: mmu_read32_def dma_ram_def main_word_def main_cell_def ARMCPU_ARM9_def ARMCPU_ARM7_def Let_def)

lemma dma_ram_write:
  "dma_ram p a s \<Longrightarrow> mmu_write32 B p MMU_AT_DMA a v s =
     set_MAIN_MEM (T1WriteLong (MAIN_MEM (mmu s)) (main_cell a s) v) s"
  using in_main_ge [of a]
  by (auto simp add: mmu_write32_def dma_ram_def main_cell_def)

lemma dma_ram_set [simp]:
  "dma_ram p a (set_MAIN_MEM m s) = dma_ram p a s" "main_cell a (set_MAIN_MEM m s) = main_cell a s"
  by (simp_all add: dma_ram_def in_dtcm_def main_cell_def) (simp_all add: set_MAIN_MEM_def)

interpretation dmem: word_store "dma_ram p" main_cell main_word "mmu_write32 B p MMU_AT_DMA"
  for B :: "'io bus" and p :: nat
proof
  fix a b :: u32 and s :: "'io nds" and v
  assume a: "dma_ram p a s"
  show "dma_ram p b (mmu_write32 B p MMU_AT_DMA a v s) = dma_ram p b s"
    "main_cell b (mmu_write32 B p MMU_AT_DMA a v s) = main_cell b s"
    by (simp_all add: dma_ram_write [OF a])
  assume b: "dma_ram p b s"
  have al: "main_cell a s AND 3 = 0" "main_cell b s AND 3 = 0"
    using a b mask32_align(2) [of "mmu s"] by (simp_all add: main_cell_def dma_ram_def)
  show "main_word b (mmu_write32 B p MMU_AT_DMA a v s) = v" if "main_cell b s = main_cell a s"
    by (simp add: dma_ram_write [OF a] main_word_def that mem_simps)
  show "main_word b (mmu_write32 B p MMU_AT_DMA a v s) = main_word b s" if "main_cell b s \<noteq> main_cell a s"
    using al that by (simp add: dma_ram_write [OF a] main_word_def mem_simps)
qed

primrec dma_addrs :: "u32 \<Rightarrow> u32 \<Rightarrow> nat \<Rightarrow> u32 list" where
  "dma_addrs a inc 0 = []"
| "dma_addrs a inc (Suc n) = a # dma_addrs (a + inc) inc n"

lemma length_dma_addrs [simp]: "length (dma_addrs a inc n) = n"
  by (induction n arbitrary: a) simp_all

lemma nth_dma_addrs [simp]: "i < n \<Longrightarrow> dma_addrs a inc n ! i = a + of_nat i * inc"
  by (induction n arbitrary: a i) (auto simp add: less_Suc_eq_0_disj algebra_simps)

text \<open>The loop over RAM is the copy of the contract.\<close>

lemma dma_loop32_copy:
  fixes B :: "'io bus" and s :: "'io nds"
  shows "dmem.oks p (dma_addrs src si n) s \<Longrightarrow> dmem.oks p (dma_addrs dst di n) s \<Longrightarrow>
   \<exists>t. dma_loop32 B p n src dst si di time s =
     (src + of_nat n * si, dst + of_nat n * di, t,
      dmem.copy_all B p (dma_addrs src si n) (dma_addrs dst di n) s)"
proof (induction n arbitrary: src dst time s)
  case (Suc n)
  have r: "dma_ram p src s" "dma_ram p dst s" using Suc(2,3) by simp_all
  let ?s = "mmu_write32 B p MMU_AT_DMA dst (main_word src s) s"
  have "dmem.oks p (dma_addrs (src + si) si n) ?s" "dmem.oks p (dma_addrs (dst + di) di n) ?s"
    using Suc(2,3) r by simp_all
  note Suc(1) [OF this, of "time + MMU_accesstime p MMU_AT_DMA 32 MMU_AD_READ src True +
    MMU_accesstime p MMU_AT_DMA 32 MMU_AD_WRITE dst True"]
  then show ?case by (simp add: dma_ram_read [OF r(1)] Let_def algebra_simps)
qed simp


lemma set_MAIN_MEM_set [simp]: "set_MAIN_MEM m (set_MAIN_MEM m' s) = set_MAIN_MEM m s"
  by (simp add: set_MAIN_MEM_def)

lemma copy_all_only_memory:
  fixes B :: "'io bus" and s :: "'io nds"
  assumes "dmem.oks p bs s"
  shows "\<exists>m. dmem.copy_all B p as bs s = set_MAIN_MEM m s"
proof (rule dmem.copy_all_inv [OF _ assms])
  show "\<exists>m. s = set_MAIN_MEM m s"
    by (rule exI [of _ "MAIN_MEM (mmu s)"]) (simp add: set_MAIN_MEM_def)
qed (auto simp add: dma_ram_write)

section \<open>A transfer from start to end\<close>

text \<open>The state in which the copy of a triggered transfer begins.\<close>

definition dma_ready :: "nat \<Rightarrow> nat \<Rightarrow> EDMAMode \<Rightarrow> 'io nds \<Rightarrow> 'io nds" where
  "dma_ready p ch mode s =
     upd_dma p ch (\<lambda>d. d\<lparr>dmaCheck := False, dma_startmode := mode, dma_triggered := True, dma_running := True,
        dma_paused := False\<rparr>)
       (if p = ARMCPU_ARM9 then freeze_bus (\<lambda>f. f AND NOT (c_shl 1 (of_nat (ch + 1)))) s else s)"

lemma upd_dma_upd_dma [simp]: "upd_dma p ch f (upd_dma p ch g s) = upd_dma p ch (f \<circ> g) s"
  by (simp add: upd_dma_def)

lemma upd_dma_eq: "f (dma s p ch) = g (dma s p ch) \<Longrightarrow> upd_dma p ch f s = upd_dma p ch g s"
  by (simp add: upd_dma_def)

lemma upd_dma_frame [simp]:
  "mmu (upd_dma p ch f s) = mmu s" "sysm (upd_dma p ch f s) = sysm s" "gxFIFO (upd_dma p ch f s) = gxFIFO s"
  "nds_timer (upd_dma p ch f s) = nds_timer s"
  by (simp_all add: upd_dma_def)

lemma freeze_bus_frame [simp]:
  "mmu (freeze_bus f s) = mmu s" "dma (freeze_bus f s) = dma s" "gxFIFO (freeze_bus f s) = gxFIFO s"
  "freezeBus (sysm (freeze_bus f s)) = f (freezeBus (sysm s))" "nds_timer (freeze_bus f s) = nds_timer s"
  by (simp_all add: freeze_bus_def)

lemma if_freeze_bus [simp]:
  "dma (if b then freeze_bus f s else s) = dma s" "mmu (if b then freeze_bus f s else s) = mmu s"
  "gxFIFO (if b then freeze_bus f s else s) = gxFIFO s"
  by simp_all

lemma dma_doSchedule_frame [simp]:
  "mmu (dma_doSchedule p ch s) = mmu s" "sysm (dma_doSchedule p ch s) = sysm s"
  "gxFIFO (dma_doSchedule p ch s) = gxFIFO s"
  by (simp_all add: dma_doSchedule_def upd_dma_def NDS_RescheduleDMA_def NDS_Reschedule_def)

lemma dma_exec_starts:
  assumes run: "\<not> dma_running (dma s p ch) \<or> dma_startmode (dma s p ch) = EDMAMode_GXFifo \<and> dma_wordcount (dma s p ch) > 0"
    and en: "dma_enable (dma s p ch) \<noteq> 0" "dma_latched_mode p ch (dma_startmode_bits (dma s p ch)) = mode"
    and mode: "mode = EDMAMode_Immediate \<or> mode = EDMAMode_GXFifo \<and> gx_size (gxFIFO s) \<le> 127"
  shows "dma_exec B p ch s = dma_doCopy B p ch (dma_ready p ch mode s)"
proof -
  define s0 where "s0 = (if p = ARMCPU_ARM9 then freeze_bus (\<lambda>f. f AND NOT (c_shl 1 (of_nat (ch + 1)))) s else s)"
  have d: "dma s0 = dma s" "gxFIFO s0 = gxFIFO s" by (simp_all add: s0_def)
  define s1 where "s1 = upd_dma p ch (\<lambda>d. if dma_running d then d\<lparr>dmaCheck := False, dma_triggered := False,
    dma_paused := True\<rparr> else d\<lparr>dmaCheck := False\<rparr>) s0"
  have "dma_exec B p ch s = dma_begin B p ch (if dma_running (dma s p ch)
      then dma_doPause p ch (upd_dma p ch (\<lambda>d. d\<lparr>dmaCheck := False\<rparr>) s0) else upd_dma p ch (\<lambda>d. d\<lparr>dmaCheck := False\<rparr>) s0)"
    using run en(1) by (auto simp add: dma_exec_def Let_def s0_def [symmetric] d dma_doPause_def)
  also have "(if dma_running (dma s p ch)
      then dma_doPause p ch (upd_dma p ch (\<lambda>d. d\<lparr>dmaCheck := False\<rparr>) s0) else upd_dma p ch (\<lambda>d. d\<lparr>dmaCheck := False\<rparr>) s0) = s1"
    by (auto simp add: s1_def dma_doPause_def d intro!: upd_dma_eq)
  also have "dma_begin B p ch s1 = dma_doCopy B p ch (dma_ready p ch mode s)"
    using en(2) mode unfolding dma_begin_def Let_def dma_ready_def s0_def [symmetric]
    by (auto simp add: s1_def d intro!: arg_cong [of _ _ "dma_doCopy B p ch"] upd_dma_eq)
  finally show ?thesis .
qed

text \<open>What the copy leaves, given what its loop does to the rest of the machine.\<close>

lemma dma_doCopy_result:
  assumes mode: "dma_startmode (dma s p ch) = EDMAMode_Immediate \<or> dma_startmode (dma s p ch) = EDMAMode_GXFifo"
    and width: "dma_bitWidth (dma s p ch) = EDMABitWidth_32"
    and todo: "todo = dma_todo p ch 4 s" "unat todo < 2 ^ 31"
    and loop: "dma_loop32 B p (unat todo) (dma_saddr (dma s p ch)) (dma_daddr (dma s p ch))
      (dma_srcinc (dma_sar (dma s p ch)) 4) (dma_dstinc (dma_dar (dma s p ch)) 4) 0 s = (src, dst, t, s')"
    and keep: "dma s' p ch = dma s p ch"
  defines "r \<equiv> dma_doCopy B p ch s" and "d \<equiv> dma s p ch"
  shows "dma r p ch = d\<lparr>dmaCheck := True, dma_nextEvent := nds_timer s' + scast t, dma_saddr := src,
      dma_daddr := (if dma_dar d = EDMADestinationUpdate_IncrementReload then dma_daddr d else dst),
      dma_wordcount := (if dma_repeatMode d = 0 then dma_wordcount d - todo else dma_wordcount d)\<rparr>"
    and "mmu r = mmu s'" and "gxFIFO r = gxFIFO s'"
    and "freezeBus (sysm r) = (if p = ARMCPU_ARM9 then freezeBus (sysm s') OR c_shl 1 (of_nat (ch + 1))
      else freezeBus (sysm s'))"
proof -
  have n: "(if 0 <s todo then unat todo else 0) = unat todo"
  proof -
    have "int (unat todo) < int (2 ^ 31)" using todo(2) by (simp only: of_nat_less_iff)
    then have "uint todo < 2 ^ 31" by simp
    moreover have "- 2147483648 \<le> uint todo" using uint_ge_0 [of todo] by linarith
    ultimately have "sint todo = uint todo" by (simp add: sint_uint signed_take_bit_int_eq_self)
    then have pos: "0 <s todo \<longleftrightarrow> 0 < uint todo" by (simp add: word_sless_alt)
    show ?thesis
    proof (cases "todo = 0")
      case False
      then have "uint todo \<noteq> 0" by (simp only: uint_0_iff) simp
      then have "0 < uint todo" using uint_ge_0 [of todo] by linarith
      then show ?thesis by (simp only: pos if_True)
    qed simp
  qed
  have h: "(if dma_bitWidth (dma s p ch) = EDMABitWidth_16 then 2 else 4) = (4 :: u32)"
    "(if dma_startmode (dma s p ch) = EDMAMode_MemDisplay \<and> v then s1 else s) = s" for v s1
    using width mode by auto
  have nc: "dma_startmode (dma s p ch) \<noteq> EDMAMode_Card" using mode by auto
  have e: "r = dma_copied p ch todo src dst t s'"
    unfolding r_def dma_doCopy_def h Let_def todo(1) [symmetric] n if_True loop prod.case
    by simp
  show "dma r p ch = d\<lparr>dmaCheck := True, dma_nextEvent := nds_timer s' + scast t, dma_saddr := src,
      dma_daddr := (if dma_dar d = EDMADestinationUpdate_IncrementReload then dma_daddr d else dst),
      dma_wordcount := (if dma_repeatMode d = 0 then dma_wordcount d - todo else dma_wordcount d)\<rparr>"
    using nc unfolding e d_def dma_copied_def Let_def by (simp add: keep)
  show "mmu r = mmu s'" "gxFIFO r = gxFIFO s'" unfolding e by (simp_all add: dma_copied_def Let_def)
  show "freezeBus (sysm r) = (if p = ARMCPU_ARM9 then freezeBus (sysm s') OR c_shl 1 (of_nat (ch + 1))
      else freezeBus (sysm s'))"
    unfolding e by (simp add: dma_copied_def Let_def)
qed

text \<open>The second execution of the event, which ends the transfer.\<close>

lemma dma_exec_stops:
  fixes B :: "'io bus" and s :: "'io nds"
  assumes "dma_running (dma s p ch)"
    and "dma_startmode (dma s p ch) = EDMAMode_GXFifo \<longrightarrow> dma_wordcount (dma s p ch) = 0"
  defines "r \<equiv> dma_exec B p ch s" and "d \<equiv> dma s p ch"
  shows "dma r p ch = d\<lparr>dmaCheck := False, dma_running := False,
      dma_enable := (if dma_repeatMode d = 0 then 0 else dma_enable d)\<rparr>"
    and "MAIN_MEM (mmu r) = MAIN_MEM (mmu s)"
    and "reg_IF_bits (mmu r) = (reg_IF_bits (mmu s))(p := reg_IF_bits (mmu s) p OR
      (if dma_irq d \<noteq> 0 then push_bit (IRQ_BIT_DMA_0 + ch) 1 else 0))"
    and "freezeBus (sysm r) = (if p = ARMCPU_ARM9 then freezeBus (sysm s) AND NOT (c_shl 1 (of_nat (ch + 1)))
      else freezeBus (sysm s))"
proof -
  define s0 where "s0 = upd_dma p ch (\<lambda>d. d\<lparr>dmaCheck := False\<rparr>)
    (if p = ARMCPU_ARM9 then freeze_bus (\<lambda>f. f AND NOT (c_shl 1 (of_nat (ch + 1)))) s else s)"
  have r: "r = dma_doStop p ch s0"
    using assms(1,2) by (auto simp add: r_def dma_exec_def s0_def Let_def word_gt_0)
  have s0: "dma s0 p ch = d\<lparr>dmaCheck := False\<rparr>" "mmu s0 = mmu s"
    "freezeBus (sysm s0) = (if p = ARMCPU_ARM9 then freezeBus (sysm s) AND NOT (c_shl 1 (of_nat (ch + 1)))
      else freezeBus (sysm s))"
    by (simp_all add: s0_def d_def)
  have i: "dma (NDS_makeIrq q k t) = dma t" "sysm (NDS_makeIrq q k t) = sysm t"
    "MAIN_MEM (mmu (NDS_makeIrq q k t)) = MAIN_MEM (mmu t)"
    "reg_IF_bits (mmu (NDS_makeIrq q k t)) = (reg_IF_bits (mmu t))(q := reg_IF_bits (mmu t) q OR push_bit k 1)"
    for q k and t :: "'io nds"
    by (simp_all add: NDS_makeIrq_def setIF_def NDS_Reschedule_def)
  show "dma r p ch = d\<lparr>dmaCheck := False, dma_running := False,
      dma_enable := (if dma_repeatMode d = 0 then 0 else dma_enable d)\<rparr>"
    "MAIN_MEM (mmu r) = MAIN_MEM (mmu s)"
    "reg_IF_bits (mmu r) = (reg_IF_bits (mmu s))(p := reg_IF_bits (mmu s) p OR
      (if dma_irq d \<noteq> 0 then push_bit (IRQ_BIT_DMA_0 + ch) 1 else 0))"
    "freezeBus (sysm r) = (if p = ARMCPU_ARM9 then freezeBus (sysm s) AND NOT (c_shl 1 (of_nat (ch + 1)))
      else freezeBus (sysm s))"
    unfolding r by (simp_all add: dma_doStop_def Let_def i s0)
qed


definition dma_srcs :: "nat \<Rightarrow> nat \<Rightarrow> 'io nds \<Rightarrow> u32 list" where
  "dma_srcs p ch s = dma_addrs (dma_saddr (dma s p ch)) 4 (unat (dma_wordcount (dma s p ch)))"

definition dma_dsts :: "nat \<Rightarrow> nat \<Rightarrow> 'io nds \<Rightarrow> u32 list" where
  "dma_dsts p ch s = dma_addrs (dma_daddr (dma s p ch)) 4 (unat (dma_wordcount (dma s p ch)))"

text \<open>An enabled, idle channel set to copy words upwards at once.\<close>

definition block_copy :: "dma_controller \<Rightarrow> bool" where
  "block_copy d \<longleftrightarrow> \<not> dma_running d \<and> dma_enable d \<noteq> 0 \<and> dma_startmode_bits d = 0 \<and>
     dma_bitWidth d = EDMABitWidth_32 \<and> dma_sar d = EDMASourceUpdate_Increment \<and>
     dma_dar d = EDMADestinationUpdate_Increment \<and> 0 < unat (dma_wordcount d) \<and> unat (dma_wordcount d) < 2 ^ 21"

lemma dma_latched_immediate [simp]: "dma_latched_mode p ch 0 = EDMAMode_Immediate"
  by (simp add: dma_latched_mode_def EDMAMode_of_def)

lemma dma_ready_frame:
  "mmu (dma_ready p ch m s) = mmu s" "gxFIFO (dma_ready p ch m s) = gxFIFO s"
  "dma (dma_ready p ch m s) p ch = (dma s p ch)\<lparr>dmaCheck := False, dma_startmode := m, dma_triggered := True,
     dma_running := True, dma_paused := False\<rparr>"
  by (simp_all add: dma_ready_def)

lemma dma_words_cong:
  "mmu s' = mmu s \<Longrightarrow> dma_ram p a s' = dma_ram p a s" "mmu s' = mmu s \<Longrightarrow> main_cell a s' = main_cell a s"
  "mmu s' = mmu s \<Longrightarrow> main_word a s' = main_word a s"
  by (simp_all add: dma_ram_def in_dtcm_def main_cell_def main_word_def)

lemma c_shl_channel: "ch < 4 \<Longrightarrow> c_shl 1 (of_nat (ch + 1)) = (push_bit (ch + 1) 1 :: u32)"
proof -
  assume "ch < 4"
  have "unat (of_nat (ch + 1) :: u32) = (ch + 1) mod 2 ^ 32" by (simp only: unat_of_nat) simp
  also have "... = ch + 1" using \<open>ch < 4\<close> by simp
  finally show ?thesis by (simp only: c_shl_def)
qed

text \<open>The first event of a block copy, in terms of the copy of the contract.\<close>

lemma block_copy_starts:
  fixes s :: "'io nds" and B :: "'io bus"
  assumes bc: "block_copy (dma s p ch)"
  defines "d \<equiv> dma s p ch" and "t \<equiv> dma_ready p ch EDMAMode_Immediate s"
  defines "r \<equiv> dma_exec B p ch s" and "as \<equiv> dma_srcs p ch s" and "bs \<equiv> dma_dsts p ch s"
  assumes oks: "dmem.oks p as t" "dmem.oks p bs t"
  shows "\<exists>(time :: u32) m. dmem.copy_all B p as bs t = set_MAIN_MEM m t \<and> mmu r = mmu (set_MAIN_MEM m t) \<and>
    dma r p ch = d\<lparr>dmaCheck := True, dma_nextEvent := nds_timer (set_MAIN_MEM m t) + scast time,
      dma_startmode := EDMAMode_Immediate, dma_triggered := True, dma_running := True, dma_paused := False,
      dma_saddr := dma_saddr d + 4 * dma_wordcount d, dma_daddr := dma_daddr d + 4 * dma_wordcount d,
      dma_wordcount := (if dma_repeatMode d = 0 then 0 else dma_wordcount d)\<rparr> \<and>
    (p = 0 \<longrightarrow> freezeBus (sysm r) = freezeBus (sysm t) OR c_shl 1 (of_nat (ch + 1)))"
proof -
  let ?n = "unat (dma_wordcount d)"
  have ex: "r = dma_doCopy B p ch t"
    using bc unfolding r_def t_def by (intro dma_exec_starts) (simp_all add: block_copy_def)
  have asd: "as = dma_addrs (dma_saddr d) 4 ?n" "bs = dma_addrs (dma_daddr d) 4 ?n"
    by (simp_all add: as_def bs_def dma_srcs_def dma_dsts_def d_def)
  obtain time where loop: "dma_loop32 B p ?n (dma_saddr d) (dma_daddr d) 4 4 0 t =
      (dma_saddr d + of_nat ?n * 4, dma_daddr d + of_nat ?n * 4, time, dmem.copy_all B p as bs t)"
    using dma_loop32_copy [OF oks [unfolded asd], of B 0] unfolding asd by blast
  obtain m where m: "dmem.copy_all B p as bs t = set_MAIN_MEM m t"
    using copy_all_only_memory [OF oks(2)] by blast
  have keep: "dma (set_MAIN_MEM m t) p ch = dma t p ch" by (simp add: set_MAIN_MEM_def)
  have fs: "dma t p ch = d\<lparr>dmaCheck := False, dma_startmode := EDMAMode_Immediate, dma_triggered := True,
     dma_running := True, dma_paused := False\<rparr>"
    by (simp add: dma_ready_frame d_def t_def)
  have pre: "dma_startmode (dma t p ch) = EDMAMode_Immediate" "dma_bitWidth (dma t p ch) = EDMABitWidth_32"
    "dma_wordcount d = dma_todo p ch 4 t" "?n < 2 ^ 31"
    using bc by (auto simp add: fs dma_todo_def block_copy_def d_def Let_def)
  have inc: "dma_srcinc (dma_sar d) 4 = 4" "dma_dstinc (dma_dar d) 4 = 4"
    using bc by (simp_all add: block_copy_def d_def dma_srcinc_def dma_dstinc_def)
  have "dma_loop32 B p ?n (dma_saddr (dma t p ch)) (dma_daddr (dma t p ch))
      (dma_srcinc (dma_sar (dma t p ch)) 4) (dma_dstinc (dma_dar (dma t p ch)) 4) 0 t =
      (dma_saddr d + of_nat ?n * 4, dma_daddr d + of_nat ?n * 4, time, set_MAIN_MEM m t)"
    using loop m by (simp add: fs inc)
  note res = dma_doCopy_result [OF disjI1 [OF pre(1)] pre(2,3,4) this keep, folded ex]
  have "dma r p ch = d\<lparr>dmaCheck := True, dma_nextEvent := nds_timer (set_MAIN_MEM m t) + scast time,
      dma_startmode := EDMAMode_Immediate, dma_triggered := True, dma_running := True, dma_paused := False,
      dma_saddr := dma_saddr d + 4 * dma_wordcount d, dma_daddr := dma_daddr d + 4 * dma_wordcount d,
      dma_wordcount := (if dma_repeatMode d = 0 then 0 else dma_wordcount d)\<rparr>"
    unfolding res(1) using bc by (simp add: fs block_copy_def d_def)
  moreover have "p = 0 \<longrightarrow> freezeBus (sysm r) = freezeBus (sysm t) OR c_shl 1 (of_nat (ch + 1))"
    using res(4) by (simp add: ARMCPU_ARM9_def set_MAIN_MEM_def)
  ultimately show ?thesis using m res(2) by blast
qed

text \<open>C17: An enabled idle DMA channel set to copy words upwards at once copies its source block
  to a destination block in main memory that shares no cell with it, changes no other cell,
  advances both addresses, freezes the ARM9's bus while it runs, and at its second event
  stops, clears its enable bit unless it repeats, unfreezes the bus and requests its interrupt
  exactly when asked to.\<close>

theorem dma_block_copy:
  fixes s :: "'io nds" and B :: "'io bus"
  assumes "p < 2" "ch < 4" "block_copy (dma s p ch)" "\<forall>a\<in>set (dma_srcs p ch s @ dma_dsts p ch s). dma_ram p a s"
    and "distinct (map (\<lambda>a. main_cell a s) (dma_dsts p ch s))"
    and "(\<lambda>a. main_cell a s) ` set (dma_srcs p ch s) \<inter> (\<lambda>a. main_cell a s) ` set (dma_dsts p ch s) = {}"
  defines "d \<equiv> dma s p ch" and "r \<equiv> dma_exec B p ch s"
  defines "r' \<equiv> dma_exec B p ch r"
  shows "(\<forall>i<unat (dma_wordcount d). main_word (dma_dsts p ch s ! i) r = main_word (dma_srcs p ch s ! i) s) \<and>
    (\<forall>a. dma_ram p a s \<and> main_cell a s \<notin> (\<lambda>a. main_cell a s) ` set (dma_dsts p ch s) \<longrightarrow> main_word a r = main_word a s) \<and>
    dma_running (dma r p ch) \<and> dmaCheck (dma r p ch) \<and> dma_saddr (dma r p ch) = dma_saddr d + 4 * dma_wordcount d \<and>
    dma_daddr (dma r p ch) = dma_daddr d + 4 * dma_wordcount d \<and>
    dma_wordcount (dma r p ch) = (if dma_repeatMode d = 0 then 0 else dma_wordcount d) \<and>
    \<not> dma_running (dma r' p ch) \<and> \<not> dmaCheck (dma r' p ch) \<and> MAIN_MEM (mmu r') = MAIN_MEM (mmu r) \<and>
    dma_enable (dma r' p ch) = (if dma_repeatMode d = 0 then 0 else dma_enable d) \<and>
    (p = 0 \<longrightarrow> bit (freezeBus (sysm r)) (ch + 1) \<and> \<not> bit (freezeBus (sysm r')) (ch + 1)) \<and>
    reg_IF_bits (mmu r') p = reg_IF_bits (mmu s) p OR (if dma_irq d \<noteq> 0 then push_bit (IRQ_BIT_DMA_0 + ch) 1 else 0)"
proof -
  let ?s = "dma_ready p ch EDMAMode_Immediate s" and ?n = "unat (dma_wordcount d)"
  let ?as = "dma_srcs p ch s" and ?bs = "dma_dsts p ch s"
  have cg: "dma_ram p a ?s = dma_ram p a s" "main_cell a ?s = main_cell a s" "main_word a ?s = main_word a s" for a
    by (rule dma_words_cong, simp add: dma_ready_frame)+
  have oks: "dmem.oks p ?as ?s" "dmem.oks p ?bs ?s"
    using assms(4) by (auto simp add: dmem.oks_def cg)
  obtain time :: u32 and m where m: "dmem.copy_all B p ?as ?bs ?s = set_MAIN_MEM m ?s" "mmu r = mmu (set_MAIN_MEM m ?s)"
    and rd: "dma r p ch = d\<lparr>dmaCheck := True, dma_nextEvent := nds_timer (set_MAIN_MEM m ?s) + scast time,
      dma_startmode := EDMAMode_Immediate, dma_triggered := True, dma_running := True, dma_paused := False,
      dma_saddr := dma_saddr d + 4 * dma_wordcount d, dma_daddr := dma_daddr d + 4 * dma_wordcount d,
      dma_wordcount := (if dma_repeatMode d = 0 then 0 else dma_wordcount d)\<rparr>"
    and fr: "p = 0 \<longrightarrow> freezeBus (sysm r) = freezeBus (sysm ?s) OR c_shl 1 (of_nat (ch + 1))"
    using block_copy_starts [OF assms(3) oks, of B] unfolding d_def r_def by blast
  have cells: "dmem.cells xs ?s = map (\<lambda>a. main_cell a s) xs" for xs
    by (simp add: dmem.cells_def cg)
  have dis: "set (dmem.cells ?as ?s) \<inter> set (dmem.cells ?bs ?s) = {}" using assms(6) by (simp add: cells)
  have w: "main_word a r = main_word a (set_MAIN_MEM m ?s)" for a by (rule dma_words_cong(3)) (simp add: m(2))
  have len: "length ?as = ?n" "length ?bs = ?n" by (simp_all add: dma_srcs_def dma_dsts_def d_def)
  note copied = dmem.copy_all_rd [where B = B, OF oks dis, unfolded m(1)]
  have a: "main_word (?bs ! i) r = main_word (?as ! i) s" if "i < ?n" for i
    using copied(1) [of i] assms(5) that by (simp add: len cells w cg)
  have b: "main_word a r = main_word a s"
    if "dma_ram p a s" "main_cell a s \<notin> (\<lambda>a. main_cell a s) ` set ?bs" for a
    using copied(2) [of a] that by (simp add: len cells w cg)
  have run: "dma_running (dma r p ch)"
    "dma_startmode (dma r p ch) = EDMAMode_GXFifo \<longrightarrow> dma_wordcount (dma r p ch) = 0" by (simp_all add: rd)
  note stop = dma_exec_stops [OF run, of B, folded r'_def]
  have e: "bit (freezeBus (sysm r)) (ch + 1)" "\<not> bit (freezeBus (sysm r')) (ch + 1)" if "p = 0"
    using that fr stop(4) assms(2) unfolding c_shl_channel [OF assms(2)]
    by (simp_all add: ARMCPU_ARM9_def bit_simps)
  show ?thesis
    using a b e stop(2) by (simp add: rd stop(1,3) m(2) dma_ready_frame) (simp add: set_MAIN_MEM_def dma_ready_frame)
qed

section \<open>Transfers to a port\<close>

text \<open>
  The bus leaves channel \<open>ch\<close> of the ARM9 alone when it is read, and when the transfer
  writes its destination, a fixed address.
\<close>

definition port_quiet :: "'io bus \<Rightarrow> nat \<Rightarrow> u32 \<Rightarrow> bool" where
  "port_quiet B ch port \<longleftrightarrow> (\<forall>a v s. dma (snd (ARM9_read32 B a s)) 0 ch = dma s 0 ch \<and>
     dma (ARM9_write32 B port v s) 0 ch = dma s 0 ch)"

definition port_copy :: "u8 \<Rightarrow> dma_controller \<Rightarrow> bool" where
  "port_copy mode d \<longleftrightarrow> dma_enable d \<noteq> 0 \<and> dma_repeatMode d = 0 \<and> dma_startmode_bits d = mode \<and>
     dma_bitWidth d = EDMABitWidth_32 \<and> dma_dar d = EDMADestinationUpdate_Fixed"

lemma port_loop:
  assumes "port_quiet B ch dst"
  shows "\<exists>src' t s'. dma_loop32 B 0 n src dst si 0 time s = (src', dst, t, s') \<and> dma s' 0 ch = dma s 0 ch"
proof (induction n arbitrary: src time s)
  case (Suc n)
  have r: "dma (snd (mmu_read32 B 0 MMU_AT_DMA src s)) 0 ch = dma s 0 ch" for s
    using assms by (simp add: mmu_read32_def port_quiet_def Let_def ARMCPU_ARM9_def ARMCPU_ARM7_def)
  have w: "dma (mmu_write32 B 0 MMU_AT_DMA dst v s) 0 ch = dma s 0 ch" for v s
    using assms by (simp add: mmu_write32_def port_quiet_def set_DTCM_def set_MAIN_MEM_def ARMCPU_ARM9_def)
  show ?case
    using Suc.IH [of "src + si" "time + MMU_accesstime 0 MMU_AT_DMA 32 MMU_AD_READ src True +
        MMU_accesstime 0 MMU_AT_DMA 32 MMU_AD_WRITE dst True"
        "mmu_write32 B 0 MMU_AT_DMA dst (fst (mmu_read32 B 0 MMU_AT_DMA src s)) (snd (mmu_read32 B 0 MMU_AT_DMA src s))"]
    by (simp add: Let_def case_prod_beta r w)
qed simp

text \<open>One transfer to a port: the count goes down by what it copied.\<close>

lemma port_transfer:
  fixes B :: "'io bus" and s :: "'io nds"
  assumes q: "port_quiet B ch (dma_daddr (dma s 0 ch))"
    and d: "port_copy bits (dma s 0 ch)" "dma_latched_mode 0 ch bits = mode"
    and m: "mode = EDMAMode_Immediate \<or> mode = EDMAMode_GXFifo"
    and c: "unat (dma_wordcount (dma s 0 ch)) < 2 ^ 21"
  defines "todo \<equiv> dma_todo 0 ch 4 (dma_ready 0 ch mode s)"
  shows "\<exists>src t. dma (dma_doCopy B 0 ch (dma_ready 0 ch mode s)) 0 ch = (dma s 0 ch)\<lparr>dmaCheck := True,
    dma_nextEvent := t, dma_startmode := mode, dma_triggered := True, dma_running := True, dma_paused := False,
    dma_saddr := src, dma_wordcount := dma_wordcount (dma s 0 ch) - todo\<rparr>"
proof -
  let ?s = "dma_ready 0 ch mode s" and ?d = "dma s 0 ch"
  have fs: "dma ?s 0 ch = ?d\<lparr>dmaCheck := False, dma_startmode := mode, dma_triggered := True,
     dma_running := True, dma_paused := False\<rparr>"
    by (simp add: dma_ready_frame)
  have "unat todo \<le> max (unat (dma_wordcount ?d)) (2 ^ 21)"
    using m by (auto simp add: todo_def dma_todo_def Let_def fs min_def word_le_nat_alt)
  then have lt: "unat todo < 2 ^ 31" using c by simp
  have inc: "dma_dstinc (dma_dar ?d) 4 = 0"
    using d(1) by (simp add: port_copy_def dma_dstinc_def)
  obtain src t s' where loop: "dma_loop32 B 0 (unat todo) (dma_saddr ?d) (dma_daddr ?d)
      (dma_srcinc (dma_sar ?d) 4) 0 0 ?s = (src, dma_daddr ?d, t, s')" and keep: "dma s' 0 ch = dma ?s 0 ch"
    using port_loop [OF q] by blast
  have pre: "dma_startmode (dma ?s 0 ch) = EDMAMode_Immediate \<or> dma_startmode (dma ?s 0 ch) = EDMAMode_GXFifo"
    "dma_bitWidth (dma ?s 0 ch) = EDMABitWidth_32" "todo = dma_todo 0 ch 4 ?s"
    using d(1) m by (simp_all add: fs port_copy_def todo_def)
  have loop': "dma_loop32 B 0 (unat todo) (dma_saddr (dma ?s 0 ch)) (dma_daddr (dma ?s 0 ch))
      (dma_srcinc (dma_sar (dma ?s 0 ch)) 4) (dma_dstinc (dma_dar (dma ?s 0 ch)) 4) 0 ?s =
      (src, dma_daddr ?d, t, s')"
    using loop by (simp add: fs inc)
  have "dma (dma_doCopy B 0 ch ?s) 0 ch = ?d\<lparr>dmaCheck := True,
    dma_nextEvent := nds_timer s' + scast t, dma_startmode := mode, dma_triggered := True, dma_running := True,
    dma_paused := False, dma_saddr := src, dma_wordcount := dma_wordcount ?d - todo\<rparr>"
    unfolding dma_doCopy_result(1) [OF pre lt loop' keep] using d(1)
    by (simp add: fs port_copy_def)
  then show ?thesis by blast
qed


lemma gxfifo_turn:
  fixes B :: "'io bus" and s :: "'io nds"
  assumes q: "port_quiet B ch (dma_daddr (dma s 0 ch))" and d: "port_copy 7 (dma s 0 ch)"
    and run: "dma_running (dma s 0 ch) \<longrightarrow> dma_startmode (dma s 0 ch) = EDMAMode_GXFifo"
    and room: "gx_size (gxFIFO s) \<le> 127"
    and c: "0 < unat (dma_wordcount (dma s 0 ch))" "unat (dma_wordcount (dma s 0 ch)) < 2 ^ 21"
  shows "\<exists>src t. dma (dma_exec B 0 ch s) 0 ch = (dma s 0 ch)\<lparr>dmaCheck := True,
    dma_nextEvent := t, dma_startmode := EDMAMode_GXFifo, dma_triggered := True, dma_running := True,
    dma_paused := False, dma_saddr := src,
    dma_wordcount := of_nat (unat (dma_wordcount (dma s 0 ch)) - 112)\<rparr>"
proof -
  let ?d = "dma s 0 ch"
  have l: "dma_latched_mode 0 ch 7 = EDMAMode_GXFifo"
    by (simp add: dma_latched_mode_def EDMAMode_of_def ARMCPU_ARM9_def)
  have e: "dma_exec B 0 ch s = dma_doCopy B 0 ch (dma_ready 0 ch EDMAMode_GXFifo s)"
    by (rule dma_exec_starts) (use run d c(1) room l in \<open>auto simp add: port_copy_def word_less_nat_alt\<close>)
  have t: "dma_todo 0 ch 4 (dma_ready 0 ch EDMAMode_GXFifo s) = min (dma_wordcount ?d) 112"
    using c(1) by (auto simp add: dma_todo_def dma_ready_frame Let_def)
  have w: "dma_wordcount ?d - min (dma_wordcount ?d) 112 = of_nat (unat (dma_wordcount ?d) - 112)"
  proof -
    have "(unat (dma_wordcount ?d) - 112) mod 4294967296 = unat (dma_wordcount ?d) - 112"
      using c(2) by (intro mod_less) simp
    then show ?thesis by (auto simp add: min_def word_le_nat_alt word_unat_eq_iff unat_sub unat_of_nat)
  qed
  from port_transfer [OF q d l _ c(2)] show ?thesis by (simp add: e t w)
qed





section \<open>Concrete transfers\<close>

text \<open>Channel 0 of the ARM9 copies two words upwards in main memory.\<close>

definition dma_sample :: "u8 \<Rightarrow> EDMADestinationUpdate \<Rightarrow> u32 \<Rightarrow> unit nds" where
  "dma_sample mode dar n = zero_nds\<lparr>dma := (\<lambda>_ _. zero_dma\<lparr>dma_enable := 1, dma_irq := 1, dma_startmode_bits := mode,
     dma_bitWidth := EDMABitWidth_32, dma_dar := dar, dma_wordcount := n,
     dma_saddr := 0x02000000, dma_daddr := 0x02000100\<rparr>)\<rparr>"

lemma dma_sample_quiet: "port_quiet null_bus 0 a"
  by (simp add: port_quiet_def null_bus_def)

theorem dma_block_copy_witness:
  "main_word 0x02000104 (dma_exec null_bus 0 0 (dma_sample 0 EDMADestinationUpdate_Increment 2)) =
   main_word 0x02000004 (dma_sample 0 EDMADestinationUpdate_Increment 2)"
proof -
  let ?s = "dma_sample 0 EDMADestinationUpdate_Increment 2"
  have d: "dma ?s 0 0 = zero_dma\<lparr>dma_enable := 1, dma_irq := 1, dma_bitWidth := EDMABitWidth_32, dma_wordcount := 2,
     dma_saddr := 0x02000000, dma_daddr := 0x02000100\<rparr>"
    by (simp add: dma_sample_def zero_dma_def)
  have m: "mmu ?s = zero_mmu" by (simp add: dma_sample_def zero_nds_def)
  have two: "dma_addrs a 4 2 = [a, a + 4]" for a by (simp add: numeral_2_eq_2)
  have a: "dma_srcs 0 0 ?s = [0x02000000, 0x02000004]" "dma_dsts 0 0 ?s = [0x02000100, 0x02000104]"
    by (simp_all add: dma_srcs_def dma_dsts_def d zero_dma_def two)
  have b: "block_copy (dma ?s 0 0)" by (simp add: d block_copy_def zero_dma_def)
  have c: "\<forall>a\<in>set (dma_srcs 0 0 ?s @ dma_dsts 0 0 ?s). dma_ram 0 a ?s"
    by (simp add: a dma_ram_def m masks_ok_iff in_main_def in_dtcm_def) (simp add: zero_mmu_def)
  have e: "distinct (map (\<lambda>a. main_cell a ?s) (dma_dsts 0 0 ?s))"
    "(\<lambda>a. main_cell a ?s) ` set (dma_srcs 0 0 ?s) \<inter> (\<lambda>a. main_cell a ?s) ` set (dma_dsts 0 0 ?s) = {}"
    by (simp_all add: a main_cell_def m zero_mmu_def)
  from dma_block_copy [OF _ _ b c e, of null_bus] show ?thesis
    by (auto simp add: a d zero_dma_def dest: spec [of _ "Suc 0"])
qed



end
