(* ===== verification/Spec2Isabelle.thy ===== *)
theory Spec2Isabelle
  imports Thumb_Alu Thumb_Mem Ipc Arm_Exec Math_Unit Timer Dma
begin

text \<open>
  A verification library for DeSmuME PSP, an emulator of the Nintendo DS: the two ARM processors,
  their memory interface, the coprocessor, the inter-processor and geometry queues, and the
  machinery around them, translated from the C++ sources under src/source/.

  \<^bold>\<open>Parts and theories.\<close>  The emulated machine is one global state: two processors
  (\<open>NDS_ARM9\<close>, \<open>NDS_ARM7\<close>), the memory and register pages of \<open>MMU\<close>, the
  coprocessor \<open>cp15\<close>, the queues of FIFO.h and the scheduler.  It is the record \<open>nds\<close>
  of \<open>Nds\<close>, each C++ structure a record of its own; an operation takes the state and
  returns it.  The template argument \<open>PROCNUM\<close> is an argument \<open>p\<close>, 0 for the
  ARM9 and 1 for the ARM7.

  \<^item> \<open>Prelude\<close>, \<open>Mem\<close> (bits.h, types.h, mem.h): words, bit macros, byte
    arrays with their little-endian accessors.
  \<^item> \<open>Arm_State\<close>, \<open>Arm_Flags\<close> (armcpu.h): the processor, the status register,
    the condition table, carry and overflow in terms of integers.
  \<^item> \<open>Nds\<close>, \<open>Sample\<close>: the machine state and concrete states for the witnesses.
  \<^item> \<open>Mmu\<close>, \<open>Mem_Laws\<close> (MMU.h, MMU_timing.h): the inline dispatch of an access
    to TCM, main memory or an I/O handler, its timing, and the laws of RAM; the locale
    \<open>word_store\<close> is the contract the block transfers rest on.
  \<^item> \<open>Arm_Cpu\<close> (armcpu.cpp): register banks, prefetch, exceptions and interrupts.
  \<^item> \<open>Arm_Shift\<close>, \<open>Alu_Spec\<close>, \<open>Arm_Data\<close>, \<open>Arm_Mul\<close>,
    \<open>Arm_Mem\<close>, \<open>Arm_Block\<close>, \<open>Block_Laws\<close>, \<open>Arm_Ctrl\<close>
    (arm_instructions.cpp): the ARM instruction handlers, one definition per handler under its
    name in the source, and what they compute.
  \<^item> \<open>Thumb_Alu\<close>, \<open>Thumb_Mem\<close> (thumb_instructions.cpp): the Thumb handlers.
  \<^item> \<open>Arm_Decode\<close>, \<open>Thumb_Decode\<close> (instruction_tabdef.inc, thumb_tabdef.inc):
    the two dispatch tables entry by entry, with the architecture's decoders.
  \<^item> \<open>Fifo\<close>, \<open>Ipc\<close> (FIFO.cpp, MMU.cpp): the three ring buffers under the
    contract \<open>ring_queue\<close>, and the two-processor protocol over the IPC queues.
  \<^item> \<open>Emufile\<close>, \<open>Cp15\<close> (emufile.h, readwrite.cpp, cp15.cpp): files in memory,
    the save-state integers under the contract \<open>codec\<close>, and the coprocessor.
  \<^item> \<open>Arm_Exec\<close> (armcpu.cpp): one step of a processor over the decode tables, and the
    states of its pipeline.
  \<^item> \<open>Math_Unit\<close>, \<open>Timer\<close> (MMU.h, MMU.cpp, NDSSystem.cpp): the divider, the
    square root unit and the timers, with the events that complete them.
  \<^item> \<open>Dma\<close> (MMU.h, MMU.cpp): the DMA channels, their copy loops and the event that
    starts, pauses and stops a transfer.

  \<^bold>\<open>What the lemmas show.\<close>  Register banking preserves every register of every mode and
  exceptions return where they came from; data processing, multiplication, loads, stores and
  block transfers agree with reference definitions by operand form and addressing mode; the
  tables decode as the architecture says; the queues refine abstract queues and keep their
  status bits; the coprocessor's masks decide accesses as its region registers say.  Where the
  code departs from what it means to do, a theorem shows the departure.

  \<^bold>\<open>Parameters.\<close>  The I/O side of the bus (\<open>bus\<close>: the register decoders of
  MMU.cpp) and the BIOS call table are arguments of the definitions that reach them; hypotheses
  about them are named in the statements.  Peripherals no modelled code touches are the type
  parameter \<open>'io\<close>.

  \<^bold>\<open>Not modelled.\<close>  Rendering (GPU.cpp, gfx3d.cpp and the renderers), sound, the JIT, the
  cartridge and storage devices, wifi, movies, cheats and scripting, host files and the PSP front
  end: floating point, host input and output, or generated code.  Debug hooks, statistics and
  logging are left out of the functions that are modelled.
\<close>

end
